(* ===== verification/Prelude.thy ===== *)
theory Prelude
  imports Main "HOL-Library.List_Lexorder" "HOL-Library.Char_ord" "HOL-Library.Multiset"
begin

text \<open>
  What every component shares: the error values of the Go code, the parts of Go's standard
  library packages \<open>errors\<close>, \<open>strings\<close>, \<open>strconv\<close> and \<open>cmp\<close> that the program calls, and the
  generic list lemmas the component proofs use.

  Go strings are byte strings, so they are \<^typ>\<open>string\<close> here, a list of bytes (\<^typ>\<open>char\<close>).
  Go durations and instants are nanosecond counts, \<^typ>\<open>int\<close> here.
  The only standard library function with a table too large to translate is the Unicode
  lower-casing that \<open>strings.ToLower\<close> uses on a string with a byte \<open>\<ge> 0x80\<close>: it is the
  argument \<open>ul\<close> of every definition that needs it.
\<close>

named_theorems go_defs \<open>definitions of Go standard library functions\<close>
named_theorems str_simps \<open>rewriting of byte strings\<close>

section \<open>Errors\<close>

text \<open>
  The error values the program tells apart: the two context errors, an API server status
  (by its reason), the three typed errors of \<open>pkg/agent\<close>, plain messages, a message wrapped
  around a cause with \<^verbatim>\<open>%w\<close>, and \<open>errors.Join\<close>.
\<close>

datatype kube_reason = NotFound | AlreadyExists | Conflict | OtherReason

datatype go_error =
    Canceled
  | DeadlineExceeded
  | KubeError kube_reason string
  | NetworkError string string go_error
  | StatusError string string nat string
  | DecodeError string string nat go_error string
  | Err string
  | Wrap string go_error
  | Join "go_error list"

type_synonym 'a result = "go_error + 'a"

abbreviation isr :: "'a + 'b \<Rightarrow> bool" where "isr x \<equiv> \<not> isl x"

lemma isr_iff: "isr x \<longleftrightarrow> (\<exists>y. x = Inr y)"
  by (cases x) auto

text \<open>\<open>errors.Is\<close> for the context errors and \<open>errors.As\<close> for a typed error walk the chain of
  causes: the error itself, then what \<open>Unwrap\<close> returns, depth first through a join.\<close>

fun errors_find :: "(go_error \<Rightarrow> bool) \<Rightarrow> go_error \<Rightarrow> go_error option" where
  "errors_find p e =
     (if p e then Some e
      else case e of
        NetworkError _ _ e' \<Rightarrow> errors_find p e'
      | DecodeError _ _ _ e' _ \<Rightarrow> errors_find p e'
      | Wrap _ e' \<Rightarrow> errors_find p e'
      | Join es \<Rightarrow>
          fold (\<lambda>r acc. case acc of Some x \<Rightarrow> Some x | None \<Rightarrow> r) (map (errors_find p) es) None
      | _ \<Rightarrow> None)"

declare errors_find.simps [simp del]

lemma errors_find_simps [simp]:
  "errors_find p Canceled = (if p Canceled then Some Canceled else None)"
  "errors_find p DeadlineExceeded = (if p DeadlineExceeded then Some DeadlineExceeded else None)"
  "errors_find p (KubeError r m) = (if p (KubeError r m) then Some (KubeError r m) else None)"
  "errors_find p (NetworkError op url e) =
     (if p (NetworkError op url e) then Some (NetworkError op url e) else errors_find p e)"
  "errors_find p (StatusError op url n b) =
     (if p (StatusError op url n b) then Some (StatusError op url n b) else None)"
  "errors_find p (DecodeError op url n e b) =
     (if p (DecodeError op url n e b) then Some (DecodeError op url n e b) else errors_find p e)"
  "errors_find p (Err m) = (if p (Err m) then Some (Err m) else None)"
  "errors_find p (Wrap m e) = (if p (Wrap m e) then Some (Wrap m e) else errors_find p e)"
  "errors_find p (Join es) =
     (if p (Join es) then Some (Join es)
      else fold (\<lambda>r acc. case acc of Some x \<Rightarrow> Some x | None \<Rightarrow> r) (map (errors_find p) es) None)"
  by (simp_all add: errors_find.simps [of p])

definition is_canceled :: "go_error \<Rightarrow> bool" where
  "is_canceled e = (errors_find (\<lambda>x. x = Canceled) e \<noteq> None)"

definition is_deadline :: "go_error \<Rightarrow> bool" where
  "is_deadline e = (errors_find (\<lambda>x. x = DeadlineExceeded) e \<noteq> None)"

fun has_reason :: "kube_reason \<Rightarrow> go_error \<Rightarrow> bool" where
  "has_reason r (KubeError r' _) = (r = r')"
| "has_reason r _ = False"

fun is_kube_error :: "go_error \<Rightarrow> bool" where
  "is_kube_error (KubeError _ _) = True"
| "is_kube_error _ = False"

text \<open>\<open>k8serrors.IsNotFound\<close> and its siblings take the first API status in the chain.\<close>

definition is_reason :: "kube_reason \<Rightarrow> go_error \<Rightarrow> bool" where
  "is_reason r e = (case errors_find is_kube_error e of None \<Rightarrow> False | Some x \<Rightarrow> has_reason r x)"

abbreviation IsNotFound :: "go_error \<Rightarrow> bool" where "IsNotFound \<equiv> is_reason NotFound"
abbreviation IsAlreadyExists :: "go_error \<Rightarrow> bool" where "IsAlreadyExists \<equiv> is_reason AlreadyExists"
abbreviation IsConflict :: "go_error \<Rightarrow> bool" where "IsConflict \<equiv> is_reason Conflict"

lemma is_canceled_Wrap [simp]: "is_canceled (Wrap m e) = is_canceled e"
  by (simp add: is_canceled_def)

lemma is_deadline_Wrap [simp]: "is_deadline (Wrap m e) = is_deadline e"
  by (simp add: is_deadline_def)

lemma is_reason_Wrap [simp]: "is_reason r (Wrap m e) = is_reason r e"
  by (simp add: is_reason_def)

lemma is_reason_KubeError [simp]: "is_reason r (KubeError r' m) = (r = r')"
  by (simp add: is_reason_def)

section \<open>cmp, strconv\<close>

definition cmp_Or_string :: "string \<Rightarrow> string \<Rightarrow> string" where
  "cmp_Or_string a b = (if a \<noteq> '''' then a else b)"

definition cmp_Or_int :: "int \<Rightarrow> int \<Rightarrow> int" where
  "cmp_Or_int a b = (if a \<noteq> 0 then a else b)"

abbreviation code_of :: "char \<Rightarrow> nat" where "code_of \<equiv> of_char"

definition is_digit :: "char \<Rightarrow> bool" where
  "is_digit c = (48 \<le> code_of c \<and> code_of c \<le> 57)"

definition is_lower :: "char \<Rightarrow> bool" where
  "is_lower c = (97 \<le> code_of c \<and> code_of c \<le> 122)"

definition is_upper :: "char \<Rightarrow> bool" where
  "is_upper c = (65 \<le> code_of c \<and> code_of c \<le> 90)"

definition is_ascii :: "char \<Rightarrow> bool" where
  "is_ascii c = (code_of c < 128)"

definition digit_val :: "char \<Rightarrow> nat" where
  "digit_val c = code_of c - 48"

definition dec_val :: "string \<Rightarrow> nat" where
  "dec_val s = foldl (\<lambda>n c. 10 * n + digit_val c) 0 s"

text \<open>Wrap-around of a 64-bit signed integer (\<open>int\<close>, \<open>int64\<close>, \<open>time.Duration\<close>).\<close>

definition int64 :: "int \<Rightarrow> int" where
  "int64 x = (x + 2 ^ 63) mod 2 ^ 64 - 2 ^ 63"

lemma int64_id [simp]: "- (2 ^ 63) \<le> x \<Longrightarrow> x < 2 ^ 63 \<Longrightarrow> int64 x = x"
  by (simp add: int64_def)

lemma int64_range: "- (2 ^ 63) \<le> int64 x \<and> int64 x < 2 ^ 63"
  using pos_mod_bound [of "2 ^ 64" "x + 2 ^ 63"] pos_mod_sign [of "2 ^ 64" "x + 2 ^ 63"] by (simp add: int64_def)

text \<open>\<open>strconv.Atoi\<close> on a 64-bit platform: an optional sign, at least one digit, in range.\<close>

definition Atoi :: "string \<Rightarrow> int option" where
  "Atoi s =
     (let neg = (s \<noteq> [] \<and> hd s = CHR ''-'');
          ds = (if s \<noteq> [] \<and> (hd s = CHR ''-'' \<or> hd s = CHR ''+'') then tl s else s)
      in if ds = [] \<or> \<not> list_all is_digit ds then None
         else let n = (if neg then - int (dec_val ds) else int (dec_val ds))
              in if - (2 ^ 63) \<le> n \<and> n < 2 ^ 63 then Some n else None)"

fun nat_digits :: "nat \<Rightarrow> string" where
  "nat_digits n =
     (if n < 10 then [char_of (48 + n)] else nat_digits (n div 10) @ [char_of (48 + n mod 10)])"

declare nat_digits.simps [simp del]

definition Itoa :: "int \<Rightarrow> string" where
  "Itoa n = (if n < 0 then CHR ''-'' # nat_digits (nat (- n)) else nat_digits (nat n))"

lemma code_of_char_of [simp]: "(n::nat) < 256 \<Longrightarrow> code_of (char_of n) = n"
  by simp

lemma is_digit_char_of [simp]: "(n::nat) < 10 \<Longrightarrow> is_digit (char_of (48 + n))"
  by (simp add: is_digit_def)

lemma digit_val_char_of [simp]: "(n::nat) < 10 \<Longrightarrow> digit_val (char_of (48 + n)) = n"
  by (simp add: digit_val_def)

lemma nat_digits_nonempty [simp]: "nat_digits n \<noteq> []"
  by (subst nat_digits.simps) simp

lemma nat_digits_digits: "list_all is_digit (nat_digits n)"
proof (induction n rule: nat_digits.induct)
  case (1 n)
  then show ?case
    by (cases "n < 10") (simp_all add: nat_digits.simps [of n])
qed

lemma dec_val_snoc: "dec_val (s @ [c]) = 10 * dec_val s + digit_val c"
  by (simp add: dec_val_def)

lemma dec_val_nat_digits [simp]: "dec_val (nat_digits n) = n"
proof (induction n rule: nat_digits.induct)
  case (1 n)
  show ?case
  proof (cases "n < 10")
    case True
    then show ?thesis by (simp add: nat_digits.simps [of n] dec_val_def)
  next
    case False
    with 1 show ?thesis by (simp add: nat_digits.simps [of n] dec_val_snoc)
  qed
qed

lemma not_sign_if_digit: "is_digit c \<Longrightarrow> c \<noteq> CHR ''-'' \<and> c \<noteq> CHR ''+''"
  by (auto simp: is_digit_def)

lemma hd_digits: "list_all is_digit s \<Longrightarrow> s \<noteq> [] \<Longrightarrow> is_digit (hd s)"
  by (cases s) simp_all

lemma Atoi_nat_digits [simp]: "n < 2 ^ 63 \<Longrightarrow> Atoi (nat_digits n) = Some (int n)"
  using not_sign_if_digit [OF hd_digits [OF nat_digits_digits [of n] nat_digits_nonempty [of n]]]
  by (simp add: Atoi_def Let_def nat_digits_digits)

lemma Itoa_int [simp]: "Itoa (int n) = nat_digits n"
  by (simp add: Itoa_def)

text \<open>The same digits by binary integer arithmetic, which is what evaluates.\<close>

function int_digits :: "int \<Rightarrow> string" where
  "int_digits n =
     (if n < 10 then [char_of (48 + nat n)] else int_digits (n div 10) @ [char_of (48 + nat (n mod 10))])"
  by pat_completeness auto
termination
  by (relation "measure nat") auto

declare int_digits.simps [simp del]

lemma int_digits_nat: "0 \<le> n \<Longrightarrow> int_digits n = nat_digits (nat n)"
proof (induction n rule: int_digits.induct)
  case (1 n)
  have small: "n < 10 \<longleftrightarrow> nat n < 10" using 1 by linarith
  show ?case
    using 1 by (cases "n < 10")
      (simp_all add: int_digits.simps [of n] nat_digits.simps [of "nat n"] small [symmetric] nat_div_distrib nat_mod_distrib)
qed

lemma Itoa_code [code]: "Itoa n = (if n < 0 then CHR ''-'' # int_digits (- n) else int_digits n)"
  by (simp add: Itoa_def int_digits_nat)

lemma nat_digits_no [simp]: "\<not> is_digit c \<Longrightarrow> c \<notin> set (nat_digits n)"
  using nat_digits_digits [of n] by (auto simp: list_all_iff)

section \<open>strings\<close>

definition HasPrefix :: "string \<Rightarrow> string \<Rightarrow> bool" where
  "HasPrefix s p = (take (length p) s = p)"

definition HasSuffix :: "string \<Rightarrow> string \<Rightarrow> bool" where
  "HasSuffix s p = (length p \<le> length s \<and> drop (length s - length p) s = p)"

definition TrimPrefix :: "string \<Rightarrow> string \<Rightarrow> string" where
  "TrimPrefix s p = (if HasPrefix s p then drop (length p) s else s)"

definition TrimSuffix :: "string \<Rightarrow> string \<Rightarrow> string" where
  "TrimSuffix s p = (if HasSuffix s p then take (length s - length p) s else s)"

definition CutPrefix :: "string \<Rightarrow> string \<Rightarrow> string option" where
  "CutPrefix s p = (if HasPrefix s p then Some (drop (length p) s) else None)"

primrec Contains :: "string \<Rightarrow> string \<Rightarrow> bool" where
  "Contains [] p = (p = [])"
| "Contains (c # s) p = (HasPrefix (c # s) p \<or> Contains s p)"

primrec IndexByte :: "string \<Rightarrow> char \<Rightarrow> nat option" where
  "IndexByte [] b = None"
| "IndexByte (c # s) b = (if c = b then Some 0 else map_option Suc (IndexByte s b))"

primrec LastIndexByte :: "string \<Rightarrow> char \<Rightarrow> nat option" where
  "LastIndexByte [] b = None"
| "LastIndexByte (c # s) b =
     (case LastIndexByte s b of Some i \<Rightarrow> Some (Suc i) | None \<Rightarrow> if c = b then Some 0 else None)"

text \<open>\<open>strings.LastIndex\<close> of a string: the last position at which it starts.\<close>

primrec LastIndex :: "string \<Rightarrow> string \<Rightarrow> nat option" where
  "LastIndex [] p = (if p = [] then Some 0 else None)"
| "LastIndex (c # s) p =
     (case LastIndex s p of Some i \<Rightarrow> Some (Suc i)
      | None \<Rightarrow> if HasPrefix (c # s) p then Some 0 else None)"

text \<open>\<open>strings.Split\<close> and \<open>strings.Join\<close> with a one-byte separator.\<close>

primrec Split :: "char \<Rightarrow> string \<Rightarrow> string list" where
  "Split b [] = [[]]"
| "Split b (c # s) = (if c = b then [] # Split b s else (c # hd (Split b s)) # tl (Split b s))"

fun Join_strings :: "string \<Rightarrow> string list \<Rightarrow> string" where
  "Join_strings sep [] = []"
| "Join_strings sep [x] = x"
| "Join_strings sep (x # y # zs) = x @ sep @ Join_strings sep (y # zs)"

definition trim_end :: "(char \<Rightarrow> bool) \<Rightarrow> string \<Rightarrow> string" where
  "trim_end p s = rev (dropWhile p (rev s))"

text \<open>\<open>strings.Trim\<close> and \<open>strings.TrimRight\<close> with a one-byte cutset.\<close>

definition Trim :: "string \<Rightarrow> char \<Rightarrow> string" where
  "Trim s b = trim_end (\<lambda>c. c = b) (dropWhile (\<lambda>c. c = b) s)"

definition TrimRight :: "string \<Rightarrow> char \<Rightarrow> string" where
  "TrimRight s b = trim_end (\<lambda>c. c = b) s"

text \<open>
  \<open>strings.TrimSpace\<close> removes the code points for which \<open>unicode.IsSpace\<close> holds, by their
  UTF-8 encodings: the six ASCII spaces, U+0085, U+00A0, U+1680, U+2000 to U+200A, U+2028,
  U+2029, U+202F, U+205F and U+3000.
\<close>

definition bytes :: "nat list \<Rightarrow> string" where
  "bytes = map char_of"

definition space_encodings :: "string list" where
  "space_encodings = map bytes
     [[9], [10], [11], [12], [13], [32], [0xC2, 0x85], [0xC2, 0xA0], [0xE1, 0x9A, 0x80],
      [0xE2, 0x80, 0x80], [0xE2, 0x80, 0x81], [0xE2, 0x80, 0x82], [0xE2, 0x80, 0x83],
      [0xE2, 0x80, 0x84], [0xE2, 0x80, 0x85], [0xE2, 0x80, 0x86], [0xE2, 0x80, 0x87],
      [0xE2, 0x80, 0x88], [0xE2, 0x80, 0x89], [0xE2, 0x80, 0x8A], [0xE2, 0x80, 0xA8],
      [0xE2, 0x80, 0xA9], [0xE2, 0x80, 0xAF], [0xE2, 0x81, 0x9F], [0xE3, 0x80, 0x80]]"

lemma HasPrefix_length: "HasPrefix s p \<Longrightarrow> length p \<le> length s"
  by (metis HasPrefix_def length_take min.bounded_iff order_refl)

function trim_encodings :: "string list \<Rightarrow> string \<Rightarrow> string" where
  "trim_encodings es s =
     (case filter (\<lambda>e. e \<noteq> [] \<and> HasPrefix s e) es of
        [] \<Rightarrow> s
      | e # _ \<Rightarrow> trim_encodings es (drop (length e) s))"
  by pat_completeness auto

termination
proof (relation "measure (length \<circ> snd)", goal_cases)
  case 1
  then show ?case by simp
next
  case (2 es s e rest)
  then have "e \<in> set (filter (\<lambda>e. e \<noteq> [] \<and> HasPrefix s e) es)" by simp
  then have "e \<noteq> []" and "HasPrefix s e" by simp_all
  then show ?case
    using HasPrefix_length [of s e] by (cases s) auto
qed

declare trim_encodings.simps [simp del]

definition TrimSpace :: "string \<Rightarrow> string" where
  "TrimSpace s =
     rev (trim_encodings (map rev space_encodings) (rev (trim_encodings space_encodings s)))"

definition lower_byte :: "char \<Rightarrow> char" where
  "lower_byte c = (if is_upper c then char_of (code_of c + 32) else c)"

definition ToLower :: "(string \<Rightarrow> string) \<Rightarrow> string \<Rightarrow> string" where
  "ToLower ul s = (if list_all is_ascii s then map lower_byte s else ul s)"

subsection \<open>Laws of the string functions\<close>

lemma HasPrefix_append [simp]: "HasPrefix (p @ s) p"
  by (simp add: HasPrefix_def)

lemma HasPrefix_iff: "HasPrefix s p \<longleftrightarrow> (\<exists>t. s = p @ t)"
  by (metis HasPrefix_def append_eq_conv_conj append_take_drop_id)

lemma HasPrefix_Nil [simp]: "HasPrefix s []"
  by (simp add: HasPrefix_def)

lemma HasPrefix_Cons_Nil [simp]: "HasPrefix [] (a # p) = False"
  by (simp add: HasPrefix_def)

lemma HasPrefix_Cons [simp]: "HasPrefix (c # s) (a # p) = (c = a \<and> HasPrefix s p)"
  by (simp add: HasPrefix_def)

lemma HasSuffix_iff: "HasSuffix s p \<longleftrightarrow> (\<exists>t. s = t @ p)"
proof
  assume "HasSuffix s p"
  then have "s = take (length s - length p) s @ p"
    by (metis HasSuffix_def append_take_drop_id)
  then show "\<exists>t. s = t @ p" ..
next
  assume "\<exists>t. s = t @ p"
  then show "HasSuffix s p" by (auto simp: HasSuffix_def)
qed

lemma HasSuffix_append [simp]: "HasSuffix (s @ p) p"
  by (auto simp: HasSuffix_iff)

lemma TrimPrefix_append [simp]: "TrimPrefix (p @ s) p = s"
  by (simp add: TrimPrefix_def)

lemma TrimSuffix_append [simp]: "TrimSuffix (s @ p) p = s"
  by (simp add: TrimSuffix_def)

lemma Contains_iff: "Contains s p \<longleftrightarrow> (\<exists>a b. s = a @ p @ b)"
proof (induction s)
  case Nil
  then show ?case by auto
next
  case (Cons c s)
  note IH = Cons.IH
  show ?case
  proof
    assume "Contains (c # s) p"
    then consider t where "c # s = p @ t" | a b where "s = a @ p @ b"
      using Cons.IH by (auto simp: HasPrefix_iff)
    then show "\<exists>a b. c # s = a @ p @ b"
    proof cases
      case 1
      then show ?thesis by (metis append_Nil)
    next
      case 2
      then show ?thesis by (metis append_Cons)
    qed
  next
    assume "\<exists>a b. c # s = a @ p @ b"
    then obtain a b where ab: "c # s = a @ p @ b" by blast
    show "Contains (c # s) p"
    proof (cases a)
      case Nil
      with ab have "HasPrefix (c # s) p" by (simp add: HasPrefix_iff)
      then show ?thesis by simp
    next
      case (Cons x xs)
      with ab have "\<exists>a b. s = a @ p @ b" by auto
      with IH have "Contains s p" by simp
      then show ?thesis by simp
    qed
  qed
qed

lemma Contains_byte [simp]: "Contains s [b] \<longleftrightarrow> b \<in> set s"
  by (induction s) auto

lemma IndexByte_None [simp]: "IndexByte s b = None \<longleftrightarrow> b \<notin> set s"
  by (induction s) auto

lemma LastIndexByte_None [simp]: "LastIndexByte s b = None \<longleftrightarrow> b \<notin> set s"
  by (induction s) (auto split: option.splits)

lemma LastIndexByte_append_no: "b \<notin> set t \<Longrightarrow> LastIndexByte (s @ b # t) b = Some (length s)"
  by (induction s) (auto split: option.splits)

lemma IndexByte_append_no: "b \<notin> set s \<Longrightarrow> IndexByte (s @ b # t) b = Some (length s)"
  by (induction s) auto

lemma LastIndexByte_Some:
  "LastIndexByte s b = Some i \<Longrightarrow> i < length s \<and> s = take i s @ b # drop (Suc i) s \<and> b \<notin> set (drop (Suc i) s)"
proof (induction s arbitrary: i)
  case Nil
  then show ?case by simp
next
  case (Cons c s)
  then show ?case
    by (cases "LastIndexByte s b") (auto split: if_splits)
qed

lemma IndexByte_Some:
  "IndexByte s b = Some i \<Longrightarrow> i < length s \<and> s = take i s @ b # drop (Suc i) s \<and> b \<notin> set (take i s)"
proof (induction s arbitrary: i)
  case Nil
  then show ?case by simp
next
  case (Cons c s)
  then show ?case by (cases "c = b") auto
qed

lemma Split_nonempty [simp]: "Split b s \<noteq> []"
  by (induction s) auto

lemma Split_code [code]:
  "Split b [] = [[]]"
  "Split b (c # s) = (case Split b s of [] \<Rightarrow> [] | p # ps \<Rightarrow> if c = b then [] # p # ps else (c # p) # ps)"
  by (simp, cases "Split b s") auto

lemma Split_no_sep: "b \<notin> set s \<Longrightarrow> Split b s = [s]"
  by (induction s) auto

lemma Split_append: "b \<notin> set s \<Longrightarrow> Split b (s @ b # t) = s # Split b t"
  by (induction s) auto

lemma Split_parts_no_sep: "p \<in> set (Split b s) \<Longrightarrow> b \<notin> set p"
proof (induction s arbitrary: p)
  case Nil
  then show ?case by simp
next
  case (Cons c s)
  show ?case
  proof (cases "c = b")
    case True
    with Cons show ?thesis by auto
  next
    case False
    from Cons.prems False have "p = c # hd (Split b s) \<or> p \<in> set (tl (Split b s))" by simp
    then show ?thesis
      using Cons.IH False Split_nonempty [of b s]
      by (metis hd_in_set list.set_sel(2) set_ConsD)
  qed
qed

lemma Join_Split: "Join_strings [b] (Split b s) = s"
proof (induction s)
  case Nil
  then show ?case by simp
next
  case (Cons c s)
  obtain x xs where x: "Split b s = x # xs" using Split_nonempty [of b s] by (cases "Split b s") auto
  with Cons show ?case by (cases xs) auto
qed

lemma Split_Join:
  "ps \<noteq> [] \<Longrightarrow> \<forall>p \<in> set ps. b \<notin> set p \<Longrightarrow> Split b (Join_strings [b] ps) = ps"
proof (induction "[b]" ps rule: Join_strings.induct)
  case 1
  then show ?case by simp
next
  case (2 x)
  then show ?case by (simp add: Split_no_sep)
next
  case (3 x y zs)
  then show ?case by (simp add: Split_append)
qed

subsection \<open>TrimSpace and ToLower\<close>

lemma HasPrefix_trans: "HasPrefix r e \<Longrightarrow> HasPrefix (r @ t) e"
  by (auto simp: HasPrefix_iff)

lemma filter_Nil_iff: "filter P xs = [] \<longleftrightarrow> (\<forall>x \<in> set xs. \<not> P x)"
  by (induction xs) auto

lemma trim_encodings_suffix: "\<exists>a. s = a @ trim_encodings es s"
proof (induction es s rule: trim_encodings.induct)
  case (1 es s)
  show ?case
  proof (cases "filter (\<lambda>e. e \<noteq> [] \<and> HasPrefix s e) es")
    case Nil
    then show ?thesis by (simp add: trim_encodings.simps [of es s])
  next
    case (Cons e r)
    with 1 obtain a where "drop (length e) s = a @ trim_encodings es (drop (length e) s)" by auto
    then have "s = (take (length e) s @ a) @ trim_encodings es (drop (length e) s)"
      by (metis append.assoc append_take_drop_id)
    moreover from Cons have "trim_encodings es s = trim_encodings es (drop (length e) s)"
      by (simp add: trim_encodings.simps [of es s])
    ultimately show ?thesis by metis
  qed
qed

lemma trim_encodings_no_prefix:
  "e \<in> set es \<Longrightarrow> e \<noteq> [] \<Longrightarrow> \<not> HasPrefix (trim_encodings es s) e"
proof (induction es s rule: trim_encodings.induct)
  case (1 es s)
  show ?case
  proof (cases "filter (\<lambda>e. e \<noteq> [] \<and> HasPrefix s e) es")
    case Nil
    with 1 show ?thesis by (auto simp: trim_encodings.simps [of es s] filter_Nil_iff)
  next
    case (Cons d r)
    with 1 show ?thesis by (simp add: trim_encodings.simps [of es s])
  qed
qed

lemma trim_encodings_id:
  "\<forall>e \<in> set es. \<not> HasPrefix s e \<Longrightarrow> trim_encodings es s = s"
  by (subst trim_encodings.simps) (simp add: filter_Nil_iff)

definition trimmed :: "string \<Rightarrow> bool" where
  "trimmed s = (\<forall>e \<in> set space_encodings. \<not> HasPrefix s e \<and> \<not> HasPrefix (rev s) (rev e))"

lemma TrimSpace_id [simp]: "trimmed s \<Longrightarrow> TrimSpace s = s"
  by (simp add: TrimSpace_def trim_encodings_id trimmed_def)

lemma space_encodings_nonempty: "e \<in> set space_encodings \<Longrightarrow> e \<noteq> []"
  by (auto simp: space_encodings_def bytes_def)

lemma TrimSpace_substring: "\<exists>a b. s = a @ TrimSpace s @ b"
proof -
  obtain a where a: "s = a @ trim_encodings space_encodings s"
    using trim_encodings_suffix by blast
  obtain b where "rev (trim_encodings space_encodings s) = b @
      trim_encodings (map rev space_encodings) (rev (trim_encodings space_encodings s))"
    using trim_encodings_suffix by blast
  then have "trim_encodings space_encodings s = TrimSpace s @ rev b"
    by (metis TrimSpace_def rev_append rev_rev_ident)
  with a show ?thesis by metis
qed

lemma trimmed_TrimSpace [simp]: "trimmed (TrimSpace s)"
proof -
  let ?t = "trim_encodings space_encodings s"
  let ?u = "trim_encodings (map rev space_encodings) (rev ?t)"
  obtain b where b: "rev ?t = b @ ?u" using trim_encodings_suffix by blast
  show ?thesis
    unfolding trimmed_def
  proof (intro ballI conjI notI)
    fix e
    assume e: "e \<in> set space_encodings"
    note ne = space_encodings_nonempty [OF e]
    from b have t: "?t = TrimSpace s @ rev b"
      by (metis TrimSpace_def rev_append rev_rev_ident)
    {
      assume "HasPrefix (TrimSpace s) e"
      then have "HasPrefix ?t e" by (subst t) (rule HasPrefix_trans)
      with trim_encodings_no_prefix [OF e ne] show False by blast
    }
    {
      assume "HasPrefix (rev (TrimSpace s)) (rev e)"
      with trim_encodings_no_prefix [of "rev e" "map rev space_encodings" "rev ?t"] e ne
      show False by (simp add: TrimSpace_def)
    }
  qed
qed

lemma set_TrimSpace: "set (TrimSpace s) \<subseteq> set s"
  using TrimSpace_substring [of s] by (metis Un_subset_iff order_refl set_append)

lemma ascii_TrimSpace [simp]: "list_all is_ascii s \<Longrightarrow> list_all is_ascii (TrimSpace s)"
  using set_TrimSpace [of s] by (auto simp: list_all_iff)

definition ascii_space :: "char \<Rightarrow> bool" where
  "ascii_space c = (code_of c \<in> {9, 10, 11, 12, 13, 32})"

lemma space_encoding_ascii:
  "e \<in> set space_encodings \<Longrightarrow> list_all is_ascii e \<Longrightarrow> \<exists>c. e = [c] \<and> ascii_space c"
  by (auto simp: space_encodings_def bytes_def is_ascii_def ascii_space_def)

lemma ascii_space_encoding: "ascii_space c \<Longrightarrow> [c] \<in> set space_encodings"
proof -
  assume "ascii_space c"
  then have "bytes [code_of c] \<in> set space_encodings"
    by (auto simp: ascii_space_def space_encodings_def)
  then show ?thesis by (simp add: bytes_def)
qed

lemma ascii_prefix: "list_all is_ascii s \<Longrightarrow> HasPrefix s e \<Longrightarrow> list_all is_ascii e"
  by (auto simp: HasPrefix_iff)

lemma HasPrefix_byte: "HasPrefix s [c] \<longleftrightarrow> s \<noteq> [] \<and> hd s = c"
  by (cases s) auto

lemma trimmed_ends:
  assumes "trimmed s" "s \<noteq> []"
  shows "\<not> ascii_space (hd s) \<and> \<not> ascii_space (last s)"
proof (intro conjI notI)
  assume "ascii_space (hd s)"
  with assms show False
    using ascii_space_encoding [of "hd s"] HasPrefix_byte [of s "hd s"] by (auto simp: trimmed_def)
next
  assume "ascii_space (last s)"
  with assms show False
    using ascii_space_encoding [of "last s"] HasPrefix_byte [of "rev s" "last s"]
    by (auto simp: trimmed_def hd_rev)
qed

lemma ends_trimmed:
  assumes "list_all is_ascii s" and "s \<noteq> [] \<Longrightarrow> \<not> ascii_space (hd s) \<and> \<not> ascii_space (last s)"
  shows "trimmed s"
  unfolding trimmed_def
proof (intro ballI conjI notI)
  fix e
  assume e: "e \<in> set space_encodings"
  {
    assume h: "HasPrefix s e"
    then obtain c where c: "e = [c]" "ascii_space c"
      using space_encoding_ascii [OF e] ascii_prefix [OF assms(1)] by blast
    with h have "s \<noteq> []" "hd s = c" using HasPrefix_byte by blast+
    with c assms(2) show False by simp
  }
  {
    assume h: "HasPrefix (rev s) (rev e)"
    moreover have "list_all is_ascii (rev s)" using assms(1) by simp
    ultimately have "list_all is_ascii (rev e)" by (rule ascii_prefix [rotated])
    then obtain c where c: "e = [c]" "ascii_space c"
      using space_encoding_ascii [OF e] by auto
    with h have "HasPrefix (rev s) [c]" by simp
    then have "s \<noteq> []" "last s = c" using HasPrefix_byte [of "rev s" c] by (auto simp: hd_rev)
    with c assms(2) show False by simp
  }
qed

lemma ascii_space_lower [simp]: "ascii_space (lower_byte c) = ascii_space c"
  by (auto simp: ascii_space_def lower_byte_def is_upper_def)

lemma lower_byte_ascii [simp]: "is_ascii c \<Longrightarrow> is_ascii (lower_byte c)"
  by (auto simp: is_ascii_def lower_byte_def is_upper_def)

lemma lower_byte_idem [simp]: "lower_byte (lower_byte c) = lower_byte c"
  by (auto simp: lower_byte_def is_upper_def)

lemma lower_byte_fix: "\<not> is_upper c \<Longrightarrow> lower_byte c = c"
  by (simp add: lower_byte_def)

lemma lower_byte_eq_iff: "\<not> is_upper b \<Longrightarrow> \<not> is_lower b \<Longrightarrow> lower_byte c = b \<longleftrightarrow> c = b"
  by (auto simp: lower_byte_def is_upper_def is_lower_def)

lemma mem_map_lower:
  assumes "\<not> is_upper b" "\<not> is_lower b"
  shows "b \<in> set (map lower_byte s) \<longleftrightarrow> b \<in> set s"
proof
  assume "b \<in> set (map lower_byte s)"
  then obtain c where "c \<in> set s" "lower_byte c = b" by auto
  with assms show "b \<in> set s" using lower_byte_eq_iff [of b c] by simp
next
  assume "b \<in> set s"
  then have "lower_byte b \<in> set (map lower_byte s)" by simp
  with lower_byte_fix [OF assms(1)] show "b \<in> set (map lower_byte s)" by metis
qed

lemma trimmed_lower:
  assumes "list_all is_ascii s" "trimmed s"
  shows "trimmed (map lower_byte s)"
proof (rule ends_trimmed)
  show "list_all is_ascii (map lower_byte s)"
    using assms(1) by (auto simp: list_all_iff)
  show "map lower_byte s \<noteq> [] \<Longrightarrow>
      \<not> ascii_space (hd (map lower_byte s)) \<and> \<not> ascii_space (last (map lower_byte s))"
    using trimmed_ends [OF assms(2)] by (simp add: hd_map last_map)
qed

lemma ToLower_ascii [simp]: "list_all is_ascii s \<Longrightarrow> ToLower ul s = map lower_byte s"
  by (simp add: ToLower_def)

subsection \<open>Bitwise code equations\<close>

text \<open>Evaluation of the byte classes without arithmetic on code points.\<close>

lemma space_encodings_code [code]:
  "space_encodings =
     [[CHR 0x09], [CHR 0x0A], [CHR 0x0B], [CHR 0x0C], [CHR 0x0D], [CHR 0x20], [CHR 0xC2, CHR 0x85],
      [CHR 0xC2, CHR 0xA0], [CHR 0xE1, CHR 0x9A, CHR 0x80],
      [CHR 0xE2, CHR 0x80, CHR 0x80], [CHR 0xE2, CHR 0x80, CHR 0x81], [CHR 0xE2, CHR 0x80, CHR 0x82],
      [CHR 0xE2, CHR 0x80, CHR 0x83], [CHR 0xE2, CHR 0x80, CHR 0x84], [CHR 0xE2, CHR 0x80, CHR 0x85],
      [CHR 0xE2, CHR 0x80, CHR 0x86], [CHR 0xE2, CHR 0x80, CHR 0x87], [CHR 0xE2, CHR 0x80, CHR 0x88],
      [CHR 0xE2, CHR 0x80, CHR 0x89], [CHR 0xE2, CHR 0x80, CHR 0x8A], [CHR 0xE2, CHR 0x80, CHR 0xA8],
      [CHR 0xE2, CHR 0x80, CHR 0xA9], [CHR 0xE2, CHR 0x80, CHR 0xAF], [CHR 0xE2, CHR 0x81, CHR 0x9F],
      [CHR 0xE3, CHR 0x80, CHR 0x80]]"
  by code_simp

lemma is_ascii_code [code]: "is_ascii (Char b0 b1 b2 b3 b4 b5 b6 b7) = (\<not> b7)"
  by (simp add: is_ascii_def of_char_Char) 

lemma is_digit_code [code]:
  "is_digit (Char b0 b1 b2 b3 b4 b5 b6 b7) = (\<not> b7 \<and> \<not> b6 \<and> b5 \<and> b4 \<and> (b3 \<longrightarrow> \<not> b2 \<and> \<not> b1))"
  by (simp add: is_digit_def of_char_Char)

lemma is_lower_code [code]:
  "is_lower (Char b0 b1 b2 b3 b4 b5 b6 b7) =
     (\<not> b7 \<and> b6 \<and> b5 \<and> (b0 \<or> b1 \<or> b2 \<or> b3 \<or> b4) \<and> (b4 \<and> b3 \<longrightarrow> \<not> b2 \<and> (b1 \<longrightarrow> \<not> b0)))"
  by (simp add: is_lower_def of_char_Char)

lemma is_upper_code [code]:
  "is_upper (Char b0 b1 b2 b3 b4 b5 b6 b7) =
     (\<not> b7 \<and> b6 \<and> \<not> b5 \<and> (b0 \<or> b1 \<or> b2 \<or> b3 \<or> b4) \<and> (b4 \<and> b3 \<longrightarrow> \<not> b2 \<and> (b1 \<longrightarrow> \<not> b0)))"
  by (simp add: is_upper_def of_char_Char)

lemma lower_byte_code [code]:
  "lower_byte (Char b0 b1 b2 b3 b4 b5 b6 b7) =
     (if is_upper (Char b0 b1 b2 b3 b4 b5 b6 b7) then Char b0 b1 b2 b3 b4 True b6 b7
      else Char b0 b1 b2 b3 b4 b5 b6 b7)"
proof (cases "is_upper (Char b0 b1 b2 b3 b4 b5 b6 b7)")
  case True
  then have "\<not> b5" by (simp add: is_upper_code)
  then have "code_of (Char b0 b1 b2 b3 b4 b5 b6 b7) + 32 = code_of (Char b0 b1 b2 b3 b4 True b6 b7)"
    by (simp add: of_char_Char)
  then show ?thesis using True by (simp only: lower_byte_def if_True char_of_char)
qed (simp add: lower_byte_def)

end
