(* ===== verification/GoNet.thy ===== *)
theory GoNet
  imports Prelude
begin

text \<open>
  The functions of Go's \<open>net\<close>, \<open>path\<close>, \<open>net/url\<close>, \<open>net/textproto\<close> and \<open>strconv\<close> packages that
  decide which hosts and paths the credential proxy lets through, and the library functions
  that stay parameters of the model (\<open>golib\<close>).
\<close>

section \<open>Library functions that stay parameters\<close>

text \<open>
  \<open>url_Parse\<close> is \<open>net/url.Parse\<close> (its host rules changed between Go releases), reduced to the
  components the program reads; \<open>uni_lower\<close> and \<open>uni_quote\<close> are the Unicode branches of
  \<open>strings.ToLower\<close> and \<open>strconv.Quote\<close>; the base64, PEM and X.509 functions are named after
  the calls. A certificate is reduced to the fields the program reads, an ECDSA key to its curve
  and a name for the point; \<open>ParsePKCS8PrivateKey\<close> returns \<open>None\<close> for a key that is not ECDSA, and
  \<open>SystemCertPool\<close> says whether the returned pool is non-nil. \<open>clientcmd.Load\<close> and \<open>clientcmd.Write\<close> are added where kubeconfigs are modelled.
\<close>

record url =
  Scheme :: string
  User :: "string option"
  Host :: string

datatype public_key = EcdsaPublicKey string string | OtherPublicKey

record certificate =
  IsCA :: bool
  KeyUsage :: int
  PublicKey :: public_key

record private_key =
  Curve :: string
  Public :: public_key

record golib =
  uni_lower :: "string \<Rightarrow> string"
  uni_quote :: "string \<Rightarrow> string"
  url_Parse :: "string \<Rightarrow> url result"
  base64_Encode :: "string \<Rightarrow> string"
  base64_Decode :: "string \<Rightarrow> string result"
  pem_Decode :: "string \<Rightarrow> (string \<times> string) option"
  x509_ParseCertificate :: "string \<Rightarrow> certificate result"
  x509_ParseECPrivateKey :: "string \<Rightarrow> private_key result"
  x509_ParsePKCS8PrivateKey :: "string \<Rightarrow> private_key option result"
  AppendCertsFromPEM :: "string \<Rightarrow> bool"
  SystemCertPool :: "bool result"

section \<open>Messages: strconv.Quote and Error()\<close>

definition hex_digit :: "nat \<Rightarrow> char" where
  "hex_digit n = char_of (if n < 10 then 48 + n else 87 + n)"

definition quote_byte :: "char \<Rightarrow> string" where
  "quote_byte c =
     (if code_of c = 34 then [CHR 0x5C, c]
      else if code_of c = 92 then [c, c]
      else if code_of c = 7 then CHR 0x5C # ''a''
      else if code_of c = 8 then CHR 0x5C # ''b''
      else if code_of c = 12 then CHR 0x5C # ''f''
      else if code_of c = 10 then CHR 0x5C # ''n''
      else if code_of c = 13 then CHR 0x5C # ''r''
      else if code_of c = 9 then CHR 0x5C # ''t''
      else if code_of c = 11 then CHR 0x5C # ''v''
      else if code_of c < 32 \<or> code_of c = 127
        then CHR 0x5C # CHR ''x'' # [hex_digit (code_of c div 16), hex_digit (code_of c mod 16)]
      else [c])"

definition Quote :: "golib \<Rightarrow> string \<Rightarrow> string" where
  "Quote g s =
     (if list_all is_ascii s then CHR 0x22 # concat (map quote_byte s) @ [CHR 0x22]
      else uni_quote g s)"

text \<open>The error of \<open>strconv.Atoi\<close> on a string it does not accept.\<close>

definition Atoi_error :: "golib \<Rightarrow> string \<Rightarrow> go_error" where
  "Atoi_error g s =
     (let ds = (if s \<noteq> [] \<and> (hd s = CHR ''-'' \<or> hd s = CHR ''+'') then tl s else s) in
      Err (''strconv.Atoi: parsing '' @ Quote g s @
        (if ds \<noteq> [] \<and> list_all is_digit ds then '': value out of range'' else '': invalid syntax'')))"

fun error_text :: "go_error \<Rightarrow> string" where
  "error_text Canceled = ''context canceled''"
| "error_text DeadlineExceeded = ''context deadline exceeded''"
| "error_text (KubeError _ m) = m"
| "error_text (NetworkError op u e) = op @ '' '' @ u @ '': '' @ error_text e"
| "error_text (StatusError op u n _) = op @ '' '' @ u @ '': unexpected status '' @ nat_digits n"
| "error_text (DecodeError op u _ e _) = op @ '' '' @ u @ '': '' @ error_text e"
| "error_text (Err m) = m"
| "error_text (Wrap m e) = m @ '': '' @ error_text e"
| "error_text (Join es) = Join_strings [CHR 0x0A] (map error_text es)"

section \<open>net.SplitHostPort and net.JoinHostPort\<close>

definition addrErr :: "string \<Rightarrow> string \<Rightarrow> go_error" where
  "addrErr addr why = Err ((if addr \<noteq> [] then ''address '' @ addr @ '': '' else []) @ why)"

definition split_finish :: "string \<Rightarrow> nat \<Rightarrow> string \<Rightarrow> nat \<Rightarrow> nat \<Rightarrow> (string \<times> string) result" where
  "split_finish hp i host j k =
     (if CHR ''['' \<in> set (drop j hp) then Inl (addrErr hp ''unexpected '[' in address'')
      else if CHR '']'' \<in> set (drop k hp) then Inl (addrErr hp ''unexpected ']' in address'')
      else Inr (host, drop (Suc i) hp))"

definition SplitHostPort :: "string \<Rightarrow> (string \<times> string) result" where
  "SplitHostPort hp =
     (case LastIndexByte hp (CHR '':'') of
        None \<Rightarrow> Inl (addrErr hp ''missing port in address'')
      | Some i \<Rightarrow>
          if hd hp = CHR ''['' then
            (case IndexByte hp (CHR '']'') of
               None \<Rightarrow> Inl (addrErr hp ''missing ']' in address'')
             | Some e \<Rightarrow>
                 if Suc e = length hp then Inl (addrErr hp ''missing port in address'')
                 else if Suc e = i then split_finish hp i (take (e - 1) (drop 1 hp)) 1 (Suc e)
                 else if hp ! Suc e = CHR '':'' then Inl (addrErr hp ''too many colons in address'')
                 else Inl (addrErr hp ''missing port in address''))
          else if CHR '':'' \<in> set (take i hp) then Inl (addrErr hp ''too many colons in address'')
          else split_finish hp i (take i hp) 0 0)"

definition JoinHostPort :: "string \<Rightarrow> string \<Rightarrow> string" where
  "JoinHostPort host port =
     (if CHR '':'' \<in> set host then ''['' @ host @ '']:'' @ port else host @ '':'' @ port)"

definition no_brackets :: "string \<Rightarrow> bool" where
  "no_brackets s = (CHR ''['' \<notin> set s \<and> CHR '']'' \<notin> set s)"

lemma SplitHostPort_plain:
  assumes "no_brackets h" "CHR '':'' \<notin> set h" "no_brackets p" "CHR '':'' \<notin> set p"
  shows "SplitHostPort (h @ CHR '':'' # p) = Inr (h, p)"
proof -
  have "hd (h @ CHR '':'' # p) \<noteq> CHR ''[''"
    using assms(1) by (cases h) (auto simp: no_brackets_def)
  then show ?thesis
    using assms
    by (simp add: SplitHostPort_def LastIndexByte_append_no split_finish_def no_brackets_def)
qed

lemma SplitHostPort_bracketed:
  assumes "no_brackets h" "no_brackets p" "CHR '':'' \<notin> set p"
  shows "SplitHostPort (CHR ''['' # h @ CHR '']'' # CHR '':'' # p) = Inr (h, p)"
proof -
  define hp where "hp = CHR ''['' # h @ CHR '']'' # CHR '':'' # p"
  have i: "LastIndexByte hp (CHR '':'') = Some (Suc (Suc (length h)))"
    using LastIndexByte_append_no [of "CHR '':''" p "CHR ''['' # h @ [CHR '']'']"] assms(3)
    by (simp add: hp_def)
  have e: "IndexByte hp (CHR '']'') = Some (Suc (length h))"
    using IndexByte_append_no [of "CHR '']''" "CHR ''['' # h"] assms(1)
    by (simp add: no_brackets_def hp_def)
  have "CHR ''['' \<notin> set (drop 1 hp)" "CHR '']'' \<notin> set (drop (Suc (Suc (length h))) hp)"
    "hd hp = CHR ''[''" "length hp \<noteq> Suc (Suc (length h))" "take (length h) (drop 1 hp) = h"
    "drop (Suc (Suc (Suc (length h)))) hp = p"
    using assms by (auto simp: no_brackets_def hp_def)
  then have "SplitHostPort hp = Inr (h, p)"
    by (simp add: SplitHostPort_def i e split_finish_def)
  then show ?thesis by (simp add: hp_def)
qed

lemma SplitHostPort_Join [simp]:
  assumes "no_brackets h" "no_brackets p" "CHR '':'' \<notin> set p"
  shows "SplitHostPort (JoinHostPort h p) = Inr (h, p)"
  using SplitHostPort_plain [of h p] SplitHostPort_bracketed [of h p] assms
  by (simp add: JoinHostPort_def)

lemma split_finish_Inr:
  "split_finish hp i host j k = Inr r \<longleftrightarrow>
     CHR ''['' \<notin> set (drop j hp) \<and> CHR '']'' \<notin> set (drop k hp) \<and> r = (host, drop (Suc i) hp)"
  by (auto simp: split_finish_def)

text \<open>What a successful split says about its input: either \<open>h:p\<close> or \<open>[h]:p\<close>.\<close>

lemma SplitHostPort_cases:
  assumes "SplitHostPort s = Inr (h, p)"
  shows "no_brackets h \<and> no_brackets p \<and> CHR '':'' \<notin> set p \<and>
    ((s = h @ CHR '':'' # p \<and> CHR '':'' \<notin> set h) \<or> s = CHR ''['' # h @ CHR '']'' # CHR '':'' # p)"
proof -
  from assms obtain i where i: "LastIndexByte s (CHR '':'') = Some i"
    by (auto simp: SplitHostPort_def split: option.splits)
  note li = LastIndexByte_Some [OF i]
  show ?thesis
  proof (cases "hd s = CHR ''[''")
    case False
    with assms i have *: "CHR '':'' \<notin> set (take i s)" "CHR ''['' \<notin> set s" "CHR '']'' \<notin> set s"
      "h = take i s" "p = drop (Suc i) s"
      by (auto simp: SplitHostPort_def split_finish_Inr split: if_splits)
    from * have "no_brackets h" "no_brackets p"
      by (auto simp: no_brackets_def dest: in_set_takeD in_set_dropD)
    with * li show ?thesis by auto
  next
    case True
    with assms i obtain e where e: "IndexByte s (CHR '']'') = Some e" "Suc e = i"
      and *: "CHR ''['' \<notin> set (drop 1 s)" "CHR '']'' \<notin> set (drop (Suc e) s)"
        "h = take (e - 1) (drop 1 s)" "p = drop (Suc i) s"
      by (auto simp: SplitHostPort_def split_finish_Inr split: option.splits if_splits)
    note ie = IndexByte_Some [OF e(1)]
    have "e \<noteq> 0"
      using True ie by (cases e; cases s) auto
    then obtain d where d: "e = Suc d" by (cases e) auto
    obtain t where s: "s = CHR ''['' # t"
      using True ie by (cases s) auto
    from ie d s have t: "t = take d t @ CHR '']'' # drop (Suc d) t" and nb: "CHR '']'' \<notin> set (take d t)"
      by auto
    from li e(2) d s have u: "drop (Suc d) t = CHR '':'' # drop (Suc (Suc d)) t"
      by (metis Cons_nth_drop_Suc drop_Suc_Cons li id_take_nth_drop nth_append_length
          length_take min.absorb2 less_imp_le_nat)
    from * d s have h: "h = take d t" and p: "p = drop (Suc (Suc d)) t"
      using e(2) by auto
    have "no_brackets h"
      using nb * s h by (auto simp: no_brackets_def dest: in_set_takeD)
    moreover have "set p \<subseteq> set (drop 1 s)" "set p \<subseteq> set (drop (Suc e) s)"
      using s d p set_drop_subset_set_drop [of "Suc d" "Suc (Suc d)" t] by (auto dest: in_set_dropD)
    then have "no_brackets p"
      using * by (auto simp: no_brackets_def)
    moreover have "CHR '':'' \<notin> set p"
      using li e(2) d s p by auto
    ultimately show ?thesis
      using s t u h p by metis
  qed
qed

section \<open>net.ParseIP\<close>

text \<open>
  \<open>net.ParseIP\<close> is \<open>netip.ParseAddr\<close> with zones refused; its result is the 16-byte address.
  \<open>ipv4_fields\<close> is the loop of \<open>parseIPv4Fields\<close>: \<open>sep\<close> says that the position is the start or
  follows a dot, \<open>val\<close> and \<open>dl\<close> are the octet read so far and its digits.
\<close>

fun ipv4_fields :: "string \<Rightarrow> bool \<Rightarrow> nat \<Rightarrow> nat \<Rightarrow> nat list \<Rightarrow> nat list option" where
  "ipv4_fields [] sep val dl fs = (if length fs < 3 then None else Some (fs @ [val]))"
| "ipv4_fields (c # s) sep val dl fs =
     (if is_digit c then
        (if dl = 1 \<and> val = 0 then None
         else let v = 10 * val + digit_val c
              in if v > 255 then None else ipv4_fields s False v (Suc dl) fs)
      else if c = CHR ''.'' then
        (if sep \<or> s = [] then None
         else if length fs = 3 then None
         else ipv4_fields s True 0 0 (fs @ [val]))
      else None)"

definition is_hex :: "char \<Rightarrow> bool" where
  "is_hex c = (is_digit c \<or> (97 \<le> code_of c \<and> code_of c \<le> 102) \<or> (65 \<le> code_of c \<and> code_of c \<le> 70))"

definition hex_val :: "char \<Rightarrow> nat" where
  "hex_val c =
     (if is_digit c then code_of c - 48 else if 97 \<le> code_of c then code_of c - 87 else code_of c - 55)"

text \<open>The loop of \<open>parseIPv6\<close>: at most eight groups, an ellipsis position, an IPv4 tail.\<close>

fun ipv6_loop :: "nat \<Rightarrow> string \<Rightarrow> nat list \<Rightarrow> nat option \<Rightarrow> (string \<times> nat list \<times> nat option) option" where
  "ipv6_loop 0 s ip el = Some (s, ip, el)"
| "ipv6_loop (Suc k) s ip el =
     (let hs = takeWhile is_hex s; rest = dropWhile is_hex s;
          acc = foldl (\<lambda>n c. 16 * n + hex_val c) 0 hs;
          ip' = ip @ [acc div 256, acc mod 256]
      in if length hs > 4 \<or> hs = [] then None
         else if rest \<noteq> [] \<and> hd rest = CHR ''.'' then
           (if el = None \<and> length ip \<noteq> 12 then None
            else if length ip + 4 > 16 then None
            else map_option (\<lambda>fs. ([], ip @ fs, el)) (ipv4_fields s True 0 0 []))
         else if rest = [] then Some ([], ip', el)
         else if hd rest \<noteq> CHR '':'' \<or> tl rest = [] then None
         else if hd (tl rest) = CHR '':'' then
           (if el \<noteq> None then None
            else if tl (tl rest) = [] then Some ([], ip', Some (length ip'))
            else ipv6_loop k (tl (tl rest)) ip' (Some (length ip')))
         else ipv6_loop k (tl rest) ip' el)"

definition ipv6_finish :: "string \<times> nat list \<times> nat option \<Rightarrow> nat list option" where
  "ipv6_finish r =
     (case r of (s, ip, el) \<Rightarrow>
        if s \<noteq> [] then None
        else if length ip < 16 then
          (case el of None \<Rightarrow> None
           | Some e \<Rightarrow> Some (take e ip @ replicate (16 - length ip) 0 @ drop e ip))
        else if el \<noteq> None then None
        else Some ip)"

definition parseIPv6 :: "string \<Rightarrow> nat list option" where
  "parseIPv6 s =
     (if HasPrefix s ''::'' then
        (if length s = 2 then Some (replicate 16 0)
         else Option.bind (ipv6_loop 8 (drop 2 s) [] (Some 0)) ipv6_finish)
      else Option.bind (ipv6_loop 8 s [] None) ipv6_finish)"

definition ParseIP :: "string \<Rightarrow> nat list option" where
  "ParseIP s =
     (case filter (\<lambda>c. c = CHR ''.'' \<or> c = CHR '':'' \<or> c = CHR ''%'') s of
        [] \<Rightarrow> None
      | c # _ \<Rightarrow>
          if c = CHR ''.'' then
            map_option (\<lambda>fs. replicate 10 0 @ [255, 255] @ fs) (ipv4_fields s True 0 0 [])
          else if c = CHR '':'' \<and> CHR ''%'' \<notin> set s then parseIPv6 s
          else None)"

definition To4 :: "nat list \<Rightarrow> nat list option" where
  "To4 ip = (if take 12 ip = replicate 10 0 @ [255, 255] then Some (drop 12 ip) else None)"

definition IP_IsLoopback :: "nat list \<Rightarrow> bool" where
  "IP_IsLoopback ip =
     (case To4 ip of Some v4 \<Rightarrow> hd v4 = 127 | None \<Rightarrow> ip = replicate 15 0 @ [1])"

lemma ipv4_fields_chars:
  "ipv4_fields s sep v dl fs = Some r \<Longrightarrow> c \<in> set s \<Longrightarrow> is_digit c \<or> c = CHR ''.''"
  by (induction s sep v dl fs rule: ipv4_fields.induct) (auto simp: Let_def split: if_splits)

lemma digit_is_hex: "is_digit c \<Longrightarrow> is_hex c"
  by (simp add: is_hex_def)

lemma ipv6_loop_chars:
  "ipv6_loop k s ip el = Some r \<Longrightarrow> c \<in> set s \<Longrightarrow>
     is_hex c \<or> c = CHR ''.'' \<or> c = CHR '':'' \<or> c \<in> set (fst r)"
proof (induction k arbitrary: s ip el)
  case 0
  then show ?case by auto
next
  case (Suc k)
  let ?rest = "dropWhile is_hex s"
  have s: "s = takeWhile is_hex s @ ?rest" by simp
  have "c \<in> set (takeWhile is_hex s) \<or> c \<in> set ?rest"
    using "Suc.prems"(2) by (subst (asm) s) (simp only: set_append Un_iff)
  then show ?case
  proof
    assume "c \<in> set (takeWhile is_hex s)"
    then show ?thesis by (auto dest: set_takeWhileD)
  next
    assume c: "c \<in> set ?rest"
    obtain d t where rest: "?rest = d # t" using c by (cases ?rest) auto
    show ?thesis
    proof (cases "d = CHR ''.''")
      case True
      then have "\<exists>fs. ipv4_fields s True 0 0 [] = Some fs"
        using "Suc.prems"(1) rest by (auto simp: Let_def split: if_splits)
      then show ?thesis
        using ipv4_fields_chars "Suc.prems"(2) digit_is_hex by blast
    next
      case False
      then show ?thesis
        using "Suc.prems"(1) "Suc.IH" c rest by (cases t) (fastforce simp: Let_def split: if_splits)+
    qed
  qed
qed

lemma ParseIP_chars:
  assumes "ParseIP s = Some ip" "c \<in> set s"
  shows "is_hex c \<or> c = CHR ''.'' \<or> c = CHR '':''"
proof -
  have v6: "is_hex c \<or> c = CHR ''.'' \<or> c = CHR '':''"
    if "Option.bind (ipv6_loop k t i e) ipv6_finish = Some ip" "c \<in> set t" for k t i e
    using that ipv6_loop_chars [of k t i e _ c]
    by (auto simp: Option.bind_eq_Some_conv ipv6_finish_def split: if_splits)
  have "c = CHR '':'' \<or> c \<in> set (drop 2 s)" if "HasPrefix s ''::''"
    using that assms(2) by (auto simp: HasPrefix_iff)
  then have "parseIPv6 s = Some ip \<Longrightarrow> ?thesis"
    using v6 assms(2) by (fastforce simp: parseIPv6_def HasPrefix_iff split: if_splits)
  moreover have "ipv4_fields s True 0 0 [] = Some fs \<Longrightarrow> ?thesis" for fs
    using ipv4_fields_chars [OF _ assms(2)] digit_is_hex by blast
  ultimately show ?thesis
    using assms(1) by (auto simp: ParseIP_def split: list.splits if_splits)
qed

section \<open>path.Clean and url.PathUnescape\<close>

text \<open>\<open>path.Clean\<close>, by path elements: empty and \<open>.\<close> elements go, \<open>..\<close> removes the element
  before it, and disappears at the root.\<close>

definition clean_step :: "bool \<Rightarrow> string \<Rightarrow> string list \<Rightarrow> string list" where
  "clean_step rooted c st =
     (if c = ''..'' then
        (if st \<noteq> [] \<and> last st \<noteq> ''..'' then butlast st
         else if rooted then st else st @ [''..''])
      else st @ [c])"

definition path_Clean :: "string \<Rightarrow> string" where
  "path_Clean p =
     (if p = [] then ''.''
      else let rooted = (hd p = CHR ''/'');
               st = fold (clean_step rooted) (filter (\<lambda>c. c \<noteq> [] \<and> c \<noteq> ''.'') (Split (CHR ''/'') p)) [];
               out = (if rooted then ''/'' else []) @ Join_strings ''/'' st
           in if out = [] then ''.'' else out)"

text \<open>\<open>url.PathUnescape\<close>: \<open>None\<close> is its error, a percent sign without two hexadecimal digits.\<close>

fun PathUnescape :: "string \<Rightarrow> string option" where
  "PathUnescape [] = Some []"
| "PathUnescape (c # s) =
     (if c = CHR ''%'' then
        (case s of
           a # b # t \<Rightarrow>
             if is_hex a \<and> is_hex b
             then map_option (Cons (char_of (16 * hex_val a + hex_val b))) (PathUnescape t)
             else None
         | _ \<Rightarrow> None)
      else map_option (Cons c) (PathUnescape s))"

section \<open>textproto.CanonicalMIMEHeaderKey and http.Header\<close>

definition validHeaderFieldByte :: "char \<Rightarrow> bool" where
  "validHeaderFieldByte c =
     (is_digit c \<or> is_lower c \<or> is_upper c \<or>
      c \<in> set (CHR 0x60 # CHR 0x27 # ''!#$%&*+-.^_|~''))"

definition upper_byte :: "char \<Rightarrow> char" where
  "upper_byte c = (if is_lower c then char_of (code_of c - 32) else c)"

fun canonical_case :: "bool \<Rightarrow> string \<Rightarrow> string" where
  "canonical_case up [] = []"
| "canonical_case up (c # s) =
     (if up then upper_byte c else lower_byte c) # canonical_case (c = CHR ''-'') s"

definition CanonicalHeaderKey :: "string \<Rightarrow> string" where
  "CanonicalHeaderKey k = (if list_all validHeaderFieldByte k then canonical_case True k else k)"

text \<open>\<open>http.Header\<close> is a map from keys to value lists: an association list with distinct keys,
  in the order in which a \<open>range\<close> visits it.\<close>

type_synonym header = "(string \<times> string list) list"

definition Header_Del :: "header \<Rightarrow> string \<Rightarrow> header" where
  "Header_Del h k = filter (\<lambda>e. fst e \<noteq> CanonicalHeaderKey k) h"

definition Header_Set :: "header \<Rightarrow> string \<Rightarrow> string \<Rightarrow> header" where
  "Header_Set h k v = Header_Del h k @ [(CanonicalHeaderKey k, [v])]"

definition Header_Get :: "header \<Rightarrow> string \<Rightarrow> string" where
  "Header_Get h k =
     (case map_of h (CanonicalHeaderKey k) of Some (v # _) \<Rightarrow> v | _ \<Rightarrow> [])"

section \<open>A concrete instance of the library parameters\<close>

text \<open>
  ASCII-only string functions, a URL parser for plain \<open>https\<close> URLs, and identity encodings. It
  is the instance on which the conditional theorems are exercised.
\<close>

definition ascii_lib :: golib where
  "ascii_lib =
     \<lparr>uni_lower = map lower_byte,
      uni_quote = (\<lambda>s. [CHR 0x22] @ s @ [CHR 0x22]),
      url_Parse = (\<lambda>s. case CutPrefix s ''https://'' of
         None \<Rightarrow> Inl (Err ''parse'')
       | Some r \<Rightarrow> Inr \<lparr>Scheme = ''https'', User = None, Host = takeWhile (\<lambda>c. c \<noteq> CHR ''/'') r\<rparr>),
      base64_Encode = (\<lambda>s. s),
      base64_Decode = (\<lambda>s. Inr s),
      pem_Decode = (\<lambda>s. if s = [] then None else Some (''CERTIFICATE'', s)),
      x509_ParseCertificate = (\<lambda>s. Inr \<lparr>IsCA = True, KeyUsage = 32, PublicKey = EcdsaPublicKey ''P-256'' s\<rparr>),
      x509_ParseECPrivateKey = (\<lambda>s. Inr \<lparr>Curve = ''P-256'', Public = EcdsaPublicKey ''P-256'' s\<rparr>),
      x509_ParsePKCS8PrivateKey = (\<lambda>s. Inl (Err ''pkcs8'')),
      AppendCertsFromPEM = (\<lambda>s. s \<noteq> []),
      SystemCertPool = Inr True\<rparr>"

end
