(* ===== verification/PodSpec.thy ===== *)
theory PodSpec
  imports GoNet "HOL-Library.AList"
begin

text \<open>
  \<open>pkg/session/config.go\<close> and \<open>pkg/session/podspec.go\<close>: the labels, selectors and names of sandbox
  objects, the configuration of a sandbox and the pod built from it, shared by the MCP server and
  the operator's warm pool. \<open>cmd/server/flags.go\<close> and the checks of \<open>NewSessionManager\<close> decide which
  configurations exist.

  Kubernetes objects are records with the fields the program reads or writes. A Go map of strings is
  an association list with distinct keys, updated with \<^const>\<open>AList.update\<close>. Resource quantities are
  kept as text; the parser of quantities is the argument \<open>pq\<close>.
\<close>

section \<open>config.go\<close>

definition LabelSessionID :: string where "LabelSessionID = ''cli-mcp.redhat.com/session-id''"
definition LabelComponent :: string where "LabelComponent = ''cli-mcp.redhat.com/component''"
definition LabelInstance :: string where "LabelInstance = ''cli-mcp.redhat.com/instance''"
definition ComponentSandbox :: string where "ComponentSandbox = ''sandbox''"
definition ComponentServer :: string where "ComponentServer = ''server''"
definition ComponentProxy :: string where "ComponentProxy = ''proxy''"
definition ProxyListenPort :: int where "ProxyListenPort = 8080"
definition NoProxyValue :: string where "NoProxyValue = ''127.0.0.1,localhost,::1''"
definition SandboxLoopbackResolver :: string where "SandboxLoopbackResolver = ''127.0.0.1''"
definition ProxyCAFile :: string where "ProxyCAFile = ''/etc/cli-mcp/proxy-ca/ca.crt''"
definition KubeconfigPath :: string where "KubeconfigPath = ''/config/kubeconfig''"
definition AnnotationCreatedAt :: string where "AnnotationCreatedAt = ''cli-mcp.redhat.com/created-at''"
definition AnnotationLastActivity :: string where "AnnotationLastActivity = ''cli-mcp.redhat.com/last-activity''"
definition WaitingImagePullBackOff :: string where "WaitingImagePullBackOff = ''ImagePullBackOff''"
definition WaitingCrashLoopBackOff :: string where "WaitingCrashLoopBackOff = ''CrashLoopBackOff''"
definition WaitingErrImagePull :: string where "WaitingErrImagePull = ''ErrImagePull''"
definition authSecretNamePrefix :: string where "authSecretNamePrefix = ''cli-mcp-sandbox-auth-''"

lemmas label_defs = LabelSessionID_def LabelComponent_def LabelInstance_def ComponentSandbox_def
  ComponentServer_def ComponentProxy_def

definition reservedSandboxEnv :: "string list" where
  "reservedSandboxEnv =
     [''KUBECONFIG'', ''HOME'', ''SANDBOX_AUTH_TOKEN'', ''HTTP_PROXY'', ''HTTPS_PROXY'', ''NO_PROXY'',
      ''http_proxy'', ''https_proxy'', ''no_proxy'', ''SSL_CERT_FILE'', ''REQUESTS_CA_BUNDLE'']"

text \<open>Environment entries. The program builds one kind of reference, to a key of a Secret; other
  references come from user overlays and are passed on.\<close>

datatype env_source = SecretKeyRef string string | OtherSource string

record env_var =
  env_Name :: string
  env_Value :: string
  ValueFrom :: "env_source option"

record sandbox_config =
  Image :: string
  CPURequest :: string
  CPULimit :: string
  MemoryRequest :: string
  MemoryLimit :: string
  HMACKey :: string
  Namespace :: string
  InstanceName :: string
  ServiceAccountName :: string
  KubeconfigSecret :: string
  DummyKubeconfigConfigMap :: string
  ProxyService :: string
  ProxyClusterIP :: string
  ProxyCASecret :: string
  AgentPort :: int
  ImagePullPolicy :: string
  Env :: "env_var list"

definition DefaultConfig :: sandbox_config where
  "DefaultConfig =
     \<lparr>Image = [], CPURequest = ''100m'', CPULimit = ''500m'', MemoryRequest = ''128Mi'', MemoryLimit = ''512Mi'',
      HMACKey = [], Namespace = [], InstanceName = [], ServiceAccountName = [], KubeconfigSecret = [],
      DummyKubeconfigConfigMap = [], ProxyService = [], ProxyClusterIP = [], ProxyCASecret = [],
      AgentPort = 8090, ImagePullPolicy = [], Env = []\<rparr>"

definition SandboxSelector :: "string \<Rightarrow> string" where
  "SandboxSelector inst = LabelInstance @ ''='' @ inst @ '','' @ LabelComponent @ ''='' @ ComponentSandbox"

definition AssignedSelector :: "string \<Rightarrow> string \<Rightarrow> string" where
  "AssignedSelector inst sessionID = SandboxSelector inst @ '','' @ LabelSessionID @ ''='' @ sessionID"

definition AssignedAnySelector :: "string \<Rightarrow> string" where
  "AssignedAnySelector inst = SandboxSelector inst @ '','' @ LabelSessionID"

definition ServerSelector :: "string \<Rightarrow> string" where
  "ServerSelector inst = LabelInstance @ ''='' @ inst @ '','' @ LabelComponent @ ''='' @ ComponentServer"

definition AuthSecretName :: "string \<Rightarrow> string" where
  "AuthSecretName sessionID = authSecretNamePrefix @ sessionID"

definition UnassignedSelector :: "string \<Rightarrow> string" where
  "UnassignedSelector inst = SandboxSelector inst @ '',!'' @ LabelSessionID"

definition SandboxNetworkPolicyName :: "string \<Rightarrow> string" where
  "SandboxNetworkPolicyName inst = ''cli-mcp-'' @ inst @ ''-sandbox''"

section \<open>The objects\<close>

record volume_mount =
  vm_Name :: string
  MountPath :: string
  SubPath :: string
  ReadOnly :: bool

datatype volume_source =
    ConfigMapVolume string "(string \<times> string) list"
  | SecretVolume string "(string \<times> string) list"
  | EmptyDir

record volume =
  vol_Name :: string
  VolumeSource :: volume_source

record probe =
  ProbeCommand :: "string list"
  InitialDelaySeconds :: int
  TimeoutSeconds :: int
  PeriodSeconds :: int

record container =
  c_Name :: string
  c_Image :: string
  PullPolicy :: string
  Requests :: "(string \<times> string) list"
  Limits :: "(string \<times> string) list"
  ReadinessProbe :: probe
  AllowPrivilegeEscalation :: bool
  DropCapabilities :: "string list"
  c_Env :: "env_var list"
  VolumeMounts :: "volume_mount list"

record dns_config =
  Nameservers :: "string list"
  dns_Options :: "(string \<times> string) list"

record pod_spec =
  spec_ServiceAccountName :: string
  AutomountServiceAccountToken :: bool
  RunAsNonRoot :: bool
  SeccompProfile :: string
  Containers :: "container list"
  Volumes :: "volume list"
  DNSPolicy :: string
  DNSConfig :: "dns_config option"

record pod =
  pod_Name :: string
  pod_Namespace :: string
  Labels :: "(string \<times> string) list"
  Annotations :: "(string \<times> string) list"
  CreationTimestamp :: int
  DeletionTimestamp :: "int option"
  UID :: string
  ResourceVersion :: string
  OwnerUID :: "string option"
  Spec :: pod_spec
  Phase :: string
  PodIP :: string
  Conditions :: "(string \<times> string) list"
  WaitingReasons :: "string option list"

section \<open>podspec.go\<close>

definition ProxyURL :: "golib \<Rightarrow> string \<Rightarrow> string result" where
  "ProxyURL g clusterIP =
     (if ParseIP clusterIP = None then Inl (Err (''proxy cluster IP '' @ Quote g clusterIP @ '' is not an IP''))
      else Inr (''http://'' @ JoinHostPort clusterIP (Itoa ProxyListenPort)))"

definition sandboxDNS :: dns_config where
  "sandboxDNS =
     \<lparr>Nameservers = [SandboxLoopbackResolver], dns_Options = [(''timeout'', ''1''), (''attempts'', ''1'')]\<rparr>"

abbreviation plain_env :: "string \<Rightarrow> string \<Rightarrow> env_var" where
  "plain_env n v \<equiv> \<lparr>env_Name = n, env_Value = v, ValueFrom = None\<rparr>"

definition OperatorEnv :: "golib \<Rightarrow> sandbox_config \<Rightarrow> env_var list result" where
  "OperatorEnv g config =
     (let env1 = (if DummyKubeconfigConfigMap config \<noteq> [] \<or> KubeconfigSecret config \<noteq> []
                  then [plain_env ''KUBECONFIG'' KubeconfigPath] else []);
          env2 = env1 @ [plain_env ''HOME'' ''/workspace''];
          ca = (\<lambda>env. if ProxyCASecret config \<noteq> []
                  then env @ [plain_env ''SSL_CERT_FILE'' ProxyCAFile, plain_env ''REQUESTS_CA_BUNDLE'' ProxyCAFile]
                  else env)
      in if ProxyService config \<noteq> [] then
           (case ProxyURL g (ProxyClusterIP config) of
              Inl e \<Rightarrow> Inl (Wrap (''proxy service '' @ ProxyService config) e)
            | Inr proxyURL \<Rightarrow>
                Inr (ca (env2 @ map (\<lambda>name. plain_env name proxyURL)
                                 [''HTTP_PROXY'', ''HTTPS_PROXY'', ''http_proxy'', ''https_proxy'']
                              @ map (\<lambda>name. plain_env name NoProxyValue) [''NO_PROXY'', ''no_proxy''])))
         else Inr (ca env2))"

definition overlaySandboxEnv :: "golib \<Rightarrow> sandbox_config \<Rightarrow> env_var list result" where
  "overlaySandboxEnv g config =
     (case OperatorEnv g config of
        Inl e \<Rightarrow> Inl e
      | Inr env \<Rightarrow> Inr (env @ filter (\<lambda>e. env_Name e \<notin> set reservedSandboxEnv) (Env config)))"

definition sandboxMounts :: "sandbox_config \<Rightarrow> volume_mount list" where
  "sandboxMounts config =
     (if DummyKubeconfigConfigMap config \<noteq> []
      then [\<lparr>vm_Name = ''kubeconfig'', MountPath = KubeconfigPath, SubPath = ''kubeconfig'', ReadOnly = True\<rparr>]
      else if KubeconfigSecret config \<noteq> []
      then [\<lparr>vm_Name = ''kubeconfig'', MountPath = ''/config'', SubPath = [], ReadOnly = True\<rparr>]
      else []) @
     (if ProxyCASecret config \<noteq> []
      then [\<lparr>vm_Name = ''proxy-ca'', MountPath = ProxyCAFile, SubPath = ''ca.crt'', ReadOnly = True\<rparr>]
      else []) @
     [\<lparr>vm_Name = ''workspace'', MountPath = ''/workspace'', SubPath = [], ReadOnly = False\<rparr>]"

definition sandboxVolumes :: "sandbox_config \<Rightarrow> volume list" where
  "sandboxVolumes config =
     (if DummyKubeconfigConfigMap config \<noteq> []
      then [\<lparr>vol_Name = ''kubeconfig'',
             VolumeSource = ConfigMapVolume (DummyKubeconfigConfigMap config) [(''kubeconfig'', ''kubeconfig'')]\<rparr>]
      else if KubeconfigSecret config \<noteq> []
      then [\<lparr>vol_Name = ''kubeconfig'', VolumeSource = SecretVolume (KubeconfigSecret config) []\<rparr>]
      else []) @
     (if ProxyCASecret config \<noteq> []
      then [\<lparr>vol_Name = ''proxy-ca'', VolumeSource = SecretVolume (ProxyCASecret config) [(''ca.crt'', ''ca.crt'')]\<rparr>]
      else []) @
     [\<lparr>vol_Name = ''workspace'', VolumeSource = EmptyDir\<rparr>]"

text \<open>
  \<open>resource.MustParse\<close> panics on a text that is not a quantity. A panic is an error value here, so
  that the build has a result on every configuration; \<open>panics\<close> recognises it.
\<close>

definition MustParse :: "golib \<Rightarrow> (string \<Rightarrow> string result) \<Rightarrow> string \<Rightarrow> string result" where
  "MustParse g pq s =
     (case pq s of
        Inl e \<Rightarrow> Inl (Wrap (''panic: cannot parse '' @ Quote g s) e)
      | Inr q \<Rightarrow> Inr q)"

fun panics :: "go_error \<Rightarrow> bool" where
  "panics (Wrap m e) = HasPrefix m ''panic: ''"
| "panics _ = False"

definition resource_list :: "golib \<Rightarrow> (string \<Rightarrow> string result) \<Rightarrow> string \<Rightarrow> string \<Rightarrow> (string \<times> string) list result" where
  "resource_list g pq cpu mem =
     (case MustParse g pq cpu of Inl e \<Rightarrow> Inl e
      | Inr c \<Rightarrow> (case MustParse g pq mem of Inl e \<Rightarrow> Inl e
                  | Inr m \<Rightarrow> Inr [(''cpu'', c), (''memory'', m)]))"

definition sandbox_probe :: "int \<Rightarrow> probe" where
  "sandbox_probe agentPort =
     \<lparr>ProbeCommand = [''curl'', ''-fsS'', ''--max-time'', ''1'', ''http://127.0.0.1:'' @ Itoa agentPort @ ''/health''],
      InitialDelaySeconds = 2, TimeoutSeconds = 2, PeriodSeconds = 10\<rparr>"

text \<open>\<open>now\<close> is the current time in the RFC 3339 format.\<close>

definition BuildBasePodSpec :: "golib \<Rightarrow> (string \<Rightarrow> string result) \<Rightarrow> string \<Rightarrow> string \<Rightarrow> sandbox_config \<Rightarrow> pod result" where
  "BuildBasePodSpec g pq now name config =
     (let agentPort = cmp_Or_int (AgentPort config) (AgentPort DefaultConfig) in
      case overlaySandboxEnv g config of Inl e \<Rightarrow> Inl e
      | Inr env \<Rightarrow>
      case resource_list g pq (cmp_Or_string (CPURequest config) (CPURequest DefaultConfig))
             (cmp_Or_string (MemoryRequest config) (MemoryRequest DefaultConfig)) of Inl e \<Rightarrow> Inl e
      | Inr requests \<Rightarrow>
      case resource_list g pq (cmp_Or_string (CPULimit config) (CPULimit DefaultConfig))
             (cmp_Or_string (MemoryLimit config) (MemoryLimit DefaultConfig)) of Inl e \<Rightarrow> Inl e
      | Inr limits \<Rightarrow>
        let proxied = (ProxyService config \<noteq> []) in
        Inr \<lparr>pod_Name = name, pod_Namespace = Namespace config,
             Labels = [(LabelComponent, ComponentSandbox), (LabelInstance, InstanceName config)],
             Annotations = [(AnnotationCreatedAt, now), (AnnotationLastActivity, now)],
             CreationTimestamp = 0, DeletionTimestamp = None, UID = [], ResourceVersion = [], OwnerUID = None,
             Spec = \<lparr>spec_ServiceAccountName = ServiceAccountName config, AutomountServiceAccountToken = False,
               RunAsNonRoot = True, SeccompProfile = ''RuntimeDefault'',
               Containers = [\<lparr>c_Name = ''sandbox'', c_Image = Image config, PullPolicy = ImagePullPolicy config,
                 Requests = requests, Limits = limits, ReadinessProbe = sandbox_probe agentPort,
                 AllowPrivilegeEscalation = False, DropCapabilities = [''ALL''],
                 c_Env = env, VolumeMounts = sandboxMounts config\<rparr>],
               Volumes = sandboxVolumes config,
               DNSPolicy = (if proxied then ''None'' else []),
               DNSConfig = (if proxied then Some sandboxDNS else None)\<rparr>,
             Phase = [], PodIP = [], Conditions = [], WaitingReasons = []\<rparr>)"

section \<open>cmd/server/flags.go and the configurations a session manager accepts\<close>

record run_config =
  run_address :: string
  run_transport :: string
  run_stateless :: bool
  run_kubeconfig :: string
  run_hmacKeyFile :: string
  run_idleTimeout :: int
  run_warmPoolSize :: int
  sandboxImage :: string
  namespace :: string
  instanceName :: string
  proxyService :: string
  proxyCASecret :: string
  dummyKubeconfigConfigMap :: string
  proxyClusterIP :: string
  kubeconfigSecret :: string
  sandboxServiceAccount :: string
  cpuRequest :: string
  cpuLimit :: string
  memoryRequest :: string
  memoryLimit :: string
  imagePullPolicy :: string
  sandboxEnv :: string

definition parseQuantityFlag :: "golib \<Rightarrow> (string \<Rightarrow> string result) \<Rightarrow> string \<Rightarrow> string \<Rightarrow> string \<Rightarrow> string result" where
  "parseQuantityFlag g pq flag v fallback =
     (let value' = (if v = [] then fallback else v) in
      case pq value' of
        Inl e \<Rightarrow> Inl (Wrap (flag @ '': invalid quantity '' @ Quote g value') e)
      | Inr _ \<Rightarrow> Inr value')"

definition parseImagePullPolicy :: "string \<Rightarrow> string result" where
  "parseImagePullPolicy s =
     (if s \<in> {[], ''Always'', ''Never'', ''IfNotPresent''} then Inr s
      else Inl (Err ''--sandbox-image-pull-policy must be Always, Never, or IfNotPresent''))"

text \<open>\<open>unmarshal\<close> is the JSON decoder of a list of environment entries.\<close>

definition parseSandboxEnv :: "(string \<Rightarrow> env_var list result) \<Rightarrow> string \<Rightarrow> env_var list result" where
  "parseSandboxEnv unmarshal raw =
     (if TrimSpace raw = [] then Inr []
      else case unmarshal raw of
             Inl e \<Rightarrow> Inl (Wrap ''--sandbox-env must be JSON []corev1.EnvVar'' e)
           | Inr env \<Rightarrow> Inr env)"

definition check_flags :: "golib \<Rightarrow> run_config \<Rightarrow> unit result" where
  "check_flags g c =
     (let proxyMode = (proxyService c \<noteq> [] \<or> proxyCASecret c \<noteq> [] \<or> dummyKubeconfigConfigMap c \<noteq> [] \<or> proxyClusterIP c \<noteq> []) in
      if sandboxImage c = [] then Inl (Err ''--sandbox-image is required'')
      else if namespace c = [] then Inl (Err ''--namespace is required'')
      else if instanceName c = [] then Inl (Err ''--instance-name is required'')
      else if proxyMode \<and> (proxyService c = [] \<or> proxyCASecret c = [])
        then Inl (Err ''--proxy-service and --proxy-ca-secret are required together'')
      else if proxyMode \<and> isl (ProxyURL g (proxyClusterIP c))
        then Inl (Wrap ''--proxy-cluster-ip'' (projl (ProxyURL g (proxyClusterIP c))))
      else if proxyMode \<and> kubeconfigSecret c \<noteq> []
        then Inl (Err ''--kubeconfig-secret must be empty when proxy flags are set'')
      else if \<not> proxyMode \<and> kubeconfigSecret c = [] then Inl (Err ''--kubeconfig-secret is required'')
      else if sandboxServiceAccount c = [] then Inl (Err ''--sandbox-service-account is required'')
      else Inr ())"

definition buildSandboxConfig :: "golib \<Rightarrow> (string \<Rightarrow> string result) \<Rightarrow> (string \<Rightarrow> env_var list result) \<Rightarrow>
    run_config \<Rightarrow> string \<Rightarrow> sandbox_config result" where
  "buildSandboxConfig g pq unmarshal c hmacKey =
     (case check_flags g c of Inl e \<Rightarrow> Inl e | Inr _ \<Rightarrow>
      case parseQuantityFlag g pq ''--sandbox-cpu-request'' (cpuRequest c) (CPURequest DefaultConfig) of Inl e \<Rightarrow> Inl e | Inr cpuReq \<Rightarrow>
      case parseQuantityFlag g pq ''--sandbox-cpu-limit'' (cpuLimit c) (CPULimit DefaultConfig) of Inl e \<Rightarrow> Inl e | Inr cpuLim \<Rightarrow>
      case parseQuantityFlag g pq ''--sandbox-memory-request'' (memoryRequest c) (MemoryRequest DefaultConfig) of Inl e \<Rightarrow> Inl e | Inr memReq \<Rightarrow>
      case parseQuantityFlag g pq ''--sandbox-memory-limit'' (memoryLimit c) (MemoryLimit DefaultConfig) of Inl e \<Rightarrow> Inl e | Inr memLim \<Rightarrow>
      case parseImagePullPolicy (imagePullPolicy c) of Inl e \<Rightarrow> Inl e | Inr pullPolicy \<Rightarrow>
      case parseSandboxEnv unmarshal (sandboxEnv c) of Inl e \<Rightarrow> Inl e | Inr env \<Rightarrow>
        Inr \<lparr>Image = sandboxImage c, CPURequest = cpuReq, CPULimit = cpuLim, MemoryRequest = memReq, MemoryLimit = memLim,
             HMACKey = hmacKey, Namespace = namespace c, InstanceName = instanceName c,
             ServiceAccountName = sandboxServiceAccount c, KubeconfigSecret = kubeconfigSecret c,
             DummyKubeconfigConfigMap = dummyKubeconfigConfigMap c, ProxyService = proxyService c,
             ProxyClusterIP = proxyClusterIP c, ProxyCASecret = proxyCASecret c,
             AgentPort = AgentPort DefaultConfig, ImagePullPolicy = pullPolicy, Env = env\<rparr>)"

definition loadHMACKey :: "(string \<Rightarrow> string result) \<Rightarrow> string \<Rightarrow> string result" where
  "loadHMACKey read_file path =
     (if path = [] then Inl (Err ''--hmac-key-file is required'')
      else case read_file path of
             Inl e \<Rightarrow> Inl (Wrap ''failed to read HMAC key file'' e)
           | Inr data \<Rightarrow>
               let key = TrimSpace data in
               if key = [] then Inl (Err (''HMAC key file is empty or whitespace-only: '' @ path)) else Inr key)"

text \<open>The checks of \<open>NewSessionManager\<close>.\<close>

definition validateSandboxIdentity :: "sandbox_config \<Rightarrow> unit result" where
  "validateSandboxIdentity config =
     (if ProxyService config \<noteq> [] \<or> ProxyCASecret config \<noteq> [] \<or> DummyKubeconfigConfigMap config \<noteq> [] then
        (if ProxyService config = [] \<or> ProxyCASecret config = []
           then Inl (Err ''SandboxConfig.ProxyService and ProxyCASecret are required together'')
         else if KubeconfigSecret config \<noteq> []
           then Inl (Err ''SandboxConfig.KubeconfigSecret must be empty when proxy flags are set'')
         else Inr ())
      else if KubeconfigSecret config = [] then Inl (Err ''SandboxConfig.KubeconfigSecret must not be empty'')
      else Inr ())"

definition check_config :: "sandbox_config \<Rightarrow> unit result" where
  "check_config config =
     (if HMACKey config = [] then Inl (Err ''SandboxConfig.HMACKey must not be empty'')
      else if Image config = [] then Inl (Err ''SandboxConfig.Image must not be empty'')
      else if InstanceName config = [] then Inl (Err ''SandboxConfig.InstanceName must not be empty'')
      else if Namespace config = [] then Inl (Err ''SandboxConfig.Namespace must not be empty'')
      else if ServiceAccountName config = [] then Inl (Err ''SandboxConfig.ServiceAccountName must not be empty'')
      else validateSandboxIdentity config)"

section \<open>What a sandbox pod gets\<close>

text \<open>Entries with a reserved name come from the operator, one per name, whatever the overlay holds.\<close>

definition proxy_vars :: "string list" where
  "proxy_vars = [''HTTP_PROXY'', ''HTTPS_PROXY'', ''http_proxy'', ''https_proxy'']"

lemma OperatorEnv_Inr:
  assumes "OperatorEnv g config = Inr op" "ProxyService config \<noteq> []"
  obtains u kube ca where
    "op = kube @ [plain_env ''HOME'' ''/workspace''] @ map (\<lambda>n. plain_env n u) proxy_vars @
       map (\<lambda>n. plain_env n NoProxyValue) [''NO_PROXY'', ''no_proxy''] @ ca"
    "kube = [] \<or> kube = [plain_env ''KUBECONFIG'' KubeconfigPath]"
    "ca = [] \<or> ca = [plain_env ''SSL_CERT_FILE'' ProxyCAFile, plain_env ''REQUESTS_CA_BUNDLE'' ProxyCAFile]"
    "ProxyURL g (ProxyClusterIP config) = Inr u"
proof -
  from assms obtain u where u: "ProxyURL g (ProxyClusterIP config) = Inr u"
    unfolding OperatorEnv_def Let_def by (cases "ProxyURL g (ProxyClusterIP config)") auto
  define kube where "kube = (if DummyKubeconfigConfigMap config \<noteq> [] \<or> KubeconfigSecret config \<noteq> []
    then [plain_env ''KUBECONFIG'' KubeconfigPath] else [])"
  define ca where "ca = (if ProxyCASecret config \<noteq> []
    then [plain_env ''SSL_CERT_FILE'' ProxyCAFile, plain_env ''REQUESTS_CA_BUNDLE'' ProxyCAFile] else [])"
  have if_append: "(if b then xs @ ys else xs) = xs @ (if b then ys else [])" for b and xs ys :: "env_var list"
    by simp
  from assms(1) have "op = kube @ [plain_env ''HOME'' ''/workspace''] @ map (\<lambda>n. plain_env n u) proxy_vars @
       map (\<lambda>n. plain_env n NoProxyValue) [''NO_PROXY'', ''no_proxy''] @ ca"
    unfolding OperatorEnv_def Let_def u sum.case if_P [OF assms(2)] if_append
    unfolding kube_def [symmetric] ca_def [symmetric] proxy_vars_def by (simp only: sum.inject append_assoc)
  then show thesis by (rule that [OF _ _ _ u]) (simp_all add: kube_def ca_def)
qed

lemma OperatorEnv_proxy_value:
  assumes "OperatorEnv g config = Inr op" "ProxyService config \<noteq> []" "n \<in> set proxy_vars"
  shows "\<exists>u. map env_Value (filter (\<lambda>e. env_Name e = n) op) = [u] \<and> ProxyURL g (ProxyClusterIP config) = Inr u"
  using assms(1,2)
proof (rule OperatorEnv_Inr)
  fix u kube ca
  assume op: "op = kube @ [plain_env ''HOME'' ''/workspace''] @ map (\<lambda>n. plain_env n u) proxy_vars @
       map (\<lambda>n. plain_env n NoProxyValue) [''NO_PROXY'', ''no_proxy''] @ ca"
    and kube: "kube = [] \<or> kube = [plain_env ''KUBECONFIG'' KubeconfigPath]"
    and ca: "ca = [] \<or> ca = [plain_env ''SSL_CERT_FILE'' ProxyCAFile, plain_env ''REQUESTS_CA_BUNDLE'' ProxyCAFile]"
    and u: "ProxyURL g (ProxyClusterIP config) = Inr u"
  from assms(3) consider "n = ''HTTP_PROXY''" | "n = ''HTTPS_PROXY''" | "n = ''http_proxy''" | "n = ''https_proxy''"
    by (auto simp: proxy_vars_def)
  moreover have "filter (\<lambda>e. env_Name e = n) kube = []" "filter (\<lambda>e. env_Name e = n) ca = []"
    using kube ca assms(3) by (auto simp: proxy_vars_def)
  ultimately have "map env_Value (filter (\<lambda>e. env_Name e = n) op) = [u]"
    by cases (simp_all add: op proxy_vars_def)
  with u show ?thesis by (intro exI conjI)
qed

lemma overlay_reserved:
  assumes "overlaySandboxEnv g config = Inr env" "n \<in> set reservedSandboxEnv"
  obtains op where "OperatorEnv g config = Inr op" "filter (\<lambda>e. env_Name e = n) env = filter (\<lambda>e. env_Name e = n) op"
proof -
  from assms(1) obtain op where op: "OperatorEnv g config = Inr op"
    and env: "env = op @ filter (\<lambda>e. env_Name e \<notin> set reservedSandboxEnv) (Env config)"
    by (auto simp: overlaySandboxEnv_def split: sum.splits)
  from assms(2) have none: "filter (\<lambda>e. env_Name e = n) (filter (\<lambda>e. env_Name e \<notin> set reservedSandboxEnv) (Env config)) = []"
    by (auto simp: filter_empty_conv)
  show thesis by (rule that [OF op]) (simp only: env filter_append none append_Nil2)
qed

lemma BuildBasePodSpec_Inr:
  assumes "BuildBasePodSpec g pq now name config = Inr p"
  obtains env reqs lims where "overlaySandboxEnv g config = Inr env"
    "map c_Env (Containers (Spec p)) = [env]" "map VolumeMounts (Containers (Spec p)) = [sandboxMounts config]"
    "Volumes (Spec p) = sandboxVolumes config"
    "Labels p = [(LabelComponent, ComponentSandbox), (LabelInstance, InstanceName config)]"
    "DNSPolicy (Spec p) = (if ProxyService config \<noteq> [] then ''None'' else [])"
    "DNSConfig (Spec p) = (if ProxyService config \<noteq> [] then Some sandboxDNS else None)"
    "pod_Name p = name" "pod_Namespace p = Namespace config" "PodIP p = []"
  using assms by (auto simp: BuildBasePodSpec_def Let_def split: sum.splits)

lemma mounts_match_volumes: "map vm_Name (sandboxMounts config) = map vol_Name (sandboxVolumes config)"
  by (simp add: sandboxMounts_def sandboxVolumes_def)

lemma mounts_distinct: "distinct (map vm_Name (sandboxMounts config)) \<and> distinct (map MountPath (sandboxMounts config))"
  by (simp add: sandboxMounts_def KubeconfigPath_def ProxyCAFile_def)

text \<open>The Secrets a pod mounts.\<close>

definition mounted_secrets :: "pod \<Rightarrow> string set" where
  "mounted_secrets p = {n. \<exists>v items. v \<in> set (Volumes (Spec p)) \<and> VolumeSource v = SecretVolume n items}"

lemma volumes_secrets:
  "v \<in> set (sandboxVolumes config) \<Longrightarrow> VolumeSource v = SecretVolume n items \<Longrightarrow>
     n = ProxyCASecret config \<and> n \<noteq> [] \<and> items = [(''ca.crt'', ''ca.crt'')] \<or>
     n = KubeconfigSecret config \<and> n \<noteq> [] \<and> DummyKubeconfigConfigMap config = []"
  by (auto simp: sandboxVolumes_def split: if_splits)

lemma check_config_proxy:
  assumes "check_config config = Inr ()" "ProxyService config \<noteq> []"
  shows "KubeconfigSecret config = [] \<and> ProxyCASecret config \<noteq> []"
proof -
  from assms(1) have "validateSandboxIdentity config = Inr ()"
    unfolding check_config_def by (metis Inl_Inr_False)
  with assms(2) show ?thesis unfolding validateSandboxIdentity_def by (metis Inl_Inr_False)
qed

lemma mounted_secretsI: "v \<in> set (Volumes (Spec p)) \<Longrightarrow> VolumeSource v = SecretVolume n items \<Longrightarrow> n \<in> mounted_secrets p"
  unfolding mounted_secrets_def by blast

lemma mounted_secretsE:
  assumes "n \<in> mounted_secrets p"
  obtains v items where "v \<in> set (Volumes (Spec p))" "VolumeSource v = SecretVolume n items"
  using assms unfolding mounted_secrets_def by blast

lemma proxy_secrets:
  assumes "KubeconfigSecret config = []" "ProxyCASecret config \<noteq> []" "Volumes (Spec p) = sandboxVolumes config"
  shows "mounted_secrets p = {ProxyCASecret config}"
proof (intro set_eqI iffI)
  fix n
  assume "n \<in> mounted_secrets p"
  then obtain v items where "v \<in> set (sandboxVolumes config)" "VolumeSource v = SecretVolume n items"
    unfolding assms(3) [symmetric] by (rule mounted_secretsE)
  from volumes_secrets [OF this] assms(1) show "n \<in> {ProxyCASecret config}" by blast
next
  fix n
  assume "n \<in> {ProxyCASecret config}"
  then have n: "n = ProxyCASecret config" by simp
  have "\<lparr>vol_Name = ''proxy-ca'', VolumeSource = SecretVolume (ProxyCASecret config) [(''ca.crt'', ''ca.crt'')]\<rparr>
      \<in> set (Volumes (Spec p))"
    using assms(2) by (simp add: assms(3) sandboxVolumes_def)
  then show "n \<in> mounted_secrets p" unfolding n by (rule mounted_secretsI) (rule volume.select_convs(2))
qed

definition reserved_values :: "pod \<Rightarrow> string \<Rightarrow> string list" where
  "reserved_values p n = map env_Value (filter (\<lambda>e. env_Name e = n) (concat (map c_Env (Containers (Spec p)))))"


definition demo_pq :: "string \<Rightarrow> string result" where
  "demo_pq s = (if s \<noteq> [] \<and> is_digit (hd s) then Inr s else Inl (Err ''quantities must match the regular expression''))"

definition demo_flags :: run_config where
  "demo_flags =
     \<lparr>run_address = ''127.0.0.1:8080'', run_transport = ''http'', run_stateless = True, run_kubeconfig = [],
      run_hmacKeyFile = ''/key'', run_idleTimeout = 60000000000, run_warmPoolSize = 2,
      sandboxImage = ''sandbox:1'', namespace = ''ns'', instanceName = ''a'', proxyService = ''cli-mcp-a-proxy'',
      proxyCASecret = ''a-ca'', dummyKubeconfigConfigMap = ''a-kube'', proxyClusterIP = ''10.0.0.7'',
      kubeconfigSecret = [], sandboxServiceAccount = ''sa'', cpuRequest = [], cpuLimit = ''2'',
      memoryRequest = [], memoryLimit = [], imagePullPolicy = ''Always'', sandboxEnv = ''[]''\<rparr>"

definition demo_overlay :: "env_var list" where
  "demo_overlay = [plain_env ''HTTPS_PROXY'' ''http://evil'', plain_env ''LANG'' ''C'']"

definition demo_config :: sandbox_config where
  "demo_config =
     \<lparr>Image = ''sandbox:1'', CPURequest = ''100m'', CPULimit = ''2'', MemoryRequest = ''128Mi'', MemoryLimit = ''512Mi'',
      HMACKey = ''k'', Namespace = ''ns'', InstanceName = ''a'', ServiceAccountName = ''sa'', KubeconfigSecret = [],
      DummyKubeconfigConfigMap = ''a-kube'', ProxyService = ''cli-mcp-a-proxy'', ProxyClusterIP = ''10.0.0.7'',
      ProxyCASecret = ''a-ca'', AgentPort = 8090, ImagePullPolicy = ''Always'', Env = demo_overlay\<rparr>"

section \<open>Which configurations give a pod\<close>

lemma resource_list_Inr: "(\<exists>r. resource_list g pq c m = Inr r) \<longleftrightarrow> isr (pq c) \<and> isr (pq m)"
  by (auto simp: resource_list_def MustParse_def isr_iff split: sum.splits)

lemma ProxyURL_Inr: "(\<exists>u. ProxyURL g ip = Inr u) \<longleftrightarrow> ParseIP ip \<noteq> None"
  by (simp add: ProxyURL_def)

lemma overlay_Inr: "(\<exists>env. overlaySandboxEnv g config = Inr env) \<longleftrightarrow> ProxyService config = [] \<or> ParseIP (ProxyClusterIP config) \<noteq> None"
  unfolding ProxyURL_Inr [of g, symmetric]
  by (auto simp: overlaySandboxEnv_def OperatorEnv_def Let_def split: sum.splits)

definition effective_quantities :: "sandbox_config \<Rightarrow> string list" where
  "effective_quantities config =
     [cmp_Or_string (CPURequest config) (CPURequest DefaultConfig), cmp_Or_string (MemoryRequest config) (MemoryRequest DefaultConfig),
      cmp_Or_string (CPULimit config) (CPULimit DefaultConfig), cmp_Or_string (MemoryLimit config) (MemoryLimit DefaultConfig)]"

lemma build_pod_iff:
  "(\<exists>p. BuildBasePodSpec g pq now name config = Inr p) \<longleftrightarrow>
     (ProxyService config = [] \<or> ParseIP (ProxyClusterIP config) \<noteq> None) \<and>
     list_all (\<lambda>q. isr (pq q)) (effective_quantities config)"
  (is "?l \<longleftrightarrow> ?r")
proof
  assume ?l
  then obtain env r1 r2 where "overlaySandboxEnv g config = Inr env"
    "resource_list g pq (cmp_Or_string (CPURequest config) (CPURequest DefaultConfig))
       (cmp_Or_string (MemoryRequest config) (MemoryRequest DefaultConfig)) = Inr r1"
    "resource_list g pq (cmp_Or_string (CPULimit config) (CPULimit DefaultConfig))
       (cmp_Or_string (MemoryLimit config) (MemoryLimit DefaultConfig)) = Inr r2"
    unfolding BuildBasePodSpec_def Let_def by (auto split: sum.splits)
  then show ?r
    using overlay_Inr [of g config] resource_list_Inr [of g pq] by (auto simp: effective_quantities_def)
next
  assume r: ?r
  then obtain env where "overlaySandboxEnv g config = Inr env" using overlay_Inr [of g config] by blast
  moreover from r obtain r1 where "resource_list g pq (cmp_Or_string (CPURequest config) (CPURequest DefaultConfig))
       (cmp_Or_string (MemoryRequest config) (MemoryRequest DefaultConfig)) = Inr r1"
    using resource_list_Inr [of g pq] unfolding effective_quantities_def list.pred_inject by blast
  moreover from r obtain r2 where "resource_list g pq (cmp_Or_string (CPULimit config) (CPULimit DefaultConfig))
       (cmp_Or_string (MemoryLimit config) (MemoryLimit DefaultConfig)) = Inr r2"
    using resource_list_Inr [of g pq] unfolding effective_quantities_def list.pred_inject by blast
  ultimately show ?l unfolding BuildBasePodSpec_def Let_def by simp
qed

lemma parseQuantityFlag_Inr:
  assumes "parseQuantityFlag g pq flag v fallback = Inr q" "fallback \<noteq> []"
  shows "q \<noteq> []" "isr (pq q)"
  using assms by (auto simp: parseQuantityFlag_def Let_def isr_iff split: sum.splits if_splits)

lemma check_flags_Inr:
  assumes "check_flags g c = Inr ()"
  shows "sandboxImage c \<noteq> [] \<and> namespace c \<noteq> [] \<and> instanceName c \<noteq> [] \<and> sandboxServiceAccount c \<noteq> []"
    and "proxyService c \<noteq> [] \<longleftrightarrow> proxyCASecret c \<noteq> []"
    and "dummyKubeconfigConfigMap c \<noteq> [] \<Longrightarrow> proxyService c \<noteq> []"
    and "proxyService c \<noteq> [] \<Longrightarrow> kubeconfigSecret c = [] \<and> ParseIP (proxyClusterIP c) \<noteq> None"
    and "proxyService c = [] \<Longrightarrow> kubeconfigSecret c \<noteq> []"
  using assms unfolding check_flags_def Let_def
  by (auto simp: ProxyURL_def split: if_split_asm)

lemma buildSandboxConfig_Inr:
  assumes "buildSandboxConfig g pq um c key = Inr config"
  obtains "check_flags g c = Inr ()" "list_all (\<lambda>q. q \<noteq> [] \<and> isr (pq q)) [CPURequest config, MemoryRequest config, CPULimit config, MemoryLimit config]"
    "Image config = sandboxImage c" "HMACKey config = key" "Namespace config = namespace c" "InstanceName config = instanceName c"
    "ServiceAccountName config = sandboxServiceAccount c" "KubeconfigSecret config = kubeconfigSecret c"
    "DummyKubeconfigConfigMap config = dummyKubeconfigConfigMap c" "ProxyService config = proxyService c"
    "ProxyClusterIP config = proxyClusterIP c" "ProxyCASecret config = proxyCASecret c"
proof -
  have d: "CPURequest DefaultConfig \<noteq> []" "CPULimit DefaultConfig \<noteq> []" "MemoryRequest DefaultConfig \<noteq> []" "MemoryLimit DefaultConfig \<noteq> []"
    by (simp_all add: DefaultConfig_def)
  show thesis
    using assms parseQuantityFlag_Inr [OF _ d(1)] parseQuantityFlag_Inr [OF _ d(2)] parseQuantityFlag_Inr [OF _ d(3)]
      parseQuantityFlag_Inr [OF _ d(4)]
    unfolding buildSandboxConfig_def by (intro that) (auto split: sum.splits)
qed

text \<open>
  C36. The flags of the server are checked once and for all. A pod can be built exactly when the proxy
  address is an IP (in proxy mode) and the four quantities parse, so \<open>resource.MustParse\<close> panics only on an unchecked
  configuration; and every configuration made from accepted flags and a nonempty key is accepted by the session manager
  and can be built into a pod.
\<close>

theorem flags_give_buildable_pods:
  assumes "buildSandboxConfig g pq um c key = Inr config" "key \<noteq> []"
  shows "check_config config = Inr () \<and> (\<exists>p. BuildBasePodSpec g pq now name config = Inr p)"
  using assms(1)
proof (rule buildSandboxConfig_Inr)
  assume a: "check_flags g c = Inr ()" "list_all (\<lambda>q. q \<noteq> [] \<and> isr (pq q)) [CPURequest config, MemoryRequest config, CPULimit config, MemoryLimit config]"
    and f: "Image config = sandboxImage c" "HMACKey config = key" "Namespace config = namespace c" "InstanceName config = instanceName c"
    "ServiceAccountName config = sandboxServiceAccount c" "KubeconfigSecret config = kubeconfigSecret c"
    "DummyKubeconfigConfigMap config = dummyKubeconfigConfigMap c" "ProxyService config = proxyService c"
    "ProxyClusterIP config = proxyClusterIP c" "ProxyCASecret config = proxyCASecret c"
  note flags = check_flags_Inr [OF a(1)]
  have "check_config config = Inr ()"
    unfolding check_config_def validateSandboxIdentity_def f using flags assms(2) by auto
  moreover have "list_all (\<lambda>q. isr (pq q)) (effective_quantities config)"
    using a(2) by (simp add: effective_quantities_def cmp_Or_string_def)
  moreover have "ProxyService config = [] \<or> ParseIP (ProxyClusterIP config) \<noteq> None"
    unfolding f using flags(4) by blast
  ultimately show ?thesis unfolding build_pod_iff by blast
qed

lemma demo_ip: "ParseIP ''10.0.0.7'' \<noteq> None"
  by code_simp

lemma demo_url: "ProxyURL g ''10.0.0.7'' = Inr ''http://10.0.0.7:8080''"
proof -
  have "char_of (48 :: nat) = CHR ''0''" "char_of (56 :: nat) = CHR ''8''" by code_simp+
  with demo_ip show ?thesis
    by (simp add: ProxyURL_def JoinHostPort_def ProxyListenPort_def Itoa_def nat_digits.simps)
qed

lemma demo_quantities:
  "demo_pq ''100m'' = Inr ''100m''" "demo_pq ''2'' = Inr ''2''" "demo_pq ''128Mi'' = Inr ''128Mi''" "demo_pq ''512Mi'' = Inr ''512Mi''"
  by (simp_all add: demo_pq_def is_digit_def)

lemma demo_flags_ok: "check_flags g demo_flags = Inr ()"
  by (simp add: check_flags_def demo_flags_def demo_url)

lemma demo_config_built: "buildSandboxConfig ascii_lib demo_pq (\<lambda>_. Inr demo_overlay) demo_flags ''k'' = Inr demo_config"
proof -
  have "TrimSpace ''[]'' \<noteq> []" by code_simp
  then show ?thesis
    unfolding buildSandboxConfig_def demo_flags_ok
    by (simp add: demo_flags_def demo_config_def parseQuantityFlag_def DefaultConfig_def demo_quantities
        parseImagePullPolicy_def parseSandboxEnv_def)
qed

lemma demo_config_ok: "check_config demo_config = Inr ()"
  by (simp add: check_config_def validateSandboxIdentity_def demo_config_def)

lemma demo_pod_built: "isr (BuildBasePodSpec g demo_pq now name demo_config)"
  unfolding isr_iff build_pod_iff
  by (simp add: effective_quantities_def demo_config_def demo_ip cmp_Or_string_def demo_quantities)

theorem flags_give_buildable_pods_witness:
  "check_config demo_config = Inr () \<and> (\<exists>p. BuildBasePodSpec ascii_lib demo_pq [] ''p'' demo_config = Inr p)"
  by (rule flags_give_buildable_pods [OF demo_config_built]) simp


end
