(* ===== verification/PodCache.thy ===== *)
theory PodCache
  imports Prelude "HOL-Library.AList"
begin

text \<open>
  \<open>pkg/session/cache.go\<close>: the session cache of the MCP server. The operations take the current time as an
  argument. The locale \<open>timed_store\<close> states what a client may rely on; a history of operations is
  then answered like a plain reading of the history, and the cache is an interpretation.
\<close>

section \<open>cache.go\<close>

record pod_entry =
  entry_IP :: string
  entry_Name :: string
  expiresAt :: int

record pod_cache =
  entries :: "(string \<times> pod_entry) list"
  ttl :: int

definition defaultCacheTTL :: int where "defaultCacheTTL = 30 * 1000000000"

definition NewPodCache :: "int \<Rightarrow> pod_cache" where
  "NewPodCache d = \<lparr>entries = [], ttl = (if d \<le> 0 then defaultCacheTTL else d)\<rparr>"

definition cache_Get :: "int \<Rightarrow> string \<Rightarrow> pod_cache \<Rightarrow> (string \<times> string) option \<times> pod_cache" where
  "cache_Get now sessionID c =
     (case map_of (entries c) sessionID of
        None \<Rightarrow> (None, c)
      | Some e \<Rightarrow>
          if now > expiresAt e then (None, c\<lparr>entries := AList.delete sessionID (entries c)\<rparr>)
          else (Some (entry_IP e, entry_Name e), c))"

definition cache_Set :: "int \<Rightarrow> string \<Rightarrow> string \<Rightarrow> string \<Rightarrow> pod_cache \<Rightarrow> pod_cache" where
  "cache_Set now sessionID ip name c =
     c\<lparr>entries := AList.update sessionID \<lparr>entry_IP = ip, entry_Name = name, expiresAt = now + ttl c\<rparr> (entries c)\<rparr>"

definition cache_Delete :: "string \<Rightarrow> pod_cache \<Rightarrow> pod_cache" where
  "cache_Delete sessionID c = c\<lparr>entries := AList.delete sessionID (entries c)\<rparr>"

definition cache_Invalidate :: "string \<Rightarrow> string \<Rightarrow> pod_cache \<Rightarrow> pod_cache" where
  "cache_Invalidate sessionID ip c =
     (case map_of (entries c) sessionID of
        Some e \<Rightarrow> if entry_IP e = ip then c\<lparr>entries := AList.delete sessionID (entries c)\<rparr> else c
      | None \<Rightarrow> c)"

definition EvictExpired :: "int \<Rightarrow> pod_cache \<Rightarrow> nat \<times> pod_cache" where
  "EvictExpired now c =
     (length (filter (\<lambda>(sid, e). now > expiresAt e) (entries c)),
      c\<lparr>entries := filter (\<lambda>(sid, e). \<not> now > expiresAt e) (entries c)\<rparr>)"

definition Len :: "pod_cache \<Rightarrow> nat" where "Len c = length (entries c)"

section \<open>The contract\<close>

datatype cache_op =
    OpGet string
  | OpSet string string string
  | OpDelete string
  | OpInvalidate string string
  | OpEvict

text \<open>
  A store of entries that expire. \<open>raw\<close> is the stored entry, with the time after which it is gone;
  dropping an entry that has expired is never visible.
\<close>

locale timed_store =
  fixes raw :: "'s \<Rightarrow> string \<Rightarrow> ((string \<times> string) \<times> int) option"
    and step :: "int \<Rightarrow> cache_op \<Rightarrow> 's \<Rightarrow> 's"
    and life :: "'s \<Rightarrow> int"
    and ok :: "'s \<Rightarrow> bool"
  assumes step_set: "ok s \<Longrightarrow> raw (step now (OpSet k ip n) s) k' = (if k' = k then Some ((ip, n), now + life s) else raw s k')"
    and step_delete: "ok s \<Longrightarrow> raw (step now (OpDelete k) s) k' = (if k' = k then None else raw s k')"
    and step_invalidate: "ok s \<Longrightarrow> raw (step now (OpInvalidate k ip) s) k' =
      (if k' = k then (case raw s k of Some ((ip', n), t) \<Rightarrow> if ip' = ip then None else raw s k | None \<Rightarrow> None) else raw s k')"
    and step_get: "ok s \<Longrightarrow> raw (step now (OpGet k) s) k' = raw s k' \<or>
      (raw (step now (OpGet k) s) k' = None \<and> (\<exists>v t. raw s k' = Some (v, t) \<and> t < now))"
    and step_evict: "ok s \<Longrightarrow> raw (step now OpEvict s) k' = raw s k' \<or>
      (raw (step now OpEvict s) k' = None \<and> (\<exists>v t. raw s k' = Some (v, t) \<and> t < now))"
    and step_life: "ok s \<Longrightarrow> life (step now oper s) = life s"
    and step_ok: "ok s \<Longrightarrow> ok (step now oper s)"
begin

definition view :: "int \<Rightarrow> 's \<Rightarrow> string \<Rightarrow> (string \<times> string) option" where
  "view now s k = (case raw s k of Some (v, t) \<Rightarrow> if now > t then None else Some v | None \<Rightarrow> None)"

primrec run :: "(int \<times> cache_op) list \<Rightarrow> 's \<Rightarrow> 's" where
  "run [] s = s"
| "run (e # es) s = run es (step (fst e) (snd e) s)"

lemma run_append: "run (es @ fs) s = run fs (run es s)"
  by (induction es arbitrary: s) simp_all

lemma ok_run: "ok s \<Longrightarrow> ok (run es s)"
  by (induction es arbitrary: s) (simp_all add: step_ok)

lemma life_run: "ok s \<Longrightarrow> life (run es s) = life s"
  by (induction es arbitrary: s) (simp_all add: step_life step_ok)

lemma view_set: "ok s \<Longrightarrow> view t (step now (OpSet k ip n) s) k' =
  (if k' = k then (if t > now + life s then None else Some (ip, n)) else view t s k')"
  by (simp add: view_def step_set)

lemma view_delete: "ok s \<Longrightarrow> view t (step now (OpDelete k) s) k' = (if k' = k then None else view t s k')"
  by (simp add: view_def step_delete)

lemma view_invalidate: "ok s \<Longrightarrow> view t (step now (OpInvalidate k ip) s) k' =
  (if k' = k \<and> (\<exists>n. view t s k = Some (ip, n)) then None else view t s k')"
  by (auto simp: view_def step_invalidate split: option.splits)

lemma view_get: "ok s \<Longrightarrow> now \<le> t \<Longrightarrow> view t (step now (OpGet k) s) k' = view t s k'"
  using step_get [of s now k k'] by (auto simp: view_def)

lemma view_evict: "ok s \<Longrightarrow> now \<le> t \<Longrightarrow> view t (step now OpEvict s) k' = view t s k'"
  using step_evict [of s now k'] by (auto simp: view_def)

end

text \<open>The reading of a history, latest operation first: what a lookup at \<open>t\<close> returns.\<close>

fun answer :: "int \<Rightarrow> int \<Rightarrow> string \<Rightarrow> (int \<times> cache_op) list \<Rightarrow> (string \<times> string) option" where
  "answer d t k [] = None"
| "answer d t k ((now, OpSet k' ip n) # h) =
     (if k' = k then (if t > now + d then None else Some (ip, n)) else answer d t k h)"
| "answer d t k ((now, OpDelete k') # h) = (if k' = k then None else answer d t k h)"
| "answer d t k ((now, OpInvalidate k' ip) # h) =
     (case answer d t k h of
        Some (ip', n) \<Rightarrow> if k' = k \<and> ip' = ip then None else Some (ip', n)
      | None \<Rightarrow> None)"
| "answer d t k ((now, OpGet k') # h) = answer d t k h"
| "answer d t k ((now, OpEvict) # h) = answer d t k h"

lemma answer_origin:
  "answer d t k h = Some (ip, n) \<Longrightarrow> \<exists>now. (now, OpSet k ip n) \<in> set h \<and> t \<le> now + d"
  by (induction d t k h rule: answer.induct) (auto split: if_splits option.splits)

context timed_store
begin

lemma view_run:
  assumes "\<And>k. raw s k = None" "ok s" "list_all (\<lambda>e. fst e \<le> t) es"
  shows "view t (run es s) k = answer (life s) t k (rev es)"
  using assms(3)
proof (induction es rule: rev_induct)
  case Nil
  then show ?case by (simp add: view_def assms(1))
next
  case (snoc e es)
  obtain now oper where e: "e = (now, oper)" by (cases e)
  with snoc have IH: "view t (run es s) k = answer (life s) t k (rev es)" and "now \<le> t" by simp_all
  then show ?case
    using ok_run [OF assms(2)] life_run [OF assms(2)]
    by (cases oper) (auto simp: run_append e view_set view_delete view_invalidate view_get view_evict split: option.splits)
qed

end

section \<open>The cache keeps the contract\<close>

definition cache_raw :: "pod_cache \<Rightarrow> string \<Rightarrow> ((string \<times> string) \<times> int) option" where
  "cache_raw c k = map_option (\<lambda>e. ((entry_IP e, entry_Name e), expiresAt e)) (map_of (entries c) k)"

fun cache_step :: "int \<Rightarrow> cache_op \<Rightarrow> pod_cache \<Rightarrow> pod_cache" where
  "cache_step now (OpGet k) c = snd (cache_Get now k c)"
| "cache_step now (OpSet k ip n) c = cache_Set now k ip n c"
| "cache_step now (OpDelete k) c = cache_Delete k c"
| "cache_step now (OpInvalidate k ip) c = cache_Invalidate k ip c"
| "cache_step now OpEvict c = snd (EvictExpired now c)"

definition cache_inv :: "pod_cache \<Rightarrow> bool" where
  "cache_inv c = (distinct (map fst (entries c)) \<and> ttl c > 0)"

lemma map_of_filter_distinct:
  "distinct (map fst xs) \<Longrightarrow>
     map_of (filter P xs) k = (case map_of xs k of Some v \<Rightarrow> if P (k, v) then Some v else None | None \<Rightarrow> None)"
proof (induction xs)
  case (Cons x xs)
  then show ?case
    by (cases x) (auto simp: dom_map_of_conv_image_fst map_of_eq_None_iff image_iff split: option.splits)
qed simp

lemma cache_step_inv: "cache_inv c \<Longrightarrow> cache_inv (cache_step now oper c)"
  by (cases oper)
     (auto simp: cache_inv_def cache_Get_def cache_Set_def cache_Delete_def cache_Invalidate_def EvictExpired_def
        distinct_update distinct_delete split: option.splits intro: distinct_map_filter)

lemma cache_step_ttl: "ttl (cache_step now oper c) = ttl c"
  by (cases oper)
     (auto simp: cache_Get_def cache_Set_def cache_Delete_def cache_Invalidate_def EvictExpired_def split: option.splits)

lemma cache_raw_evict:
  assumes "cache_inv c"
  shows "cache_raw (cache_step now OpEvict c) k =
    (case cache_raw c k of Some (v, t) \<Rightarrow> if now > t then None else Some (v, t) | None \<Rightarrow> None)"
  using assms by (simp add: cache_raw_def EvictExpired_def cache_inv_def map_of_filter_distinct split: option.splits)

lemma cache_raw_get:
  "cache_raw (cache_step now (OpGet k) c) k' =
    (case cache_raw c k' of Some (v, t) \<Rightarrow> if k' = k \<and> now > t then None else Some (v, t) | None \<Rightarrow> None)"
  by (auto simp: cache_raw_def cache_Get_def delete_conv' split: option.splits)

interpretation pc: timed_store cache_raw cache_step ttl cache_inv
proof unfold_locales
  fix s now k ip n k' oper
  assume inv: "cache_inv s"
  show "cache_raw (cache_step now (OpSet k ip n) s) k' = (if k' = k then Some ((ip, n), now + ttl s) else cache_raw s k')"
    by (simp add: cache_raw_def cache_Set_def update_conv')
  show "cache_raw (cache_step now (OpDelete k) s) k' = (if k' = k then None else cache_raw s k')"
    by (simp add: cache_raw_def cache_Delete_def delete_conv')
  show "cache_raw (cache_step now (OpInvalidate k ip) s) k' =
      (if k' = k then (case cache_raw s k of Some ((ip', n), t) \<Rightarrow> if ip' = ip then None else cache_raw s k | None \<Rightarrow> None) else cache_raw s k')"
    by (auto simp: cache_raw_def cache_Invalidate_def delete_conv' split: option.splits)
  show "cache_raw (cache_step now (OpGet k) s) k' = cache_raw s k' \<or>
      (cache_raw (cache_step now (OpGet k) s) k' = None \<and> (\<exists>v t. cache_raw s k' = Some (v, t) \<and> t < now))"
    unfolding cache_raw_get by (auto split: option.splits)
  show "cache_raw (cache_step now OpEvict s) k' = cache_raw s k' \<or>
      (cache_raw (cache_step now OpEvict s) k' = None \<and> (\<exists>v t. cache_raw s k' = Some (v, t) \<and> t < now))"
    unfolding cache_raw_evict [OF inv] by (auto split: option.splits)
  show "ttl (cache_step now oper s) = ttl s" by (rule cache_step_ttl)
  show "cache_inv (cache_step now oper s)" using inv by (rule cache_step_inv)
qed

lemma cache_Get_view: "fst (cache_Get t k c) = pc.view t c k"
  by (auto simp: cache_Get_def pc.view_def cache_raw_def split: option.splits)

lemma cache_Get_inv [simp]: "cache_inv c \<Longrightarrow> cache_inv (snd (cache_Get now k c))"
  using cache_step_inv [of c now "OpGet k"] by simp

lemma NewPodCache_inv: "cache_inv (NewPodCache d)"
  by (simp add: cache_inv_def NewPodCache_def defaultCacheTTL_def)

text \<open>
  C33. The session cache answers a lookup as a plain reading of its history does: the latest
  \<open>Set\<close> of the session, unless it is older than the lifetime of the cache, the session was deleted
  since, or its address was invalidated since. Lookups and evictions in between, and operations on other sessions, do not
  matter.
\<close>

theorem cache_answers_history:
  assumes "list_all (\<lambda>e. fst e \<le> t) h"
  shows "fst (cache_Get t k (fold (\<lambda>(now, oper). cache_step now oper) h (NewPodCache d))) =
    answer (ttl (NewPodCache d)) t k (rev h)"
proof -
  have "fold (\<lambda>(now, oper). cache_step now oper) h c = pc.run h c" for c
    by (induction h arbitrary: c) (auto simp: split_def)
  then show ?thesis
    using pc.view_run [OF _ NewPodCache_inv assms] by (simp add: cache_Get_view NewPodCache_def cache_raw_def)
qed

theorem cache_answers_history_witness:
  "fst (cache_Get 40 ''s'' (fold (\<lambda>(now, oper). cache_step now oper)
     [(1, OpSet ''s'' ''10.0.0.1'' ''p''), (5, OpSet ''s'' ''10.0.0.2'' ''q''), (7, OpInvalidate ''s'' ''10.0.0.1''), (9, OpEvict)]
     (NewPodCache 60))) = Some (''10.0.0.2'', ''q'')"
  using cache_answers_history [of 40 "[(1, OpSet ''s'' ''10.0.0.1'' ''p''), (5, OpSet ''s'' ''10.0.0.2'' ''q''),
      (7, OpInvalidate ''s'' ''10.0.0.1''), (9, OpEvict)]" "''s''" 60]
  by (simp add: NewPodCache_def)

end
