(* ===== verification/SandboxAgent.thy ===== *)
theory SandboxAgent
  imports GoNet
begin

text \<open>
  Package \<open>pkg/sandbox\<close>: the agent inside a sandbox pod. \<open>bash.go\<close> runs one persistent bash and
  frames every command with a random delimiter; \<open>handler.go\<close> guards it with an assign-once token.

  The bash process is a parameter: the bytes it has written to its pipes when a reader looks at
  them, whether a pipe is at end of file, and whether spawning or writing fails. The wall clock
  enters as a duration. Everything the two files compute from these is defined here.
\<close>

section \<open>bash.go\<close>

abbreviation newline :: char where "newline \<equiv> CHR 0x0A"

definition second :: int where "second = 1000000000"
definition DefaultTimeout :: int where "DefaultTimeout = 60 * second"
definition MaxTimeout :: int where "MaxTimeout = 300 * second"

text \<open>The dash in the notice is the UTF-8 encoding of U+2014.\<close>

definition sessionResetNotice :: string where
  "sessionResetNotice =
     ''[session state was reset '' @ [CHR 0xE2, CHR 0x80, CHR 0x94] @ '' previous bash process exited]'' @ [newline]"

record exec_result =
  Stdout :: string
  Stderr :: string
  ExitCode :: int
  Duration :: int

definition clamp_timeout :: "int \<Rightarrow> int" where
  "clamp_timeout t =
     (let t1 = (if t \<le> 0 then DefaultTimeout else t) in if t1 > MaxTimeout then MaxTimeout else t1)"

text \<open>The delimiter protocol: \<open>id\<close> is the first eight characters of a fresh UUID.\<close>

definition delimiter :: "string \<Rightarrow> string" where "delimiter uid = ''__SANDBOX_'' @ uid @ ''__''"
definition startMarker :: "string \<Rightarrow> string" where "startMarker uid = delimiter uid @ ''_START''"
definition endMarker :: "string \<Rightarrow> string" where "endMarker uid = delimiter uid @ ''_END''"
definition exitMarker :: "string \<Rightarrow> string" where "exitMarker uid = delimiter uid @ ''_EXIT_''"

definition wrapped :: "string \<Rightarrow> string \<Rightarrow> string" where
  "wrapped uid command =
     ''echo '' @ startMarker uid @ [newline] @ ''{ :'' @ [newline] @ command @ [newline] @ ''} </dev/null'' @ [newline] @
     ''__exit=$?'' @ [newline] @ ''echo '' @ endMarker uid @ [newline] @
     ''echo '' @ exitMarker uid @ ''${__exit} >&2'' @ [newline]"

record read_result =
  res_output :: string
  exitCode :: int
  read_err :: "go_error option"

text \<open>
  A reader loop over the bytes available in a pipe. A complete line is taken off the front. When no
  complete line is left, \<open>ReadString\<close> returns the rest with the error that ended the pipe (\<open>fin\<close>),
  and blocks while the pipe is open: \<open>None\<close> is a reader that is still waiting.
\<close>

function stdout_loop :: "string \<Rightarrow> string \<Rightarrow> string \<Rightarrow> go_error option \<Rightarrow> bool \<Rightarrow> string \<Rightarrow> read_result option" where
  "stdout_loop sm em s fin capturing buf =
     (case IndexByte s newline of
        Some i \<Rightarrow>
          let line = take (Suc i) s; trimmed = take i s; rest = drop (Suc i) s in
          if trimmed = sm then stdout_loop sm em rest fin True buf
          else if trimmed = em then Some \<lparr>res_output = TrimRight buf newline, exitCode = 0, read_err = None\<rparr>
          else stdout_loop sm em rest fin capturing (if capturing then buf @ line else buf)
      | None \<Rightarrow>
          if fin = None then None
          else if s = sm then Some \<lparr>res_output = TrimRight buf newline, exitCode = 0, read_err = fin\<rparr>
          else if s = em then Some \<lparr>res_output = TrimRight buf newline, exitCode = 0, read_err = None\<rparr>
          else Some \<lparr>res_output = TrimRight (if capturing then buf @ s else buf) newline, exitCode = 0, read_err = fin\<rparr>)"
  by pat_completeness auto
termination
  by (relation "measure (\<lambda>(sm, em, s, fin, capturing, buf). length s)") (auto dest: IndexByte_Some)

definition exit_line :: "golib \<Rightarrow> string \<Rightarrow> string \<Rightarrow> read_result" where
  "exit_line g buf after =
     (case Atoi (TrimSpace after) of
        None \<Rightarrow> \<lparr>res_output = TrimRight buf newline, exitCode = - 1,
                 read_err = Some (Wrap (''parse exit code '' @ Quote g after) (Atoi_error g (TrimSpace after)))\<rparr>
      | Some code \<Rightarrow> \<lparr>res_output = TrimRight buf newline, exitCode = code, read_err = None\<rparr>)"

function stderr_loop :: "golib \<Rightarrow> string \<Rightarrow> string \<Rightarrow> go_error option \<Rightarrow> string \<Rightarrow> read_result option" where
  "stderr_loop g xm s fin buf =
     (case IndexByte s newline of
        Some i \<Rightarrow>
          let line = take (Suc i) s; trimmed = take i s; rest = drop (Suc i) s in
          (case CutPrefix trimmed xm of
             Some after \<Rightarrow> Some (exit_line g buf after)
           | None \<Rightarrow> stderr_loop g xm rest fin (buf @ line))
      | None \<Rightarrow>
          if fin = None then None
          else
            (case CutPrefix s xm of
               Some after \<Rightarrow> Some (exit_line g buf after)
             | None \<Rightarrow> Some \<lparr>res_output = TrimRight (buf @ s) newline, exitCode = - 1, read_err = fin\<rparr>))"
  by pat_completeness auto
termination
  by (relation "measure (\<lambda>(g, xm, s, fin, buf). length s)") (auto dest: IndexByte_Some)

declare stdout_loop.simps [simp del] stderr_loop.simps [simp del]

text \<open>
  What one call of \<open>Execute\<close> meets. \<open>spawns\<close> and \<open>writes\<close> are the results of the successive
  attempts to start bash and to write to its stdin. \<open>out_pipe\<close> and \<open>err_pipe\<close> are the pipes as the readers have
  seen them when the second result arrives or the timer fires, \<open>out_drain\<close> and \<open>err_drain\<close> as they
  are when the drain window after a kill ends.
\<close>

record pipe =
  bytes_read :: string
  fin :: "go_error option"

record exec_io =
  spawns :: "unit result list"
  writes :: "unit result list"
  out_pipe :: pipe
  err_pipe :: pipe
  out_drain :: pipe
  err_drain :: pipe
  elapsed :: int

record bash_session =
  dead :: bool

definition nth_result :: "unit result list \<Rightarrow> nat \<Rightarrow> unit result" where
  "nth_result rs n = (if n < length rs then rs ! n else Inr ())"

definition read_out :: "string \<Rightarrow> pipe \<Rightarrow> read_result option" where
  "read_out uid p = stdout_loop (startMarker uid) (endMarker uid) (bytes_read p) (fin p) False []"

definition read_errs :: "golib \<Rightarrow> string \<Rightarrow> pipe \<Rightarrow> read_result option" where
  "read_errs g uid p = stderr_loop g (exitMarker uid) (bytes_read p) (fin p) []"

text \<open>
  The part of \<open>Execute\<close> that sends the command: respawn a dead bash, retry a failed write once on a
  fresh bash. The result says whether the state was reset.
\<close>

definition send_command :: "exec_io \<Rightarrow> bash_session \<Rightarrow> bool result \<times> bash_session" where
  "send_command w bs =
     (if dead bs then
        (case nth_result (spawns w) 0 of
           Inl e \<Rightarrow> (Inl (Wrap ''failed to respawn bash'' e), bs)
         | Inr _ \<Rightarrow>
             let bs1 = bs\<lparr>dead := False\<rparr> in
             (case nth_result (writes w) 0 of
                Inl e \<Rightarrow> (Inl (Wrap ''write to stdin'' e), bs1)
              | Inr _ \<Rightarrow> (Inr True, bs1)))
      else
        (case nth_result (writes w) 0 of
           Inr _ \<Rightarrow> (Inr False, bs)
         | Inl _ \<Rightarrow>
             (case nth_result (spawns w) 0 of
                Inl e \<Rightarrow> (Inl (Wrap ''failed to respawn bash'' e), bs\<lparr>dead := True\<rparr>)
              | Inr _ \<Rightarrow>
                  (case nth_result (writes w) 1 of
                     Inl e \<Rightarrow> (Inl (Wrap ''write to stdin after respawn'' e), bs\<lparr>dead := True\<rparr>)
                   | Inr _ \<Rightarrow> (Inr True, bs\<lparr>dead := False\<rparr>)))))"

text \<open>The result when both readers report before the timer.\<close>

definition complete :: "exec_io \<Rightarrow> bool \<Rightarrow> read_result \<Rightarrow> read_result \<Rightarrow> bash_session \<Rightarrow> exec_result result \<times> bash_session" where
  "complete w stateReset o_res e_res bs =
     (let dead' = (dead bs \<or> read_err o_res \<noteq> None \<or> read_err e_res \<noteq> None \<or> exitCode e_res < 0);
          code = (if exitCode e_res \<ge> 0 then exitCode e_res else 137);
          bs' = bs\<lparr>dead := dead'\<rparr> in
      if dead' then
        (Inl (case read_err e_res of Some e \<Rightarrow> e | None \<Rightarrow> Err ''bash process exited unexpectedly''), bs')
      else
        let stderrStr = res_output e_res;
            stderr' = (if stateReset then
                         (if stderrStr \<noteq> [] then sessionResetNotice @ stderrStr
                          else TrimRight sessionResetNotice newline)
                       else stderrStr)
        in (Inr \<lparr>Stdout = res_output o_res, Stderr = stderr', ExitCode = code, Duration = elapsed w\<rparr>, bs'))"

text \<open>The result when the timer fires first: kill, drain what arrives, report exit code 137.\<close>

definition timed_out :: "golib \<Rightarrow> string \<Rightarrow> exec_io \<Rightarrow> bash_session \<Rightarrow> exec_result result \<times> bash_session" where
  "timed_out g uid w bs =
     (let take_out = (case read_out uid (out_pipe w) of Some r \<Rightarrow> Some r | None \<Rightarrow> read_out uid (out_drain w));
          take_err = (case read_errs g uid (err_pipe w) of Some r \<Rightarrow> Some r | None \<Rightarrow> read_errs g uid (err_drain w));
          stdoutStr = (case take_out of Some r \<Rightarrow> res_output r | None \<Rightarrow> []);
          stderrStr = (case take_err of Some r \<Rightarrow> res_output r | None \<Rightarrow> []);
          timeoutStderr = (if stderrStr \<noteq> [] then stderrStr @ [newline] @ ''command timed out'' else ''command timed out'')
      in (Inr \<lparr>Stdout = stdoutStr, Stderr = timeoutStderr, ExitCode = 137, Duration = elapsed w\<rparr>, bs\<lparr>dead := True\<rparr>))"

text \<open>\<open>behave\<close> is what bash does with the bytes written to its stdin within the timeout.\<close>

definition Execute :: "golib \<Rightarrow> string \<Rightarrow> (string \<Rightarrow> int \<Rightarrow> exec_io) \<Rightarrow> string \<Rightarrow> int \<Rightarrow> bash_session \<Rightarrow>
    exec_result result \<times> bash_session" where
  "Execute g uid behave command timeout bs =
     (let w = behave (wrapped uid command) (clamp_timeout timeout) in
      case send_command w bs of
        (Inl e, bs') \<Rightarrow> (Inl e, bs')
      | (Inr stateReset, bs') \<Rightarrow>
          (case (read_out uid (out_pipe w), read_errs g uid (err_pipe w)) of
             (Some o_res, Some e_res) \<Rightarrow> complete w stateReset o_res e_res bs'
           | _ \<Rightarrow> timed_out g uid w bs'))"

definition NewBashSession :: "unit result \<Rightarrow> bash_session result" where
  "NewBashSession sp =
     (case sp of
        Inl e \<Rightarrow> Inl (Wrap ''failed to start bash'' e)
      | Inr _ \<Rightarrow> Inr \<lparr>dead = False\<rparr>)"

definition IsAlive :: "bash_session \<Rightarrow> bool" where "IsAlive bs = (\<not> dead bs)"

definition Close :: "bash_session \<Rightarrow> bash_session" where "Close bs = (if dead bs then bs else bs\<lparr>dead := True\<rparr>)"

section \<open>handler.go\<close>

record agent_state =
  assigned :: bool
  agent_token :: string

definition NewAgentState :: "string \<Rightarrow> agent_state" where
  "NewAgentState tok = \<lparr>assigned = (tok \<noteq> []), agent_token = tok\<rparr>"

definition IsAssigned :: "agent_state \<Rightarrow> bool" where "IsAssigned s = assigned s"
definition GetToken :: "agent_state \<Rightarrow> string" where "GetToken s = agent_token s"

definition errAlreadyAssigned :: go_error where "errAlreadyAssigned = Err ''already assigned''"

definition Assign :: "agent_state \<Rightarrow> string \<Rightarrow> unit result \<times> agent_state" where
  "Assign s tok =
     (if assigned s then (Inl errAlreadyAssigned, s)
      else (Inr (), s\<lparr>agent_token := tok, assigned := True\<rparr>))"

record exec_request =
  Command :: string
  Timeout :: int

text \<open>An HTTP request to the agent: its headers and its body. The decoders are parameters.\<close>

record agent_request =
  agent_header :: header
  body :: string

definition maxRequestBody :: nat where "maxRequestBody = 1048576"

definition decodeJSONBody :: "(string \<Rightarrow> 'a result) \<Rightarrow> string \<Rightarrow> 'a result" where
  "decodeJSONBody unmarshal b =
     (if length b > maxRequestBody then Inl (Err ''http: request body too large'') else unmarshal b)"

datatype agent_response =
    ErrorResponse nat string
  | ExecResponse exec_result int
  | StatusOnly nat
  | StatusBody nat string

definition writeError :: "nat \<Rightarrow> string \<Rightarrow> agent_response" where "writeError status msg = ErrorResponse status msg"

definition extractBearerToken :: "header \<Rightarrow> string option" where
  "extractBearerToken h =
     (let auth = Header_Get h ''Authorization'' in
      if auth = [] then None
      else if \<not> HasPrefix auth ''Bearer '' then None
      else Some (drop (length ''Bearer '') auth))"

record handler =
  session :: bash_session
  state :: agent_state

definition HandleHealth :: "handler \<Rightarrow> agent_response" where
  "HandleHealth h = (if IsAlive (session h) then StatusBody 200 ''ok'' else StatusBody 503 ''unhealthy'')"

text \<open>
  The timeout is \<open>req.Timeout\<close> seconds, in 64-bit arithmetic; the duration is reported in
  milliseconds.
\<close>

definition HandleExec :: "golib \<Rightarrow> (string \<Rightarrow> exec_request result) \<Rightarrow> string \<Rightarrow> (string \<Rightarrow> int \<Rightarrow> exec_io) \<Rightarrow>
    handler \<Rightarrow> agent_request \<Rightarrow> agent_response \<times> handler" where
  "HandleExec g unmarshal uid behave h r =
     (if \<not> IsAssigned (state h) then (writeError 503 ''agent not assigned'', h)
      else
        (case extractBearerToken (agent_header r) of
           None \<Rightarrow> (writeError 401 ''missing or invalid authorization header'', h)
         | Some provided \<Rightarrow>
             if provided \<noteq> GetToken (state h) then (writeError 401 ''unauthorized'', h)
             else
               (case decodeJSONBody unmarshal (body r) of
                  Inl _ \<Rightarrow> (writeError 400 ''invalid request body'', h)
                | Inr req \<Rightarrow>
                    if Command req = [] then (writeError 400 ''command is required'', h)
                    else
                      (case Execute g uid behave (Command req) (int64 (Timeout req * second)) (session h) of
                         (Inl e, bs') \<Rightarrow> (writeError 500 (error_text e), h\<lparr>session := bs'\<rparr>)
                       | (Inr result, bs') \<Rightarrow>
                           (ExecResponse result (Duration result div 1000000), h\<lparr>session := bs'\<rparr>)))))"

definition HandleAssign :: "(string \<Rightarrow> string result) \<Rightarrow> handler \<Rightarrow> agent_request \<Rightarrow> agent_response \<times> handler" where
  "HandleAssign unmarshal h r =
     (case decodeJSONBody unmarshal (body r) of
        Inl _ \<Rightarrow> (writeError 400 ''invalid request body'', h)
      | Inr tok \<Rightarrow>
          if tok = [] then (writeError 400 ''token is required'', h)
          else
            (case Assign (state h) tok of
               (Inl _, s) \<Rightarrow> (writeError 409 ''already assigned'', h\<lparr>state := s\<rparr>)
             | (Inr _, s) \<Rightarrow> (StatusOnly 200, h\<lparr>state := s\<rparr>)))"

section \<open>The delimiter protocol\<close>

text \<open>Complete lines as they stand in a pipe.\<close>

definition unlines :: "string list \<Rightarrow> string" where
  "unlines ls = concat (map (\<lambda>l. l @ [newline]) ls)"

definition is_line :: "string \<Rightarrow> bool" where "is_line l = (newline \<notin> set l)"

lemma unlines_simps [simp]: "unlines [] = []" "unlines (l # ls) = l @ newline # unlines ls"
  by (simp_all add: unlines_def)

lemma stdout_line:
  assumes "is_line l"
  shows "stdout_loop sm em (l @ newline # rest) e cap buf =
    (if l = sm then stdout_loop sm em rest e True buf
     else if l = em then Some \<lparr>res_output = TrimRight buf newline, exitCode = 0, read_err = None\<rparr>
     else stdout_loop sm em rest e cap (if cap then buf @ l @ [newline] else buf))"
  using assms IndexByte_append_no [of newline l rest] stdout_loop.simps [of sm em "l @ newline # rest" e cap buf]
  by (simp add: is_line_def Let_def)

lemma stderr_line:
  assumes "is_line l"
  shows "stderr_loop g xm (l @ newline # rest) e buf =
    (case CutPrefix l xm of
       Some after \<Rightarrow> Some (exit_line g buf after)
     | None \<Rightarrow> stderr_loop g xm rest e (buf @ l @ [newline]))"
  using assms IndexByte_append_no [of newline l rest] stderr_loop.simps [of g xm "l @ newline # rest" e buf]
  by (simp add: is_line_def Let_def split: option.splits)

lemma stdout_open: "is_line s \<Longrightarrow> stdout_loop sm em s None cap buf = None"
  by (subst stdout_loop.simps) (simp add: is_line_def iffD2 [OF IndexByte_None])

lemma stdout_eof [simp]:
  "sm \<noteq> [] \<Longrightarrow> em \<noteq> [] \<Longrightarrow>
   stdout_loop sm em [] (Some e) cap buf = Some \<lparr>res_output = TrimRight buf newline, exitCode = 0, read_err = Some e\<rparr>"
  by (simp add: stdout_loop.simps)

lemma stdout_skips_lines:
  assumes "\<And>l. l \<in> set ls \<Longrightarrow> is_line l \<and> l \<noteq> sm \<and> l \<noteq> em"
  shows "stdout_loop sm em (unlines ls @ rest) e False buf = stdout_loop sm em rest e False buf"
  using assms by (induction ls) (simp_all add: stdout_line)

lemma stdout_captures_lines:
  assumes "\<And>l. l \<in> set ls \<Longrightarrow> is_line l \<and> l \<noteq> sm \<and> l \<noteq> em"
  shows "stdout_loop sm em (unlines ls @ rest) e True buf = stdout_loop sm em rest e True (buf @ unlines ls)"
  using assms by (induction ls arbitrary: buf) (simp_all add: stdout_line)

lemma stderr_captures_lines:
  assumes "\<And>l. l \<in> set ls \<Longrightarrow> is_line l \<and> \<not> HasPrefix l xm"
  shows "stderr_loop g xm (unlines ls @ rest) e buf = stderr_loop g xm rest e (buf @ unlines ls)"
  using assms by (induction ls arbitrary: buf) (simp_all add: stderr_line CutPrefix_def)

lemma markers_line:
  assumes "is_line uid"
  shows "is_line (startMarker uid)" "is_line (endMarker uid)" "is_line (exitMarker uid)"
  using assms by (simp_all add: is_line_def startMarker_def endMarker_def exitMarker_def delimiter_def)

lemma markers_nonempty [simp]: "startMarker uid \<noteq> []" "endMarker uid \<noteq> []" "exitMarker uid \<noteq> []"
  by (simp_all add: startMarker_def endMarker_def exitMarker_def delimiter_def)

lemma start_not_end [simp]: "u @ endMarker uid \<noteq> startMarker uid"
proof
  assume "u @ endMarker uid = startMarker uid"
  then have "last (u @ endMarker uid) = last (startMarker uid)" by simp
  then show False by (simp add: startMarker_def endMarker_def)
qed

lemma end_ne_start [simp]: "endMarker uid \<noteq> startMarker uid"
  using start_not_end [of "[]"] by simp

text \<open>
  What bash prints for a wrapped command: what was still in the pipe, the start marker, the output
  of the command and the end marker; on stderr the output and the exit marker. \<open>partial\<close> is what
  the command prints after its last newline.
\<close>

definition stdout_stream :: "string \<Rightarrow> string list \<Rightarrow> string list \<Rightarrow> string \<Rightarrow> string" where
  "stdout_stream uid pre outs partial =
     unlines pre @ startMarker uid @ newline # unlines outs @ partial @ endMarker uid @ [newline]"

definition stderr_stream :: "string \<Rightarrow> string list \<Rightarrow> nat \<Rightarrow> string" where
  "stderr_stream uid errs code = unlines errs @ exitMarker uid @ nat_digits code @ [newline]"

definition plain_line :: "string \<Rightarrow> string \<Rightarrow> bool" where
  "plain_line uid l = (is_line l \<and> l \<noteq> startMarker uid \<and> l \<noteq> endMarker uid \<and> \<not> HasPrefix l (exitMarker uid))"

lemma read_out_prefix:
  assumes "is_line uid" "list_all (plain_line uid) (pre @ outs)"
  shows "stdout_loop (startMarker uid) (endMarker uid)
           (unlines pre @ startMarker uid @ newline # unlines outs @ rest) e False [] =
         stdout_loop (startMarker uid) (endMarker uid) rest e True (unlines outs)"
proof -
  have pre: "\<And>l. l \<in> set pre \<Longrightarrow> is_line l \<and> l \<noteq> startMarker uid \<and> l \<noteq> endMarker uid"
    and outs: "\<And>l. l \<in> set outs \<Longrightarrow> is_line l \<and> l \<noteq> startMarker uid \<and> l \<noteq> endMarker uid"
    using assms(2) by (auto simp: list_all_iff plain_line_def)
  show ?thesis
    using stdout_captures_lines [OF outs, where buf = "[]"]
    by (simp add: stdout_skips_lines [OF pre] stdout_line [OF markers_line(1) [OF assms(1)]])
qed

lemma read_out_terminated:
  assumes "is_line uid" "list_all (plain_line uid) (pre @ outs)"
  shows "read_out uid \<lparr>bytes_read = stdout_stream uid pre outs [], fin = e\<rparr> =
    Some \<lparr>res_output = TrimRight (unlines outs) newline, exitCode = 0, read_err = None\<rparr>"
  using read_out_prefix [OF assms] stdout_line [OF markers_line(2) [OF assms(1)], of _ _ "[]"]
  by (simp add: read_out_def stdout_stream_def)

lemma read_out_unterminated:
  assumes "is_line uid" "list_all (plain_line uid) (pre @ outs)" "is_line partial" "partial \<noteq> []"
  shows "read_out uid \<lparr>bytes_read = stdout_stream uid pre outs partial, fin = e\<rparr> =
    (case e of None \<Rightarrow> None
     | Some err \<Rightarrow> Some \<lparr>res_output = TrimRight (unlines outs @ partial @ endMarker uid) newline,
                        exitCode = 0, read_err = Some err\<rparr>)"
proof -
  have line: "is_line (partial @ endMarker uid)"
    using assms(3) markers_line(2) [OF assms(1)] by (simp add: is_line_def)
  have ne: "partial @ endMarker uid \<noteq> endMarker uid" using assms(4) by simp
  have trim: "TrimRight (s @ [newline]) newline = TrimRight s newline" for s
    by (simp add: TrimRight_def trim_end_def)
  show ?thesis
    using read_out_prefix [OF assms(1,2), of "(partial @ endMarker uid) @ [newline]" e]
      stdout_line [OF line, of _ _ "[]"] ne trim [of "unlines outs @ partial @ endMarker uid"]
    by (simp add: read_out_def stdout_stream_def stdout_open is_line_def split: option.splits)
qed

lemma trimmed_nat_digits: "TrimSpace (nat_digits n) = nat_digits n"
proof -
  have digit: "is_digit c" if "c \<in> set (nat_digits n)" for c
    using that nat_digits_digits [of n] by (metis list_all_iff)
  have "\<not> ascii_space c" "is_ascii c" if "is_digit c" for c
    using that by (simp_all add: is_digit_def ascii_space_def is_ascii_def)
  with digit have "\<And>c. c \<in> set (nat_digits n) \<Longrightarrow> \<not> ascii_space c" "list_all is_ascii (nat_digits n)"
    by (blast, metis list_all_iff)
  then show ?thesis by (intro TrimSpace_id ends_trimmed) (blast intro: hd_in_set last_in_set nat_digits_nonempty)+
qed

lemma read_errs_terminated:
  assumes "is_line uid" "list_all (plain_line uid) errs" "code < 2 ^ 63"
  shows "read_errs g uid \<lparr>bytes_read = stderr_stream uid errs code, fin = e\<rparr> =
    Some \<lparr>res_output = TrimRight (unlines errs) newline, exitCode = int code, read_err = None\<rparr>"
proof -
  have errs: "\<And>l. l \<in> set errs \<Longrightarrow> is_line l \<and> \<not> HasPrefix l (exitMarker uid)"
    using assms(2) by (auto simp: list_all_iff plain_line_def)
  have line: "is_line (exitMarker uid @ nat_digits code)"
    using markers_line(3) [OF assms(1)] by (simp add: is_line_def is_digit_def)
  show ?thesis
    using stderr_captures_lines [OF errs, where g = g and e = e and buf = "[]" and rest = "(exitMarker uid @ nat_digits code) @ newline # []"]
      stderr_line [OF line, of g "exitMarker uid" "[]"] assms(3)
    by (simp add: read_errs_def stderr_stream_def CutPrefix_def exit_line_def trimmed_nat_digits)
qed

section \<open>Execute\<close>

text \<open>Spawning and writing work in this call.\<close>

definition io_works :: "exec_io \<Rightarrow> bool" where
  "io_works w = (list_all isr (spawns w) \<and> list_all isr (writes w))"

lemma nth_result_works: "list_all isr rs \<Longrightarrow> nth_result rs n = Inr ()"
  by (auto simp: nth_result_def list_all_length isr_iff)

lemma send_works: "io_works w \<Longrightarrow> send_command w bs = (Inr (dead bs), bs\<lparr>dead := False\<rparr>)"
  by (simp add: io_works_def send_command_def nth_result_works Let_def)

definition with_notice :: "bool \<Rightarrow> string \<Rightarrow> string" where
  "with_notice reset s =
     (if \<not> reset then s else if s = [] then TrimRight sessionResetNotice newline else sessionResetNotice @ s)"

lemma Execute_completes:
  assumes "behave (wrapped uid command) (clamp_timeout timeout) = w" "io_works w"
    and "read_out uid (out_pipe w) = Some \<lparr>res_output = out, exitCode = 0, read_err = None\<rparr>"
    and "read_errs g uid (err_pipe w) = Some \<lparr>res_output = err, exitCode = int code, read_err = None\<rparr>"
  shows "Execute g uid behave command timeout bs =
    (Inr \<lparr>Stdout = out, Stderr = with_notice (dead bs) err, ExitCode = int code, Duration = elapsed w\<rparr>,
     bs\<lparr>dead := False\<rparr>)"
  using assms by (simp add: Execute_def send_works complete_def with_notice_def Let_def)

lemma Execute_times_out:
  assumes "behave (wrapped uid command) (clamp_timeout timeout) = w" "io_works w"
    and "read_out uid (out_pipe w) = None \<or> read_errs g uid (err_pipe w) = None"
  shows "Execute g uid behave command timeout bs = timed_out g uid w bs"
  using assms by (auto simp: Execute_def send_works timed_out_def Let_def split: option.splits)


text \<open>
  C22. The delimiter protocol round trip. When bash prints what it is expected to print for the
  wrapped command (lines left over from earlier background jobs, the start marker, the output
  lines, the end marker, and on stderr the error lines and the exit marker), \<open>Execute\<close> returns exactly the
  output between the markers without its trailing newlines and the exit code, the leftovers are dropped,
  a respawned session says so in front of the stderr text, and the session is alive afterwards.
\<close>

theorem execute_round_trip:
  assumes "behave (wrapped uid command) (clamp_timeout timeout) = w" "io_works w"
    and "is_line uid" "list_all (plain_line uid) (pre @ outs)" "list_all (plain_line uid) errs" "code < 2 ^ 63"
    and "out_pipe w = \<lparr>bytes_read = stdout_stream uid pre outs [], fin = e1\<rparr>"
    and "err_pipe w = \<lparr>bytes_read = stderr_stream uid errs code, fin = e2\<rparr>"
  shows "Execute g uid behave command timeout bs =
    (Inr \<lparr>Stdout = TrimRight (unlines outs) newline,
          Stderr = with_notice (dead bs) (TrimRight (unlines errs) newline),
          ExitCode = int code, Duration = elapsed w\<rparr>, bs\<lparr>dead := False\<rparr>)"
  by (rule Execute_completes [of behave, OF assms(1,2)])
     (simp_all only: assms(7,8) read_out_terminated [OF assms(3,4)] read_errs_terminated [OF assms(3,5,6)])

definition demo_io :: "string \<Rightarrow> go_error option \<Rightarrow> exec_io" where
  "demo_io partial e =
     \<lparr>spawns = [], writes = [],
      out_pipe = \<lparr>bytes_read = stdout_stream ''1f0a'' [''late''] [''a'', ''b''] partial, fin = None\<rparr>,
      err_pipe = \<lparr>bytes_read = stderr_stream ''1f0a'' [''warn''] 3, fin = None\<rparr>,
      out_drain = \<lparr>bytes_read = stdout_stream ''1f0a'' [''late''] [''a'', ''b''] partial, fin = e\<rparr>,
      err_drain = \<lparr>bytes_read = stderr_stream ''1f0a'' [''warn''] 3, fin = e\<rparr>, elapsed = 5\<rparr>"

theorem execute_round_trip_witness:
  "Execute ascii_lib ''1f0a'' (\<lambda>_ _. demo_io [] None) ''ls'' 0 \<lparr>dead = True\<rparr> =
    (Inr \<lparr>Stdout = TrimRight (unlines [''a'', ''b'']) newline,
          Stderr = with_notice True (TrimRight (unlines [''warn'']) newline),
          ExitCode = 3, Duration = 5\<rparr>, \<lparr>dead = False\<rparr>)"
  using execute_round_trip [of "\<lambda>_ _. demo_io [] None" "''1f0a''" "''ls''" 0 "demo_io [] None" "[''late'']"
      "[''a'', ''b'']" "[''warn'']" 3 None None ascii_lib "\<lparr>dead = True\<rparr>"]
  by (simp add: demo_io_def io_works_def is_line_def plain_line_def startMarker_def endMarker_def
      exitMarker_def delimiter_def)

text \<open>
  C38. A command whose stdout does not end with a newline never completes. The end marker is
  appended to the last output line, so the reader does not see it: the call times out with exit
  code 137 whatever the exit code of the command was, the delimiter leaks into the output and the session is lost.
\<close>

theorem unterminated_output_times_out:
  assumes "behave (wrapped uid command) (clamp_timeout timeout) = w" "io_works w"
    and "is_line uid" "list_all (plain_line uid) (pre @ outs)" "list_all (plain_line uid) errs" "code < 2 ^ 63"
    and "is_line partial" "partial \<noteq> []"
    and "out_pipe w = \<lparr>bytes_read = stdout_stream uid pre outs partial, fin = None\<rparr>"
    and "err_pipe w = \<lparr>bytes_read = stderr_stream uid errs code, fin = None\<rparr>"
    and "out_drain w = \<lparr>bytes_read = stdout_stream uid pre outs partial, fin = Some e\<rparr>"
  shows "\<exists>err. Execute g uid behave command timeout bs =
    (Inr \<lparr>Stdout = TrimRight (unlines outs @ partial @ endMarker uid) newline, Stderr = err,
          ExitCode = 137, Duration = elapsed w\<rparr>, bs\<lparr>dead := True\<rparr>)"
proof -
  have "Execute g uid behave command timeout bs = timed_out g uid w bs"
    by (rule Execute_times_out [of behave, OF assms(1,2)])
       (simp add: assms(9) read_out_unterminated [OF assms(3,4,7,8)])
  then show ?thesis
    by (simp add: timed_out_def Let_def assms(9,11) read_out_unterminated [OF assms(3,4,7,8)])
qed

theorem unterminated_output_times_out_witness:
  "\<exists>err. Execute ascii_lib ''1f0a'' (\<lambda>_ _. demo_io ''foo'' (Some (Err ''EOF''))) ''printf foo'' 0 \<lparr>dead = False\<rparr> =
    (Inr \<lparr>Stdout = TrimRight (unlines [''a'', ''b''] @ ''foo'' @ endMarker ''1f0a'') newline, Stderr = err,
          ExitCode = 137, Duration = 5\<rparr>, \<lparr>dead = True\<rparr>)"
  using unterminated_output_times_out [of "\<lambda>_ _. demo_io ''foo'' (Some (Err ''EOF''))" "''1f0a''" "''printf foo''" 0
      "demo_io ''foo'' (Some (Err ''EOF''))" "[''late'']" "[''a'', ''b'']" "[''warn'']" 3 "''foo''" "Err ''EOF''"
      ascii_lib "\<lparr>dead = False\<rparr>"]
  by (simp add: demo_io_def io_works_def is_line_def plain_line_def startMarker_def endMarker_def
      exitMarker_def delimiter_def)

text \<open>
  A respawn is not reported when the first command on the new bash times out: the result of a
  timed-out command does not depend on whether the session was dead before the call.
\<close>

theorem reset_notice_lost_on_timeout:
  assumes "behave (wrapped uid command) (clamp_timeout timeout) = w" "io_works w"
    and "read_out uid (out_pipe w) = None"
  shows "Execute g uid behave command timeout \<lparr>dead = True\<rparr> = Execute g uid behave command timeout \<lparr>dead = False\<rparr> \<and>
    (\<exists>r. Execute g uid behave command timeout \<lparr>dead = True\<rparr> = (Inr r, \<lparr>dead = True\<rparr>) \<and> ExitCode r = 137)"
proof -
  have "Execute g uid behave command timeout bs = timed_out g uid w bs" for bs
    by (rule Execute_times_out [of behave, OF assms(1,2)]) (simp add: assms(3))
  then show ?thesis by (simp add: timed_out_def Let_def)
qed

theorem reset_notice_lost_on_timeout_witness:
  "Execute ascii_lib ''1f0a'' (\<lambda>_ _. demo_io ''foo'' None) ''sleep 99'' 0 \<lparr>dead = True\<rparr> =
     Execute ascii_lib ''1f0a'' (\<lambda>_ _. demo_io ''foo'' None) ''sleep 99'' 0 \<lparr>dead = False\<rparr>"
proof -
  have "read_out ''1f0a'' (out_pipe (demo_io ''foo'' None)) = None"
    using read_out_unterminated [of "''1f0a''" "[''late'']" "[''a'', ''b'']" "''foo''" None]
    by (simp add: demo_io_def is_line_def plain_line_def startMarker_def endMarker_def exitMarker_def delimiter_def)
  then show ?thesis
    using reset_notice_lost_on_timeout [of "\<lambda>_ _. demo_io ''foo'' None" "''1f0a''" "''sleep 99''" 0 "demo_io ''foo'' None" ascii_lib]
    by (simp add: demo_io_def io_works_def)
qed

section \<open>The agent as a state machine\<close>

text \<open>
  The three endpoints as steps on the handler. Each request brings what its command does in bash, so
  a run is any sequence of requests from any clients.
\<close>

datatype agent_call =
    Health
  | Exec string "string \<Rightarrow> int \<Rightarrow> exec_io" agent_request
  | AssignCall agent_request

inductive agent_step :: "golib \<Rightarrow> (string \<Rightarrow> exec_request result) \<Rightarrow> (string \<Rightarrow> string result) \<Rightarrow>
    handler \<Rightarrow> agent_call \<times> agent_response \<Rightarrow> handler \<Rightarrow> bool"
  for g ue ua where
  health: "agent_step g ue ua h (Health, HandleHealth h) h"
| exec: "HandleExec g ue uid behave h r = (resp, h') \<Longrightarrow> agent_step g ue ua h (Exec uid behave r, resp) h'"
| assign: "HandleAssign ua h r = (resp, h') \<Longrightarrow> agent_step g ue ua h (AssignCall r, resp) h'"

inductive_cases health_stepE: "agent_step g ue ua h (Health, resp) h'"
inductive_cases exec_stepE: "agent_step g ue ua h (Exec uid behave r, resp) h'"
inductive_cases assign_stepE: "agent_step g ue ua h (AssignCall r, resp) h'"

inductive agent_run :: "golib \<Rightarrow> (string \<Rightarrow> exec_request result) \<Rightarrow> (string \<Rightarrow> string result) \<Rightarrow>
    handler \<Rightarrow> (agent_call \<times> agent_response) list \<Rightarrow> handler \<Rightarrow> bool"
  for g ue ua h where
  nil: "agent_run g ue ua h [] h"
| snoc: "agent_run g ue ua h tr h1 \<Longrightarrow> agent_step g ue ua h1 e h2 \<Longrightarrow> agent_run g ue ua h (tr @ [e]) h2"

text \<open>Which events ran a command, and which delivered a token.\<close>

fun ran_command :: "agent_call \<times> agent_response \<Rightarrow> bool" where
  "ran_command (Exec _ _ _, ExecResponse _ _) = True"
| "ran_command (Exec _ _ _, ErrorResponse n _) = (n = 500)"
| "ran_command _ = False"

fun delivered :: "agent_call \<times> agent_response \<Rightarrow> bool" where
  "delivered (AssignCall _, StatusOnly n) = (n = 200)"
| "delivered _ = False"

fun bearer :: "agent_call \<times> agent_response \<Rightarrow> string option" where
  "bearer (Exec _ _ r, _) = extractBearerToken (agent_header r)"
| "bearer _ = None"

definition state_ok :: "agent_state \<Rightarrow> bool" where
  "state_ok s = (assigned s \<longleftrightarrow> agent_token s \<noteq> [])"

lemma HandleExec_state: "HandleExec g ue uid behave h r = (resp, h') \<Longrightarrow> state h' = state h"
  by (auto simp: HandleExec_def split: if_splits option.splits sum.splits prod.splits)

lemma HandleExec_ran:
  assumes "HandleExec g ue uid behave h r = (resp, h')" "ran_command (Exec uid behave r, resp)"
  shows "assigned (state h) \<and> extractBearerToken (agent_header r) = Some (agent_token (state h))"
  using assms
  by (auto simp: HandleExec_def writeError_def IsAssigned_def GetToken_def split: if_splits option.splits sum.splits prod.splits)

lemma HandleAssign_cases:
  assumes "HandleAssign ua h r = (resp, h')"
  shows "(state h' = state h \<and> resp \<noteq> StatusOnly 200) \<or>
    (\<not> assigned (state h) \<and> assigned (state h') \<and> agent_token (state h') \<noteq> [] \<and> resp = StatusOnly 200)"
  using assms
  by (auto simp: HandleAssign_def Assign_def writeError_def split: if_splits option.splits sum.splits prod.splits)

lemma step_cases:
  assumes "agent_step g ue ua h e h'"
  shows "(state h' = state h \<and> \<not> delivered e \<and>
      (ran_command e \<longrightarrow> assigned (state h) \<and> bearer e = Some (agent_token (state h)))) \<or>
    (\<not> assigned (state h) \<and> assigned (state h') \<and> agent_token (state h') \<noteq> [] \<and> delivered e \<and> \<not> ran_command e)"
  using assms
proof cases
  case health
  then show ?thesis by simp
next
  case (exec uid behave r resp)
  then show ?thesis using HandleExec_state HandleExec_ran by fastforce
next
  case (assign r resp)
  then show ?thesis using HandleAssign_cases [OF assign(2)] by (cases resp) auto
qed

lemma run_invariant:
  assumes "state_ok (state h)" "agent_run g ue ua h tr h'"
  shows "state_ok (state h') \<and>
    (assigned (state h) \<longrightarrow> state h' = state h \<and> list_all (\<lambda>e. \<not> delivered e) tr) \<and>
    (\<not> assigned (state h') \<longrightarrow> list_all (\<lambda>e. \<not> delivered e) tr) \<and>
    length (filter delivered tr) \<le> 1 \<and>
    list_all (\<lambda>e. ran_command e \<longrightarrow> assigned (state h') \<and> bearer e = Some (agent_token (state h'))) tr"
  using assms(2)
proof (induction rule: agent_run.induct)
  case nil
  then show ?case using assms(1) by simp
next
  case (snoc tr h1 e h2)
  from step_cases [OF snoc.hyps(2)] show ?case
  proof (elim disjE conjE)
    assume "state h2 = state h1" "\<not> delivered e"
      "ran_command e \<longrightarrow> assigned (state h1) \<and> bearer e = Some (agent_token (state h1))"
    with snoc.IH show ?thesis by simp
  next
    assume a: "\<not> assigned (state h1)" "assigned (state h2)" "agent_token (state h2) \<noteq> []"
      "delivered e" "\<not> ran_command e"
    with snoc.IH have "list_all (\<lambda>e. \<not> delivered e) tr" "list_all (\<lambda>e. \<not> ran_command e) tr" "\<not> assigned (state h)"
      by auto
    with a show ?thesis by (auto simp: state_ok_def list_all_iff filter_empty_conv)
  qed
qed

lemma NewAgentState_ok: "state_ok (NewAgentState tok)"
  by (simp add: NewAgentState_def state_ok_def)

text \<open>
  C13. The agent is assigned at most once. In any run of requests against an agent started with a
  token or without one, at most one \<open>/assign\<close> succeeds, none when the agent started assigned,
  and every command that was run came with the one token the agent holds at the end.
\<close>

theorem agent_assigned_once:
  assumes "agent_run g ue ua \<lparr>session = bs, state = NewAgentState tok\<rparr> tr h"
  shows "length (filter delivered tr) \<le> (if tok = [] then 1 else 0) \<and>
    (tok \<noteq> [] \<longrightarrow> agent_token (state h) = tok) \<and>
    (\<forall>e \<in> set tr. ran_command e \<longrightarrow> agent_token (state h) \<noteq> [] \<and> bearer e = Some (agent_token (state h)))"
proof -
  note inv = run_invariant [OF _ assms, simplified, OF NewAgentState_ok]
  from inv have "length (filter delivered tr) \<le> (if tok = [] then 1 else 0)"
    by (auto simp: NewAgentState_def list_all_iff filter_empty_conv)
  with inv show ?thesis by (auto simp: NewAgentState_def list_all_iff state_ok_def)
qed

definition demo_request :: "string \<Rightarrow> string \<Rightarrow> agent_request" where
  "demo_request tok b = \<lparr>agent_header = [(''Authorization'', [''Bearer '' @ tok])], body = b\<rparr>"

definition demo_decode :: "string \<Rightarrow> exec_request result" where
  "demo_decode b = Inr \<lparr>Command = b, Timeout = 1\<rparr>"

definition demo_agent :: "agent_state \<Rightarrow> handler" where
  "demo_agent s = \<lparr>session = \<lparr>dead = False\<rparr>, state = s\<rparr>"

lemmas demo_agent_defs = demo_request_def demo_decode_def demo_agent_def HandleExec_def HandleAssign_def
  decodeJSONBody_def maxRequestBody_def extractBearerToken_def Assign_def IsAssigned_def GetToken_def writeError_def

lemma demo_assign:
  "agent_step ascii_lib demo_decode Inr (demo_agent \<lparr>assigned = False, agent_token = []\<rparr>)
     (AssignCall (demo_request [] ''k3y''), StatusOnly 200) (demo_agent \<lparr>assigned = True, agent_token = ''k3y''\<rparr>)"
  by (rule agent_step.assign) (simp add: demo_agent_defs)

lemma demo_exec:
  "\<exists>resp. ran_command (Exec ''1f0a'' (\<lambda>_ _. demo_io [] None) (demo_request ''k3y'' ''ls''), resp) \<and>
    agent_step ascii_lib demo_decode Inr (demo_agent \<lparr>assigned = True, agent_token = ''k3y''\<rparr>)
     (Exec ''1f0a'' (\<lambda>_ _. demo_io [] None) (demo_request ''k3y'' ''ls''), resp)
     (demo_agent \<lparr>assigned = True, agent_token = ''k3y''\<rparr>)"
proof -
  have ex: "\<exists>r. Execute ascii_lib ''1f0a'' (\<lambda>_ _. demo_io [] None) ''ls'' t \<lparr>dead = False\<rparr> = (Inr r, \<lparr>dead = False\<rparr>)" for t
    using Execute_completes [of "\<lambda>_ _. demo_io [] None" "''1f0a''" "''ls''" t "demo_io [] None" _ ascii_lib _ 3 "\<lparr>dead = False\<rparr>"]
      read_out_terminated [of "''1f0a''" "[''late'']" "[''a'', ''b'']" None]
      read_errs_terminated [of "''1f0a''" "[''warn'']" 3 ascii_lib None]
    by (simp add: demo_io_def io_works_def is_line_def plain_line_def startMarker_def endMarker_def exitMarker_def delimiter_def)
  have auth: "CanonicalHeaderKey ''Authorization'' = ''Authorization''" by code_simp
  from ex [of "int64 second"] obtain r where r:
    "Execute ascii_lib ''1f0a'' (\<lambda>_ _. demo_io [] None) ''ls'' (int64 second) \<lparr>dead = False\<rparr> = (Inr r, \<lparr>dead = False\<rparr>)"
    by blast
  then have "HandleExec ascii_lib demo_decode ''1f0a'' (\<lambda>_ _. demo_io [] None)
      (demo_agent \<lparr>assigned = True, agent_token = ''k3y''\<rparr>) (demo_request ''k3y'' ''ls'') =
      (ExecResponse r (Duration r div 1000000), demo_agent \<lparr>assigned = True, agent_token = ''k3y''\<rparr>)"
    by (simp add: demo_agent_defs Header_Get_def auth)
  then show ?thesis using agent_step.exec by (metis ran_command.simps(1))
qed

theorem agent_assigned_once_witness:
  "\<exists>resp h. agent_run ascii_lib demo_decode Inr (demo_agent (NewAgentState []))
     [(AssignCall (demo_request [] ''k3y''), StatusOnly 200),
      (Exec ''1f0a'' (\<lambda>_ _. demo_io [] None) (demo_request ''k3y'' ''ls''), resp)] h \<and>
     ran_command (Exec ''1f0a'' (\<lambda>_ _. demo_io [] None) (demo_request ''k3y'' ''ls''), resp) \<and>
     agent_token (state h) \<noteq> [] \<and>
     bearer (Exec ''1f0a'' (\<lambda>_ _. demo_io [] None) (demo_request ''k3y'' ''ls''), resp) = Some (agent_token (state h))"
proof -
  obtain resp where resp: "ran_command (Exec ''1f0a'' (\<lambda>_ _. demo_io [] None) (demo_request ''k3y'' ''ls''), resp)"
    "agent_step ascii_lib demo_decode Inr (demo_agent \<lparr>assigned = True, agent_token = ''k3y''\<rparr>)
     (Exec ''1f0a'' (\<lambda>_ _. demo_io [] None) (demo_request ''k3y'' ''ls''), resp)
     (demo_agent \<lparr>assigned = True, agent_token = ''k3y''\<rparr>)"
    using demo_exec by blast
  have run: "agent_run ascii_lib demo_decode Inr (demo_agent (NewAgentState []))
     [(AssignCall (demo_request [] ''k3y''), StatusOnly 200),
      (Exec ''1f0a'' (\<lambda>_ _. demo_io [] None) (demo_request ''k3y'' ''ls''), resp)]
     (demo_agent \<lparr>assigned = True, agent_token = ''k3y''\<rparr>)"
    using agent_run.snoc [OF agent_run.snoc [OF agent_run.nil] resp(2)] demo_assign
    by (simp add: NewAgentState_def)
  have "agent_token (state (demo_agent \<lparr>assigned = True, agent_token = ''k3y''\<rparr>)) \<noteq> [] \<and>
      bearer (Exec ''1f0a'' (\<lambda>_ _. demo_io [] None) (demo_request ''k3y'' ''ls''), resp) =
      Some (agent_token (state (demo_agent \<lparr>assigned = True, agent_token = ''k3y''\<rparr>)))"
    using agent_assigned_once [OF run [unfolded demo_agent_def]] resp(1) by (simp add: demo_agent_def)
  with resp(1) run show ?thesis by blast
qed

end
