(* ===== verification/World.thy ===== *)
theory World
  imports PodSpec PodCache SandboxAgent "HOL-Library.State_Monad"
begin

text \<open>
  What the program acts on: the Kubernetes API, the agents behind HTTP, the clock and the request
  contexts. None of that is code of the repository, so it is a parameter, the record \<open>env\<close>: an arbitrary world \<open>'w\<close>
  with one function per call the program makes. The world may answer a call with
  anything, which covers other replicas, the operator and users acting in between.

  Programs are in the state monad over \<open>gsys\<close>, which holds a log of events of any type. Every call to the API or to an agent is appended to
  the log with its answer, so a theorem about the log is a theorem about what the program does to the outside. The
  session cache and the proxy gate of the MCP server are part of the state. Time only moves forward:
  reading the clock adds what the world says has elapsed, waiting adds at least the time waited.
\<close>

section \<open>Calls and answers\<close>

datatype ctx = Background | Request | WithTimeout ctx int

record secret =
  secret_Name :: string
  secret_Namespace :: string
  secret_Labels :: "(string \<times> string) list"
  StringData :: "(string \<times> string) list"

record endpoint =
  Addresses :: "string list"
  ep_Ready :: "bool option"

record endpoint_slice =
  Endpoints :: "endpoint list"

record network_policy =
  PolicyTypes :: "string list"

text \<open>A JSON merge patch: labels to set or remove, annotations to set, the version it applies to.\<close>

record merge_patch =
  patch_Labels :: "(string \<times> string option) list"
  patch_Annotations :: "(string \<times> string) list"
  patch_ResourceVersion :: "string option"

text \<open>The preconditions of a delete: UID and resource version.\<close>

type_synonym preconditions = "(string \<times> string) option"

record http_request =
  Method :: string
  URL :: string
  req_Header :: header
  req_Body :: string

record http_response =
  StatusCode :: nat
  resp_Body :: string
  body_Err :: "go_error option"

record exec_response =
  resp_Stdout :: string
  resp_Stderr :: string
  resp_ExitCode :: int
  DurationMs :: int

datatype event =
    PodsList ctx string string "pod list result"
  | PodsGet ctx string string "pod result"
  | PodsCreate ctx string pod "pod result"
  | PodsPatch ctx string string merge_patch "pod result"
  | PodsDelete ctx string string preconditions "unit result"
  | SecretsCreate ctx string secret "unit result"
  | SecretsDelete ctx string string "unit result"
  | SlicesList ctx string string "endpoint_slice list result"
  | NetpolGet ctx string string "network_policy result"
  | HttpDo ctx http_request "http_response result"

text \<open>
  \<open>http_Do\<close> takes the timeout of the HTTP client. \<open>poll_Ticks\<close> is how often a polling loop takes its ticker
  case before the deadline or the context ends it: both are ready at some point, and the choice
  of \<open>select\<close> is fair. The codecs, the quantity parser and HMAC-SHA256 are functions.
\<close>

record 'w env =
  pods_List :: "ctx \<Rightarrow> string \<Rightarrow> string \<Rightarrow> 'w \<Rightarrow> pod list result \<times> 'w"
  pods_Get :: "ctx \<Rightarrow> string \<Rightarrow> string \<Rightarrow> 'w \<Rightarrow> pod result \<times> 'w"
  pods_Create :: "ctx \<Rightarrow> string \<Rightarrow> pod \<Rightarrow> 'w \<Rightarrow> pod result \<times> 'w"
  pods_Patch :: "ctx \<Rightarrow> string \<Rightarrow> string \<Rightarrow> merge_patch \<Rightarrow> 'w \<Rightarrow> pod result \<times> 'w"
  pods_Delete :: "ctx \<Rightarrow> string \<Rightarrow> string \<Rightarrow> preconditions \<Rightarrow> 'w \<Rightarrow> unit result \<times> 'w"
  secrets_Create :: "ctx \<Rightarrow> string \<Rightarrow> secret \<Rightarrow> 'w \<Rightarrow> unit result \<times> 'w"
  secrets_Delete :: "ctx \<Rightarrow> string \<Rightarrow> string \<Rightarrow> 'w \<Rightarrow> unit result \<times> 'w"
  slices_List :: "ctx \<Rightarrow> string \<Rightarrow> string \<Rightarrow> 'w \<Rightarrow> endpoint_slice list result \<times> 'w"
  netpol_Get :: "ctx \<Rightarrow> string \<Rightarrow> string \<Rightarrow> 'w \<Rightarrow> network_policy result \<times> 'w"
  http_Do :: "ctx \<Rightarrow> int \<Rightarrow> http_request \<Rightarrow> 'w \<Rightarrow> http_response result \<times> 'w"
  ctx_Err :: "ctx \<Rightarrow> 'w \<Rightarrow> go_error option \<times> 'w"
  elapse :: "'w \<Rightarrow> nat \<times> 'w"
  poll_Ticks :: "'w \<Rightarrow> nat \<times> 'w"
  golang :: golib
  parse_Quantity :: "string \<Rightarrow> string result"
  hmac_sha256_hex :: "string \<Rightarrow> string \<Rightarrow> string"
  format_RFC3339 :: "int \<Rightarrow> string"
  marshal_exec :: "exec_request \<Rightarrow> string"
  marshal_assign :: "string \<Rightarrow> string"
  unmarshal_exec_response :: "string \<Rightarrow> exec_response result"

record proxy_gate =
  gate_set :: bool
  gate_at :: int
  gate_err :: "go_error option"

record ('w, 'e) gsys =
  world :: 'w
  clock :: int
  log :: "'e list"
  cache :: pod_cache
  gate :: proxy_gate

type_synonym 'w sys = "('w, event) gsys"

type_synonym ('w, 'e, 'a) gio = "(('w, 'e) gsys, 'a) state"

type_synonym ('w, 'a) io = "('w, event, 'a) gio"

section \<open>Primitive steps\<close>

definition call :: "('w \<Rightarrow> 'a \<times> 'w) \<Rightarrow> ('a \<Rightarrow> 'e) \<Rightarrow> ('w, 'e, 'a) gio" where
  "call f ev = State (\<lambda>s. case f (world s) of (r, w) \<Rightarrow> (r, s\<lparr>world := w, log := log s @ [ev r]\<rparr>))"

definition ask :: "('w \<Rightarrow> 'a \<times> 'w) \<Rightarrow> ('w, 'e, 'a) gio" where
  "ask f = State (\<lambda>s. case f (world s) of (r, w) \<Rightarrow> (r, s\<lparr>world := w\<rparr>))"

definition pass :: "'w env \<Rightarrow> int \<Rightarrow> ('w, 'e, unit) gio" where
  "pass e d = State (\<lambda>s. case elapse e (world s) of (n, w) \<Rightarrow> ((), s\<lparr>world := w, clock := clock s + max 0 d + int n\<rparr>))"

definition get_clock :: "('w, 'e, int) gio" where
  "get_clock = State (\<lambda>s. (clock s, s))"

definition time_Now :: "'w env \<Rightarrow> ('w, 'e, int) gio" where
  "time_Now e = do { _ \<leftarrow> pass e 0; get_clock }"

definition with_cache :: "(pod_cache \<Rightarrow> 'a \<times> pod_cache) \<Rightarrow> ('w, 'e, 'a) gio" where
  "with_cache f = State (\<lambda>s. case f (cache s) of (r, c) \<Rightarrow> (r, s\<lparr>cache := c\<rparr>))"

definition get_gate :: "('w, 'e, proxy_gate) gio" where
  "get_gate = State (\<lambda>s. (gate s, s))"

definition put_gate :: "proxy_gate \<Rightarrow> ('w, 'e, unit) gio" where
  "put_gate x = State (\<lambda>s. ((), s\<lparr>gate := x\<rparr>))"

abbreviation ret :: "'a \<Rightarrow> ('w, 'e, 'a) gio" where "ret \<equiv> State_Monad.return"

definition list_pods :: "'w env \<Rightarrow> ctx \<Rightarrow> string \<Rightarrow> string \<Rightarrow> ('w, pod list result) io" where
  "list_pods e c ns sel = call (pods_List e c ns sel) (PodsList c ns sel)"

definition get_pod :: "'w env \<Rightarrow> ctx \<Rightarrow> string \<Rightarrow> string \<Rightarrow> ('w, pod result) io" where
  "get_pod e c ns n = call (pods_Get e c ns n) (PodsGet c ns n)"

definition create_pod :: "'w env \<Rightarrow> ctx \<Rightarrow> string \<Rightarrow> pod \<Rightarrow> ('w, pod result) io" where
  "create_pod e c ns p = call (pods_Create e c ns p) (PodsCreate c ns p)"

definition patch_pod :: "'w env \<Rightarrow> ctx \<Rightarrow> string \<Rightarrow> string \<Rightarrow> merge_patch \<Rightarrow> ('w, pod result) io" where
  "patch_pod e c ns n p = call (pods_Patch e c ns n p) (PodsPatch c ns n p)"

definition delete_pod :: "'w env \<Rightarrow> ctx \<Rightarrow> string \<Rightarrow> string \<Rightarrow> preconditions \<Rightarrow> ('w, unit result) io" where
  "delete_pod e c ns n pre = call (pods_Delete e c ns n pre) (PodsDelete c ns n pre)"

definition create_secret :: "'w env \<Rightarrow> ctx \<Rightarrow> string \<Rightarrow> secret \<Rightarrow> ('w, unit result) io" where
  "create_secret e c ns x = call (secrets_Create e c ns x) (SecretsCreate c ns x)"

definition delete_secret :: "'w env \<Rightarrow> ctx \<Rightarrow> string \<Rightarrow> string \<Rightarrow> ('w, unit result) io" where
  "delete_secret e c ns n = call (secrets_Delete e c ns n) (SecretsDelete c ns n)"

definition list_slices :: "'w env \<Rightarrow> ctx \<Rightarrow> string \<Rightarrow> string \<Rightarrow> ('w, endpoint_slice list result) io" where
  "list_slices e c ns sel = call (slices_List e c ns sel) (SlicesList c ns sel)"

definition get_netpol :: "'w env \<Rightarrow> ctx \<Rightarrow> string \<Rightarrow> string \<Rightarrow> ('w, network_policy result) io" where
  "get_netpol e c ns n = call (netpol_Get e c ns n) (NetpolGet c ns n)"

definition do_http :: "'w env \<Rightarrow> ctx \<Rightarrow> int \<Rightarrow> http_request \<Rightarrow> ('w, http_response result) io" where
  "do_http e c timeout r = call (http_Do e c timeout r) (HttpDo c r)"

lemmas api_defs = list_pods_def get_pod_def create_pod_def patch_pod_def delete_pod_def create_secret_def
  delete_secret_def list_slices_def get_netpol_def do_http_def

section \<open>Running a program\<close>

lemma bind_weak_cong: "m = m' \<Longrightarrow> State_Monad.bind m f = State_Monad.bind m' f"
  by simp

lemma run_bind: "run_state (State_Monad.bind m f) s = (case run_state m s of (r, s') \<Rightarrow> run_state (f r) s')"
  by (simp add: State_Monad.bind_def)

lemma run_ret: "run_state (ret x) s = (x, s)"
  by (simp add: State_Monad.return_def)

lemmas run_steps = run_bind run_ret call_def ask_def pass_def get_clock_def time_Now_def with_cache_def get_gate_def put_gate_def
  api_defs

end
