(* ===== verification/AgentClient.thy ===== *)
theory AgentClient
  imports World
begin

text \<open>
  \<open>pkg/agent\<close>: the HTTP client of the sandbox agent and its three typed errors
  (\<^const>\<open>NetworkError\<close>, \<^const>\<open>StatusError\<close>, \<^const>\<open>DecodeError\<close> of \<^typ>\<open>go_error\<close>). The HTTP transport is the
  call \<^const>\<open>do_http\<close>; the codecs are those of the environment, and encoding a request cannot fail. A URL that
  does not parse fails before the transport.
\<close>

section \<open>client.go\<close>

definition maxErrorBodySize :: nat where "maxErrorBodySize = 512"
definition DefaultMaxResponseSize :: int where "DefaultMaxResponseSize = 10 * 1024 * 1024"
definition client_defaultTimeout :: int where "client_defaultTimeout = 30 * second"
definition client_defaultPort :: int where "client_defaultPort = 8090"

record agent_client =
  client_Timeout :: int
  port :: int
  maxResponseSize :: int

text \<open>An option is a function on the client, applied in order.\<close>

definition WithTimeout_option :: "int \<Rightarrow> agent_client \<Rightarrow> agent_client" where
  "WithTimeout_option d c = c\<lparr>client_Timeout := d\<rparr>"

definition WithPort :: "int \<Rightarrow> agent_client \<Rightarrow> agent_client" where
  "WithPort p c = c\<lparr>port := p\<rparr>"

definition WithMaxResponseSize :: "int \<Rightarrow> agent_client \<Rightarrow> agent_client" where
  "WithMaxResponseSize n c = c\<lparr>maxResponseSize := n\<rparr>"

definition NewAgentClient :: "(agent_client \<Rightarrow> agent_client) list \<Rightarrow> agent_client" where
  "NewAgentClient opts =
     fold (\<lambda>opt c. opt c) opts
       \<lparr>client_Timeout = client_defaultTimeout, port = client_defaultPort, maxResponseSize = DefaultMaxResponseSize\<rparr>"

definition buildURL :: "agent_client \<Rightarrow> string \<Rightarrow> string \<Rightarrow> string" where
  "buildURL c podIP path = ''http://'' @ JoinHostPort podIP (Itoa (port c)) @ path"

definition classifyDoError :: "go_error \<Rightarrow> string \<Rightarrow> string \<Rightarrow> go_error" where
  "classifyDoError e oper url = NetworkError oper url e"

definition readBodyTruncated :: "string \<Rightarrow> nat \<Rightarrow> string" where
  "readBodyTruncated b limit = take limit b"

definition truncateString :: "string \<Rightarrow> nat \<Rightarrow> string" where
  "truncateString s limit = (if length s \<le> limit then s else take limit s)"

definition exec_http :: "'w env \<Rightarrow> agent_client \<Rightarrow> string \<Rightarrow> string \<Rightarrow> exec_request \<Rightarrow> http_request" where
  "exec_http e c podIP token req =
     \<lparr>Method = ''POST'', URL = buildURL c podIP ''/exec'',
      req_Header = Header_Set (Header_Set [] ''Content-Type'' ''application/json'') ''Authorization'' (''Bearer '' @ token),
      req_Body = marshal_exec e req\<rparr>"

text \<open>
  What a response of \<open>/exec\<close> means. The reader is limited to one byte more than the maximum, and an error while
  reading is reported with what was read.
\<close>

definition decode_exec :: "'w env \<Rightarrow> agent_client \<Rightarrow> string \<Rightarrow> http_response \<Rightarrow> exec_response result" where
  "decode_exec e c url resp =
     (if StatusCode resp \<noteq> 200 then
        Inl (StatusError ''execute'' url (StatusCode resp) (readBodyTruncated (resp_Body resp) maxErrorBodySize))
      else
        let cap = nat (maxResponseSize c + 1);
            raw = take cap (resp_Body resp);
            fail = (\<lambda>err. Inl (DecodeError ''execute'' url (StatusCode resp) err (truncateString raw maxErrorBodySize)))
        in case (if length (resp_Body resp) < cap then body_Err resp else None) of
             Some err \<Rightarrow> fail err
           | None \<Rightarrow>
               if int (length raw) > maxResponseSize c then
                 fail (Err (''response body exceeds maximum size of '' @ Itoa (maxResponseSize c) @ '' bytes''))
               else
                 (case unmarshal_exec_response e raw of Inl err \<Rightarrow> fail err | Inr r \<Rightarrow> Inr r))"

lemma decode_exec_code [code]:
  "decode_exec e c url resp =
     (if StatusCode resp = 200 \<and> body_Err resp = None \<and> int (length (resp_Body resp)) \<le> maxResponseSize c then
        (case unmarshal_exec_response e (resp_Body resp) of
           Inl err \<Rightarrow> Inl (DecodeError ''execute'' url 200 err (truncateString (resp_Body resp) maxErrorBodySize))
         | Inr r \<Rightarrow> Inr r)
      else if StatusCode resp \<noteq> 200 then
        Inl (StatusError ''execute'' url (StatusCode resp) (readBodyTruncated (resp_Body resp) maxErrorBodySize))
      else
        let cap = nat (maxResponseSize c + 1);
            raw = take cap (resp_Body resp);
            fail = (\<lambda>err. Inl (DecodeError ''execute'' url (StatusCode resp) err (truncateString raw maxErrorBodySize)))
        in case (if length (resp_Body resp) < cap then body_Err resp else None) of
             Some err \<Rightarrow> fail err
           | None \<Rightarrow>
               if int (length raw) > maxResponseSize c then
                 fail (Err (''response body exceeds maximum size of '' @ Itoa (maxResponseSize c) @ '' bytes''))
               else
                 (case unmarshal_exec_response e raw of Inl err \<Rightarrow> fail err | Inr r \<Rightarrow> Inr r))"
proof (cases "StatusCode resp = 200 \<and> body_Err resp = None \<and> int (length (resp_Body resp)) \<le> maxResponseSize c")
  case True
  then have t: "take (nat (maxResponseSize c + 1)) (resp_Body resp) = resp_Body resp" by (simp add: le_nat_iff)
  from True have "\<not> StatusCode resp \<noteq> 200" "\<not> int (length (resp_Body resp)) > maxResponseSize c" by simp_all
  moreover have "(if length (resp_Body resp) < nat (maxResponseSize c + 1) then body_Err resp else None) = None"
    using True by simp
  ultimately show ?thesis unfolding decode_exec_def Let_def if_P [OF True] t using True by (simp only: if_False option.case)
next
  case False
  then show ?thesis unfolding decode_exec_def if_not_P [OF False] by simp
qed

definition client_Execute :: "'w env \<Rightarrow> agent_client \<Rightarrow> ctx \<Rightarrow> string \<Rightarrow> string \<Rightarrow> exec_request \<Rightarrow> ('w, exec_response result) io" where
  "client_Execute e c cx podIP token req =
     (case url_Parse (golang e) (buildURL c podIP ''/exec'') of
        Inl err \<Rightarrow> ret (Inl (Wrap ''create exec request'' err))
      | Inr _ \<Rightarrow>
          do {
            r \<leftarrow> do_http e cx (client_Timeout c) (exec_http e c podIP token req);
            ret (case r of
                   Inl err \<Rightarrow> Inl (classifyDoError err ''execute'' (buildURL c podIP ''/exec''))
                 | Inr resp \<Rightarrow> decode_exec e c (buildURL c podIP ''/exec'') resp)
          })"

definition assign_http :: "'w env \<Rightarrow> agent_client \<Rightarrow> string \<Rightarrow> string \<Rightarrow> http_request" where
  "assign_http e c podIP token =
     \<lparr>Method = ''POST'', URL = buildURL c podIP ''/assign'',
      req_Header = Header_Set [] ''Content-Type'' ''application/json'', req_Body = marshal_assign e token\<rparr>"

definition status_only :: "string \<Rightarrow> string \<Rightarrow> http_response result \<Rightarrow> unit result" where
  "status_only oper url r =
     (case r of
        Inl err \<Rightarrow> Inl (classifyDoError err oper url)
      | Inr resp \<Rightarrow>
          if StatusCode resp \<noteq> 200 then
            Inl (StatusError oper url (StatusCode resp) (readBodyTruncated (resp_Body resp) maxErrorBodySize))
          else Inr ())"

definition client_Assign :: "'w env \<Rightarrow> agent_client \<Rightarrow> ctx \<Rightarrow> string \<Rightarrow> string \<Rightarrow> ('w, unit result) io" where
  "client_Assign e c cx podIP token =
     (case url_Parse (golang e) (buildURL c podIP ''/assign'') of
        Inl err \<Rightarrow> ret (Inl (Wrap ''create assign request'' err))
      | Inr _ \<Rightarrow>
          do {
            r \<leftarrow> do_http e cx (client_Timeout c) (assign_http e c podIP token);
            ret (status_only ''assign'' (buildURL c podIP ''/assign'') r)
          })"

definition HealthCheck :: "'w env \<Rightarrow> agent_client \<Rightarrow> ctx \<Rightarrow> string \<Rightarrow> ('w, unit result) io" where
  "HealthCheck e c cx podIP =
     (case url_Parse (golang e) (buildURL c podIP ''/health'') of
        Inl err \<Rightarrow> ret (Inl (Wrap ''create health check request'' err))
      | Inr _ \<Rightarrow>
          do {
            r \<leftarrow> do_http e cx (client_Timeout c)
                   \<lparr>Method = ''GET'', URL = buildURL c podIP ''/health'', req_Header = [], req_Body = []\<rparr>;
            ret (status_only ''health_check'' (buildURL c podIP ''/health'') r)
          })"

end
