(* ===== verification/Sessions.thy ===== *)
theory Sessions
  imports AgentClient "HOL-Library.Product_Lexorder"
begin

text \<open>
  \<open>pkg/session/pool.go\<close> and \<open>pkg/session/manager.go\<close>: how the MCP server finds, claims or creates the
  pod of a session, runs commands in it and cleans up. Every function of the two files that acts on the outside is a
  program in the state monad of \<^theory_text>\<open>World\<close>, in the order of the files.

  Sorting a slice in Go is stable for fewer than twelve elements, so sorting is stable here. Log
  messages are left out. The two goroutines of the source are run in place: the shared lookup of
  the proxy gate and the activity update after a command.
\<close>

section \<open>pool.go\<close>

definition assignTimeout :: int where "assignTimeout = 10 * second"
definition readyPollPeriod :: int where "readyPollPeriod = 2 * second"
definition readyTimeout :: int where "readyTimeout = 60 * second"

record warm_pool =
  pool_config :: sandbox_config
  pool_agent :: agent_client

definition NewWarmPool :: "sandbox_config \<Rightarrow> warm_pool" where
  "NewWarmPool config =
     \<lparr>pool_config = config,
      pool_agent = NewAgentClient [WithPort (AgentPort config), WithTimeout_option assignTimeout]\<rparr>"

definition listUnassignedPods :: "'w env \<Rightarrow> warm_pool \<Rightarrow> ctx \<Rightarrow> ('w, pod list result) io" where
  "listUnassignedPods e p cx =
     do {
       r \<leftarrow> list_pods e cx (Namespace (pool_config p)) (UnassignedSelector (InstanceName (pool_config p)));
       ret (case r of
              Inl err \<Rightarrow> Inl (Wrap ''list unassigned pods'' err)
            | Inr pods \<Rightarrow> Inr (sort_key CreationTimestamp pods))
     }"

definition isTerminalPod :: "pod \<Rightarrow> bool" where
  "isTerminalPod p = (Phase p = ''Failed'' \<or> Phase p = ''Succeeded'')"

definition HasUnhealthyWaiting :: "pod \<Rightarrow> bool" where
  "HasUnhealthyWaiting p =
     list_ex (\<lambda>w. case w of None \<Rightarrow> False
                  | Some reason \<Rightarrow> reason \<in> {WaitingImagePullBackOff, WaitingCrashLoopBackOff, WaitingErrImagePull})
       (WaitingReasons p)"

definition IsClaimableUnassigned :: "pod \<Rightarrow> bool" where
  "IsClaimableUnassigned p =
     (if DeletionTimestamp p \<noteq> None \<or> isTerminalPod p \<or> HasUnhealthyWaiting p then False else True)"

definition comparePodAge :: "pod \<Rightarrow> int \<times> string" where
  "comparePodAge p = (CreationTimestamp p, pod_Name p)"

definition computeToken :: "'w env \<Rightarrow> string \<Rightarrow> string \<Rightarrow> string" where
  "computeToken e hmacKey sessionID = hmac_sha256_hex e hmacKey sessionID"

definition buildAuthSecret :: "string \<Rightarrow> string \<Rightarrow> string \<Rightarrow> string \<Rightarrow> secret" where
  "buildAuthSecret ns inst sessionID token =
     \<lparr>secret_Name = AuthSecretName sessionID, secret_Namespace = ns,
      secret_Labels = [(LabelSessionID, sessionID), (LabelComponent, ComponentSandbox), (LabelInstance, inst)],
      StringData = [(''token'', token)]\<rparr>"

definition bestEffortDeletePod :: "'w env \<Rightarrow> ctx \<Rightarrow> string \<Rightarrow> string \<Rightarrow> ('w, unit) io" where
  "bestEffortDeletePod e cx ns name = do { _ \<leftarrow> delete_pod e cx ns name None; ret () }"

definition bestEffortDeleteSecret :: "'w env \<Rightarrow> ctx \<Rightarrow> string \<Rightarrow> string \<Rightarrow> ('w, unit) io" where
  "bestEffortDeleteSecret e cx ns sessionID = do { _ \<leftarrow> delete_secret e cx ns (AuthSecretName sessionID); ret () }"

text \<open>A sequence of best-effort deletes.\<close>

primrec delete_pods :: "'w env \<Rightarrow> ctx \<Rightarrow> string \<Rightarrow> pod list \<Rightarrow> ('w, unit) io" where
  "delete_pods e cx ns [] = ret ()"
| "delete_pods e cx ns (p # ps) = do { _ \<leftarrow> bestEffortDeletePod e cx ns (pod_Name p); delete_pods e cx ns ps }"

definition live_pods :: "pod list \<Rightarrow> pod list" where
  "live_pods ps = filter (\<lambda>p. \<not> (DeletionTimestamp p \<noteq> None \<or> isTerminalPod p)) ps"

definition keepOldestAssigned :: "'w env \<Rightarrow> warm_pool \<Rightarrow> ctx \<Rightarrow> string \<Rightarrow> string \<Rightarrow> string \<Rightarrow> ('w, string \<times> string) io" where
  "keepOldestAssigned e p cx sessionID claimedName claimedIP =
     do {
       r \<leftarrow> list_pods e cx (Namespace (pool_config p)) (AssignedSelector (InstanceName (pool_config p)) sessionID);
       (case r of
          Inl _ \<Rightarrow> ret (claimedIP, claimedName)
        | Inr items \<Rightarrow>
            let live = live_pods items in
            if length live \<le> 1 then ret (claimedIP, claimedName)
            else
              (case sort_key comparePodAge live of
                 [] \<Rightarrow> ret (claimedIP, claimedName)
               | oldest # extras \<Rightarrow>
                   do {
                     _ \<leftarrow> delete_pods e cx (Namespace (pool_config p)) extras;
                     ret (if pod_Name oldest = claimedName then (claimedIP, claimedName)
                          else (PodIP oldest, pod_Name oldest))
                   }))
     }"

definition claim_patch :: "string \<Rightarrow> string \<Rightarrow> string \<Rightarrow> merge_patch" where
  "claim_patch sessionID now rv =
     \<lparr>patch_Labels = [(LabelSessionID, Some sessionID)], patch_Annotations = [(AnnotationLastActivity, now)],
      patch_ResourceVersion = Some rv\<rparr>"

definition rollback_patch :: merge_patch where
  "rollback_patch = \<lparr>patch_Labels = [(LabelSessionID, None)], patch_Annotations = [], patch_ResourceVersion = None\<rparr>"

definition rollbackLabel :: "'w env \<Rightarrow> warm_pool \<Rightarrow> ctx \<Rightarrow> string \<Rightarrow> ('w, unit) io" where
  "rollbackLabel e p cx name = do { _ \<leftarrow> patch_pod e cx (Namespace (pool_config p)) name rollback_patch; ret () }"

definition assignToken :: "'w env \<Rightarrow> warm_pool \<Rightarrow> ctx \<Rightarrow> string \<Rightarrow> string \<Rightarrow> string \<Rightarrow> ('w, unit result) io" where
  "assignToken e p cx name ip token =
     (if ip = [] then ret (Inl (Err (''pod '' @ name @ '' has no IP'')))
      else do {
        r \<leftarrow> client_Assign e (pool_agent p) cx ip token;
        ret (case r of Inl err \<Rightarrow> Inl (Wrap ''assign request'' err) | Inr _ \<Rightarrow> Inr ())
      })"

text \<open>
  The polling loop shared by \<open>waitForIP\<close> and \<open>waitForReady\<close>: one check, then one per tick until the
  deadline or the end of the context. \<open>sel\<close> says when a pod is good, and \<open>late\<close> is the error of the deadline.
\<close>

definition poll_check :: "'w env \<Rightarrow> ctx \<Rightarrow> string \<Rightarrow> string \<Rightarrow> (pod \<Rightarrow> bool) \<Rightarrow> ('w, string option result) io" where
  "poll_check e cx ns name good =
     do {
       r \<leftarrow> get_pod e cx ns name;
       ret (case r of
              Inl err \<Rightarrow> Inl (Wrap (''get pod '' @ Quote (golang e) name) err)
            | Inr p \<Rightarrow> Inr (if good p then Some (PodIP p) else None))
     }"

primrec poll_loop :: "nat \<Rightarrow> 'w env \<Rightarrow> ctx \<Rightarrow> string \<Rightarrow> string \<Rightarrow> (pod \<Rightarrow> bool) \<Rightarrow> go_error \<Rightarrow> ('w, string result) io" where
  "poll_loop 0 e cx ns name good late =
     do {
       ce \<leftarrow> ask (ctx_Err e cx);
       ret (case ce of Some err \<Rightarrow> Inl err | None \<Rightarrow> Inl late)
     }"
| "poll_loop (Suc n) e cx ns name good late =
     do {
       ce \<leftarrow> ask (ctx_Err e cx);
       (case ce of
          Some err \<Rightarrow> ret (Inl err)
        | None \<Rightarrow>
            do {
              _ \<leftarrow> pass e readyPollPeriod;
              r \<leftarrow> poll_check e cx ns name good;
              (case r of
                 Inl err \<Rightarrow> ret (Inl err)
               | Inr (Some ip) \<Rightarrow> ret (Inr ip)
               | Inr None \<Rightarrow> poll_loop n e cx ns name good late)
            })
     }"

definition poll_pod :: "'w env \<Rightarrow> ctx \<Rightarrow> string \<Rightarrow> string \<Rightarrow> (pod \<Rightarrow> bool) \<Rightarrow> go_error \<Rightarrow> ('w, string result) io" where
  "poll_pod e cx ns name good late =
     do {
       r \<leftarrow> poll_check e cx ns name good;
       (case r of
          Inl err \<Rightarrow> ret (Inl err)
        | Inr (Some ip) \<Rightarrow> ret (Inr ip)
        | Inr None \<Rightarrow> do { n \<leftarrow> ask (poll_Ticks e); poll_loop n e cx ns name good late })
     }"

definition waitForIP :: "'w env \<Rightarrow> warm_pool \<Rightarrow> ctx \<Rightarrow> string \<Rightarrow> ('w, string result) io" where
  "waitForIP e p cx name =
     poll_pod e cx (Namespace (pool_config p)) name (\<lambda>pod. PodIP pod \<noteq> [])
       (Err (''pod '' @ Quote (golang e) name @ '' did not get IP within 1m0s''))"

definition tryClaimPod :: "'w env \<Rightarrow> warm_pool \<Rightarrow> ctx \<Rightarrow> pod \<Rightarrow> string \<Rightarrow> ('w, (string \<times> string) result) io" where
  "tryClaimPod e p cx pod sessionID =
     (let ns = Namespace (pool_config p); token = computeToken e (HMACKey (pool_config p)) sessionID in
      do {
        t \<leftarrow> time_Now e;
        pr \<leftarrow> patch_pod e cx ns (pod_Name pod) (claim_patch sessionID (format_RFC3339 e t) (ResourceVersion pod));
        (case pr of
           Inl err \<Rightarrow> ret (Inl err)
         | Inr patched \<Rightarrow>
             do {
               sr \<leftarrow> create_secret e cx ns (buildAuthSecret ns (InstanceName (pool_config p)) sessionID token);
               (case sr of
                  Inl err \<Rightarrow>
                    do { _ \<leftarrow> rollbackLabel e p cx (pod_Name pod); ret (Inl (Wrap ''create auth secret for claimed pod'' err)) }
                | Inr _ \<Rightarrow>
                    do {
                      ipr \<leftarrow> (if PodIP patched = [] then waitForIP e p cx (pod_Name patched) else ret (Inr (PodIP patched)));
                      (case ipr of
                         Inl err \<Rightarrow>
                           do {
                             _ \<leftarrow> rollbackLabel e p cx (pod_Name pod);
                             _ \<leftarrow> bestEffortDeleteSecret e cx ns sessionID;
                             ret (Inl (Wrap ''wait for pod IP'' err))
                           }
                       | Inr ip \<Rightarrow>
                           do {
                             ar \<leftarrow> assignToken e p cx (pod_Name patched) ip token;
                             (case ar of
                                Inl err \<Rightarrow>
                                  do {
                                    _ \<leftarrow> rollbackLabel e p cx (pod_Name pod);
                                    _ \<leftarrow> bestEffortDeleteSecret e cx ns sessionID;
                                    ret (Inl (Wrap ''assign token to claimed pod'' err))
                                  }
                              | Inr _ \<Rightarrow> ret (Inr (ip, pod_Name patched)))
                           })
                    })
             })
      })"

text \<open>The loop of \<open>ClaimPod\<close>: any failure to claim a pod moves on to the next.\<close>

primrec claim_loop :: "'w env \<Rightarrow> warm_pool \<Rightarrow> ctx \<Rightarrow> string \<Rightarrow> pod list \<Rightarrow> ('w, (string \<times> string) result) io" where
  "claim_loop e p cx sessionID [] = ret (Inl (Err ''all unassigned claim attempts failed''))"
| "claim_loop e p cx sessionID (pod # pods) =
     (if \<not> IsClaimableUnassigned pod then claim_loop e p cx sessionID pods
      else
        do {
          r \<leftarrow> tryClaimPod e p cx pod sessionID;
          (case r of
             Inr (ip, name) \<Rightarrow> do { x \<leftarrow> keepOldestAssigned e p cx sessionID name ip; ret (Inr x) }
           | Inl _ \<Rightarrow> claim_loop e p cx sessionID pods)
        })"

definition ClaimPod :: "'w env \<Rightarrow> warm_pool \<Rightarrow> ctx \<Rightarrow> string \<Rightarrow> ('w, (string \<times> string) result) io" where
  "ClaimPod e p cx sessionID =
     do {
       r \<leftarrow> listUnassignedPods e p cx;
       (case r of
          Inl err \<Rightarrow> ret (Inl (Wrap ''claim'' err))
        | Inr pods \<Rightarrow>
            if pods = [] then ret (Inl (Err ''no unassigned pods available''))
            else claim_loop e p cx sessionID pods)
     }"

section \<open>manager.go\<close>

definition podNamePrefix :: string where "podNamePrefix = ''cli-mcp-sandbox-''"
definition proxyGateTTL :: int where "proxyGateTTL = 5 * second"
definition agentNotAssignedWait :: int where "agentNotAssignedWait = 5 * second"
definition agentNotAssignedPoll :: int where "agentNotAssignedPoll = 100 * 1000000"
definition sessionRecoverReadyWait :: int where "sessionRecoverReadyWait = 15 * second"

definition mgr_sessionResetNotice :: string where
  "mgr_sessionResetNotice =
     ''[session state was reset '' @ [CHR 0xE2, CHR 0x80, CHR 0x94] @ '' previous bash process exited]'' @ [newline]"

text \<open>The copy of the agent's notice the server keeps is the same text.\<close>

lemma notices_in_sync: "mgr_sessionResetNotice = sessionResetNotice"
  by (simp add: mgr_sessionResetNotice_def sessionResetNotice_def)

record session_manager =
  mgr_config :: sandbox_config
  pool :: warm_pool
  agentClient :: agent_client
  assignWait :: int
  assignPoll :: int
  recoverWait :: int
  mgr_gateTTL :: int

definition NewSessionManager :: "sandbox_config \<Rightarrow> session_manager result" where
  "NewSessionManager config0 =
     (case check_config config0 of
        Inl err \<Rightarrow> Inl err
      | Inr _ \<Rightarrow>
          let config = config0\<lparr>AgentPort := cmp_Or_int (AgentPort config0) (AgentPort DefaultConfig)\<rparr> in
          Inr \<lparr>mgr_config = config, pool = NewWarmPool config,
               agentClient = NewAgentClient [WithPort (AgentPort config), WithTimeout_option 0],
               assignWait = agentNotAssignedWait, assignPoll = agentNotAssignedPoll,
               recoverWait = sessionRecoverReadyWait, mgr_gateTTL = proxyGateTTL\<rparr>)"

text \<open>The state a server starts in.\<close>

definition start_sys :: "'w \<Rightarrow> int \<Rightarrow> 'w sys" where
  "start_sys w t =
     \<lparr>world = w, clock = t, log = [], cache = NewPodCache defaultCacheTTL,
      gate = \<lparr>gate_set = False, gate_at = 0, gate_err = None\<rparr>\<rparr>"

text \<open>The regular expression of session IDs: one to 63 lower-case letters, digits and inner hyphens.\<close>

definition id_byte :: "char \<Rightarrow> bool" where "id_byte c = (is_lower c \<or> is_digit c)"

definition matches_sessionIDRegex :: "string \<Rightarrow> bool" where
  "matches_sessionIDRegex s =
     (s \<noteq> [] \<and> length s \<le> 63 \<and> id_byte (hd s) \<and> id_byte (last s) \<and> list_all (\<lambda>c. id_byte c \<or> c = CHR ''-'') s)"

definition ValidateSessionID :: "golib \<Rightarrow> string \<Rightarrow> unit result" where
  "ValidateSessionID g sessionID =
     (if \<not> matches_sessionIDRegex sessionID
      then Inl (Err (''invalid session ID '' @ Quote g sessionID @ '': must match RFC 1123 DNS label format''))
      else Inr ())"

subsection \<open>The proxy gate\<close>

definition EndpointSlicesReady :: "endpoint_slice list \<Rightarrow> bool" where
  "EndpointSlicesReady slices =
     list_ex (\<lambda>sl. list_ex (\<lambda>ep. Addresses ep \<noteq> [] \<and> (case ep_Ready ep of None \<Rightarrow> True | Some b \<Rightarrow> b)) (Endpoints sl)) slices"

definition cachedProxyGate :: "'w env \<Rightarrow> session_manager \<Rightarrow> ('w, go_error option option) io" where
  "cachedProxyGate e m =
     do {
       t \<leftarrow> time_Now e;
       g \<leftarrow> get_gate;
       ret (if \<not> gate_set g \<or> t - gate_at g \<ge> mgr_gateTTL m then None else Some (gate_err g))
     }"

definition storeProxyGate :: "'w env \<Rightarrow> go_error option \<Rightarrow> ('w, unit) io" where
  "storeProxyGate e err =
     do { t \<leftarrow> time_Now e; put_gate \<lparr>gate_set = True, gate_at = t, gate_err = err\<rparr> }"

definition proxyGateCacheable :: "go_error option \<Rightarrow> bool" where
  "proxyGateCacheable err = (case err of None \<Rightarrow> True | Some x \<Rightarrow> \<not> is_canceled x \<and> \<not> is_deadline x)"

definition proxy_slice_selector :: "session_manager \<Rightarrow> string" where
  "proxy_slice_selector m = ''kubernetes.io/service-name='' @ ProxyService (mgr_config m)"

definition lookupProxyReady :: "'w env \<Rightarrow> session_manager \<Rightarrow> ctx \<Rightarrow> ('w, go_error option) io" where
  "lookupProxyReady e m cx =
     do {
       r \<leftarrow> list_slices e cx (Namespace (mgr_config m)) (proxy_slice_selector m);
       (case r of
          Inl err \<Rightarrow> ret (Some (Wrap ''list proxy endpoint slices'' err))
        | Inr slices \<Rightarrow>
            if \<not> EndpointSlicesReady slices
            then ret (Some (Err (''proxy service '' @ ProxyService (mgr_config m) @ '' has no ready endpoint addresses'')))
            else
              do {
                np \<leftarrow> get_netpol e cx (Namespace (mgr_config m)) (SandboxNetworkPolicyName (InstanceName (mgr_config m)));
                ret (case np of
                       Inl err \<Rightarrow> Some (Wrap ''get sandbox network policy'' err)
                     | Inr pol \<Rightarrow>
                         if ''Egress'' \<notin> set (PolicyTypes pol)
                         then Some (Err (''sandbox network policy '' @ SandboxNetworkPolicyName (InstanceName (mgr_config m)) @
                                         '' does not set Egress''))
                         else None)
              })
     }"

text \<open>The lookup runs once for all callers; the second look at the cache is the one inside the shared call.\<close>

definition proxy_flight :: "'w env \<Rightarrow> session_manager \<Rightarrow> ctx \<Rightarrow> ('w, go_error option) io" where
  "proxy_flight e m cx =
     do {
       c \<leftarrow> cachedProxyGate e m;
       (case c of
          Some gateErr \<Rightarrow> ret gateErr
        | None \<Rightarrow>
            do {
              lookupErr \<leftarrow> lookupProxyReady e m cx;
              _ \<leftarrow> (if proxyGateCacheable lookupErr then storeProxyGate e lookupErr else ret ());
              ret lookupErr
            })
     }"

definition ensureProxyReady :: "'w env \<Rightarrow> session_manager \<Rightarrow> ctx \<Rightarrow> ('w, go_error option) io" where
  "ensureProxyReady e m cx =
     (if ProxyService (mgr_config m) = [] then ret None
      else
        do {
          c \<leftarrow> cachedProxyGate e m;
          (case c of
             Some gateErr \<Rightarrow> ret gateErr
           | None \<Rightarrow>
               do {
                 gateErr \<leftarrow> proxy_flight e m cx;
                 ce \<leftarrow> ask (ctx_Err e cx);
                 ret (case ce of Some err \<Rightarrow> Some err | None \<Rightarrow> gateErr)
               })
        })"

subsection \<open>Finding and making the pod of a session\<close>

definition isPodReady :: "pod \<Rightarrow> bool" where
  "isPodReady p = (Phase p = ''Running'' \<and> (''Ready'', ''True'') \<in> set (Conditions p))"

definition waitForReady :: "'w env \<Rightarrow> session_manager \<Rightarrow> ctx \<Rightarrow> string \<Rightarrow> ('w, string result) io" where
  "waitForReady e m cx name =
     poll_pod e cx (Namespace (mgr_config m)) name isPodReady
       (Err (''pod '' @ Quote (golang e) name @ '' not ready within 1m0s''))"

definition list_assigned :: "'w env \<Rightarrow> session_manager \<Rightarrow> ctx \<Rightarrow> string \<Rightarrow> ('w, pod list result) io" where
  "list_assigned e m cx sessionID =
     list_pods e cx (Namespace (mgr_config m)) (AssignedSelector (InstanceName (mgr_config m)) sessionID)"

text \<open>\<open>discoverPod\<close> returns empty strings when there is no pod.\<close>

definition discoverPod :: "'w env \<Rightarrow> session_manager \<Rightarrow> ctx \<Rightarrow> string \<Rightarrow> ('w, (string \<times> string) result) io" where
  "discoverPod e m cx sessionID =
     do {
       r \<leftarrow> list_assigned e m cx sessionID;
       (case r of
          Inl err \<Rightarrow> ret (Inl (Wrap ''list pods'' err))
        | Inr items \<Rightarrow>
            let usable = filter (\<lambda>p. \<not> isTerminalPod p) items;
                readyPods = filter isPodReady usable;
                pendingPods = filter (\<lambda>p. \<not> isPodReady p) usable
            in case sort_key CreationTimestamp readyPods of
                 oldest # _ \<Rightarrow> ret (Inr (PodIP oldest, pod_Name oldest))
               | [] \<Rightarrow>
                   (case pendingPods of
                      [] \<Rightarrow> ret (Inr ([], []))
                    | pendingPod # _ \<Rightarrow>
                        do {
                          w \<leftarrow> waitForReady e m cx (pod_Name pendingPod);
                          ret (case w of Inl err \<Rightarrow> Inl err | Inr ip \<Rightarrow> Inr (ip, pod_Name pendingPod))
                        }))
     }"

text \<open>The pod found (address and name), or whether one exists that is not ready.\<close>

definition lookupAssignedSibling :: "'w env \<Rightarrow> session_manager \<Rightarrow> ctx \<Rightarrow> string \<Rightarrow> string \<Rightarrow>
    ('w, (string \<times> string \<times> bool) result) io" where
  "lookupAssignedSibling e m cx sessionID excludeName =
     do {
       r \<leftarrow> list_assigned e m cx sessionID;
       ret (case r of
              Inl err \<Rightarrow> Inl (Wrap ''list assigned pods'' err)
            | Inr items \<Rightarrow>
                let others = filter (\<lambda>p. \<not> (pod_Name p = excludeName \<or> DeletionTimestamp p \<noteq> None \<or> isTerminalPod p)) items
                in case sort_key comparePodAge (filter isPodReady others) of
                     [] \<Rightarrow> Inr ([], [], others \<noteq> [])
                   | oldest # _ \<Rightarrow> Inr (PodIP oldest, pod_Name oldest, True))
     }"

definition shouldCleanupAfterWaitFailure :: "go_error \<Rightarrow> bool" where
  "shouldCleanupAfterWaitFailure err = (\<not> is_canceled err \<and> \<not> is_deadline err)"

definition bestEffortCleanupFailedPod :: "'w env \<Rightarrow> session_manager \<Rightarrow> string \<Rightarrow> string \<Rightarrow> ('w, unit) io" where
  "bestEffortCleanupFailedPod e m name sessionID =
     (let cx = WithTimeout Background (10 * second) in
      do {
        _ \<leftarrow> bestEffortDeletePod e cx (Namespace (mgr_config m)) name;
        bestEffortDeleteSecret e cx (Namespace (mgr_config m)) sessionID
      })"

definition set_cache :: "'w env \<Rightarrow> string \<Rightarrow> string \<Rightarrow> string \<Rightarrow> ('w, unit) io" where
  "set_cache e sessionID ip name = do { t \<leftarrow> time_Now e; with_cache (\<lambda>c. ((), cache_Set t sessionID ip name c)) }"

definition get_cache :: "'w env \<Rightarrow> string \<Rightarrow> ('w, (string \<times> string) option) io" where
  "get_cache e sessionID = do { t \<leftarrow> time_Now e; with_cache (cache_Get t sessionID) }"

definition invalidate_cache :: "string \<Rightarrow> string \<Rightarrow> ('w, unit) io" where
  "invalidate_cache sessionID ip = with_cache (\<lambda>c. ((), cache_Invalidate sessionID ip c))"

definition waitAndCacheClaim :: "'w env \<Rightarrow> session_manager \<Rightarrow> ctx \<Rightarrow> string \<Rightarrow> string \<Rightarrow> string \<Rightarrow> ('w, string result) io" where
  "waitAndCacheClaim e m cx sessionID name fallbackIP =
     do {
       r \<leftarrow> waitForReady e m cx name;
       (case r of
          Inr readyIP \<Rightarrow>
            let ip = (if readyIP = [] then fallbackIP else readyIP) in
            do { _ \<leftarrow> set_cache e sessionID ip name; ret (Inr ip) }
        | Inl readyErr \<Rightarrow>
            if \<not> shouldCleanupAfterWaitFailure readyErr then ret (Inl (Wrap ''claimed pod not ready'' readyErr))
            else
              do {
                l \<leftarrow> lookupAssignedSibling e m cx sessionID name;
                (case l of
                   Inl listErr \<Rightarrow> ret (Inl (Wrap ''claimed pod not ready'' (Join [readyErr, listErr])))
                 | Inr (ip, other, found) \<Rightarrow>
                     if found then
                       (if other \<noteq> [] \<and> ip \<noteq> [] then do { _ \<leftarrow> set_cache e sessionID ip other; ret (Inr ip) }
                        else ret (Inl (Wrap ''claimed pod not ready'' readyErr)))
                     else
                       do {
                         _ \<leftarrow> bestEffortCleanupFailedPod e m name sessionID;
                         ret (Inl (Wrap ''claimed pod not ready'' readyErr))
                       })
              })
     }"

definition buildPodSpec :: "'w env \<Rightarrow> session_manager \<Rightarrow> string \<Rightarrow> string \<Rightarrow> pod result" where
  "buildPodSpec e m now sessionID =
     (case BuildBasePodSpec (golang e) (parse_Quantity e) now (podNamePrefix @ sessionID) (mgr_config m) of
        Inl err \<Rightarrow> Inl err
      | Inr p \<Rightarrow>
          let tokenVar = \<lparr>env_Name = ''SANDBOX_AUTH_TOKEN'', env_Value = [],
                ValueFrom = Some (SecretKeyRef (AuthSecretName sessionID) ''token'')\<rparr>
          in Inr (p\<lparr>Labels := AList.update LabelSessionID sessionID (Labels p),
                   Spec := (Spec p)\<lparr>Containers :=
                     (case Containers (Spec p) of [] \<Rightarrow> [] | c # cs \<Rightarrow> c\<lparr>c_Env := c_Env c @ [tokenVar]\<rparr> # cs)\<rparr>\<rparr>))"

text \<open>\<open>createSandboxPod\<close>, from the creation of the pod on.\<close>

definition create_and_wait :: "'w env \<Rightarrow> session_manager \<Rightarrow> ctx \<Rightarrow> pod \<Rightarrow> string \<Rightarrow> ('w, (string \<times> string) result) io" where
  "create_and_wait e m cx p sessionID =
     do {
       cr \<leftarrow> create_pod e cx (Namespace (mgr_config m)) p;
       (case cr of
          Inl err \<Rightarrow>
            if IsAlreadyExists err then ret (Inl err)
            else
              do {
                _ \<leftarrow> bestEffortDeleteSecret e cx (Namespace (mgr_config m)) sessionID;
                ret (Inl (Wrap ''create pod'' err))
              }
        | Inr created \<Rightarrow>
            do {
              w \<leftarrow> waitForReady e m cx (pod_Name created);
              (case w of
                 Inl waitErr \<Rightarrow>
                   do {
                     _ \<leftarrow> (if shouldCleanupAfterWaitFailure waitErr
                            then bestEffortCleanupFailedPod e m (pod_Name created) sessionID else ret ());
                     ret (Inl (Wrap ''wait for pod ready'' waitErr))
                   }
               | Inr ip \<Rightarrow> ret (Inr (ip, pod_Name created)))
            })
     }"

definition createSandboxPod :: "'w env \<Rightarrow> session_manager \<Rightarrow> ctx \<Rightarrow> string \<Rightarrow> ('w, (string \<times> string) result) io" where
  "createSandboxPod e m cx sessionID =
     (let ns = Namespace (mgr_config m) in
      do {
        t \<leftarrow> time_Now e;
        (case buildPodSpec e m (format_RFC3339 e t) sessionID of
           Inl err \<Rightarrow> ret (Inl err)
         | Inr p \<Rightarrow>
             do {
               sr \<leftarrow> create_secret e cx ns (buildAuthSecret ns (InstanceName (mgr_config m)) sessionID
                        (computeToken e (HMACKey (mgr_config m)) sessionID));
               (case sr of
                  Inl err \<Rightarrow> if \<not> IsAlreadyExists err then ret (Inl (Wrap ''create auth secret'' err)) else create_and_wait e m cx p sessionID
                | Inr _ \<Rightarrow> create_and_wait e m cx p sessionID)
             })
      })"

definition found_or :: "'w env \<Rightarrow> string \<Rightarrow> (string \<times> string) \<Rightarrow> ('w, string result) io \<Rightarrow> ('w, string result) io" where
  "found_or e sessionID found other =
     (if fst found \<noteq> [] then do { _ \<leftarrow> set_cache e sessionID (fst found) (snd found); ret (Inr (fst found)) } else other)"

text \<open>\<open>GetOrCreatePod\<close> from the on-demand creation on.\<close>

definition create_for_session :: "'w env \<Rightarrow> session_manager \<Rightarrow> ctx \<Rightarrow> string \<Rightarrow> ('w, string result) io" where
  "create_for_session e m cx sessionID =
     do {
       r \<leftarrow> createSandboxPod e m cx sessionID;
       (case r of
          Inr (ip, name) \<Rightarrow> do { _ \<leftarrow> set_cache e sessionID ip name; ret (Inr ip) }
        | Inl err \<Rightarrow>
            if IsAlreadyExists err then
              do {
                d \<leftarrow> discoverPod e m cx sessionID;
                (case d of
                   Inl derr \<Rightarrow> ret (Inl (Wrap ''discover pod after conflict'' derr))
                 | Inr found \<Rightarrow>
                     found_or e sessionID found
                       (ret (Inl (Err (''pod exists but not discoverable for session '' @ Quote (golang e) sessionID)))))
              }
            else ret (Inl (Wrap ''create sandbox pod'' err)))
     }"

definition GetOrCreatePod :: "'w env \<Rightarrow> session_manager \<Rightarrow> ctx \<Rightarrow> string \<Rightarrow> ('w, string result) io" where
  "GetOrCreatePod e m cx sessionID =
     (case ValidateSessionID (golang e) sessionID of
        Inl err \<Rightarrow> ret (Inl err)
      | Inr _ \<Rightarrow>
          do {
            hit \<leftarrow> get_cache e sessionID;
            (case hit of
               Some (ip, _) \<Rightarrow> ret (Inr ip)
             | None \<Rightarrow>
                 do {
                   d \<leftarrow> discoverPod e m cx sessionID;
                   (case d of
                      Inl err \<Rightarrow> ret (Inl (Wrap ''discover pod'' err))
                    | Inr found \<Rightarrow> found_or e sessionID found
                        (do {
                           gateErr \<leftarrow> ensureProxyReady e m cx;
                           (case gateErr of
                              Some err \<Rightarrow> ret (Inl err)
                            | None \<Rightarrow>
                                do {
                                  cl \<leftarrow> ClaimPod e (pool m) cx sessionID;
                                  (case cl of
                                     Inr (claimedIP, claimedName) \<Rightarrow> waitAndCacheClaim e m cx sessionID claimedName claimedIP
                                   | Inl _ \<Rightarrow>
                                       do {
                                         d2 \<leftarrow> discoverPod e m cx sessionID;
                                         (case d2 of
                                            Inl err \<Rightarrow> ret (Inl (Wrap ''discover pod after claim'' err))
                                          | Inr found2 \<Rightarrow> found_or e sessionID found2 (create_for_session e m cx sessionID))
                                       })
                                })
                         }))
                 })
          })"

subsection \<open>Running a command\<close>

fun is_status_error :: "go_error \<Rightarrow> bool" where
  "is_status_error (StatusError _ _ _ _) = True"
| "is_status_error _ = False"

fun is_network_error :: "go_error \<Rightarrow> bool" where
  "is_network_error (NetworkError _ _ _) = True"
| "is_network_error _ = False"

definition agentNotAssigned :: "go_error \<Rightarrow> bool" where
  "agentNotAssigned err =
     (case errors_find is_status_error err of
        Some (StatusError _ _ code b) \<Rightarrow> code = 503 \<and> Contains b ''agent not assigned''
      | _ \<Rightarrow> False)"

definition isNetwork :: "go_error \<Rightarrow> bool" where
  "isNetwork err =
     (if is_canceled err \<or> is_deadline err then False else errors_find is_network_error err \<noteq> None)"

definition recoverableSession :: "go_error \<Rightarrow> bool" where
  "recoverableSession err = (agentNotAssigned err \<or> isNetwork err)"

definition alreadyAssigned :: "go_error \<Rightarrow> bool" where
  "alreadyAssigned err =
     (case errors_find is_status_error err of Some (StatusError _ _ code _) \<Rightarrow> code = 409 | _ \<Rightarrow> False)"

text \<open>The retry loop of \<open>executeWhenAssigned\<close>; \<open>None\<close> is running out of fuel.\<close>

primrec exec_loop :: "nat \<Rightarrow> 'w env \<Rightarrow> session_manager \<Rightarrow> ctx \<Rightarrow> int \<Rightarrow> int \<Rightarrow> string \<Rightarrow> string \<Rightarrow> exec_request \<Rightarrow>
    ('w, exec_response result option) io" where
  "exec_loop 0 e m cx poll deadline ip token req = ret None"
| "exec_loop (Suc n) e m cx poll deadline ip token req =
     do {
       r \<leftarrow> client_Execute e (agentClient m) cx ip token req;
       (case r of
          Inr resp \<Rightarrow> ret (Some (Inr resp))
        | Inl err \<Rightarrow>
            if \<not> agentNotAssigned err then ret (Some (Inl err))
            else
              do {
                t \<leftarrow> time_Now e;
                if \<not> t < deadline then ret (Some (Inl err))
                else
                  do {
                    ce \<leftarrow> ask (ctx_Err e cx);
                    (case ce of
                       Some cerr \<Rightarrow> ret (Some (Inl cerr))
                     | None \<Rightarrow> do { _ \<leftarrow> pass e poll; exec_loop n e m cx poll deadline ip token req })
                  }
              })
     }"

text \<open>One attempt per started poll period fits before the deadline, and one after it.\<close>

definition exec_fuel :: "int \<Rightarrow> int \<Rightarrow> nat" where
  "exec_fuel wait poll = nat (wait div poll) + 2"

definition executeWhenAssigned :: "'w env \<Rightarrow> session_manager \<Rightarrow> ctx \<Rightarrow> string \<Rightarrow> string \<Rightarrow> exec_request \<Rightarrow>
    ('w, exec_response result) io" where
  "executeWhenAssigned e m cx ip token req =
     (let wait = cmp_Or_int (assignWait m) agentNotAssignedWait; poll = cmp_Or_int (assignPoll m) agentNotAssignedPoll in
      do {
        t \<leftarrow> time_Now e;
        r \<leftarrow> exec_loop (exec_fuel wait poll) e m cx poll (t + wait) ip token req;
        ret (case r of Some x \<Rightarrow> x | None \<Rightarrow> Inl (Err ''out of fuel''))
      })"

definition reassign :: "'w env \<Rightarrow> session_manager \<Rightarrow> ctx \<Rightarrow> string \<Rightarrow> string \<Rightarrow> ('w, bool result) io" where
  "reassign e m cx ip token =
     do {
       r \<leftarrow> client_Assign e (agentClient m) cx ip token;
       ret (case r of
              Inr _ \<Rightarrow> Inr True
            | Inl err \<Rightarrow> if alreadyAssigned err then Inr False else Inl err)
     }"

definition noteSessionReset :: "exec_response \<Rightarrow> exec_response" where
  "noteSessionReset resp = resp\<lparr>resp_Stderr := mgr_sessionResetNotice @ resp_Stderr resp\<rparr>"

text \<open>The pod to keep: its address and \<open>True\<close>, or \<open>False\<close> to claim or create a replacement.\<close>

definition gone :: "pod \<Rightarrow> bool" where
  "gone p = (DeletionTimestamp p \<noteq> None \<or> isTerminalPod p)"

text \<open>The second look at a pod that did not become ready in time.\<close>

definition still_there :: "'w env \<Rightarrow> ctx \<Rightarrow> string \<Rightarrow> string \<Rightarrow> go_error \<Rightarrow> ('w, (string \<times> bool) result) io" where
  "still_there e cx ns name waitErr =
     do {
       r \<leftarrow> get_pod e cx ns name;
       ret (case r of
              Inl err \<Rightarrow> if IsNotFound err then Inr ([], False) else Inl (Wrap ''get sandbox pod'' err)
            | Inr p \<Rightarrow> if gone p then Inr ([], False)
                       else Inl (Wrap (''sandbox pod '' @ name @ '' not ready'') waitErr))
     }"

definition waitRecoveredPod :: "'w env \<Rightarrow> session_manager \<Rightarrow> ctx \<Rightarrow> string \<Rightarrow> string \<Rightarrow> ('w, (string \<times> bool) result) io" where
  "waitRecoveredPod e m cx sessionID name =
     (let ns = Namespace (mgr_config m) in
      do {
        r \<leftarrow> get_pod e cx ns name;
        (case r of
           Inl err \<Rightarrow> if IsNotFound err then ret (Inr ([], False)) else ret (Inl (Wrap ''get sandbox pod'' err))
         | Inr p \<Rightarrow>
             if gone p then ret (Inr ([], False))
             else if \<not> isPodReady p then
               do {
                 w \<leftarrow> waitForReady e m (WithTimeout cx (recoverWait m)) name;
                 (case w of
                    Inr readyIP \<Rightarrow>
                      if readyIP \<noteq> [] then do { _ \<leftarrow> set_cache e sessionID readyIP name; ret (Inr (readyIP, True)) }
                      else still_there e cx ns name (Err ''%!w(<nil>)'')
                  | Inl waitErr \<Rightarrow> still_there e cx ns name waitErr)
               }
             else if PodIP p = [] then ret (Inr ([], False))
             else do { _ \<leftarrow> set_cache e sessionID (PodIP p) name; ret (Inr (PodIP p, True)) })
      })"

definition podForRecovery :: "'w env \<Rightarrow> session_manager \<Rightarrow> ctx \<Rightarrow> string \<Rightarrow> string \<Rightarrow> string \<Rightarrow> ('w, (string \<times> bool) result) io" where
  "podForRecovery e m cx sessionID ip name =
     do {
       k \<leftarrow> (if name \<noteq> [] then waitRecoveredPod e m cx sessionID name else ret (Inr ([], False)));
       (case k of
          Inl err \<Rightarrow> ret (Inl err)
        | Inr (ip', True) \<Rightarrow> ret (Inr (ip', False))
        | Inr (_, False) \<Rightarrow>
            do {
              _ \<leftarrow> invalidate_cache sessionID ip;
              r \<leftarrow> GetOrCreatePod e m cx sessionID;
              ret (case r of Inl err \<Rightarrow> Inl err | Inr ip'' \<Rightarrow> Inr (ip'', True))
            })
     }"

text \<open>One execution after a recovery; \<open>reset\<close> says whether the session lost its state.\<close>

definition exec_once :: "'w env \<Rightarrow> session_manager \<Rightarrow> ctx \<Rightarrow> string \<Rightarrow> string \<Rightarrow> exec_request \<Rightarrow> bool \<Rightarrow> ('w, exec_response result) io" where
  "exec_once e m cx ip token req reset =
     do {
       r \<leftarrow> client_Execute e (agentClient m) cx ip token req;
       ret (case r of
              Inl err \<Rightarrow> Inl err
            | Inr resp \<Rightarrow> Inr (if reset then noteSessionReset resp else resp))
     }"

definition recoverOnNewPod :: "'w env \<Rightarrow> session_manager \<Rightarrow> ctx \<Rightarrow> string \<Rightarrow> string \<Rightarrow> string \<Rightarrow> string \<Rightarrow> exec_request \<Rightarrow>
    ('w, exec_response result) io" where
  "recoverOnNewPod e m cx sessionID ip name token req =
     do {
       pr \<leftarrow> podForRecovery e m cx sessionID ip name;
       (case pr of
          Inl err \<Rightarrow> ret (Inl err)
        | Inr (ip', replaced) \<Rightarrow>
            do {
              ar \<leftarrow> reassign e m cx ip' token;
              (case ar of
                 Inl err \<Rightarrow> ret (Inl err)
               | Inr assignedByUs \<Rightarrow> exec_once e m cx ip' token req (replaced \<or> assignedByUs))
            })
     }"

definition recoverSession :: "'w env \<Rightarrow> session_manager \<Rightarrow> ctx \<Rightarrow> string \<Rightarrow> string \<Rightarrow> string \<Rightarrow> string \<Rightarrow> exec_request \<Rightarrow> go_error \<Rightarrow>
    ('w, exec_response result) io" where
  "recoverSession e m cx sessionID ip name token req cause =
     do {
       ce \<leftarrow> ask (ctx_Err e cx);
       (case ce of
          Some err \<Rightarrow> ret (Inl err)
        | None \<Rightarrow>
            if agentNotAssigned cause \<and> ip \<noteq> [] then
              do {
                ar \<leftarrow> reassign e m cx ip token;
                (case ar of
                   Inr assignedByUs \<Rightarrow> exec_once e m cx ip token req assignedByUs
                 | Inl assignErr \<Rightarrow>
                     if is_canceled assignErr \<or> is_deadline assignErr then ret (Inl assignErr)
                     else if \<not> isNetwork assignErr then ret (Inl cause)
                     else recoverOnNewPod e m cx sessionID ip name token req)
              }
            else recoverOnNewPod e m cx sessionID ip name token req)
     }"

definition activity_patch :: "string \<Rightarrow> merge_patch" where
  "activity_patch now = \<lparr>patch_Labels = [], patch_Annotations = [(AnnotationLastActivity, now)], patch_ResourceVersion = None\<rparr>"

definition updateLastActivity :: "'w env \<Rightarrow> session_manager \<Rightarrow> ctx \<Rightarrow> string \<Rightarrow> ('w, unit) io" where
  "updateLastActivity e m cx name =
     do {
       t \<leftarrow> time_Now e;
       _ \<leftarrow> patch_pod e (WithTimeout cx (10 * second)) (Namespace (mgr_config m)) name (activity_patch (format_RFC3339 e t));
       ret ()
     }"

text \<open>
  \<open>context.WithoutCancel\<close> keeps the values of the request and drops its cancellation, so for what the program can
  observe it is the background context.
\<close>

definition finish_command :: "'w env \<Rightarrow> session_manager \<Rightarrow> string \<Rightarrow> exec_response \<Rightarrow> ('w, exec_response result) io" where
  "finish_command e m name resp =
     do {
       _ \<leftarrow> (if name \<noteq> [] then updateLastActivity e m Background name else ret ());
       ret (Inr resp)
     }"

definition ExecuteCommand :: "'w env \<Rightarrow> session_manager \<Rightarrow> ctx \<Rightarrow> string \<Rightarrow> string \<Rightarrow> int \<Rightarrow> ('w, exec_response result) io" where
  "ExecuteCommand e m cx sessionID command timeoutSec =
     do {
       pr \<leftarrow> GetOrCreatePod e m cx sessionID;
       (case pr of
          Inl err \<Rightarrow> ret (Inl (Wrap ''resolve pod'' err))
        | Inr ip \<Rightarrow>
            let token = computeToken e (HMACKey (mgr_config m)) sessionID;
                req = \<lparr>Command = command, Timeout = timeoutSec\<rparr>
            in do {
              hit \<leftarrow> get_cache e sessionID;
              r \<leftarrow> executeWhenAssigned e m cx ip token req;
              let name = (case hit of Some (_, n) \<Rightarrow> n | None \<Rightarrow> []);
              (case r of
                 Inr resp \<Rightarrow> finish_command e m name resp
               | Inl err \<Rightarrow>
                   if recoverableSession err then
                     do {
                       rr \<leftarrow> recoverSession e m cx sessionID ip name token req err;
                       (case rr of
                          Inl recErr \<Rightarrow> ret (Inl (Wrap ''agent request'' recErr))
                        | Inr resp \<Rightarrow>
                            do {
                              hit' \<leftarrow> get_cache e sessionID;
                              finish_command e m (case hit' of Some (_, n) \<Rightarrow> n | None \<Rightarrow> name) resp
                            })
                     }
                   else
                     do {
                       _ \<leftarrow> (if errors_find is_network_error err \<noteq> None then invalidate_cache sessionID ip else ret ());
                       ret (Inl (Wrap ''agent request'' err))
                     })
            })
     }"

primrec cleanup_pods :: "'w env \<Rightarrow> ctx \<Rightarrow> string \<Rightarrow> pod list \<Rightarrow> ('w, go_error list) io" where
  "cleanup_pods e cx ns [] = ret []"
| "cleanup_pods e cx ns (p # ps) =
     do {
       r \<leftarrow> delete_pod e cx ns (pod_Name p) None;
       errs \<leftarrow> cleanup_pods e cx ns ps;
       ret ((case r of Inl err \<Rightarrow> if \<not> IsNotFound err then [Wrap (''delete pod '' @ pod_Name p) err] else [] | Inr _ \<Rightarrow> []) @ errs)
     }"

definition CleanupSession :: "'w env \<Rightarrow> session_manager \<Rightarrow> ctx \<Rightarrow> string \<Rightarrow> ('w, unit result) io" where
  "CleanupSession e m cx sessionID =
     do {
       _ \<leftarrow> with_cache (\<lambda>c. ((), cache_Delete sessionID c));
       r \<leftarrow> list_assigned e m cx sessionID;
       (case r of
          Inl err \<Rightarrow> ret (Inl (Wrap ''list pods for cleanup'' err))
        | Inr items \<Rightarrow>
            do {
              errs \<leftarrow> cleanup_pods e cx (Namespace (mgr_config m)) items;
              sr \<leftarrow> delete_secret e cx (Namespace (mgr_config m)) (AuthSecretName sessionID);
              let all = errs @ (case sr of Inl err \<Rightarrow> if \<not> IsNotFound err then [Wrap (''delete secret '' @ AuthSecretName sessionID) err] else []
                                | Inr _ \<Rightarrow> []);
              ret (if all = [] then Inr () else Inl (Join all))
            })
     }"

end
