(* ===== verification/Policy.thy ===== *)
theory Policy
  imports World
begin

text \<open>
  A small program logic for the monad of \<^theory_text>\<open>World\<close>. A policy says, of an event and the log before it, whether the
  program may do that. The locale \<open>policy\<close> fixes a policy and an invariant of the remaining state (the cache
  and the gate) and provides one rule per construct. What is known on the way is a predicate on the log that only grows, so
  it stays known.
\<close>

primrec guarded :: "('e list \<Rightarrow> 'e \<Rightarrow> bool) \<Rightarrow> 'e list \<Rightarrow> 'e list \<Rightarrow> bool" where
  "guarded G l [] = True"
| "guarded G l (ev # evs) = (G l ev \<and> guarded G (l @ [ev]) evs)"

lemma guarded_append [simp]: "guarded G l (xs @ ys) \<longleftrightarrow> guarded G l xs \<and> guarded G (l @ xs) ys"
  by (induction xs arbitrary: l) simp_all

lemma guarded_nth:
  "guarded G l evs \<Longrightarrow> evs = pre @ ev # post \<Longrightarrow> G (l @ pre) ev"
  by simp

definition grows :: "('e list \<Rightarrow> bool) \<Rightarrow> bool" where
  "grows P = (\<forall>l evs. P l \<longrightarrow> P (l @ evs))"

named_theorems grow \<open>predicates on the log that stay true\<close>

lemma growsD: "grows P \<Longrightarrow> P l \<Longrightarrow> P (l @ evs)"
  by (simp add: grows_def)

lemma grows_const [grow]: "grows (\<lambda>l. b)"
  by (simp add: grows_def)

lemma grows_conj [grow]: "grows P \<Longrightarrow> grows Q \<Longrightarrow> grows (\<lambda>l. P l \<and> Q l)"
  by (simp add: grows_def)

lemma grows_disj [grow]: "grows P \<Longrightarrow> grows Q \<Longrightarrow> grows (\<lambda>l. P l \<or> Q l)"
  by (auto simp: grows_def)

lemma grows_imp [grow]: "grows Q \<Longrightarrow> grows (\<lambda>l. b \<longrightarrow> Q l)"
  by (simp add: grows_def)

lemma grows_all [grow]: "(\<And>x. grows (P x)) \<Longrightarrow> grows (\<lambda>l. \<forall>x. P x l)"
  by (simp add: grows_def)

lemma grows_mem [grow]: "grows (\<lambda>l. ev \<in> set l)"
  by (simp add: grows_def)

lemma grows_case_sum [grow]:
  "(\<And>x. grows (P x)) \<Longrightarrow> (\<And>y. grows (Q y)) \<Longrightarrow> grows (\<lambda>l. case r of Inl x \<Rightarrow> P x l | Inr y \<Rightarrow> Q y l)"
  by (cases r) simp_all

lemma grows_case_option [grow]:
  "grows P \<Longrightarrow> (\<And>y. grows (Q y)) \<Longrightarrow> grows (\<lambda>l. case r of None \<Rightarrow> P l | Some y \<Rightarrow> Q y l)"
  by (cases r) simp_all

lemma grows_case_prod [grow]: "(\<And>x y. grows (P x y)) \<Longrightarrow> grows (\<lambda>l. case r of (x, y) \<Rightarrow> P x y l)"
  by (cases r) simp

locale policy =
  fixes G :: "'e list \<Rightarrow> 'e \<Rightarrow> bool"
    and J :: "'e list \<Rightarrow> pod_cache \<Rightarrow> proxy_gate \<Rightarrow> bool"
  assumes J_log: "J l c g \<Longrightarrow> J (l @ evs) c g"
begin

definition obeys :: "('e list \<Rightarrow> bool) \<Rightarrow> ('w, 'e, 'a) gio \<Rightarrow> ('a \<Rightarrow> 'e list \<Rightarrow> bool) \<Rightarrow> bool" where
  "obeys P m Q =
     (\<forall>s r s'. J (log s) (cache s) (gate s) \<longrightarrow> P (log s) \<longrightarrow> run_state m s = (r, s') \<longrightarrow>
        J (log s') (cache s') (gate s') \<and> (\<exists>evs. log s' = log s @ evs \<and> guarded G (log s) evs) \<and> Q r (log s'))"

lemma obeysI:
  assumes "\<And>s r s'. J (log s) (cache s) (gate s) \<Longrightarrow> P (log s) \<Longrightarrow> run_state m s = (r, s') \<Longrightarrow>
     J (log s') (cache s') (gate s') \<and> (\<exists>evs. log s' = log s @ evs \<and> guarded G (log s) evs) \<and> Q r (log s')"
  shows "obeys P m Q"
  using assms unfolding obeys_def by blast

lemma obeysE:
  assumes "obeys P m Q" "J (log s) (cache s) (gate s)" "P (log s)" "run_state m s = (r, s')"
  obtains evs where "J (log s') (cache s') (gate s')" "log s' = log s @ evs" "guarded G (log s) evs" "Q r (log s')"
  using assms unfolding obeys_def by blast

lemma obeys_ret: "(\<And>l. P l \<Longrightarrow> Q x l) \<Longrightarrow> obeys P (ret x) Q"
  by (auto simp: obeys_def State_Monad.return_def)

lemma obeys_bind:
  assumes m: "obeys P m R" and gr: "grows P" and f: "\<And>x. obeys (\<lambda>l. P l \<and> R x l) (f x) Q"
  shows "obeys P (State_Monad.bind m f) Q"
proof (rule obeysI)
  fix s r s'
  assume J: "J (log s) (cache s) (gate s)" and P: "P (log s)" and run: "run_state (State_Monad.bind m f) s = (r, s')"
  obtain x s1 where s1: "run_state m s = (x, s1)" by (cases "run_state m s")
  with run have run': "run_state (f x) s1 = (r, s')" by (simp add: State_Monad.bind_def)
  from m J P s1 obtain evs where 1: "J (log s1) (cache s1) (gate s1)" "log s1 = log s @ evs" "guarded G (log s) evs" "R x (log s1)"
    by (rule obeysE)
  from growsD [OF gr P] 1 have "P (log s1) \<and> R x (log s1)" by simp
  from obeysE [OF f 1(1) this run'] obtain evs' where 2: "J (log s') (cache s') (gate s')" "log s' = log s1 @ evs'"
    "guarded G (log s1) evs'" "Q r (log s')" by blast
  from 1 2 show "J (log s') (cache s') (gate s') \<and> (\<exists>evs. log s' = log s @ evs \<and> guarded G (log s) evs) \<and> Q r (log s')"
    by simp
qed

lemma obeys_weaken:
  assumes "obeys P' m Q'" "\<And>l. P l \<Longrightarrow> P' l" "\<And>r l. P' l \<Longrightarrow> Q' r l \<Longrightarrow> Q r l" "grows P'"
  shows "obeys P m Q"
proof (rule obeysI)
  fix s r s'
  assume J: "J (log s) (cache s) (gate s)" and P: "P (log s)" and run: "run_state m s = (r, s')"
  from obeysE [OF assms(1) J assms(2) [OF P] run] obtain evs where
    "J (log s') (cache s') (gate s')" "log s' = log s @ evs" "guarded G (log s) evs" "Q' r (log s')" by blast
  with assms(3) growsD [OF assms(4) assms(2) [OF P], of evs]
  show "J (log s') (cache s') (gate s') \<and> (\<exists>evs. log s' = log s @ evs \<and> guarded G (log s) evs) \<and> Q r (log s')"
    by auto
qed

lemma obeys_tail:
  assumes "obeys P m R" "grows P" "\<And>r l. R r l \<Longrightarrow> P l \<Longrightarrow> Q r l"
  shows "obeys P m Q"
  by (rule obeys_weaken [OF assms(1)]) (use assms in auto)

lemma obeys_if: "(b \<Longrightarrow> obeys P m Q) \<Longrightarrow> (\<not> b \<Longrightarrow> obeys P m' Q) \<Longrightarrow> obeys P (if b then m else m') Q"
  by simp

lemma obeys_case_sum:
  "(\<And>x. r = Inl x \<Longrightarrow> obeys P (f x) Q) \<Longrightarrow> (\<And>y. r = Inr y \<Longrightarrow> obeys P (g y) Q) \<Longrightarrow>
     obeys P (case r of Inl x \<Rightarrow> f x | Inr y \<Rightarrow> g y) Q"
  by (cases r) simp_all

lemma obeys_case_option:
  "(r = None \<Longrightarrow> obeys P f Q) \<Longrightarrow> (\<And>y. r = Some y \<Longrightarrow> obeys P (g y) Q) \<Longrightarrow>
     obeys P (case r of None \<Rightarrow> f | Some y \<Rightarrow> g y) Q"
  by (cases r) simp_all

lemma obeys_case_list:
  "(r = [] \<Longrightarrow> obeys P f Q) \<Longrightarrow> (\<And>x xs. r = x # xs \<Longrightarrow> obeys P (g x xs) Q) \<Longrightarrow>
     obeys P (case r of [] \<Rightarrow> f | x # xs \<Rightarrow> g x xs) Q"
  by (cases r) simp_all

lemma obeys_case_prod: "(\<And>x y. r = (x, y) \<Longrightarrow> obeys P (f x y) Q) \<Longrightarrow> obeys P (case r of (x, y) \<Rightarrow> f x y) Q"
  by (cases r) simp

lemma obeys_case_bool:
  "(b \<Longrightarrow> obeys P m Q) \<Longrightarrow> (\<not> b \<Longrightarrow> obeys P m' Q) \<Longrightarrow> obeys P (case b of True \<Rightarrow> m | False \<Rightarrow> m') Q"
  by (cases b) simp_all

lemma obeys_call:
  assumes "\<And>l r. P l \<Longrightarrow> G l (ev r)"
  shows "obeys P (call f ev) (\<lambda>r l. ev r \<in> set l)"
  using assms J_log by (auto simp: obeys_def call_def split: prod.splits intro!: exI [of _ "[_]"])

lemma obeys_ask: "obeys P (ask f) (\<lambda>r l. True)"
  by (auto simp: obeys_def ask_def split: prod.splits)

lemma obeys_pass: "obeys P (pass e d) (\<lambda>r l. True)"
  by (auto simp: obeys_def pass_def split: prod.splits)

lemma obeys_get_clock: "obeys P get_clock (\<lambda>r l. True)"
  by (auto simp: obeys_def get_clock_def)

lemma obeys_now: "grows P \<Longrightarrow> obeys P (time_Now e) (\<lambda>r l. True)"
  unfolding time_Now_def by (intro obeys_bind [OF obeys_pass] obeys_get_clock)

lemma obeys_cache:
  assumes "\<And>l c g. J l c g \<Longrightarrow> P l \<Longrightarrow> J l (snd (f c)) g \<and> Q (fst (f c)) l"
  shows "obeys P (with_cache f) Q"
  using assms by (auto simp: obeys_def with_cache_def case_prod_unfold)

lemma obeys_get_gate: "obeys P get_gate (\<lambda>g l. \<exists>c. J l c g)"
  by (auto simp: obeys_def get_gate_def)

lemma obeys_put_gate:
  assumes "\<And>l c g. J l c g \<Longrightarrow> P l \<Longrightarrow> J l c x"
  shows "obeys P (put_gate x) (\<lambda>r l. True)"
  using assms by (auto simp: obeys_def put_gate_def)

lemmas obeys_split = obeys_if obeys_case_sum obeys_case_option obeys_case_list obeys_case_prod obeys_case_bool

end

end
