(* ===== verification/SessionSafety.thy ===== *)
theory SessionSafety
  imports Sessions Policy
begin

text \<open>
  What the MCP server may do on behalf of a session. The policy below lists, for every kind of call, the calls a request
  for a session may make given what happened before; the lemmas show that every function of
  \<open>manager.go\<close> and \<open>pool.go\<close> keeps it, whatever the API server and the agents answer. They are proved with the
  rules of the locale \<open>policy\<close>.
\<close>

section \<open>What the server has been told about a session\<close>

text \<open>A pod the API showed as a pod of the session: listed under the selector of the session, claimed for it or created for it.\<close>

definition shown :: "session_manager \<Rightarrow> string \<Rightarrow> event list \<Rightarrow> pod \<Rightarrow> bool" where
  "shown m sid l p =
     ((\<exists>cx items. PodsList cx (Namespace (mgr_config m)) (AssignedSelector (InstanceName (mgr_config m)) sid) (Inr items) \<in> set l \<and>
         p \<in> set items) \<or>
      (\<exists>cx n now rv. PodsPatch cx (Namespace (mgr_config m)) n (claim_patch sid now rv) (Inr p) \<in> set l) \<or>
      (\<exists>cx q. PodsCreate cx (Namespace (mgr_config m)) q (Inr p) \<in> set l \<and> map_of (Labels q) LabelSessionID = Some sid))"

definition session_pod :: "session_manager \<Rightarrow> string \<Rightarrow> event list \<Rightarrow> string \<Rightarrow> bool" where
  "session_pod m sid l n = (\<exists>p. shown m sid l p \<and> pod_Name p = n)"

definition session_ip :: "session_manager \<Rightarrow> string \<Rightarrow> event list \<Rightarrow> string \<Rightarrow> bool" where
  "session_ip m sid l ip =
     (\<exists>p. PodIP p = ip \<and>
        (shown m sid l p \<or>
         (\<exists>cx n. session_pod m sid l n \<and> PodsGet cx (Namespace (mgr_config m)) n (Inr p) \<in> set l)))"

definition free_pod :: "session_manager \<Rightarrow> event list \<Rightarrow> pod \<Rightarrow> bool" where
  "free_pod m l p =
     (\<exists>cx items. PodsList cx (Namespace (mgr_config m)) (UnassignedSelector (InstanceName (mgr_config m))) (Inr items) \<in> set l \<and>
        p \<in> set items)"

definition claimed :: "session_manager \<Rightarrow> string \<Rightarrow> event list \<Rightarrow> string \<Rightarrow> bool" where
  "claimed m sid l n =
     (\<exists>cx now rv p. PodsPatch cx (Namespace (mgr_config m)) n (claim_patch sid now rv) (Inr p) \<in> set l)"

text \<open>The proxy was seen ready and the sandbox network policy was seen to restrict egress.\<close>

definition gate_evidence :: "session_manager \<Rightarrow> event list \<Rightarrow> bool" where
  "gate_evidence m l =
     (ProxyService (mgr_config m) = [] \<or>
      ((\<exists>cx slices. SlicesList cx (Namespace (mgr_config m)) (proxy_slice_selector m) (Inr slices) \<in> set l \<and> EndpointSlicesReady slices) \<and>
       (\<exists>cx pol. NetpolGet cx (Namespace (mgr_config m)) (SandboxNetworkPolicyName (InstanceName (mgr_config m))) (Inr pol) \<in> set l \<and>
          ''Egress'' \<in> set (PolicyTypes pol))))"

definition session_token :: "'w env \<Rightarrow> session_manager \<Rightarrow> string \<Rightarrow> string" where
  "session_token e m sid = computeToken e (HMACKey (mgr_config m)) sid"

text \<open>The pod created on demand: named and labelled for the session, its token taken from the Secret of the session.\<close>

definition on_demand_pod :: "'w env \<Rightarrow> session_manager \<Rightarrow> string \<Rightarrow> pod \<Rightarrow> bool" where
  "on_demand_pod e m sid p =
     (pod_Name p = podNamePrefix @ sid \<and> map_of (Labels p) LabelSessionID = Some sid \<and>
      map_of (Labels p) LabelInstance = Some (InstanceName (mgr_config m)) \<and>
      (\<exists>now base. BuildBasePodSpec (golang e) (parse_Quantity e) now (podNamePrefix @ sid) (mgr_config m) = Inr base \<and>
         Volumes (Spec p) = Volumes (Spec base)))"

section \<open>The policy\<close>

fun session_policy :: "'w env \<Rightarrow> session_manager \<Rightarrow> string \<Rightarrow> event list \<Rightarrow> event \<Rightarrow> bool" where
  "session_policy e m sid l (PodsList cx ns sel r) =
     (ns = Namespace (mgr_config m) \<and>
      (sel = AssignedSelector (InstanceName (mgr_config m)) sid \<or> sel = UnassignedSelector (InstanceName (mgr_config m))))"
| "session_policy e m sid l (PodsGet cx ns n r) = (ns = Namespace (mgr_config m) \<and> session_pod m sid l n)"
| "session_policy e m sid l (PodsCreate cx ns p r) =
     (ns = Namespace (mgr_config m) \<and> gate_evidence m l \<and> on_demand_pod e m sid p)"
| "session_policy e m sid l (PodsPatch cx ns n pat r) =
     (ns = Namespace (mgr_config m) \<and>
      ((\<exists>now p. pat = claim_patch sid now (ResourceVersion p) \<and> pod_Name p = n \<and> free_pod m l p \<and>
          IsClaimableUnassigned p \<and> gate_evidence m l) \<or>
       (pat = rollback_patch \<and> claimed m sid l n) \<or>
       (\<exists>now. pat = activity_patch now \<and> session_pod m sid l n)))"
| "session_policy e m sid l (PodsDelete cx ns n pre r) = (ns = Namespace (mgr_config m) \<and> session_pod m sid l n)"
| "session_policy e m sid l (SecretsCreate cx ns x r) =
     (ns = Namespace (mgr_config m) \<and> gate_evidence m l \<and>
      x = buildAuthSecret ns (InstanceName (mgr_config m)) sid (session_token e m sid))"
| "session_policy e m sid l (SecretsDelete cx ns n r) = (ns = Namespace (mgr_config m) \<and> n = AuthSecretName sid)"
| "session_policy e m sid l (SlicesList cx ns sel r) = (ns = Namespace (mgr_config m) \<and> sel = proxy_slice_selector m)"
| "session_policy e m sid l (NetpolGet cx ns n r) =
     (ns = Namespace (mgr_config m) \<and> n = SandboxNetworkPolicyName (InstanceName (mgr_config m)))"
| "session_policy e m sid l (HttpDo cx q r) =
     (\<exists>cl ip. (cl = agentClient m \<or> cl = pool_agent (pool m)) \<and> session_ip m sid l ip \<and>
        ((\<exists>req. q = exec_http e cl ip (session_token e m sid) req) \<or> q = assign_http e cl ip (session_token e m sid)))"

definition cache_ok :: "session_manager \<Rightarrow> event list \<Rightarrow> pod_cache \<Rightarrow> bool" where
  "cache_ok m l c =
     (\<forall>sid en. map_of (entries c) sid = Some en \<longrightarrow> session_ip m sid l (entry_IP en) \<and> session_pod m sid l (entry_Name en))"

definition session_inv :: "session_manager \<Rightarrow> event list \<Rightarrow> pod_cache \<Rightarrow> proxy_gate \<Rightarrow> bool" where
  "session_inv m l c g = (cache_ok m l c \<and> (gate_set g \<and> gate_err g = None \<longrightarrow> gate_evidence m l))"

lemma grows_shown [grow]: "grows (\<lambda>l. shown m sid l p)"
  unfolding grows_def shown_def by (simp add: Bex_def) blast

lemma grows_session_pod [grow]: "grows (\<lambda>l. session_pod m sid l n)"
  unfolding grows_def session_pod_def using growsD [OF grows_shown] by blast

lemma grows_session_ip [grow]: "grows (\<lambda>l. session_ip m sid l ip)"
  unfolding grows_def session_ip_def
  using growsD [OF grows_shown] growsD [OF grows_session_pod] by (metis UnCI set_append)

lemma grows_free_pod [grow]: "grows (\<lambda>l. free_pod m l p)"
  unfolding grows_def free_pod_def by auto

lemma grows_claimed [grow]: "grows (\<lambda>l. claimed m sid l n)"
  unfolding grows_def claimed_def by auto

lemma grows_gate_evidence [grow]: "grows (\<lambda>l. gate_evidence m l)"
  unfolding grows_def gate_evidence_def by auto

interpretation sp: policy "session_policy e m sid" "session_inv m" for e :: "'w env" and m sid
proof
  fix l c g evs
  assume "session_inv m l c g"
  then show "session_inv m (l @ evs) c g"
    unfolding session_inv_def cache_ok_def
    using growsD [OF grows_session_ip] growsD [OF grows_session_pod] growsD [OF grows_gate_evidence] by blast
qed

lemma shown_session_pod: "shown m sid l p \<Longrightarrow> session_pod m sid l (pod_Name p)"
  unfolding session_pod_def by blast

lemma shown_session_ip: "shown m sid l p \<Longrightarrow> session_ip m sid l (PodIP p)"
  unfolding session_ip_def by blast

lemma got_session_ip:
  "session_pod m sid l n \<Longrightarrow> PodsGet cx (Namespace (mgr_config m)) n (Inr p) \<in> set l \<Longrightarrow> session_ip m sid l (PodIP p)"
  unfolding session_ip_def by blast

lemma listed_shown:
  "PodsList cx (Namespace (mgr_config m)) (AssignedSelector (InstanceName (mgr_config m)) sid) (Inr items) \<in> set l \<Longrightarrow>
     p \<in> set items \<Longrightarrow> shown m sid l p"
  unfolding shown_def by blast

lemma patched_shown:
  "PodsPatch cx (Namespace (mgr_config m)) n (claim_patch sid now rv) (Inr p) \<in> set l \<Longrightarrow> shown m sid l p"
  unfolding shown_def by blast

lemma created_shown:
  "PodsCreate cx (Namespace (mgr_config m)) q (Inr p) \<in> set l \<Longrightarrow> map_of (Labels q) LabelSessionID = Some sid \<Longrightarrow> shown m sid l p"
  unfolding shown_def by blast

section \<open>Every function keeps the policy\<close>

abbreviation keeps :: "'w env \<Rightarrow> session_manager \<Rightarrow> string \<Rightarrow> (event list \<Rightarrow> bool) \<Rightarrow> ('w, 'a) io \<Rightarrow> ('a \<Rightarrow> event list \<Rightarrow> bool) \<Rightarrow> bool" where
  "keeps e m sid \<equiv> policy.obeys (session_policy e m sid) (session_inv m)"

lemmas vcg = sp.obeys_bind sp.obeys_split sp.obeys_ret sp.obeys_ask sp.obeys_pass sp.obeys_now

abbreviation good_ip :: "session_manager \<Rightarrow> string \<Rightarrow> string \<Rightarrow> string \<Rightarrow> event list \<Rightarrow> bool" where
  "good_ip m sid ip n l \<equiv> session_ip m sid l ip \<and> session_pod m sid l n"

lemma list_assigned_keeps:
  "keeps e m sid P (list_assigned e m cx sid) (\<lambda>r l. \<forall>items. r = Inr items \<longrightarrow> (\<forall>p. p \<in> set items \<longrightarrow> shown m sid l p))"
  unfolding list_assigned_def list_pods_def
  by (rule sp.obeys_weaken [OF sp.obeys_call [where P = "\<lambda>_. True"]]) (auto intro: listed_shown grow)

lemma get_pod_keeps:
  assumes "\<And>l. P l \<Longrightarrow> session_pod m sid l n" "grows P"
  shows "keeps e m sid P (get_pod e cx (Namespace (mgr_config m)) n) (\<lambda>r l. \<forall>p. r = Inr p \<longrightarrow> session_ip m sid l (PodIP p))"
  unfolding get_pod_def
  by (rule sp.obeys_weaken [OF sp.obeys_call [where P = P]]) (use assms in \<open>auto intro: got_session_ip\<close>)



named_theorems keeps \<open>what a function of the session manager does under the policy\<close>

declare list_assigned_keeps [keeps] get_pod_keeps [keeps]

lemma poll_check_keeps [keeps]:
  assumes "\<And>l. P l \<Longrightarrow> session_pod m sid l n" "grows P"
  shows "keeps e m sid P (poll_check e cx (Namespace (mgr_config m)) n good)
    (\<lambda>r l. \<forall>ip. r = Inr (Some ip) \<longrightarrow> session_ip m sid l ip)"
  unfolding poll_check_def
  by (rule vcg keeps assms | assumption | (auto split: sum.splits if_splits; fail))+

lemma poll_loop_keeps [keeps]:
  assumes "\<And>l. P l \<Longrightarrow> session_pod m sid l n" "grows P"
  shows "keeps e m sid P (poll_loop k e cx (Namespace (mgr_config m)) n good late)
    (\<lambda>r l. \<forall>ip. r = Inr ip \<longrightarrow> session_ip m sid l ip)"
  using assms
proof (induction k arbitrary: P)
  case 0
  show ?case unfolding poll_loop.simps
    by (rule vcg keeps 0 | assumption | (auto split: option.splits; fail))+
next
  case (Suc k)
  show ?case unfolding poll_loop.simps
    by (rule vcg keeps Suc.IH grow Suc.prems(2) | assumption | (auto dest: Suc.prems(1) split: option.splits; fail))+
qed

lemma poll_pod_keeps [keeps]:
  assumes "\<And>l. P l \<Longrightarrow> session_pod m sid l n" "grows P"
  shows "keeps e m sid P (poll_pod e cx (Namespace (mgr_config m)) n good late)
    (\<lambda>r l. \<forall>ip. r = Inr ip \<longrightarrow> session_ip m sid l ip)"
  unfolding poll_pod_def
  by (rule vcg keeps grow assms(2) | assumption | (auto dest: assms(1); fail))+


text \<open>The manager a constructor made: its pool works on the same configuration.\<close>

definition mgr_ok :: "session_manager \<Rightarrow> bool" where
  "mgr_ok m = (pool_config (pool m) = mgr_config m)"

lemma NewSessionManager_ok: "NewSessionManager config = Inr m \<Longrightarrow> mgr_ok m"
  by (auto simp: NewSessionManager_def mgr_ok_def NewWarmPool_def Let_def split: sum.splits)

subsection \<open>The pool\<close>

lemma http_keeps:
  assumes "\<And>l. P l \<Longrightarrow> session_ip m sid l ip" "cl = agentClient m \<or> cl = pool_agent (pool m)"
  shows "keeps e m sid P (client_Execute e cl cx ip (session_token e m sid) req) (\<lambda>r l. True)"
    and "keeps e m sid P (client_Assign e cl cx ip (session_token e m sid)) (\<lambda>r l. True)"
proof -
  have *: "keeps e m sid P (State_Monad.bind (do_http e cx t q) (\<lambda>r. ret (f r))) (\<lambda>r l. True)"
    if "(\<exists>req. q = exec_http e cl ip (session_token e m sid) req) \<or> q = assign_http e cl ip (session_token e m sid)"
    for t q and f :: "http_response result \<Rightarrow> 'b"
  proof -
    have "keeps e m sid (\<lambda>l. session_ip m sid l ip) (State_Monad.bind (do_http e cx t q) (\<lambda>r. ret (f r))) (\<lambda>r l. True)"
      unfolding do_http_def
      by (rule vcg grow sp.obeys_call | (use assms(2) that in \<open>auto; fail\<close>))+
    then show ?thesis by (rule sp.obeys_weaken) (use assms(1) in \<open>auto intro: grow\<close>)
  qed
  show "keeps e m sid P (client_Execute e cl cx ip (session_token e m sid) req) (\<lambda>r l. True)"
    unfolding client_Execute_def by (rule sp.obeys_split sp.obeys_ret * | auto)+
  show "keeps e m sid P (client_Assign e cl cx ip (session_token e m sid)) (\<lambda>r l. True)"
    unfolding client_Assign_def by (rule sp.obeys_split sp.obeys_ret * | auto)+
qed

lemma delete_pod_keeps [keeps]:
  assumes "\<And>l. P l \<Longrightarrow> session_pod m sid l n"
  shows "keeps e m sid P (bestEffortDeletePod e cx (Namespace (mgr_config m)) n) (\<lambda>r l. True)"
proof -
  have "keeps e m sid (\<lambda>l. session_pod m sid l n) (bestEffortDeletePod e cx (Namespace (mgr_config m)) n) (\<lambda>r l. True)"
    unfolding bestEffortDeletePod_def delete_pod_def by (rule vcg sp.obeys_call grow | (simp; fail))+
  then show ?thesis by (rule sp.obeys_weaken) (use assms in \<open>auto intro: grow\<close>)
qed

lemma delete_secret_keeps [keeps]:
  "keeps e m sid P (bestEffortDeleteSecret e cx (Namespace (mgr_config m)) sid) (\<lambda>r l. True)"
proof -
  have "keeps e m sid (\<lambda>l. True) (bestEffortDeleteSecret e cx (Namespace (mgr_config m)) sid) (\<lambda>r l. True)"
    unfolding bestEffortDeleteSecret_def delete_secret_def by (rule vcg sp.obeys_call grow | (simp; fail))+
  then show ?thesis by (rule sp.obeys_weaken) (auto intro: grow)
qed

lemma delete_pods_keeps [keeps]:
  assumes "grows P" "\<And>l p. P l \<Longrightarrow> p \<in> set ps \<Longrightarrow> session_pod m sid l (pod_Name p)"
  shows "keeps e m sid P (delete_pods e cx (Namespace (mgr_config m)) ps) (\<lambda>r l. True)"
  using assms
proof (induction ps arbitrary: P)
  case Nil
  show ?case unfolding delete_pods.simps by (rule sp.obeys_ret) simp
next
  case (Cons p ps)
  show ?case unfolding delete_pods.simps
    by (rule vcg keeps Cons.IH grow Cons.prems(1) | (auto dest: Cons.prems(2); fail))+
qed

lemma keepOldestAssigned_keeps [keeps]:
  assumes "mgr_ok m" "grows P" "\<And>l. P l \<Longrightarrow> session_ip m sid l ip" "\<And>l. P l \<Longrightarrow> session_pod m sid l n"
  shows "keeps e m sid P (keepOldestAssigned e (pool m) cx sid n ip) (\<lambda>r l. good_ip m sid (fst r) (snd r) l)"
proof -
  have list: "keeps e m sid P (list_pods e cx (Namespace (mgr_config m)) (AssignedSelector (InstanceName (mgr_config m)) sid))
     (\<lambda>r l. \<forall>items. r = Inr items \<longrightarrow> (\<forall>p. p \<in> set items \<longrightarrow> shown m sid l p))"
    using list_assigned_keeps unfolding list_assigned_def .
  have mem: "q \<in> set items \<and> set qs \<subseteq> set items" if "sort_key comparePodAge (live_pods items) = q # qs" for q qs items
    using that filter_is_subset [of _ items] by (metis insert_subset list.simps(15) live_pods_def set_sort)
  show ?thesis
    unfolding keepOldestAssigned_def Let_def assms(1) [unfolded mgr_ok_def]
    by (rule vcg list keeps grow assms(2) |
        (auto dest: assms(3,4) mem intro: shown_session_pod shown_session_ip; fail))+
qed

lemma rollbackLabel_keeps [keeps]:
  assumes "mgr_ok m" "\<And>l. P l \<Longrightarrow> claimed m sid l n"
  shows "keeps e m sid P (rollbackLabel e (pool m) cx n) (\<lambda>r l. True)"
proof -
  have "keeps e m sid (\<lambda>l. claimed m sid l n) (rollbackLabel e (pool m) cx n) (\<lambda>r l. True)"
    unfolding rollbackLabel_def patch_pod_def assms(1) [unfolded mgr_ok_def]
    by (rule vcg sp.obeys_call grow | (simp; fail))+
  then show ?thesis by (rule sp.obeys_weaken) (use assms in \<open>auto intro: grow\<close>)
qed

lemma claim_patch_keeps:
  assumes "grows P" "\<And>l. P l \<Longrightarrow> free_pod m l p \<and> gate_evidence m l" "IsClaimableUnassigned p"
  shows "keeps e m sid P (patch_pod e cx (Namespace (mgr_config m)) (pod_Name p) (claim_patch sid now (ResourceVersion p)))
    (\<lambda>r l. \<forall>q. r = Inr q \<longrightarrow> shown m sid l q \<and> claimed m sid l (pod_Name p))"
  unfolding patch_pod_def
  by (rule sp.obeys_weaken [OF sp.obeys_call [where P = P]])
     (use assms in \<open>auto simp: claimed_def intro: patched_shown\<close>)

lemma create_secret_keeps:
  assumes "\<And>l. P l \<Longrightarrow> gate_evidence m l"
  shows "keeps e m sid P (create_secret e cx (Namespace (mgr_config m))
    (buildAuthSecret (Namespace (mgr_config m)) (InstanceName (mgr_config m)) sid (session_token e m sid))) (\<lambda>r l. True)"
  unfolding create_secret_def
  by (rule sp.obeys_weaken [OF sp.obeys_call [where P = "gate_evidence m"]]) (use assms in \<open>auto intro: grow\<close>)

lemma waitForIP_keeps [keeps]:
  assumes "mgr_ok m" "\<And>l. P l \<Longrightarrow> session_pod m sid l n" "grows P"
  shows "keeps e m sid P (waitForIP e (pool m) cx n) (\<lambda>r l. \<forall>ip. r = Inr ip \<longrightarrow> session_ip m sid l ip)"
  unfolding waitForIP_def assms(1) [unfolded mgr_ok_def] by (rule keeps assms(2,3) | assumption)+

lemma assignToken_keeps [keeps]:
  assumes "\<And>l. P l \<Longrightarrow> session_ip m sid l ip" "grows P"
  shows "keeps e m sid P (assignToken e (pool m) cx n ip (session_token e m sid)) (\<lambda>r l. True)"
  unfolding assignToken_def
  by (rule vcg http_keeps(2) assms(2) | (use assms(1) in \<open>auto; fail\<close>))+

lemma tryClaimPod_keeps [keeps]:
  assumes "mgr_ok m" "grows P" "\<And>l. P l \<Longrightarrow> free_pod m l p \<and> gate_evidence m l" "IsClaimableUnassigned p"
  shows "keeps e m sid P (tryClaimPod e (pool m) cx p sid)
    (\<lambda>r l. \<forall>ip n. r = Inr (ip, n) \<longrightarrow> good_ip m sid ip n l)"
  unfolding tryClaimPod_def Let_def assms(1) [unfolded mgr_ok_def] session_token_def [symmetric]
  by (rule vcg claim_patch_keeps create_secret_keeps keeps grow assms(1,2,4) |
      (auto dest: assms(3) intro: shown_session_pod shown_session_ip; fail))+

lemma claim_loop_keeps [keeps]:
  assumes "mgr_ok m" "grows P" "\<And>l p. P l \<Longrightarrow> p \<in> set ps \<Longrightarrow> free_pod m l p" "\<And>l. P l \<Longrightarrow> gate_evidence m l"
  shows "keeps e m sid P (claim_loop e (pool m) cx sid ps) (\<lambda>r l. \<forall>ip n. r = Inr (ip, n) \<longrightarrow> good_ip m sid ip n l)"
  using assms(2-)
proof (induction ps arbitrary: P)
  case Nil
  show ?case unfolding claim_loop.simps by (rule sp.obeys_ret) simp
next
  case (Cons p ps)
  show ?case unfolding claim_loop.simps
    by (rule vcg keeps Cons.IH grow assms(1) Cons.prems(1) | (auto dest: Cons.prems(2,3); fail))+
qed

lemma listUnassignedPods_keeps [keeps]:
  assumes "mgr_ok m" "grows P"
  shows "keeps e m sid P (listUnassignedPods e (pool m) cx) (\<lambda>r l. \<forall>ps. r = Inr ps \<longrightarrow> (\<forall>p. p \<in> set ps \<longrightarrow> free_pod m l p))"
  unfolding listUnassignedPods_def list_pods_def assms(1) [unfolded mgr_ok_def]
  by (rule vcg sp.obeys_call assms(2) | (auto simp: free_pod_def split: sum.splits; fail))+

lemma ClaimPod_keeps [keeps]:
  assumes "mgr_ok m" "grows P" "\<And>l. P l \<Longrightarrow> gate_evidence m l"
  shows "keeps e m sid P (ClaimPod e (pool m) cx sid) (\<lambda>r l. \<forall>ip n. r = Inr (ip, n) \<longrightarrow> good_ip m sid ip n l)"
  unfolding ClaimPod_def
  by (rule vcg keeps grow assms(1,2) | (auto dest: assms(3); fail))+

subsection \<open>The gate\<close>

lemma cachedProxyGate_keeps [keeps]:
  assumes "grows P"
  shows "keeps e m sid P (cachedProxyGate e m) (\<lambda>r l. r = Some None \<longrightarrow> gate_evidence m l)"
  unfolding cachedProxyGate_def
  by (rule vcg sp.obeys_get_gate grow assms | (auto simp: session_inv_def; fail))+

lemma storeProxyGate_keeps [keeps]:
  assumes "grows P" "\<And>l. P l \<Longrightarrow> err = None \<Longrightarrow> gate_evidence m l"
  shows "keeps e m sid P (storeProxyGate e err) (\<lambda>r l. True)"
  unfolding storeProxyGate_def
  by (rule vcg sp.obeys_put_gate grow assms(1) | (auto simp: session_inv_def dest: assms(2); fail))+

lemma lookupProxyReady_keeps [keeps]:
  assumes "grows P"
  shows "keeps e m sid P (lookupProxyReady e m cx) (\<lambda>r l. r = None \<longrightarrow> gate_evidence m l)"
  unfolding lookupProxyReady_def list_slices_def get_netpol_def
  by (rule vcg sp.obeys_call grow assms | (auto simp: gate_evidence_def split: sum.splits if_splits; fail))+

lemma proxy_flight_keeps [keeps]:
  assumes "grows P"
  shows "keeps e m sid P (proxy_flight e m cx) (\<lambda>r l. r = None \<longrightarrow> gate_evidence m l)"
  unfolding proxy_flight_def
  by (rule vcg keeps grow assms | (auto; fail))+

lemma ensureProxyReady_keeps [keeps]:
  assumes "grows P"
  shows "keeps e m sid P (ensureProxyReady e m cx) (\<lambda>r l. r = None \<longrightarrow> gate_evidence m l)"
  unfolding ensureProxyReady_def
  by (rule vcg keeps grow assms | (auto simp: gate_evidence_def split: option.splits; fail))+

subsection \<open>Finding and making the pod\<close>

lemma waitForReady_keeps [keeps]:
  assumes "\<And>l. P l \<Longrightarrow> session_pod m sid l n" "grows P"
  shows "keeps e m sid P (waitForReady e m cx n) (\<lambda>r l. \<forall>ip. r = Inr ip \<longrightarrow> session_ip m sid l ip)"
  unfolding waitForReady_def by (rule keeps assms | assumption)+

lemma sorted_first: "sort_key f xs = y # ys \<Longrightarrow> y \<in> set xs"
  by (metis list.set_intros(1) set_sort)

lemma filter_first: "filter f xs = y # ys \<Longrightarrow> y \<in> set xs \<and> f y"
  by (auto simp: filter_eq_Cons_iff)

lemma discoverPod_keeps [keeps]:
  assumes "grows P"
  shows "keeps e m sid P (discoverPod e m cx sid) (\<lambda>r l. \<forall>ip n. r = Inr (ip, n) \<longrightarrow> ip \<noteq> [] \<longrightarrow> good_ip m sid ip n l)"
  unfolding discoverPod_def Let_def
  by (rule vcg keeps grow assms |
      (auto dest!: sorted_first filter_first intro: shown_session_pod shown_session_ip split: sum.splits; fail))+

lemma lookupAssignedSibling_keeps [keeps]:
  assumes "grows P"
  shows "keeps e m sid P (lookupAssignedSibling e m cx sid n)
    (\<lambda>r l. \<forall>ip other found. r = Inr (ip, other, found) \<longrightarrow> other \<noteq> [] \<and> ip \<noteq> [] \<longrightarrow> good_ip m sid ip other l)"
  unfolding lookupAssignedSibling_def Let_def
  by (rule vcg keeps grow assms |
      (auto dest!: sorted_first intro: shown_session_pod shown_session_ip split: sum.splits list.splits; fail))+

lemma cleanup_keeps [keeps]:
  assumes "\<And>l. P l \<Longrightarrow> session_pod m sid l n" "grows P"
  shows "keeps e m sid P (bestEffortCleanupFailedPod e m n sid) (\<lambda>r l. True)"
  unfolding bestEffortCleanupFailedPod_def Let_def
  by (rule vcg keeps grow assms(2) | (auto dest: assms(1); fail))+

lemma set_cache_keeps [keeps]:
  assumes "\<And>l. P l \<Longrightarrow> good_ip m sid ip n l" "grows P"
  shows "keeps e m sid P (set_cache e sid ip n) (\<lambda>r l. True)"
  unfolding set_cache_def
  by (rule vcg sp.obeys_cache grow assms(2) |
      (auto simp: session_inv_def cache_ok_def cache_Set_def update_conv' dest: assms(1); fail))+

lemma cache_ok_sub:
  "cache_ok m l c \<Longrightarrow> (\<And>k v. map_of (entries c') k = Some v \<Longrightarrow> map_of (entries c) k = Some v) \<Longrightarrow> cache_ok m l c'"
  unfolding cache_ok_def by blast

lemma cache_Get_sub: "map_of (entries (snd (cache_Get t k c))) k' = Some v \<Longrightarrow> map_of (entries c) k' = Some v"
  by (auto simp: cache_Get_def delete_conv' split: option.splits if_splits)

lemma cache_Get_hit:
  "cache_ok m l c \<Longrightarrow> fst (cache_Get t sid c) = Some (ip, n) \<Longrightarrow> good_ip m sid ip n l"
  by (auto simp: cache_ok_def cache_Get_def split: option.splits if_splits)

lemma get_cache_keeps [keeps]:
  assumes "grows P"
  shows "keeps e m sid P (get_cache e sid) (\<lambda>r l. \<forall>ip n. r = Some (ip, n) \<longrightarrow> good_ip m sid ip n l)"
  unfolding get_cache_def
  by (rule vcg sp.obeys_cache grow assms |
      (auto simp: session_inv_def dest: cache_Get_hit intro: cache_ok_sub cache_Get_sub; fail))+

lemma invalidate_cache_keeps [keeps]: "keeps e m sid P (invalidate_cache sid ip) (\<lambda>r l. True)"
  unfolding invalidate_cache_def
  by (rule sp.obeys_cache)
     (auto simp: session_inv_def cache_Invalidate_def delete_conv' split: option.splits if_splits elim!: cache_ok_sub)

lemma waitAndCacheClaim_keeps [keeps]:
  assumes "grows P" "\<And>l. P l \<Longrightarrow> good_ip m sid ip n l"
  shows "keeps e m sid P (waitAndCacheClaim e m cx sid n ip) (\<lambda>r l. \<forall>ip. r = Inr ip \<longrightarrow> session_ip m sid l ip)"
  unfolding waitAndCacheClaim_def Let_def
  by (rule vcg keeps grow assms(1) | (auto dest: assms(2); fail))+

lemma buildPodSpec_on_demand:
  assumes "buildPodSpec e m now sid = Inr p"
  shows "on_demand_pod e m sid p"
proof -
  from assms obtain base where base: "BuildBasePodSpec (golang e) (parse_Quantity e) now (podNamePrefix @ sid) (mgr_config m) = Inr base"
    and p: "Labels p = AList.update LabelSessionID sid (Labels base)" "pod_Name p = pod_Name base" "Volumes (Spec p) = Volumes (Spec base)"
    by (auto simp: buildPodSpec_def Let_def split: sum.splits)
  from base show ?thesis
  proof (rule BuildBasePodSpec_Inr)
    assume "Labels base = [(LabelComponent, ComponentSandbox), (LabelInstance, InstanceName (mgr_config m))]"
      and "pod_Name base = podNamePrefix @ sid"
    with p base show ?thesis by (auto simp: on_demand_pod_def update_conv' label_defs)
  qed
qed

lemma create_pod_keeps:
  assumes "grows P" "\<And>l. P l \<Longrightarrow> gate_evidence m l" "on_demand_pod e m sid p"
  shows "keeps e m sid P (create_pod e cx (Namespace (mgr_config m)) p) (\<lambda>r l. \<forall>q. r = Inr q \<longrightarrow> shown m sid l q)"
  unfolding create_pod_def
  by (rule sp.obeys_weaken [OF sp.obeys_call [where P = P]])
     (use assms in \<open>auto simp: on_demand_pod_def intro: created_shown\<close>)

lemma create_and_wait_keeps [keeps]:
  assumes "grows P" "\<And>l. P l \<Longrightarrow> gate_evidence m l" "on_demand_pod e m sid p"
  shows "keeps e m sid P (create_and_wait e m cx p sid) (\<lambda>r l. \<forall>ip n. r = Inr (ip, n) \<longrightarrow> good_ip m sid ip n l)"
  unfolding create_and_wait_def
  by (rule vcg create_pod_keeps keeps grow assms(1,3) | (auto dest: assms(2) intro: shown_session_pod; fail))+

lemma createSandboxPod_keeps [keeps]:
  assumes "grows P" "\<And>l. P l \<Longrightarrow> gate_evidence m l"
  shows "keeps e m sid P (createSandboxPod e m cx sid) (\<lambda>r l. \<forall>ip n. r = Inr (ip, n) \<longrightarrow> good_ip m sid ip n l)"
  unfolding createSandboxPod_def Let_def session_token_def [symmetric]
  by (rule vcg create_secret_keeps keeps grow assms(1) buildPodSpec_on_demand | assumption | (auto dest: assms(2); fail))+

lemma found_or_keeps:
  assumes "grows P" "\<And>l. P l \<Longrightarrow> fst f \<noteq> [] \<Longrightarrow> good_ip m sid (fst f) (snd f) l"
    and "keeps e m sid P other (\<lambda>r l. \<forall>ip. r = Inr ip \<longrightarrow> session_ip m sid l ip)"
  shows "keeps e m sid P (found_or e sid f other) (\<lambda>r l. \<forall>ip. r = Inr ip \<longrightarrow> session_ip m sid l ip)"
  unfolding found_or_def by (rule vcg keeps grow assms(1,3) | (auto dest: assms(2); fail))+

lemma create_for_session_keeps [keeps]:
  assumes "grows P" "\<And>l. P l \<Longrightarrow> gate_evidence m l"
  shows "keeps e m sid P (create_for_session e m cx sid) (\<lambda>r l. \<forall>ip. r = Inr ip \<longrightarrow> session_ip m sid l ip)"
  unfolding create_for_session_def
  by (rule vcg found_or_keeps keeps grow assms(1) | (auto dest: assms(2); fail))+

lemma GetOrCreatePod_keeps [keeps]:
  assumes "mgr_ok m" "grows P"
  shows "keeps e m sid P (GetOrCreatePod e m cx sid) (\<lambda>r l. \<forall>ip. r = Inr ip \<longrightarrow> session_ip m sid l ip)"
  unfolding GetOrCreatePod_def
  by (rule vcg found_or_keeps keeps grow assms | (auto; fail))+

subsection \<open>Running a command and ending a session\<close>

lemma exec_loop_keeps [keeps]:
  assumes "grows P" "\<And>l. P l \<Longrightarrow> session_ip m sid l ip"
  shows "keeps e m sid P (exec_loop k e m cx poll deadline ip (session_token e m sid) req) (\<lambda>r l. True)"
  using assms
proof (induction k arbitrary: P)
  case 0
  show ?case unfolding exec_loop.simps by (rule sp.obeys_ret) simp
next
  case (Suc k)
  show ?case unfolding exec_loop.simps
    by (rule vcg http_keeps(1) Suc.IH grow Suc.prems(1) | (auto dest: Suc.prems(2); fail))+
qed

lemma executeWhenAssigned_keeps [keeps]:
  assumes "grows P" "\<And>l. P l \<Longrightarrow> session_ip m sid l ip"
  shows "keeps e m sid P (executeWhenAssigned e m cx ip (session_token e m sid) req) (\<lambda>r l. True)"
  unfolding executeWhenAssigned_def Let_def
  by (rule vcg keeps grow assms(1) | (auto dest: assms(2); fail))+

lemma reassign_keeps [keeps]:
  assumes "grows P" "\<And>l. P l \<Longrightarrow> session_ip m sid l ip"
  shows "keeps e m sid P (reassign e m cx ip (session_token e m sid)) (\<lambda>r l. True)"
  unfolding reassign_def
  by (rule vcg http_keeps(2) grow assms(1) | (auto dest: assms(2); fail))+

lemma exec_once_keeps [keeps]:
  assumes "grows P" "\<And>l. P l \<Longrightarrow> session_ip m sid l ip"
  shows "keeps e m sid P (exec_once e m cx ip (session_token e m sid) req reset) (\<lambda>r l. True)"
  unfolding exec_once_def
  by (rule vcg http_keeps(1) grow assms(1) | (auto dest: assms(2); fail))+

lemma still_there_keeps [keeps]:
  assumes "\<And>l. P l \<Longrightarrow> session_pod m sid l n" "grows P"
  shows "keeps e m sid P (still_there e cx (Namespace (mgr_config m)) n err)
    (\<lambda>r l. \<forall>ip. r = Inr (ip, True) \<longrightarrow> session_ip m sid l ip)"
  unfolding still_there_def
  by (rule vcg keeps grow assms(2) | (auto dest: assms(1) split: sum.splits if_splits; fail))+

lemma waitRecoveredPod_keeps [keeps]:
  assumes "\<And>l. P l \<Longrightarrow> session_pod m sid l n" "grows P"
  shows "keeps e m sid P (waitRecoveredPod e m cx sid n) (\<lambda>r l. \<forall>ip. r = Inr (ip, True) \<longrightarrow> session_ip m sid l ip)"
  unfolding waitRecoveredPod_def Let_def
  by (rule vcg keeps grow assms(2) | (auto dest: assms(1); fail))+

lemma podForRecovery_keeps [keeps]:
  assumes "mgr_ok m" "\<And>l. P l \<Longrightarrow> n \<noteq> [] \<Longrightarrow> session_pod m sid l n" "grows P"
  shows "keeps e m sid P (podForRecovery e m cx sid ip n) (\<lambda>r l. \<forall>ip b. r = Inr (ip, b) \<longrightarrow> session_ip m sid l ip)"
proof -
  have first: "keeps e m sid P (if n \<noteq> [] then waitRecoveredPod e m cx sid n else ret (Inr ([], False)))
      (\<lambda>r l. \<forall>ip. r = Inr (ip, True) \<longrightarrow> session_ip m sid l ip)"
    by (rule sp.obeys_split waitRecoveredPod_keeps sp.obeys_ret assms(2,3) | assumption | (auto; fail))+
  show ?thesis unfolding podForRecovery_def
    by (rule first vcg keeps grow assms(1,3) | (auto split: sum.splits; fail))+
qed

lemma recoverOnNewPod_keeps [keeps]:
  assumes "mgr_ok m" "\<And>l. P l \<Longrightarrow> n \<noteq> [] \<Longrightarrow> session_pod m sid l n" "grows P"
  shows "keeps e m sid P (recoverOnNewPod e m cx sid ip n (session_token e m sid) req) (\<lambda>r l. True)"
  unfolding recoverOnNewPod_def
  by (rule vcg keeps grow assms(1,3) | (auto dest: assms(2); fail))+

lemma recoverSession_keeps [keeps]:
  assumes "mgr_ok m" "\<And>l. P l \<Longrightarrow> session_ip m sid l ip" "\<And>l. P l \<Longrightarrow> n \<noteq> [] \<Longrightarrow> session_pod m sid l n" "grows P"
  shows "keeps e m sid P (recoverSession e m cx sid ip n (session_token e m sid) req cause) (\<lambda>r l. True)"
  unfolding recoverSession_def
  by (rule vcg keeps grow assms(1,4) | (auto dest: assms(2,3); fail))+

lemma finish_command_keeps [keeps]:
  assumes "\<And>l. P l \<Longrightarrow> n \<noteq> [] \<Longrightarrow> session_pod m sid l n" "grows P"
  shows "keeps e m sid P (finish_command e m n resp) (\<lambda>r l. True)"
proof -
  have upd: "keeps e m sid P (updateLastActivity e m Background n) (\<lambda>r l. True)" if "n \<noteq> []"
  proof -
    have "keeps e m sid (\<lambda>l. session_pod m sid l n) (updateLastActivity e m Background n) (\<lambda>r l. True)"
      unfolding updateLastActivity_def patch_pod_def
      by (rule vcg sp.obeys_call grow | (auto; fail))+
    then show ?thesis by (rule sp.obeys_weaken) (use assms(1) that in \<open>auto intro: grow\<close>)
  qed
  show ?thesis unfolding finish_command_def
    by (rule upd vcg assms(2) | assumption | (auto; fail))+
qed

lemma ExecuteCommand_keeps:
  assumes "mgr_ok m"
  shows "keeps e m sid (\<lambda>l. True) (ExecuteCommand e m cx sid command timeout) (\<lambda>r l. True)"
  unfolding ExecuteCommand_def Let_def session_token_def [symmetric]
  by (rule vcg keeps grow assms | (auto split: option.splits; fail))+

lemma cleanup_pods_keeps [keeps]:
  assumes "grows P" "\<And>l p. P l \<Longrightarrow> p \<in> set ps \<Longrightarrow> session_pod m sid l (pod_Name p)"
  shows "keeps e m sid P (cleanup_pods e cx (Namespace (mgr_config m)) ps) (\<lambda>r l. True)"
  using assms
proof (induction ps arbitrary: P)
  case Nil
  show ?case unfolding cleanup_pods.simps by (rule sp.obeys_ret) simp
next
  case (Cons p ps)
  have del: "keeps e m sid P (delete_pod e cx (Namespace (mgr_config m)) (pod_Name p) None) (\<lambda>r l. True)"
    unfolding delete_pod_def
    by (rule sp.obeys_weaken [OF sp.obeys_call [where P = "\<lambda>l. session_pod m sid l (pod_Name p)"]])
       (use Cons.prems in \<open>auto intro: grow\<close>)
  show ?case unfolding cleanup_pods.simps
    by (rule vcg del Cons.IH grow Cons.prems(1) | (auto dest: Cons.prems(2); fail))+
qed

lemma CleanupSession_keeps: "keeps e m sid (\<lambda>l. True) (CleanupSession e m cx sid) (\<lambda>r l. True)"
proof -
  have del: "keeps e m sid P (with_cache (\<lambda>c. ((), cache_Delete sid c))) (\<lambda>r l. True)" for P
    by (rule sp.obeys_cache) (auto simp: session_inv_def cache_Delete_def delete_conv' split: if_splits elim!: cache_ok_sub)
  have sec: "keeps e m sid P (delete_secret e cx (Namespace (mgr_config m)) (AuthSecretName sid)) (\<lambda>r l. True)" for P
    unfolding delete_secret_def
    by (rule sp.obeys_weaken [OF sp.obeys_call [where P = "\<lambda>_. True"]]) (auto intro: grow)
  show ?thesis unfolding CleanupSession_def Let_def
    by (rule vcg del sec keeps grow | (auto intro: shown_session_pod; fail))+
qed

section \<open>A running server\<close>

text \<open>
  The states a server reaches: commands and session ends for any sessions in any order, with
  anything happening in the world between them.
\<close>

inductive reachable :: "'w env \<Rightarrow> session_manager \<Rightarrow> 'w sys \<Rightarrow> bool" for e m where
  start: "reachable e m (start_sys w t)"
| execute: "reachable e m s \<Longrightarrow> run_state (ExecuteCommand e m cx sid command timeout) s = (r, s') \<Longrightarrow> reachable e m s'"
| cleanup: "reachable e m s \<Longrightarrow> run_state (CleanupSession e m cx sid) s = (r', s') \<Longrightarrow> reachable e m s'"
| meanwhile: "reachable e m s \<Longrightarrow> reachable e m (s\<lparr>world := w\<rparr>)"

lemma reachable_inv:
  assumes "reachable e m s" "mgr_ok m"
  shows "session_inv m (log s) (cache s) (gate s)"
  using assms(1)
proof induction
  case (start w t)
  show ?case by (simp add: session_inv_def start_sys_def cache_ok_def NewPodCache_def)
next
  case (execute s cx sid command timeout r s')
  from sp.obeysE [OF ExecuteCommand_keeps [OF assms(2)] execute.IH _ execute.hyps(2)] show ?case by blast
next
  case (cleanup s cx sid r' s')
  from sp.obeysE [OF CleanupSession_keeps cleanup.IH _ cleanup.hyps(2)] show ?case by blast
qed simp

text \<open>
  C1. Session isolation and the fail-closed proxy gate. In any reachable state of a server, whatever the API server
  and the agents answered before and answer now, every call that a command of a session makes is one the session
  policy allows given the calls before it: it stays in the namespace of the instance, reads and deletes only pods
  the API showed as pods of this session, labels only unassigned claimable pods of the instance, talks only to addresses of
  pods of this session and only with the token of this session, and touches no Secret but the one of this session; and with a
  proxy configured no pod is claimed or created and no Secret is written before the proxy was seen ready and the sandbox
  network policy was seen to restrict egress.
\<close>

theorem session_isolation:
  assumes "NewSessionManager config = Inr m" "reachable e m s"
    and "run_state (ExecuteCommand e m cx sid command timeout) s = (r, s')"
  shows "\<exists>evs. log s' = log s @ evs \<and> guarded (session_policy e m sid) (log s) evs"
proof -
  note ok = NewSessionManager_ok [OF assms(1)]
  from sp.obeysE [OF ExecuteCommand_keeps [OF ok] reachable_inv [OF assms(2) ok] _ assms(3)] show ?thesis by blast
qed

section \<open>A concrete environment\<close>

text \<open>
  A cluster with one ready pool pod, a ready proxy and agents that answer 200. Nothing is listed under
  the selector of a session, so a command claims the pool pod.
\<close>

definition demo_pod :: pod where
  "demo_pod =
     \<lparr>pod_Name = ''p1'', pod_Namespace = ''ns'', Labels = [], Annotations = [], CreationTimestamp = 1,
      DeletionTimestamp = None, UID = ''u1'', ResourceVersion = ''7'', OwnerUID = None,
      Spec = \<lparr>spec_ServiceAccountName = [], AutomountServiceAccountToken = False, RunAsNonRoot = True,
        SeccompProfile = [], Containers = [], Volumes = [], DNSPolicy = [], DNSConfig = None\<rparr>,
      Phase = ''Running'', PodIP = ''10.0.0.9'', Conditions = [(''Ready'', ''True'')], WaitingReasons = [None]\<rparr>"

definition demo_lib :: golib where
  "demo_lib = ascii_lib\<lparr>url_Parse := (\<lambda>s. Inr \<lparr>Scheme = ''http'', User = None, Host = s\<rparr>)\<rparr>"

definition demo_env :: "unit env" where
  "demo_env =
     \<lparr>pods_List = (\<lambda>_ _ sel w. (Inr (if sel = UnassignedSelector ''a'' then [demo_pod] else []), w)),
      pods_Get = (\<lambda>_ _ _ w. (Inr demo_pod, w)),
      pods_Create = (\<lambda>_ _ p w. (Inr p, w)),
      pods_Patch = (\<lambda>_ _ _ _ w. (Inr demo_pod, w)),
      pods_Delete = (\<lambda>_ _ _ _ w. (Inr (), w)),
      secrets_Create = (\<lambda>_ _ _ w. (Inr (), w)),
      secrets_Delete = (\<lambda>_ _ _ w. (Inr (), w)),
      slices_List = (\<lambda>_ _ _ w. (Inr [\<lparr>Endpoints = [\<lparr>Addresses = [''10.0.0.7''], ep_Ready = None\<rparr>]\<rparr>], w)),
      netpol_Get = (\<lambda>_ _ _ w. (Inr \<lparr>PolicyTypes = [''Ingress'', ''Egress'']\<rparr>, w)),
      http_Do = (\<lambda>_ _ q w. (Inr \<lparr>StatusCode = 200, resp_Body = req_Body q, body_Err = None\<rparr>, w)),
      ctx_Err = (\<lambda>_ w. (None, w)),
      elapse = (\<lambda>w. (0, w)),
      poll_Ticks = (\<lambda>w. (0, w)),
      golang = demo_lib,
      parse_Quantity = demo_pq,
      hmac_sha256_hex = (\<lambda>k sid. k @ sid),
      format_RFC3339 = (\<lambda>t. ''now''),
      marshal_exec = Command,
      marshal_assign = (\<lambda>t. t),
      unmarshal_exec_response = (\<lambda>b. Inr \<lparr>resp_Stdout = b, resp_Stderr = [], resp_ExitCode = 0, DurationMs = 1\<rparr>)\<rparr>"

definition demo_mgr :: session_manager where
  "demo_mgr =
     \<lparr>mgr_config = demo_config, pool = NewWarmPool demo_config,
      agentClient = NewAgentClient [WithPort (AgentPort demo_config), WithTimeout_option 0],
      assignWait = agentNotAssignedWait, assignPoll = agentNotAssignedPoll,
      recoverWait = sessionRecoverReadyWait, mgr_gateTTL = proxyGateTTL\<rparr>"

lemma demo_mgr_new: "NewSessionManager demo_config = Inr demo_mgr"
  unfolding NewSessionManager_def demo_config_ok
  by (simp add: demo_mgr_def demo_config_def DefaultConfig_def cmp_Or_int_def Let_def)

fun event_kind :: "event \<Rightarrow> string" where
  "event_kind (PodsList _ _ _ _) = ''list''"
| "event_kind (PodsGet _ _ _ _) = ''get''"
| "event_kind (PodsCreate _ _ _ _) = ''create''"
| "event_kind (PodsPatch _ _ _ _ _) = ''patch''"
| "event_kind (PodsDelete _ _ _ _ _) = ''delete''"
| "event_kind (SecretsCreate _ _ _ _) = ''secret''"
| "event_kind (SecretsDelete _ _ _ _) = ''unsecret''"
| "event_kind (SlicesList _ _ _ _) = ''slices''"
| "event_kind (NetpolGet _ _ _ _) = ''netpol''"
| "event_kind (HttpDo _ _ _) = ''http''"


lemmas session_defs = ExecuteCommand_def GetOrCreatePod_def get_cache_def set_cache_def discoverPod_def list_assigned_def found_or_def
  ensureProxyReady_def cachedProxyGate_def proxy_flight_def lookupProxyReady_def storeProxyGate_def proxyGateCacheable_def
  EndpointSlicesReady_def ClaimPod_def listUnassignedPods_def tryClaimPod_def assignToken_def keepOldestAssigned_def live_pods_def
  waitAndCacheClaim_def waitForReady_def poll_pod_def poll_check_def executeWhenAssigned_def exec_loop.simps finish_command_def
  updateLastActivity_def ValidateSessionID_def IsClaimableUnassigned_def isTerminalPod_def HasUnhealthyWaiting_def isPodReady_def
  status_only_def decode_exec_code


lemma demo_env_simps [simp]:
  "pods_List demo_env cx ns sel w = (Inr (if sel = UnassignedSelector ''a'' then [demo_pod] else []), w)"
  "pods_Get demo_env cx ns n w = (Inr demo_pod, w)"
  "pods_Patch demo_env cx ns n pat w = (Inr demo_pod, w)"
  "secrets_Create demo_env cx ns x w = (Inr (), w)"
  "slices_List demo_env cx ns sel w = (Inr [\<lparr>Endpoints = [\<lparr>Addresses = [''10.0.0.7''], ep_Ready = None\<rparr>]\<rparr>], w)"
  "netpol_Get demo_env cx ns n w = (Inr \<lparr>PolicyTypes = [''Ingress'', ''Egress'']\<rparr>, w)"
  "http_Do demo_env cx t q w = (Inr \<lparr>StatusCode = 200, resp_Body = req_Body q, body_Err = None\<rparr>, w)"
  "ctx_Err demo_env cx w = (None, w)" "elapse demo_env w = (0, w)" "poll_Ticks demo_env w = (0, w)"
  "golang demo_env = demo_lib" "marshal_exec demo_env = Command"
  "unmarshal_exec_response demo_env b = Inr \<lparr>resp_Stdout = b, resp_Stderr = [], resp_ExitCode = 0, DurationMs = 1\<rparr>"
  by (simp_all add: demo_env_def)

lemma demo_pod_simps [simp]:
  "pod_Name demo_pod = ''p1''" "PodIP demo_pod = ''10.0.0.9''" "Phase demo_pod = ''Running''" "DeletionTimestamp demo_pod = None"
  "Conditions demo_pod = [(''Ready'', ''True'')]" "WaitingReasons demo_pod = [None]"
  by (simp_all add: demo_pod_def)

lemma demo_mgr_simps [simp]:
  "mgr_config demo_mgr = demo_config" "pool_config (pool demo_mgr) = demo_config" "Namespace demo_config = ''ns''"
  "InstanceName demo_config = ''a''" "ProxyService demo_config \<noteq> []" "mgr_gateTTL demo_mgr = proxyGateTTL"
  by (simp_all add: demo_mgr_def NewWarmPool_def demo_config_def)

lemma demo_parse [simp]: "url_Parse demo_lib u = Inr \<lparr>Scheme = ''http'', User = None, Host = u\<rparr>"
  by (simp add: demo_lib_def)

lemma demo_agent_limit [simp]: "maxResponseSize (agentClient demo_mgr) = 10485760"
  by (simp add: demo_mgr_def NewAgentClient_def WithPort_def WithTimeout_option_def DefaultMaxResponseSize_def)

lemma demo_body [simp]: "req_Body (exec_http demo_env c ip tok \<lparr>Command = ''ls'', Timeout = t\<rparr>) = ''ls''"
  by (simp add: exec_http_def)

lemma demo_run:
  "\<exists>r s. run_state (ExecuteCommand demo_env demo_mgr Request ''s1'' ''ls'' 60) (start_sys () 0) = (Inr r, s) \<and>
     resp_Stdout r = ''ls'' \<and> map event_kind (log s) =
     [''list'', ''slices'', ''netpol'', ''list'', ''patch'', ''secret'', ''http'', ''list'', ''get'', ''http'', ''patch'']"
proof -
  have id: "matches_sessionIDRegex ''s1''" by code_simp
  have sel: "AssignedSelector ''a'' ''s1'' \<noteq> UnassignedSelector ''a''" by code_simp
  have ttl: "\<not> 0 > defaultCacheTTL" by (simp add: defaultCacheTTL_def)
  have fuel: "exec_fuel x y = Suc (nat (x div y) + 1)" for x y by (simp add: exec_fuel_def)
  show ?thesis
    by (simp add: run_steps session_defs client_Execute_def client_Assign_def fuel id sel ttl start_sys_def NewPodCache_def cache_Get_def cache_Set_def Let_def
        cong: bind_weak_cong)
qed

theorem session_isolation_witness:
  "\<exists>r s' evs. run_state (ExecuteCommand demo_env demo_mgr Request ''s1'' ''ls'' 60) (start_sys () 0) = (r, s') \<and>
     log s' = log (start_sys () 0 :: unit sys) @ evs \<and> length evs = 11 \<and>
     guarded (session_policy demo_env demo_mgr ''s1'') (log (start_sys () 0 :: unit sys)) evs"
proof -
  obtain r s where rs: "run_state (ExecuteCommand demo_env demo_mgr Request ''s1'' ''ls'' 60) (start_sys () 0) = (Inr r, s)"
    and evs: "map event_kind (log s) =
     [''list'', ''slices'', ''netpol'', ''list'', ''patch'', ''secret'', ''http'', ''list'', ''get'', ''http'', ''patch'']"
    using demo_run by (elim exE conjE)
  from arg_cong [OF evs, of length] have len: "length (log s) = 11" by simp
  have nil: "log (start_sys () 0 :: unit sys) = []" by (simp add: start_sys_def)
  from session_isolation [OF demo_mgr_new reachable.start rs] obtain evs where
    "log s = log (start_sys () 0 :: unit sys) @ evs" "guarded (session_policy demo_env demo_mgr ''s1'') (log (start_sys () 0 :: unit sys)) evs"
    by blast
  with rs len nil show ?thesis by (intro exI conjI) simp_all
qed

end
