(* ===== verification/SessionLaws.thy ===== *)
theory SessionLaws
  imports SessionSafety
begin

text \<open>
  What the functions of \<open>pkg/session\<close> return and do, call by call: the retry loop ends, a command is
  run at most twice and twice only when the first answer was lost, a failed claim is rolled back, replicas keep the same pod,
  a cancelled request deletes nothing, ending a session deletes everything, and the proxy gate is fresh.

  A theorem about the calls of one operation starts from an empty log, so that the log at the end is what the
  operation did.
\<close>

section \<open>The retry loop ends\<close>

lemma client_Execute_clock [simp]: "clock (snd (run_state (client_Execute e c cx ip tok req) s)) = clock s"
  by (auto simp: client_Execute_def run_steps split: sum.splits prod.splits)

lemma exec_loop_returns:
  assumes "poll > 0" "n \<ge> 1" "deadline \<le> clock s + int (n - 1) * poll"
  shows "fst (run_state (exec_loop n e m cx poll deadline ip tok req) s) \<noteq> None"
  using assms(2,3)
proof (induction n arbitrary: s)
  case (Suc n)
  obtain r s1 where r: "run_state (client_Execute e (agentClient m) cx ip tok req) s = (r, s1)"
    by (cases "run_state (client_Execute e (agentClient m) cx ip tok req) s")
  have c1: "clock s1 = clock s" using client_Execute_clock [of e "agentClient m" cx ip tok req s] by (simp add: r)
  obtain d w where d: "elapse e (world s1) = (d, w)" by (cases "elapse e (world s1)")
  define s2 where "s2 = s1\<lparr>world := w, clock := clock s1 + int d\<rparr>"
  obtain ce w' where ce: "ctx_Err e cx w = (ce, w')" by (cases "ctx_Err e cx w")
  obtain d' w'' where d': "elapse e w' = (d', w'')" by (cases "elapse e w'")
  define s3 where "s3 = s2\<lparr>world := w'', clock := clock s2 + max 0 poll + int d'\<rparr>"
  have "fst (run_state (exec_loop n e m cx poll deadline ip tok req) s3) \<noteq> None" if "clock s2 < deadline"
  proof (rule Suc.IH)
    show n: "1 \<le> n" using that Suc.prems(2) c1 by (cases n) (simp_all add: s2_def)
    have "int n * poll = int (n - 1) * poll + poll" using n by (simp add: algebra_simps of_nat_diff)
    then show "deadline \<le> clock s3 + int (n - 1) * poll"
      using Suc.prems(2) c1 assms(1) by (simp add: s2_def s3_def)
  qed
  then show ?case
    by (simp add: run_steps r d ce d' s2_def s3_def split: sum.splits option.splits)
qed simp

lemma executeWhenAssigned_loop:
  assumes "NewSessionManager config = Inr m"
  shows "\<exists>t s1 r s2.
    run_state (time_Now e) s = (t, s1) \<and>
    run_state (exec_loop 52 e m cx (100 * 1000000) (t + 5 * second) ip tok req) s1 = (Some r, s2) \<and>
    run_state (executeWhenAssigned e m cx ip tok req) s = (r, s2)"
proof -
  from assms have m: "assignWait m = 5 * second" "assignPoll m = 100 * 1000000"
    by (auto simp: NewSessionManager_def Let_def agentNotAssignedWait_def agentNotAssignedPoll_def split: sum.splits)
  have fuel: "exec_fuel 5000000000 100000000 = 52" by (simp add: exec_fuel_def)
  obtain t s1 where t: "run_state (time_Now e) s = (t, s1)" by (cases "run_state (time_Now e) s")
  then have "t = clock s1" by (auto simp: run_steps split: prod.splits)
  then have "fst (run_state (exec_loop 52 e m cx (100 * 1000000) (t + 5 * second) ip tok req) s1) \<noteq> None"
    by (intro exec_loop_returns) (simp_all add: second_def)
  then obtain r s2 where r: "run_state (exec_loop 52 e m cx (100 * 1000000) (t + 5 * second) ip tok req) s1 = (Some r, s2)"
    by (metis option.exhaust prod.collapse)
  have "run_state (executeWhenAssigned e m cx ip tok req) s = (r, s2)"
    using t r by (simp add: executeWhenAssigned_def m fuel run_bind run_ret cmp_Or_int_def second_def)
  with t r show ?thesis by blast
qed

text \<open>
  C35. The wait for an agent to be assigned ends: in every state and whatever the agent answers, the loop of
  \<open>executeWhenAssigned\<close> returns within 52 rounds, the number that fits its deadline of five seconds, because every round waits
  for at least one poll period; \<open>executeWhenAssigned\<close> returns what the loop returns.
\<close>

theorem retry_loop_terminates:
  assumes "NewSessionManager config = Inr m"
  shows "\<exists>t s1 r s2.
    run_state (time_Now e) s = (t, s1) \<and>
    run_state (exec_loop 52 e m cx (100 * 1000000) (t + 5 * second) ip tok req) s1 = (Some r, s2) \<and>
    run_state (executeWhenAssigned e m cx ip tok req) s = (r, s2)"
  using assms by (rule executeWhenAssigned_loop)

text \<open>A session whose agent is not assigned and whose agents never become so.\<close>

definition unassigned_env :: "unit env" where
  "unassigned_env = demo_env\<lparr>http_Do := (\<lambda>_ _ q w. (Inr \<lparr>StatusCode = 503, resp_Body = ''agent not assigned'', body_Err = None\<rparr>, w))\<rparr>"

theorem retry_loop_terminates_witness:
  "\<exists>t s1 r s2. run_state (time_Now unassigned_env) (start_sys () 0) = (t, s1) \<and>
    run_state (exec_loop 52 unassigned_env demo_mgr Request (100 * 1000000) (t + 5 * second) ''10.0.0.9'' ''tok'' \<lparr>Command = ''ls'', Timeout = 60\<rparr>) s1 = (Some r, s2) \<and>
    run_state (executeWhenAssigned unassigned_env demo_mgr Request ''10.0.0.9'' ''tok'' \<lparr>Command = ''ls'', Timeout = 60\<rparr>) (start_sys () 0) = (r, s2)"
  by (rule retry_loop_terminates [OF demo_mgr_new])

section \<open>Ending a session\<close>

definition settled :: "unit result \<Rightarrow> bool" where
  "settled r = (case r of Inl err \<Rightarrow> IsNotFound err | Inr _ \<Rightarrow> True)"

lemma cleanup_pods_run:
  "\<exists>rs s'. length rs = length ps \<and>
     run_state (cleanup_pods e cx ns ps) s =
       (concat (map2 (\<lambda>p r. if settled r then [] else [Wrap (''delete pod '' @ pod_Name p) (projl r)]) ps rs), s') \<and>
     log s' = log s @ map2 (\<lambda>p r. PodsDelete cx ns (pod_Name p) None r) ps rs \<and> cache s' = cache s"
proof (induction ps arbitrary: s)
  case Nil
  then show ?case by (simp add: run_steps)
next
  case (Cons p ps)
  obtain r w where r: "pods_Delete e cx ns (pod_Name p) None (world s) = (r, w)"
    by (cases "pods_Delete e cx ns (pod_Name p) None (world s)")
  from Cons [of "s\<lparr>world := w, log := log s @ [PodsDelete cx ns (pod_Name p) None r]\<rparr>"]
  obtain rs s' where "length rs = length ps"
    "run_state (cleanup_pods e cx ns ps) (s\<lparr>world := w, log := log s @ [PodsDelete cx ns (pod_Name p) None r]\<rparr>) =
       (concat (map2 (\<lambda>p r. if settled r then [] else [Wrap (''delete pod '' @ pod_Name p) (projl r)]) ps rs), s')"
    "log s' = log s @ PodsDelete cx ns (pod_Name p) None r # map2 (\<lambda>p r. PodsDelete cx ns (pod_Name p) None r) ps rs" "cache s' = cache s"
    by auto
  then show ?case
    by (intro exI [of _ "r # rs"] exI [of _ s']) (auto simp: run_steps r settled_def split: sum.splits)
qed

lemma CleanupSession_run:
  assumes "run_state (CleanupSession e m cx sid) s = (r, s')"
  shows "map_of (entries (cache s')) sid = None \<and>
    (\<exists>lr. (\<exists>rest. log s' = log s @ PodsList cx (Namespace (mgr_config m)) (AssignedSelector (InstanceName (mgr_config m)) sid) lr # rest \<and>
        (case lr of
           Inl err \<Rightarrow> rest = [] \<and> isl r
         | Inr items \<Rightarrow> \<exists>rs sr. length rs = length items \<and>
             rest = map2 (\<lambda>p r. PodsDelete cx (Namespace (mgr_config m)) (pod_Name p) None r) items rs @
               [SecretsDelete cx (Namespace (mgr_config m)) (AuthSecretName sid) sr] \<and>
             (isr r \<longleftrightarrow> list_all settled (sr # rs)))))"
proof -
  let ?ns = "Namespace (mgr_config m)" and ?sel = "AssignedSelector (InstanceName (mgr_config m)) sid"
  obtain lr w where lr: "pods_List e cx ?ns ?sel (world s) = (lr, w)" by (cases "pods_List e cx ?ns ?sel (world s)")
  define s1 where "s1 = s\<lparr>cache := cache_Delete sid (cache s), world := w, log := log s @ [PodsList cx ?ns ?sel lr]\<rparr>"
  have gone: "map_of (entries (cache s1)) sid = None" by (simp add: s1_def cache_Delete_def delete_conv')
  show ?thesis
  proof (cases lr)
    case (Inl err)
    with assms lr gone show ?thesis
      by (auto simp: CleanupSession_def list_assigned_def run_steps s1_def)
  next
    case (Inr items)
    obtain rs s2 where rs: "length rs = length items" and run: "run_state (cleanup_pods e cx ?ns items) s1 =
         (concat (map2 (\<lambda>p r. if settled r then [] else [Wrap (''delete pod '' @ pod_Name p) (projl r)]) items rs), s2)"
      and s2: "log s2 = log s1 @ map2 (\<lambda>p r. PodsDelete cx ?ns (pod_Name p) None r) items rs" "cache s2 = cache s1"
      using cleanup_pods_run [of items e cx ?ns s1] by blast
    obtain sr w' where sr: "secrets_Delete e cx ?ns (AuthSecretName sid) (world s2) = (sr, w')"
      by (cases "secrets_Delete e cx ?ns (AuthSecretName sid) (world s2)")
    have nil: "concat (map2 (\<lambda>p r. if settled r then [] else [Wrap (''delete pod '' @ pod_Name p) (projl r)]) items rs) = [] \<longleftrightarrow>
        list_all settled rs"
      using rs by (induction items rs rule: list_induct2') auto
    have "run_state (CleanupSession e m cx sid) s =
        (let all = concat (map2 (\<lambda>p r. if settled r then [] else [Wrap (''delete pod '' @ pod_Name p) (projl r)]) items rs) @
           (case sr of Inl err \<Rightarrow> if \<not> IsNotFound err then [Wrap (''delete secret '' @ AuthSecretName sid) err] else [] | Inr _ \<Rightarrow> [])
         in (if all = [] then Inr () else Inl (Join all)),
         s2\<lparr>world := w', log := log s2 @ [SecretsDelete cx ?ns (AuthSecretName sid) sr]\<rparr>)"
      using lr run sr by (simp add: CleanupSession_def list_assigned_def run_steps Inr s1_def Let_def)
    with assms have r: "isr r \<longleftrightarrow> list_all settled (sr # rs)"
      and s': "s' = s2\<lparr>world := w', log := log s2 @ [SecretsDelete cx ?ns (AuthSecretName sid) sr]\<rparr>"
      using nil by (auto simp: settled_def Let_def split: sum.splits if_splits)
    show ?thesis
      using gone s2 rs r by (auto simp: s' s1_def Inr)
  qed
qed

text \<open>
  C28. Ending a session. When the list of its pods is answered, every listed pod and then the Secret of the session are deleted,
  also when an earlier delete fails; the result is an error exactly when some delete failed for another reason than
  the object being gone; and the session is out of the cache, whatever happens.
\<close>

theorem cleanup_deletes_everything:
  "case run_state (CleanupSession e m cx sid) s of (r, s') \<Rightarrow>
    map_of (entries (cache s')) sid = None \<and>
    (\<exists>lr. (\<exists>rest. log s' = log s @ PodsList cx (Namespace (mgr_config m)) (AssignedSelector (InstanceName (mgr_config m)) sid) lr # rest \<and>
        (case lr of
           Inl err \<Rightarrow> rest = [] \<and> isl r
         | Inr items \<Rightarrow> \<exists>rs sr. length rs = length items \<and>
             rest = map2 (\<lambda>p r. PodsDelete cx (Namespace (mgr_config m)) (pod_Name p) None r) items rs @
               [SecretsDelete cx (Namespace (mgr_config m)) (AuthSecretName sid) sr] \<and>
             (isr r \<longleftrightarrow> list_all settled (sr # rs)))))"
  by (cases "run_state (CleanupSession e m cx sid) s") (simp only: prod.case CleanupSession_run)

section \<open>Which calls a function makes\<close>

interpretation em: policy "\<lambda>_. K" "\<lambda>_ _ _. True" for K
  by unfold_locales simp

text \<open>The function makes only calls that satisfy \<open>K\<close>.\<close>

abbreviation emits :: "(event \<Rightarrow> bool) \<Rightarrow> ('w, 'a) io \<Rightarrow> bool" where
  "emits K m \<equiv> policy.obeys (\<lambda>_. K) (\<lambda>_ _ _. True) (\<lambda>_. True) m (\<lambda>_ _. True)"

lemma guarded_all: "guarded (\<lambda>_. K) l evs \<longleftrightarrow> list_all K evs"
  by (induction evs arbitrary: l) simp_all

lemma emitsE:
  assumes "emits K m" "run_state m s = (r, s')"
  obtains evs where "log s' = log s @ evs" "list_all K evs"
  by (rule em.obeysE [OF assms(1) _ _ assms(2)]) (auto simp: guarded_all intro: that)

lemma emits_bind: "emits K m \<Longrightarrow> (\<And>x. emits K (f x)) \<Longrightarrow> emits K (State_Monad.bind m f)"
  by (rule em.obeys_bind [where R = "\<lambda>_ _. True"]) (simp_all add: grows_const)

lemma emits_call: "(\<And>r. K (ev r)) \<Longrightarrow> emits K (call f ev)"
  by (rule em.obeys_weaken [OF em.obeys_call [where P = "\<lambda>_. True"]]) (simp_all add: grows_const)

lemma emits_more:
  "emits K (ret x)" "emits K (with_cache h)" "emits K get_gate" "emits K (put_gate g)" "emits K (time_Now e)"
  "emits K (ask a)" "emits K (pass e d)"
  by (simp_all add: em.obeys_ret em.obeys_cache em.obeys_put_gate em.obeys_now em.obeys_ask em.obeys_pass grows_const
      em.obeys_weaken [OF em.obeys_get_gate])

named_theorems emit \<open>the calls of a function\<close>

lemmas emit_rules = emits_bind em.obeys_split emits_more

section \<open>Attempts to run a command\<close>

text \<open>An attempt is a request to \<open>/exec\<close>; the agent refuses it, not having run the command, or the answer is lost.\<close>

definition is_exec :: "event \<Rightarrow> bool" where
  "is_exec ev = (case ev of HttpDo _ q _ \<Rightarrow> HasSuffix (URL q) ''/exec'' | _ \<Rightarrow> False)"

definition refused :: "event \<Rightarrow> bool" where
  "refused ev =
     (case ev of HttpDo _ _ (Inr resp) \<Rightarrow> StatusCode resp = 503 \<and> Contains (take 512 (resp_Body resp)) ''agent not assigned'' | _ \<Rightarrow> False)"

definition lost :: "event \<Rightarrow> bool" where
  "lost ev = (case ev of HttpDo _ _ (Inl err) \<Rightarrow> \<not> is_canceled err \<and> \<not> is_deadline err | _ \<Rightarrow> False)"

abbreviation quiet :: "('w, 'a) io \<Rightarrow> bool" where
  "quiet \<equiv> emits (\<lambda>ev. \<not> is_exec ev)"

lemma HasSuffix_last: "HasSuffix (xs @ [c]) (p @ [d]) \<Longrightarrow> c = d"
  by (simp add: HasSuffix_def)

lemma assign_not_exec: "\<not> HasSuffix (buildURL c ip ''/assign'') ''/exec''"
  using HasSuffix_last [of "''http://'' @ JoinHostPort ip (Itoa (port c)) @ ''/assig''" "CHR ''n''" "''/exe''" "CHR ''c''"]
  by (auto simp: buildURL_def)

lemma exec_is_exec: "HasSuffix (buildURL c ip ''/exec'') ''/exec''"
  by (simp add: buildURL_def HasSuffix_def)

lemma quiet_api [emit]:
  "quiet (list_pods e cx ns sel)" "quiet (get_pod e cx ns n)" "quiet (create_pod e cx ns p)" "quiet (patch_pod e cx ns n pat)"
  "quiet (delete_pod e cx ns n pre)" "quiet (create_secret e cx ns sec)" "quiet (delete_secret e cx ns n)"
  "quiet (list_slices e cx ns sel)" "quiet (get_netpol e cx ns n)"
  by (simp_all add: api_defs emits_call is_exec_def)

lemma quiet_assign [emit]: "quiet (client_Assign e c cx ip tok)"
  unfolding client_Assign_def do_http_def
  by (rule emit_rules emits_call | simp add: is_exec_def assign_http_def assign_not_exec)+

lemma quiet_cache [emit]: "quiet (set_cache e sid ip n)" "quiet (get_cache e sid)" "quiet (invalidate_cache sid ip)"
  unfolding set_cache_def get_cache_def invalidate_cache_def by (rule emit_rules)+

lemma quiet_delete [emit]: "quiet (bestEffortDeletePod e cx ns n)" "quiet (bestEffortDeleteSecret e cx ns n)" "quiet (rollbackLabel e p cx n)"
  unfolding bestEffortDeletePod_def bestEffortDeleteSecret_def rollbackLabel_def by (rule emit_rules emit)+

lemma quiet_delete_pods [emit]: "quiet (delete_pods e cx ns ps)"
  by (induction ps) (auto intro!: emit_rules emit)

lemma quiet_poll_check [emit]: "quiet (poll_check e cx ns n good)"
  unfolding poll_check_def by (rule emit_rules emit)+

lemma quiet_poll_loop [emit]: "quiet (poll_loop k e cx ns n good late)"
proof (induction k)
  case 0
  show ?case unfolding poll_loop.simps by (rule emit_rules emit)+
next
  case (Suc k)
  show ?case unfolding poll_loop.simps by (rule emit_rules emit Suc)+
qed

lemma quiet_wait [emit]: "quiet (poll_pod e cx ns n good late)"
  unfolding poll_pod_def by (rule emit_rules emit)+

lemma quiet_keepOldest [emit]: "quiet (keepOldestAssigned e p cx sid n ip)"
  unfolding keepOldestAssigned_def Let_def by (rule emit_rules emit)+

lemma quiet_tryClaimPod [emit]: "quiet (tryClaimPod e p cx pod sid)"
  unfolding tryClaimPod_def assignToken_def waitForIP_def Let_def by (rule emit_rules emit)+

lemma quiet_claim_loop [emit]: "quiet (claim_loop e p cx sid ps)"
proof (induction ps)
  case Nil
  show ?case unfolding claim_loop.simps by (rule emit_rules emit)+
next
  case (Cons q qs)
  show ?case unfolding claim_loop.simps by (rule emit_rules emit Cons)+
qed

lemma quiet_ClaimPod [emit]: "quiet (ClaimPod e p cx sid)"
  unfolding ClaimPod_def listUnassignedPods_def by (rule emit_rules emit)+

lemma quiet_ensureProxyReady [emit]: "quiet (ensureProxyReady e m cx)"
  unfolding ensureProxyReady_def proxy_flight_def cachedProxyGate_def lookupProxyReady_def storeProxyGate_def
  by (rule emit_rules emit)+

lemma quiet_discoverPod [emit]: "quiet (discoverPod e m cx sid)"
  unfolding discoverPod_def list_assigned_def waitForReady_def Let_def by (rule emit_rules emit)+

lemma quiet_waitAndCacheClaim [emit]: "quiet (waitAndCacheClaim e m cx sid n ip)"
  unfolding waitAndCacheClaim_def waitForReady_def lookupAssignedSibling_def list_assigned_def bestEffortCleanupFailedPod_def Let_def
  by (rule emit_rules emit)+

lemma quiet_create_and_wait [emit]: "quiet (create_and_wait e m cx p sid)"
  unfolding create_and_wait_def waitForReady_def bestEffortCleanupFailedPod_def Let_def by (rule emit_rules emit)+

lemma quiet_GetOrCreatePod [emit]: "quiet (GetOrCreatePod e m cx sid)"
  unfolding GetOrCreatePod_def found_or_def create_for_session_def createSandboxPod_def Let_def by (rule emit_rules emit)+

lemma quiet_podForRecovery [emit]: "quiet (podForRecovery e m cx sid ip n)"
  unfolding podForRecovery_def waitRecoveredPod_def still_there_def waitForReady_def Let_def by (rule emit_rules emit)+

lemma quiet_reassign [emit]: "quiet (reassign e m cx ip tok)"
  unfolding reassign_def by (rule emit_rules emit)+

lemma quiet_finish [emit]: "quiet (finish_command e m n resp)"
  unfolding finish_command_def updateLastActivity_def by (rule emit_rules emit)+

text \<open>The attempts between two states.\<close>

definition tries :: "'w sys \<Rightarrow> 'w sys \<Rightarrow> event list \<Rightarrow> bool" where
  "tries s s' zs = (\<exists>evs. log s' = log s @ evs \<and> filter is_exec evs = zs)"

lemma tries_refl: "tries s s []"
  by (simp add: tries_def)

lemma tries_trans: "tries s s1 xs \<Longrightarrow> tries s1 s2 ys \<Longrightarrow> tries s s2 (xs @ ys)"
  by (auto simp: tries_def)

lemma tries_step: "tries s s1 [] \<Longrightarrow> tries s1 s2 ys \<Longrightarrow> tries s s2 ys"
  using tries_trans [of s s1 "[]" s2 ys] by simp

lemma tries_quiet: "quiet m \<Longrightarrow> run_state m s = (r, s') \<Longrightarrow> tries s s' []"
  by (erule (1) emitsE) (auto simp: tries_def list_all_iff filter_empty_conv)

text \<open>
  Errors of the transport, of reading a body and of the decoder do not contain the typed errors of the agent client, which
  are made by the client only.
\<close>

definition foreign :: "go_error \<Rightarrow> bool" where
  "foreign err = (errors_find is_status_error err = None \<and> errors_find is_network_error err = None)"

definition foreign_errors :: "'w env \<Rightarrow> bool" where
  "foreign_errors e =
     ((\<forall>cx t q w. case fst (http_Do e cx t q w) of
         Inl err \<Rightarrow> foreign err
       | Inr resp \<Rightarrow> (case body_Err resp of None \<Rightarrow> True | Some err \<Rightarrow> foreign err)) \<and>
      (\<forall>b. case unmarshal_exec_response e b of Inl err \<Rightarrow> foreign err | Inr _ \<Rightarrow> True))"

text \<open>The response the client reads from the answer to an attempt.\<close>

definition answers :: "'w env \<Rightarrow> session_manager \<Rightarrow> event \<Rightarrow> exec_response \<Rightarrow> bool" where
  "answers e m ev resp =
     (case ev of HttpDo _ q (Inr hr) \<Rightarrow> decode_exec e (agentClient m) (URL q) hr = Inr resp | _ \<Rightarrow> False)"

lemma decode_exec_error:
  assumes "decode_exec e c url resp = Inl err" "\<And>b er. unmarshal_exec_response e b = Inl er \<Longrightarrow> foreign er"
    and "\<And>er. body_Err resp = Some er \<Longrightarrow> foreign er"
  shows "(agentNotAssigned err \<longrightarrow> StatusCode resp = 503 \<and> Contains (take 512 (resp_Body resp)) ''agent not assigned'') \<and> \<not> isNetwork err"
proof (cases "StatusCode resp = 200")
  case True
  have dec: "\<not> agentNotAssigned (DecodeError oper u n er b) \<and> \<not> isNetwork (DecodeError oper u n er b)" if "foreign er" for oper u n er b
    using that by (simp add: agentNotAssigned_def isNetwork_def foreign_def)
  have size: "foreign (Err x)" for x by (simp add: foreign_def)
  show ?thesis
    using assms True dec size
    by (auto simp: decode_exec_def Let_def split: option.splits if_splits sum.splits)
next
  case False
  with assms(1) have "err = StatusError ''execute'' url (StatusCode resp) (take 512 (resp_Body resp))"
    by (simp add: decode_exec_def readBodyTruncated_def maxErrorBodySize_def)
  then show ?thesis by (simp add: agentNotAssigned_def isNetwork_def)
qed

lemma one_attempt:
  assumes "foreign_errors e" "run_state (client_Execute e (agentClient m) cx ip tok req) s = (r, s')"
  shows "\<exists>zs. tries s s' zs \<and> (zs = [] \<and> isl r \<or>
    (\<exists>ev. zs = [ev] \<and> (case r of Inl err \<Rightarrow> (agentNotAssigned err \<longrightarrow> refused ev) \<and> (isNetwork err \<longrightarrow> lost ev)
                         | Inr resp \<Rightarrow> answers e m ev resp)))"
proof (cases "url_Parse (golang e) (buildURL (agentClient m) ip ''/exec'')")
  case (Inl err)
  with assms(2) show ?thesis by (auto simp: client_Execute_def run_steps intro: tries_refl)
next
  case (Inr u)
  let ?c = "agentClient m" and ?q = "exec_http e (agentClient m) ip tok req"
  obtain hr w where hr: "http_Do e cx (client_Timeout ?c) ?q (world s) = (hr, w)"
    by (cases "http_Do e cx (client_Timeout ?c) ?q (world s)")
  have url: "URL ?q = buildURL ?c ip ''/exec''" by (simp add: exec_http_def)
  from assms(2) Inr hr have r: "r = (case hr of Inl err \<Rightarrow> Inl (NetworkError ''execute'' (URL ?q) err) | Inr resp \<Rightarrow> decode_exec e ?c (URL ?q) resp)"
    and "log s' = log s @ [HttpDo cx ?q hr]"
    by (auto simp: client_Execute_def run_steps url classifyDoError_def split: sum.splits)
  then have t: "tries s s' [HttpDo cx ?q hr]" by (simp add: tries_def is_exec_def url exec_is_exec)
  from assms(1) hr have f: "case hr of Inl err \<Rightarrow> foreign err | Inr resp \<Rightarrow> (case body_Err resp of None \<Rightarrow> True | Some err \<Rightarrow> foreign err)"
    unfolding foreign_errors_def by (metis fst_conv)
  have u: "foreign er" if "unmarshal_exec_response e b = Inl er" for b er
    using assms(1) that unfolding foreign_errors_def by (metis old.sum.simps(5))
  show ?thesis
  proof (cases hr)
    case (Inl err)
    with f r have rr: "r = Inl (NetworkError ''execute'' (URL ?q) err)" "foreign err" by simp_all
    then have "\<not> agentNotAssigned (NetworkError ''execute'' (URL ?q) err)" "isNetwork (NetworkError ''execute'' (URL ?q) err) \<longrightarrow> lost (HttpDo cx ?q hr)"
      by (simp_all add: agentNotAssigned_def isNetwork_def foreign_def lost_def Inl is_canceled_def is_deadline_def)
    with t rr show ?thesis by auto
  next
    case (Inr resp)
    with f have "foreign er" if "body_Err resp = Some er" for er using that by simp
    note err = decode_exec_error [where e = e and c = ?c and url = "URL ?q", OF _ u this]
    from err t r Inr show ?thesis
      by (intro exI [of _ "[HttpDo cx ?q hr]"]) (auto simp: refused_def answers_def split: sum.splits)
  qed
qed

lemma exec_loop_attempts:
  assumes "foreign_errors e" "run_state (exec_loop n e m cx poll deadline ip tok req) s = (Some r, s')"
  shows "\<exists>ys zs. tries s s' (ys @ zs) \<and> list_all refused ys \<and> (zs = [] \<and> isl r \<or>
    (\<exists>ev. zs = [ev] \<and> (case r of Inl err \<Rightarrow> recoverableSession err \<longrightarrow> lost ev | Inr resp \<Rightarrow> answers e m ev resp)))"
  using assms(2)
proof (induction n arbitrary: s)
  case 0
  then show ?case by (simp add: run_ret)
next
  case (Suc n)
  obtain x s1 where x: "run_state (client_Execute e (agentClient m) cx ip tok req) s = (x, s1)"
    by (cases "run_state (client_Execute e (agentClient m) cx ip tok req) s")
  from one_attempt [OF assms(1) x] obtain zs where zs: "tries s s1 zs"
    "zs = [] \<and> isl x \<or> (\<exists>ev. zs = [ev] \<and> (case x of Inl err \<Rightarrow> (agentNotAssigned err \<longrightarrow> refused ev) \<and> (isNetwork err \<longrightarrow> lost ev)
                         | Inr resp \<Rightarrow> answers e m ev resp))" by blast
  show ?case
  proof (cases "\<exists>err. x = Inl err \<and> agentNotAssigned err")
    case False
    with Suc.prems x have "r = x" "s' = s1" by (auto simp: run_steps split: sum.splits)
    with zs False show ?thesis
      by (intro exI [of _ "[]"] exI [of _ zs]) (auto simp: recoverableSession_def split: sum.splits)
  next
    case True
    then obtain err where err: "x = Inl err" "agentNotAssigned err" by blast
    with zs have all: "list_all refused zs" by auto
    have quiet: "tries s1 s2 []" if "log s2 = log s1" for s2 using that by (simp add: tries_def)
    from Suc.prems x err consider
        (stop) "log s' = log s1" "isl r"
      | (more) s2 where "run_state (exec_loop n e m cx poll deadline ip tok req) s2 = (Some r, s')" "log s2 = log s1"
      by (auto simp: run_steps split: prod.splits if_splits option.splits)
    then show ?thesis
    proof cases
      case stop
      with tries_trans [OF zs(1) quiet] all show ?thesis
        by (intro exI [of _ zs] exI [of _ "[]"]) simp
    next
      case more
      from Suc.IH [OF more(1)] obtain ys' zs' where ih: "tries s2 s' (ys' @ zs')" "list_all refused ys'"
        "zs' = [] \<and> isl r \<or> (\<exists>ev. zs' = [ev] \<and> (case r of Inl err \<Rightarrow> recoverableSession err \<longrightarrow> lost ev | Inr resp \<Rightarrow> answers e m ev resp))"
        by blast
      from tries_trans [OF zs(1) tries_step [OF quiet [OF more(2)] ih(1)]] all ih(2,3) show ?thesis
        by (intro exI [of _ "zs @ ys'"] exI [of _ zs']) simp
    qed
  qed
qed

lemma exec_once_attempts:
  assumes "foreign_errors e" "run_state (exec_once e m cx ip tok req reset) s = (r, s')"
  shows "\<exists>zs. tries s s' zs \<and> length zs \<le> 1 \<and>
    (case r of Inl _ \<Rightarrow> True | Inr resp \<Rightarrow> \<exists>ev resp'. zs = [ev] \<and> answers e m ev resp' \<and> (resp = resp' \<or> resp = noteSessionReset resp'))"
proof -
  obtain x where x: "run_state (client_Execute e (agentClient m) cx ip tok req) s = (x, s')"
    and r: "r = (case x of Inl err \<Rightarrow> Inl err | Inr resp \<Rightarrow> Inr (if reset then noteSessionReset resp else resp))"
    using assms(2) by (auto simp: exec_once_def run_bind run_ret split: prod.splits)
  from one_attempt [OF assms(1) x] obtain zs where "tries s s' zs"
    "zs = [] \<and> isl x \<or> (\<exists>ev. zs = [ev] \<and> (case x of Inl err \<Rightarrow> (agentNotAssigned err \<longrightarrow> refused ev) \<and> (isNetwork err \<longrightarrow> lost ev)
                         | Inr resp \<Rightarrow> answers e m ev resp))" by blast
  then show ?thesis by (intro exI [of _ zs]) (auto simp: r split: sum.splits)
qed

lemma recoverOnNewPod_attempts:
  assumes "foreign_errors e" "run_state (recoverOnNewPod e m cx sid ip n tok req) s = (r, s')"
  shows "\<exists>zs. tries s s' zs \<and> length zs \<le> 1 \<and>
    (case r of Inl _ \<Rightarrow> True | Inr resp \<Rightarrow> \<exists>ev resp'. zs = [ev] \<and> answers e m ev resp' \<and> (resp = resp' \<or> resp = noteSessionReset resp'))"
proof -
  obtain pr s1 where pr: "run_state (podForRecovery e m cx sid ip n) s = (pr, s1)" by (cases "run_state (podForRecovery e m cx sid ip n) s")
  note q1 = tries_quiet [OF quiet_podForRecovery pr]
  show ?thesis
  proof (cases "\<exists>ip' b s2 b'. pr = Inr (ip', b) \<and> run_state (reassign e m cx ip' tok) s1 = (Inr b', s2)")
    case True
    then obtain ip' b s2 b' where p: "pr = Inr (ip', b)" "run_state (reassign e m cx ip' tok) s1 = (Inr b', s2)" by blast
    with assms(2) pr have "run_state (exec_once e m cx ip' tok req (b \<or> b')) s2 = (r, s')"
      by (simp add: recoverOnNewPod_def run_bind)
    from exec_once_attempts [OF assms(1) this] tries_step [OF tries_step [OF q1 tries_quiet [OF quiet_reassign p(2)]]] show ?thesis
      by blast
  next
    case False
    with assms(2) pr have "tries s1 s' [] \<and> isl r"
      by (auto simp: recoverOnNewPod_def run_bind run_ret tries_refl split: sum.splits prod.splits
          dest: tries_quiet [OF quiet_reassign])
    with tries_step [OF q1] show ?thesis by (intro exI [of _ "[]"]) (auto split: sum.splits)
  qed
qed

lemma recoverSession_attempts:
  assumes "foreign_errors e" "run_state (recoverSession e m cx sid ip n tok req cause) s = (r, s')"
  shows "\<exists>zs. tries s s' zs \<and> length zs \<le> 1 \<and>
    (case r of Inl _ \<Rightarrow> True | Inr resp \<Rightarrow> \<exists>ev resp'. zs = [ev] \<and> answers e m ev resp' \<and> (resp = resp' \<or> resp = noteSessionReset resp'))"
proof -
  have refl: "tries s s1 []" if "log s1 = log s" for s1 using that by (simp add: tries_def)
  have halt: ?thesis if "tries s s' []" "isl r" using that by (intro exI [of _ "[]"]) (auto split: sum.splits)
  obtain ce w where ce: "ctx_Err e cx (world s) = (ce, w)" by (cases "ctx_Err e cx (world s)")
  define s1 where "s1 = s\<lparr>world := w\<rparr>"
  have q1: "tries s s1 []" by (rule refl) (simp add: s1_def)
  obtain ar s2 where ar: "run_state (reassign e m cx ip tok) s1 = (ar, s2)" by (cases "run_state (reassign e m cx ip tok) s1")
  note q2 = tries_step [OF q1 tries_quiet [OF quiet_reassign ar]]
  from assms(2) ce ar q1 q2 consider
      (stop) "tries s s' []" "isl r"
    | (once) b where "run_state (exec_once e m cx ip tok req b) s2 = (r, s')"
    | (new) "run_state (recoverOnNewPod e m cx sid ip n tok req) s1 = (r, s')"
    | (new') "run_state (recoverOnNewPod e m cx sid ip n tok req) s2 = (r, s')"
    by (auto simp: recoverSession_def run_bind run_ret ask_def s1_def [symmetric] split: option.splits if_splits sum.splits)
  then show ?thesis
  proof cases
    case stop
    then show ?thesis by (rule halt)
  next
    case once
    from exec_once_attempts [OF assms(1) this] tries_step [OF q2] show ?thesis by blast
  next
    case new
    from recoverOnNewPod_attempts [OF assms(1) this] tries_step [OF q1] show ?thesis by blast
  next
    case new'
    from recoverOnNewPod_attempts [OF assms(1) this] tries_step [OF q2] show ?thesis by blast
  qed
qed

lemma executeWhenAssigned_attempts:
  assumes "NewSessionManager config = Inr m" "foreign_errors e" "run_state (executeWhenAssigned e m cx ip tok req) s = (r, s')"
  shows "\<exists>ys zs. tries s s' (ys @ zs) \<and> list_all refused ys \<and> (zs = [] \<and> isl r \<or>
    (\<exists>ev. zs = [ev] \<and> (case r of Inl err \<Rightarrow> recoverableSession err \<longrightarrow> lost ev | Inr resp \<Rightarrow> answers e m ev resp)))"
proof -
  from executeWhenAssigned_loop [OF assms(1), of e s cx ip tok req] assms(3) obtain t s1 n poll deadline
    where "run_state (time_Now e) s = (t, s1)" "run_state (exec_loop n e m cx poll deadline ip tok req) s1 = (Some r, s')"
    by auto
  then show ?thesis
    using exec_loop_attempts [OF assms(2)] tries_step [OF tries_quiet [OF emits_more(5) [of _ e]], of s t s1] by meson
qed

lemma finish_command_run:
  assumes "run_state (finish_command e m n resp) s = (r, s')"
  shows "r = Inr resp \<and> tries s s' []"
  using assms tries_quiet [OF quiet_finish assms] by (auto simp: finish_command_def run_bind run_ret split: prod.splits)

lemma after_execute:
  assumes "foreign_errors e" "recoverableSession err"
    and "run_state (State_Monad.bind (recoverSession e m cx sid ip n tok req err) (\<lambda>rr. case rr of
           Inl recErr \<Rightarrow> ret (Inl (Wrap ''agent request'' recErr))
         | Inr resp \<Rightarrow> State_Monad.bind (get_cache e sid) (\<lambda>hit'. finish_command e m (case hit' of Some (_, n) \<Rightarrow> n | None \<Rightarrow> n) resp))) s = (r, s')"
  shows "\<exists>zs. tries s s' zs \<and> length zs \<le> 1 \<and>
    (case r of Inl _ \<Rightarrow> True | Inr resp \<Rightarrow> \<exists>ev resp'. zs = [ev] \<and> answers e m ev resp' \<and> (resp = resp' \<or> resp = noteSessionReset resp'))"
proof -
  obtain rr s1 where rr: "run_state (recoverSession e m cx sid ip n tok req err) s = (rr, s1)"
    by (cases "run_state (recoverSession e m cx sid ip n tok req err) s")
  from recoverSession_attempts [OF assms(1) rr] obtain zs where zs: "tries s s1 zs" "length zs \<le> 1"
    "case rr of Inl _ \<Rightarrow> True | Inr resp \<Rightarrow> \<exists>ev resp'. zs = [ev] \<and> answers e m ev resp' \<and> (resp = resp' \<or> resp = noteSessionReset resp')"
    by blast
  have "tries s1 s' [] \<and> (case rr of Inl _ \<Rightarrow> isl r | Inr resp \<Rightarrow> r = Inr resp)"
  proof (cases rr)
    case (Inl x)
    with assms(3) rr show ?thesis by (auto simp: run_bind run_ret tries_refl)
  next
    case (Inr resp)
    obtain hit s2 where hit: "run_state (get_cache e sid) s1 = (hit, s2)" by (cases "run_state (get_cache e sid) s1")
    with assms(3) rr Inr have "run_state (finish_command e m (case hit of Some (_, n) \<Rightarrow> n | None \<Rightarrow> n) resp) s2 = (r, s')"
      by (simp add: run_bind)
    from finish_command_run [OF this] tries_step [OF tries_quiet [OF quiet_cache(2) hit]] Inr show ?thesis by simp
  qed
  then show ?thesis
    using zs tries_trans [OF zs(1), of s' "[]"] by (intro exI [of _ zs]) (auto split: sum.splits)
qed

lemma ExecuteCommand_attempts:
  assumes "NewSessionManager config = Inr m" "foreign_errors e"
    and "run_state (ExecuteCommand e m cx sid command timeout) s = (r, s')"
  shows "\<exists>ys zs. tries s s' (ys @ zs) \<and> list_all refused ys \<and>
    (length zs \<le> 1 \<or> (\<exists>a b. zs = [a, b] \<and> lost a)) \<and>
    (case r of Inl _ \<Rightarrow> True | Inr resp \<Rightarrow> \<exists>resp'. zs \<noteq> [] \<and> answers e m (last zs) resp' \<and> (resp = resp' \<or> resp = noteSessionReset resp'))"
proof -
  let ?tok = "computeToken e (HMACKey (mgr_config m)) sid" and ?req = "\<lparr>Command = command, Timeout = timeout\<rparr>"
  obtain pr s1 where pr: "run_state (GetOrCreatePod e m cx sid) s = (pr, s1)" by (cases "run_state (GetOrCreatePod e m cx sid) s")
  note q1 = tries_quiet [OF quiet_GetOrCreatePod pr]
  show ?thesis
  proof (cases pr)
    case (Inl err)
    with assms(3) pr have "s' = s1" "isl r" by (auto simp: ExecuteCommand_def run_bind run_ret)
    with q1 show ?thesis by (intro exI [of _ "[]"]) (auto split: sum.splits)
  next
    case (Inr ip)
    obtain hit s2 where hit: "run_state (get_cache e sid) s1 = (hit, s2)" by (cases "run_state (get_cache e sid) s1")
    note q2 = tries_step [OF q1 tries_quiet [OF quiet_cache(2) hit]]
    obtain x s3 where x: "run_state (executeWhenAssigned e m cx ip ?tok ?req) s2 = (x, s3)"
      by (cases "run_state (executeWhenAssigned e m cx ip ?tok ?req) s2")
    from executeWhenAssigned_attempts [OF assms(1,2) x] obtain ys zs where w: "tries s2 s3 (ys @ zs)" "list_all refused ys"
      "zs = [] \<and> isl x \<or> (\<exists>ev. zs = [ev] \<and> (case x of Inl err \<Rightarrow> recoverableSession err \<longrightarrow> lost ev | Inr resp \<Rightarrow> answers e m ev resp))"
      by blast
    note q3 = tries_step [OF q2 w(1)]
    note run = assms(3) [unfolded ExecuteCommand_def run_bind pr Inr Let_def prod.case sum.case hit x]
    show ?thesis
    proof (cases x)
      case (Inr resp)
      with run have "r = Inr resp \<and> tries s3 s' []" by (auto dest: finish_command_run)
      with tries_trans [OF q3, of s' "[]"] w Inr show ?thesis by (intro exI [of _ ys] exI [of _ zs]) auto
    next
      case (Inl err)
      show ?thesis
      proof (cases "recoverableSession err")
        case True
        from run Inl True after_execute [OF assms(2) True] obtain zs' where "tries s3 s' zs'" "length zs' \<le> 1"
          "case r of Inl _ \<Rightarrow> True | Inr resp \<Rightarrow> \<exists>ev resp'. zs' = [ev] \<and> answers e m ev resp' \<and> (resp = resp' \<or> resp = noteSessionReset resp')"
          by simp blast
        with tries_trans [OF q3, of s' zs'] w Inl True show ?thesis
          by (intro exI [of _ ys] exI [of _ "zs @ zs'"]) (cases zs'; auto split: sum.splits)
      next
        case False
        have "quiet (if errors_find is_network_error err \<noteq> None then invalidate_cache sid ip else ret ())"
          by (rule emit_rules emit)+
        with run Inl False have "tries s3 s' [] \<and> isl r"
          by (auto simp: run_bind run_ret split: prod.splits dest: tries_quiet)
        with tries_trans [OF q3, of s' "[]"] w Inl show ?thesis
          by - (rule exI [of _ ys], rule exI [of _ zs], auto split: sum.splits)
      qed
    qed
  qed
qed

text \<open>
  C14. A command is run at most twice. The attempts of one \<open>ExecuteCommand\<close> are attempts the agent refused because it has no token, then at
  most two more; there are two only when the answer to the first was lost in the network. A response
  that is returned is the agent's answer to the last attempt, up to the notice that the session was reset.
\<close>

theorem command_runs_at_most_twice:
  assumes "NewSessionManager config = Inr m" "foreign_errors e"
    and "run_state (ExecuteCommand e m cx sid command timeout) s = (r, s')"
  shows "\<exists>evs ys zs. log s' = log s @ evs \<and> filter is_exec evs = ys @ zs \<and> list_all refused ys \<and>
    (length zs \<le> 1 \<or> (\<exists>a b. zs = [a, b] \<and> lost a)) \<and>
    (case r of Inl _ \<Rightarrow> True | Inr resp \<Rightarrow> \<exists>resp'. zs \<noteq> [] \<and> answers e m (last zs) resp' \<and> (resp = resp' \<or> resp = noteSessionReset resp'))"
  using ExecuteCommand_attempts [OF assms] unfolding tries_def by blast

lemma demo_foreign: "foreign_errors demo_env"
  by (simp add: foreign_errors_def)

theorem command_runs_at_most_twice_witness:
  "\<exists>r s' zs resp. run_state (ExecuteCommand demo_env demo_mgr Request ''s1'' ''ls'' 60) (start_sys () 0) = (Inr r, s') \<and>
     filter is_exec (log s') = zs \<and> zs \<noteq> [] \<and> answers demo_env demo_mgr (last zs) resp \<and> (r = resp \<or> r = noteSessionReset resp)"
proof -
  obtain r s where rs: "run_state (ExecuteCommand demo_env demo_mgr Request ''s1'' ''ls'' 60) (start_sys () 0) = (Inr r, s)"
    using demo_run by (elim exE conjE)
  have nil: "log (start_sys () 0 :: unit sys) = []" by (simp add: start_sys_def)
  from command_runs_at_most_twice [OF demo_mgr_new demo_foreign rs] nil show ?thesis
    using rs by fastforce
qed

section \<open>Replicas that claim for the same session\<close>

definition deleted :: "event list \<Rightarrow> string list" where
  "deleted l = concat (map (\<lambda>ev. case ev of PodsDelete _ _ n _ _ \<Rightarrow> [n] | _ \<Rightarrow> []) l)"

lemma deleted_simps [simp]:
  "deleted [] = []" "deleted (xs @ ys) = deleted xs @ deleted ys" "deleted (PodsDelete cx ns n pre r # l) = n # deleted l"
  "deleted (PodsList cx ns sel lr # l) = deleted l"
  by (simp_all add: deleted_def)

lemma delete_pods_run:
  "\<exists>evs s'. run_state (delete_pods e cx ns ps) s = ((), s') \<and> log s' = log s @ evs \<and> deleted evs = map pod_Name ps"
proof (induction ps arbitrary: s)
  case Nil
  then show ?case by (simp add: run_steps)
next
  case (Cons p ps)
  obtain r w where r: "pods_Delete e cx ns (pod_Name p) None (world s) = (r, w)"
    by (cases "pods_Delete e cx ns (pod_Name p) None (world s)")
  from Cons [of "s\<lparr>world := w, log := log s @ [PodsDelete cx ns (pod_Name p) None r]\<rparr>"] obtain evs s' where
    "run_state (delete_pods e cx ns ps) (s\<lparr>world := w, log := log s @ [PodsDelete cx ns (pod_Name p) None r]\<rparr>) = ((), s')"
    "log s' = log s @ PodsDelete cx ns (pod_Name p) None r # evs" "deleted evs = map pod_Name ps" by auto
  then show ?case
    by (intro exI [of _ "PodsDelete cx ns (pod_Name p) None r # evs"] exI [of _ s']) (simp add: run_steps bestEffortDeletePod_def r)
qed

text \<open>The name of the pod that survives.\<close>

definition oldest_pod :: "pod list \<Rightarrow> string" where
  "oldest_pod items = pod_Name (hd (sort_key comparePodAge (live_pods items)))"

lemma keepOldest_run:
  assumes "pods_List e cx (Namespace (pool_config p)) (AssignedSelector (InstanceName (pool_config p)) sid) (world s) = (Inr items, w)"
    and "n \<in> pod_Name ` set (live_pods items)"
  shows "\<exists>evs ip' s'. run_state (keepOldestAssigned e p cx sid n ip) s = ((ip', oldest_pod items), s') \<and> log s' = log s @ evs \<and>
    deleted evs = tl (map pod_Name (sort_key comparePodAge (live_pods items)))"
proof (cases "sort_key comparePodAge (live_pods items)")
  case Nil
  with assms(2) show ?thesis by (metis empty_iff image_empty list.set(1) set_sort)
next
  case (Cons old extras)
  let ?l = "PodsList cx (Namespace (pool_config p)) (AssignedSelector (InstanceName (pool_config p)) sid) (Inr items)"
  define s1 where "s1 = s\<lparr>world := w, log := log s @ [?l]\<rparr>"
  have old: "oldest_pod items = pod_Name old" by (simp add: oldest_pod_def Cons)
  obtain evs s' where del: "run_state (delete_pods e cx (Namespace (pool_config p)) extras) s1 = ((), s')"
      "log s' = log s1 @ evs" "deleted evs = map pod_Name extras"
    using delete_pods_run [of e cx "Namespace (pool_config p)" extras s1] by blast
  show ?thesis
  proof (cases "length (live_pods items) \<le> 1")
    case True
    then have "length (old # extras) \<le> 1" by (simp flip: Cons)
    then have extras: "extras = []" by simp
    then have "set (live_pods items) = {old}" by (metis Cons list.set(1) list.simps(15) set_sort)
    with assms(2) have "n = pod_Name old" by simp
    with True assms(1) old extras Cons show ?thesis
      by (intro exI [of _ "[?l]"]) (simp add: keepOldestAssigned_def run_steps)
  next
    case False
    with assms(1) del old Cons show ?thesis
      by (intro exI [of _ "?l # evs"]) (auto simp: keepOldestAssigned_def run_steps s1_def)
  qed
qed

text \<open>
  C27. Two replicas that claimed pods for the same session, and that are shown the same pods in any order, agree: they keep the
  same pod, which is one of the live pods of the session, and both delete exactly the others, so one pod is left.
\<close>

theorem replicas_keep_the_same_pod:
  assumes "pods_List e cx (Namespace (pool_config p)) (AssignedSelector (InstanceName (pool_config p)) sid) (world s) = (Inr items, w)"
    and "pods_List e' cx' (Namespace (pool_config p)) (AssignedSelector (InstanceName (pool_config p)) sid) (world t) = (Inr items', w')"
    and "mset items' = mset items" "distinct (map pod_Name items)"
    and "n \<in> pod_Name ` set (live_pods items)" "n' \<in> pod_Name ` set (live_pods items)"
  shows "\<exists>keep ip ip' evs evs' s' t'.
    run_state (keepOldestAssigned e p cx sid n ipn) s = ((ip, keep), s') \<and> log s' = log s @ evs \<and>
    run_state (keepOldestAssigned e' p cx' sid n' ipn') t = ((ip', keep), t') \<and> log t' = log t @ evs' \<and>
    deleted evs = deleted evs' \<and> distinct (deleted evs) \<and> keep \<notin> set (deleted evs) \<and>
    pod_Name ` set (live_pods items) = insert keep (set (deleted evs))"
proof -
  have m: "mset (live_pods items') = mset (live_pods items)" using assms(3) by (simp add: live_pods_def)
  have d: "distinct (map pod_Name (live_pods items))" using assms(4) by (simp add: live_pods_def distinct_map inj_on_def)
  then have inj: "inj_on comparePodAge (set (live_pods items'))"
    using mset_eq_setD [OF m] by (auto simp: inj_on_def comparePodAge_def distinct_map)
  have srt: "sort_key comparePodAge (live_pods items') = sort_key comparePodAge (live_pods items)"
    by (rule sort_key_inj_key_eq) (use m inj in simp_all)
  then have same: "oldest_pod items' = oldest_pod items" by (simp add: oldest_pod_def)
  from m have set: "set (live_pods items') = set (live_pods items)" by (rule mset_eq_setD)
  from d have ds: "distinct (map pod_Name (sort_key comparePodAge (live_pods items)))"
    by (simp add: distinct_map)
  have ne: "sort_key comparePodAge (live_pods items) \<noteq> []" using assms(5) by (metis empty_iff image_empty list.set(1) set_sort)
  let ?xs = "map pod_Name (sort_key comparePodAge (live_pods items))"
  have xs: "?xs = oldest_pod items # tl ?xs" using ne by (cases "sort_key comparePodAge (live_pods items)") (simp_all add: oldest_pod_def)
  then have "oldest_pod items \<notin> set (tl ?xs)" "distinct (tl ?xs)" using ds by (metis distinct.simps(2))+
  moreover have "pod_Name ` set (live_pods items) = insert (oldest_pod items) (set (tl ?xs))"
    using xs by (metis list.set_map list.simps(15) set_sort)
  ultimately show ?thesis
    using keepOldest_run [OF assms(1,5), of ipn] keepOldest_run [OF assms(2), of n' ipn'] assms(6)
    by (simp only: set same srt) metis
qed

definition demo_pods :: "pod list" where
  "demo_pods = [demo_pod, demo_pod\<lparr>pod_Name := ''p2'', CreationTimestamp := 0\<rparr>]"

definition listing_env :: "pod list \<Rightarrow> unit env" where
  "listing_env items = demo_env\<lparr>pods_List := (\<lambda>_ _ _ w. (Inr items, w))\<rparr>"

theorem replicas_keep_the_same_pod_witness:
  "\<exists>keep ip ip' s' t'.
    run_state (keepOldestAssigned (listing_env demo_pods) (pool demo_mgr) Request ''s1'' ''p1'' ''10.0.0.9'') (start_sys () 0) = ((ip, keep), s') \<and>
    run_state (keepOldestAssigned (listing_env (rev demo_pods)) (pool demo_mgr) Request ''s1'' ''p2'' ''10.0.0.9'') (start_sys () 0) = ((ip', keep), t') \<and>
    deleted (log s') = deleted (log t') \<and> insert keep (set (deleted (log s'))) = {''p1'', ''p2''}"
proof -
  have live: "live_pods demo_pods = demo_pods" by (simp add: live_pods_def demo_pods_def isTerminalPod_def)
  have l: "pods_List (listing_env items) cx ns sel w = (Inr items, w)" for items cx ns sel w by (simp add: listing_env_def)
  have log0: "log (start_sys () 0 :: unit sys) = []" by (simp add: start_sys_def)
  have names: "pod_Name ` set demo_pods = {''p1'', ''p2''}" by (simp add: demo_pods_def)
  show ?thesis
    using replicas_keep_the_same_pod [where items = demo_pods and items' = "rev demo_pods" and p = "pool demo_mgr" and n = "''p1''" and n' = "''p2''"
        and sid = "''s1''" and e = "listing_env demo_pods" and e' = "listing_env (rev demo_pods)" and s = "start_sys () 0" and t = "start_sys () 0"
        and cx = Request and cx' = Request and ipn = "''10.0.0.9''" and ipn' = "''10.0.0.9''", OF l l]
    unfolding live names log0 by (auto simp: demo_pods_def)
qed

section \<open>A failed claim is undone\<close>

definition is_get :: "event \<Rightarrow> bool" where
  "is_get ev = (case ev of PodsGet _ _ _ _ \<Rightarrow> True | _ \<Rightarrow> False)"

definition is_http :: "event \<Rightarrow> bool" where
  "is_http ev = (case ev of HttpDo _ _ _ \<Rightarrow> True | _ \<Rightarrow> False)"

abbreviation looks :: "('w, 'a) io \<Rightarrow> bool" where
  "looks \<equiv> emits (\<lambda>ev. is_get ev \<or> is_http ev)"

lemma looks_get: "looks (get_pod e cx ns n)"
  by (simp add: get_pod_def emits_call is_get_def)

lemma looks_poll_check: "looks (poll_check e cx ns n good)"
  unfolding poll_check_def by (rule emit_rules looks_get)+

lemma looks_poll_loop: "looks (poll_loop k e cx ns n good late)"
proof (induction k)
  case 0
  show ?case unfolding poll_loop.simps by (rule emit_rules)+
next
  case (Suc k)
  show ?case unfolding poll_loop.simps by (rule emit_rules looks_poll_check Suc)+
qed

lemma looks_wait: "looks (poll_pod e cx ns n good late)"
  unfolding poll_pod_def by (rule emit_rules looks_poll_check looks_poll_loop)+

lemma looks_address: "looks (if PodIP q = [] then waitForIP e p cx n else ret (Inr (PodIP q)))"
  unfolding waitForIP_def by (rule emit_rules looks_wait)+

lemma looks_assignToken: "looks (assignToken e p cx n ip tok)"
  unfolding assignToken_def client_Assign_def do_http_def
  by (rule emit_rules emits_call | simp add: is_http_def)+

text \<open>What a claim of a pod does: the label patch, the Secret, looking at the pod and calling its agent, and what undoes it.\<close>

definition claim_trace :: "'w env \<Rightarrow> warm_pool \<Rightarrow> ctx \<Rightarrow> pod \<Rightarrow> string \<Rightarrow> (string \<times> string) result \<Rightarrow> event list \<Rightarrow> bool" where
  "claim_trace e p cx pod sid r evs =
     (let ns = Namespace (pool_config p);
          claim = (\<lambda>now x. PodsPatch cx ns (pod_Name pod) (claim_patch sid now (ResourceVersion pod)) x);
          secret = (\<lambda>x. SecretsCreate cx ns (buildAuthSecret ns (InstanceName (pool_config p)) sid (computeToken e (HMACKey (pool_config p)) sid)) x);
          unlabel = (\<lambda>x. PodsPatch cx ns (pod_Name pod) rollback_patch x);
          unsecret = (\<lambda>x. SecretsDelete cx ns (AuthSecretName sid) x)
      in case r of
           Inr (ip, name) \<Rightarrow> \<exists>now q mid. evs = [claim now (Inr q), secret (Inr ())] @ mid \<and> list_all (\<lambda>ev. is_get ev \<or> is_http ev) mid \<and>
             name = pod_Name q \<and> ip \<noteq> []
         | Inl _ \<Rightarrow>
             (\<exists>now err. evs = [claim now (Inl err)]) \<or>
             (\<exists>now q err u. evs = [claim now (Inr q), secret (Inl err), unlabel u]) \<or>
             (\<exists>now q mid u v. evs = [claim now (Inr q), secret (Inr ())] @ mid @ [unlabel u, unsecret v] \<and>
                list_all (\<lambda>ev. is_get ev \<or> is_http ev) mid))"

lemma assignToken_ok: "run_state (assignToken e p cx n ip tok) s = (Inr x, s') \<Longrightarrow> ip \<noteq> []"
  by (auto simp: assignToken_def run_ret)

lemma run_bindD: "run_state m s = (x, s1) \<Longrightarrow> run_state (State_Monad.bind m f) s = (r, s') \<Longrightarrow> run_state (f x) s1 = (r, s')"
  by (simp add: run_bind)

lemma undo_run:
  assumes "run_state (State_Monad.bind (rollbackLabel e p cx n) (\<lambda>_. State_Monad.bind (bestEffortDeleteSecret e cx ns sid) (\<lambda>_. ret x))) s = (r, s')"
  shows "r = x \<and> (\<exists>u v. log s' = log s @ [PodsPatch cx (Namespace (pool_config p)) n rollback_patch u, SecretsDelete cx ns (AuthSecretName sid) v])"
  using assms by (auto simp: rollbackLabel_def bestEffortDeleteSecret_def run_steps split: prod.splits)

lemma claim_tail:
  assumes "run_state
    (do {
       ipr \<leftarrow> (if PodIP q = [] then waitForIP e p cx (pod_Name q) else ret (Inr (PodIP q)));
       (case ipr of
          Inl err \<Rightarrow> do { _ \<leftarrow> rollbackLabel e p cx n; _ \<leftarrow> bestEffortDeleteSecret e cx ns sid; ret (Inl (Wrap ''wait for pod IP'' err)) }
        | Inr ip \<Rightarrow>
            do {
              ar \<leftarrow> assignToken e p cx (pod_Name q) ip tok;
              (case ar of
                 Inl err \<Rightarrow> do { _ \<leftarrow> rollbackLabel e p cx n; _ \<leftarrow> bestEffortDeleteSecret e cx ns sid; ret (Inl (Wrap ''assign token to claimed pod'' err)) }
               | Inr _ \<Rightarrow> ret (Inr (ip, pod_Name q)))
            })
     }) s = (r, s')"
  shows "\<exists>mid. list_all (\<lambda>ev. is_get ev \<or> is_http ev) mid \<and>
    (case r of
       Inr (ip, name) \<Rightarrow> log s' = log s @ mid \<and> name = pod_Name q \<and> ip \<noteq> []
     | Inl _ \<Rightarrow> \<exists>u v. log s' = log s @ mid @ [PodsPatch cx (Namespace (pool_config p)) n rollback_patch u, SecretsDelete cx ns (AuthSecretName sid) v])"
proof -
  obtain ipr s1 where ipr: "run_state (if PodIP q = [] then waitForIP e p cx (pod_Name q) else ret (Inr (PodIP q))) s = (ipr, s1)"
    by (cases "run_state (if PodIP q = [] then waitForIP e p cx (pod_Name q) else ret (Inr (PodIP q))) s")
  from emitsE [OF looks_address ipr] obtain m1 where m1: "log s1 = log s @ m1" "list_all (\<lambda>ev. is_get ev \<or> is_http ev) m1" .
  note run = run_bindD [OF ipr assms]
  show ?thesis
  proof (cases ipr)
    case (Inl err)
    from undo_run [OF run [unfolded Inl sum.case]] m1 show ?thesis by auto
  next
    case (Inr ip)
    obtain ar s2 where ar: "run_state (assignToken e p cx (pod_Name q) ip tok) s1 = (ar, s2)"
      by (cases "run_state (assignToken e p cx (pod_Name q) ip tok) s1")
    from emitsE [OF looks_assignToken ar] obtain m2 where m2: "log s2 = log s1 @ m2" "list_all (\<lambda>ev. is_get ev \<or> is_http ev) m2" .
    note run2 = run_bindD [OF ar run [unfolded Inr sum.case]]
    show ?thesis
    proof (cases ar)
      case (Inl err)
      from undo_run [OF run2 [unfolded Inl sum.case]] m1 m2 show ?thesis by (intro exI [of _ "m1 @ m2"]) auto
    next
      case (Inr x)
      with run2 m1 m2 assignToken_ok [of e p cx _ ip] ar show ?thesis by (intro exI [of _ "m1 @ m2"]) (auto simp: run_ret)
    qed
  qed
qed

lemma tryClaimPod_run:
  assumes "run_state (tryClaimPod e p cx pod sid) s = (r, s')"
  shows "\<exists>evs. log s' = log s @ evs \<and> claim_trace e p cx pod sid r evs"
proof -
  let ?ns = "Namespace (pool_config p)" and ?tok = "computeToken e (HMACKey (pool_config p)) sid"
  obtain t s1 where t: "run_state (time_Now e) s = (t, s1)" by (cases "run_state (time_Now e) s")
  then have l1: "log s1 = log s" by (auto simp: run_steps split: prod.splits)
  let ?pat = "claim_patch sid (format_RFC3339 e t) (ResourceVersion pod)"
  obtain pr w where pr: "pods_Patch e cx ?ns (pod_Name pod) ?pat (world s1) = (pr, w)"
    by (cases "pods_Patch e cx ?ns (pod_Name pod) ?pat (world s1)")
  define s2 where "s2 = s1\<lparr>world := w, log := log s1 @ [PodsPatch cx ?ns (pod_Name pod) ?pat pr]\<rparr>"
  have p2: "run_state (patch_pod e cx ?ns (pod_Name pod) ?pat) s1 = (pr, s2)" by (simp add: patch_pod_def call_def pr s2_def)
  note run = run_bindD [OF p2 run_bindD [OF t assms [unfolded tryClaimPod_def Let_def]]]
  show ?thesis
  proof (cases pr)
    case (Inl err)
    with run l1 show ?thesis by (auto simp: run_ret s2_def claim_trace_def)
  next
    case (Inr q)
    let ?sec = "buildAuthSecret ?ns (InstanceName (pool_config p)) sid ?tok"
    obtain sr w' where sr: "secrets_Create e cx ?ns ?sec (world s2) = (sr, w')" by (cases "secrets_Create e cx ?ns ?sec (world s2)")
    define s3 where "s3 = s2\<lparr>world := w', log := log s2 @ [SecretsCreate cx ?ns ?sec sr]\<rparr>"
    have p3: "run_state (create_secret e cx ?ns ?sec) s2 = (sr, s3)" by (simp add: create_secret_def call_def sr s3_def)
    note run2 = run_bindD [OF p3 run [unfolded Inr sum.case]]
    show ?thesis
    proof (cases sr)
      case (Inl err)
      with run2 l1 show ?thesis
        by (auto simp: rollbackLabel_def run_steps claim_trace_def Inr s2_def s3_def split: prod.splits)
    next
      case ok: (Inr x)
      from claim_tail [OF run2 [unfolded ok sum.case]] obtain mid where
        "list_all (\<lambda>ev. is_get ev \<or> is_http ev) mid"
        "case r of
           Inr (ip, name) \<Rightarrow> log s' = log s3 @ mid \<and> name = pod_Name q \<and> ip \<noteq> []
         | Inl _ \<Rightarrow> \<exists>u v. log s' = log s3 @ mid @ [PodsPatch cx ?ns (pod_Name pod) rollback_patch u, SecretsDelete cx ?ns (AuthSecretName sid) v]"
        by blast
      with l1 show ?thesis
        by (cases r) (auto simp: claim_trace_def Inr ok s2_def s3_def split: prod.splits)
    qed
  qed
qed


section \<open>A claimed pod that does not become ready\<close>

lemma gets_poll: "emits is_get (poll_pod e cx ns n good late)"
proof -
  have c: "emits is_get (poll_check e cx ns n good)"
    unfolding poll_check_def get_pod_def by (rule emit_rules emits_call | simp add: is_get_def)+
  have l: "emits is_get (poll_loop k e cx ns n good late)" for k
  proof (induction k)
    case 0
    show ?case unfolding poll_loop.simps by (rule emit_rules)+
  next
    case (Suc k)
    show ?case unfolding poll_loop.simps by (rule emit_rules c Suc)+
  qed
  show ?thesis unfolding poll_pod_def by (rule emit_rules c l)+
qed

lemma lookupAssignedSibling_none:
  assumes "run_state (lookupAssignedSibling e m cx sid n) s = (Inr (ip, other, False), s')"
  shows "\<exists>items. log s' = log s @ [PodsList cx (Namespace (mgr_config m)) (AssignedSelector (InstanceName (mgr_config m)) sid) (Inr items)] \<and>
    list_all (\<lambda>p. pod_Name p = n \<or> gone p) items"
  using assms
  by (auto simp: lookupAssignedSibling_def list_assigned_def run_steps Let_def gone_def list_all_iff filter_empty_conv
      split: prod.splits sum.splits list.splits)

lemma lookupAssignedSibling_log:
  assumes "run_state (lookupAssignedSibling e m cx sid n) s = (r, s')"
  shows "\<exists>lr. log s' = log s @ [PodsList cx (Namespace (mgr_config m)) (AssignedSelector (InstanceName (mgr_config m)) sid) lr]"
  using assms by (auto simp: lookupAssignedSibling_def list_assigned_def run_steps split: prod.splits)

lemma set_cache_log: "log (snd (run_state (set_cache e sid ip n) s)) = log s"
  by (simp add: set_cache_def run_steps split: prod.splits)

definition only_looked :: "ctx \<Rightarrow> session_manager \<Rightarrow> string \<Rightarrow> event list \<Rightarrow> bool" where
  "only_looked cx m sid evs =
     (\<exists>mid rest lr. evs = mid @ rest \<and> list_all is_get mid \<and>
        (rest = [] \<or> rest = [PodsList cx (Namespace (mgr_config m)) (AssignedSelector (InstanceName (mgr_config m)) sid) lr]))"

definition gave_up :: "ctx \<Rightarrow> session_manager \<Rightarrow> string \<Rightarrow> string \<Rightarrow> string result \<Rightarrow> event list \<Rightarrow> bool" where
  "gave_up cx m sid n r evs =
     (\<exists>mid items a b err. r = Inl (Wrap ''claimed pod not ready'' err) \<and> \<not> is_canceled err \<and> \<not> is_deadline err \<and>
        list_all is_get mid \<and> list_all (\<lambda>p. pod_Name p = n \<or> gone p) items \<and>
        evs = mid @ [PodsList cx (Namespace (mgr_config m)) (AssignedSelector (InstanceName (mgr_config m)) sid) (Inr items),
          PodsDelete (WithTimeout Background (10 * second)) (Namespace (mgr_config m)) n None a,
          SecretsDelete (WithTimeout Background (10 * second)) (Namespace (mgr_config m)) (AuthSecretName sid) b])"

lemma waitAndCacheClaim_run:
  assumes "run_state (waitAndCacheClaim e m cx sid n ip) s = (r, s')"
  shows "\<exists>evs. log s' = log s @ evs \<and> (only_looked cx m sid evs \<or> gave_up cx m sid n r evs)"
proof -
  obtain w s1 where w: "run_state (waitForReady e m cx n) s = (w, s1)" by (cases "run_state (waitForReady e m cx n) s")
  from emitsE [OF gets_poll w [unfolded waitForReady_def]] obtain mid where mid: "log s1 = log s @ mid" "list_all is_get mid" .
  note run = run_bindD [OF w assms [unfolded waitAndCacheClaim_def]]
  have quiet: ?thesis if "log s' = log s1" using that mid by (intro exI [of _ mid]) (auto simp: only_looked_def)
  show ?thesis
  proof (cases "\<exists>err. w = Inl err \<and> shouldCleanupAfterWaitFailure err")
    case False
    with run have "log s' = log s1"
      using set_cache_log [of e sid _ n s1]
      by (auto simp: run_ret run_bind Let_def split: sum.splits prod.splits if_splits) (metis snd_conv)+
    then show ?thesis by (rule quiet)
  next
    case True
    then obtain err where err: "w = Inl err" "shouldCleanupAfterWaitFailure err" by blast
    obtain l s2 where l: "run_state (lookupAssignedSibling e m cx sid n) s1 = (l, s2)" by (cases "run_state (lookupAssignedSibling e m cx sid n) s1")
    from lookupAssignedSibling_log [OF l] obtain lr where lr:
      "log s2 = log s1 @ [PodsList cx (Namespace (mgr_config m)) (AssignedSelector (InstanceName (mgr_config m)) sid) lr]" by blast
    have looked: ?thesis if "log s' = log s2"
      using that mid lr by (intro exI [of _ "mid @ [_]"]) (auto simp: only_looked_def)
    from run err have "run_state (State_Monad.bind (lookupAssignedSibling e m cx sid n) (\<lambda>l. case l of
        Inl listErr \<Rightarrow> ret (Inl (Wrap ''claimed pod not ready'' (Join [err, listErr])))
      | Inr (ip, other, found) \<Rightarrow>
          if found then
            (if other \<noteq> [] \<and> ip \<noteq> [] then State_Monad.bind (set_cache e sid ip other) (\<lambda>_. ret (Inr ip))
             else ret (Inl (Wrap ''claimed pod not ready'' err)))
          else State_Monad.bind (bestEffortCleanupFailedPod e m n sid) (\<lambda>_. ret (Inl (Wrap ''claimed pod not ready'' err))))) s1 = (r, s')"
      by simp
    note run2 = run_bindD [OF l this]
    show ?thesis
    proof (cases "\<exists>ip other. l = Inr (ip, other, False)")
      case False
      with run2 have "log s' = log s2"
        using set_cache_log [of e sid _ _ s2]
        by (auto simp: run_ret run_bind split: sum.splits prod.splits if_splits) (metis snd_conv)+
      then show ?thesis by (rule looked)
    next
      case True
      then obtain ip' other where "l = Inr (ip', other, False)" by blast
      with run2 lookupAssignedSibling_none l mid err(2) show ?thesis
        by (fastforce simp: run_steps bestEffortCleanupFailedPod_def bestEffortDeletePod_def bestEffortDeleteSecret_def Let_def gave_up_def
            shouldCleanupAfterWaitFailure_def split: prod.splits)
    qed
  qed
qed

text \<open>
  C29. A claimed pod that does not become ready is deleted, with the Secret of the session, only when the wait ended for another reason than the
  request being cancelled or out of time, and after a list of the session's pods that shows no other live one; in every other case
  nothing is deleted. The deletes run in a context of their own.
\<close>

theorem failed_wait_deletes_last_pod_only:
  "case run_state (waitAndCacheClaim e m cx sid n ip) s of (r, s') \<Rightarrow>
     \<exists>evs. log s' = log s @ evs \<and> (only_looked cx m sid evs \<or> gave_up cx m sid n r evs)"
  using waitAndCacheClaim_run by (auto split: prod.splits)

end
