(* ===== verification/McpServer.thy ===== *)
theory McpServer
  imports SessionLaws
begin

text \<open>
  \<open>pkg/tools/bash.go\<close>, \<open>pkg/server/server.go\<close> and the checks of \<open>cmd/server/main.go\<close>: the MCP tool and the HTTP endpoints in
  front of the session manager; \<open>cmd/agent/main.go\<close>: the routes of the agent. The last section joins the server and an agent: the
  HTTP transport of the environment is the agent of \<open>SandboxAgent\<close>.
\<close>

section \<open>bash.go\<close>

record bash_input =
  input_Command :: string
  input_Timeout :: "int option"

record bash_output =
  out_Stdout :: string
  out_Stderr :: string
  out_ExitCode :: int
  out_DurationMs :: int

definition tool_defaultTimeout :: int where "tool_defaultTimeout = DefaultTimeout div second"
definition tool_maxTimeout :: int where "tool_maxTimeout = MaxTimeout div second"

definition clampTimeout :: "int option \<Rightarrow> int" where
  "clampTimeout t =
     (case t of
        None \<Rightarrow> tool_defaultTimeout
      | Some n \<Rightarrow> if n \<le> 0 then tool_defaultTimeout else if n > tool_maxTimeout then tool_maxTimeout else n)"

text \<open>The headers of the call are \<open>None\<close> when the transport has none.\<close>

definition extractSessionID :: "header option \<Rightarrow> string result" where
  "extractSessionID h =
     (case h of
        None \<Rightarrow> Inl (Err ''missing X-Session-ID header'')
      | Some hs \<Rightarrow>
          let sid = Header_Get hs ''X-Session-ID'' in
          if sid = [] then Inl (Err ''missing X-Session-ID header'') else Inr sid)"

text \<open>A result is the flag \<open>IsError\<close> and the output.\<close>

definition tool_handle :: "'w env \<Rightarrow> session_manager \<Rightarrow> ctx \<Rightarrow> header option \<Rightarrow> bash_input \<Rightarrow> ('w, (bool \<times> bash_output) result) io" where
  "tool_handle e m cx h input =
     (case extractSessionID h of
        Inl err \<Rightarrow> ret (Inl err)
      | Inr sessionID \<Rightarrow>
          if input_Command input = [] then ret (Inl (Err ''command is required''))
          else
            do {
              r \<leftarrow> ExecuteCommand e m cx sessionID (input_Command input) (clampTimeout (input_Timeout input));
              ret (case r of
                     Inl err \<Rightarrow> Inl (Wrap ''sandbox exec failed'' err)
                   | Inr resp \<Rightarrow>
                       Inr (resp_ExitCode resp \<noteq> 0,
                         \<lparr>out_Stdout = resp_Stdout resp, out_Stderr = resp_Stderr resp,
                          out_ExitCode = resp_ExitCode resp, out_DurationMs = DurationMs resp\<rparr>))
            })"

section \<open>server.go\<close>

text \<open>A response of an endpoint: the status and the text of the body that matters.\<close>

type_synonym endpoint_response = "nat \<times> string"

definition live_endpoint :: endpoint_response where "live_endpoint = (200, ''alive'')"

definition health_endpoint :: "(ctx \<Rightarrow> ('w, unit result) io) \<Rightarrow> ctx \<Rightarrow> ('w, endpoint_response) io" where
  "health_endpoint check cx =
     do {
       r \<leftarrow> check (WithTimeout cx (5 * second));
       ret (case r of Inl err \<Rightarrow> (503, ''unhealthy'') | Inr _ \<Rightarrow> (200, ''healthy''))
     }"

text \<open>\<open>DELETE /sessions/{id}\<close> and, for an empty identifier, \<open>DELETE /sessions/\<close>.\<close>

definition delete_session_endpoint :: "'w env \<Rightarrow> session_manager \<Rightarrow> ctx \<Rightarrow> string \<Rightarrow> ('w, endpoint_response) io" where
  "delete_session_endpoint e m cx sessionID =
     (if sessionID = [] then ret (400, ''missing session ID'')
      else
        (case ValidateSessionID (golang e) sessionID of
           Inl _ \<Rightarrow> ret (400, ''invalid session ID format'')
         | Inr _ \<Rightarrow>
             do {
               r \<leftarrow> CleanupSession e m cx sessionID;
               ret (case r of Inl _ \<Rightarrow> (500, ''failed to end session'') | Inr _ \<Rightarrow> (204, []))
             }))"

definition IsLoopback :: "string \<Rightarrow> bool" where
  "IsLoopback addr =
     (let host = (case SplitHostPort addr of Inr (h, _) \<Rightarrow> h | Inl _ \<Rightarrow> addr) in
      host = ''localhost'' \<or> (case ParseIP host of Some ip \<Rightarrow> IP_IsLoopback ip | None \<Rightarrow> False))"

definition ValidateTransportFlags :: "golib \<Rightarrow> string \<Rightarrow> bool \<Rightarrow> string \<Rightarrow> unit result" where
  "ValidateTransportFlags g transport stateless address =
     (if transport = ''http'' then
        (if \<not> stateless then Inl (Err ''--stateless is required for HTTP transport'')
         else if \<not> IsLoopback address then
           Inl (Err (''HTTP transport requires a loopback --address (got '' @ Quote g address @
             ''); non-loopback addresses are not allowed without an authentication boundary''))
         else Inr ())
      else if transport = ''stdio'' then
        (if stateless then Inl (Err ''--stateless is not supported for stdio transport'') else Inr ())
      else Inl (Err (''unsupported transport '' @ Quote g transport @ '' (use \"stdio\" or \"http\")'')))"

section \<open>cmd/server/main.go\<close>

text \<open>The checks of \<open>runServer\<close> up to the session manager; the rest starts listeners.\<close>

definition runServer_checks :: "golib \<Rightarrow> (string \<Rightarrow> string result) \<Rightarrow> (string \<Rightarrow> env_var list result) \<Rightarrow> (string \<Rightarrow> string result) \<Rightarrow>
    run_config \<Rightarrow> session_manager result" where
  "runServer_checks g pq parseEnv readFile cfg =
     (case ValidateTransportFlags g (run_transport cfg) (run_stateless cfg) (run_address cfg) of
        Inl err \<Rightarrow> Inl err
      | Inr _ \<Rightarrow>
          if run_idleTimeout cfg \<le> 0 then Inl (Err ''--idle-timeout must be greater than zero'')
          else if run_warmPoolSize cfg < 0 then Inl (Err ''--warm-pool-size must not be negative'')
          else
            (case loadHMACKey readFile (run_hmacKeyFile cfg) of
               Inl err \<Rightarrow> Inl err
             | Inr hmacKey \<Rightarrow>
                 (case buildSandboxConfig g pq parseEnv cfg hmacKey of
                    Inl err \<Rightarrow> Inl err
                  | Inr sandboxCfg \<Rightarrow>
                      (case NewSessionManager sandboxCfg of
                         Inl err \<Rightarrow> Inl (Wrap ''failed to create session manager'' err)
                       | Inr mgr \<Rightarrow> Inr mgr))))"

text \<open>The limit of one item only shortens a list that is thrown away.\<close>

definition CheckHealth :: "'w env \<Rightarrow> string \<Rightarrow> ctx \<Rightarrow> ('w, unit result) io" where
  "CheckHealth e ns cx =
     do {
       r \<leftarrow> list_pods e cx ns [];
       ret (case r of Inl err \<Rightarrow> Inl err | Inr _ \<Rightarrow> Inr ())
     }"

section \<open>The timeout of a command\<close>

lemma tool_timeout_in_range:
  "let n = clampTimeout t in
     1 \<le> n \<and> n \<le> 300 \<and> int64 (n * second) = n * second \<and> clamp_timeout (int64 (n * second)) = n * second \<and>
     (case t of None \<Rightarrow> n = 60 | Some k \<Rightarrow> if 1 \<le> k \<and> k \<le> 300 then n = k else if k \<le> 0 then n = 60 else n = 300)"
proof -
  have b: "1 \<le> clampTimeout t" "clampTimeout t \<le> 300"
    and r: "case t of None \<Rightarrow> clampTimeout t = 60 | Some k \<Rightarrow> if 1 \<le> k \<and> k \<le> 300 then clampTimeout t = k else if k \<le> 0 then clampTimeout t = 60 else clampTimeout t = 300"
    by (auto simp: clampTimeout_def tool_defaultTimeout_def tool_maxTimeout_def DefaultTimeout_def MaxTimeout_def second_def split: option.splits)
  have w: "int64 (clampTimeout t * second) = clampTimeout t * second"
    using b by (intro int64_id) (simp_all add: second_def)
  have "clamp_timeout (clampTimeout t * second) = clampTimeout t * second"
    using b by (simp add: clamp_timeout_def Let_def DefaultTimeout_def MaxTimeout_def second_def)
  with b r w show ?thesis by (simp add: Let_def)
qed

text \<open>
  The timeout the tool hands on is a number of seconds from 1 to 300 whatever the caller asks for, its product with a second
  does not leave 64 bits, and the agent's own clamp leaves it as it is, so the time the caller is promised is the time bash gets.
\<close>

theorem tool_timeout_honoured:
  "let n = clampTimeout t in
     1 \<le> n \<and> n \<le> 300 \<and> int64 (n * second) = n * second \<and> clamp_timeout (int64 (n * second)) = n * second \<and>
     (case t of None \<Rightarrow> n = 60 | Some k \<Rightarrow> if 1 \<le> k \<and> k \<le> 300 then n = k else if k \<le> 0 then n = 60 else n = 300)"
  by (rule tool_timeout_in_range)

section \<open>cmd/agent/main.go\<close>

text \<open>
  The routes of the agent and the JSON codecs of its side; \<open>wire\<close> holds the codecs. The path of a request is what follows the
  authority of its URL.
\<close>

record wire =
  wire_lib :: golib
  decode_exec_request :: "string \<Rightarrow> exec_request result"
  decode_assign_request :: "string \<Rightarrow> string result"
  encode_exec_response :: "exec_response \<Rightarrow> string"
  encode_error :: "string \<Rightarrow> string"
  encode_status :: "string \<Rightarrow> string"

definition url_path :: "string \<Rightarrow> string" where
  "url_path u = dropWhile (\<lambda>c. c \<noteq> CHR ''/'') (drop 7 u)"

definition http_of :: "wire \<Rightarrow> agent_response \<Rightarrow> http_response" where
  "http_of wr r =
     (case r of
        ErrorResponse n msg \<Rightarrow> \<lparr>StatusCode = n, resp_Body = encode_error wr msg, body_Err = None\<rparr>
      | ExecResponse x ms \<Rightarrow>
          \<lparr>StatusCode = 200,
           resp_Body = encode_exec_response wr \<lparr>resp_Stdout = Stdout x, resp_Stderr = Stderr x, resp_ExitCode = ExitCode x, DurationMs = ms\<rparr>,
           body_Err = None\<rparr>
      | StatusOnly n \<Rightarrow> \<lparr>StatusCode = n, resp_Body = [], body_Err = None\<rparr>
      | StatusBody n st \<Rightarrow> \<lparr>StatusCode = n, resp_Body = encode_status wr st, body_Err = None\<rparr>)"

definition agent_mux :: "wire \<Rightarrow> string \<Rightarrow> (string \<Rightarrow> int \<Rightarrow> exec_io) \<Rightarrow> http_request \<Rightarrow> handler \<Rightarrow> http_response \<times> handler" where
  "agent_mux wr uid behave q h =
     (let path = url_path (URL q); r = \<lparr>agent_header = req_Header q, body = req_Body q\<rparr>;
          refuse = (\<lambda>n. (\<lparr>StatusCode = n, resp_Body = [], body_Err = None\<rparr>, h)) in
      if path = ''/exec'' then
        (if Method q \<noteq> ''POST'' then refuse 405
         else map_prod (http_of wr) id (HandleExec (wire_lib wr) (decode_exec_request wr) uid behave h r))
      else if path = ''/assign'' then
        (if Method q \<noteq> ''POST'' then refuse 405
         else map_prod (http_of wr) id (HandleAssign (decode_assign_request wr) h r))
      else if path = ''/health'' then
        (if Method q \<noteq> ''GET'' then refuse 405 else (http_of wr (HandleHealth h), h))
      else refuse 404)"

section \<open>The server and an agent together\<close>

text \<open>The transport of the environment delivers every request to the agent, and time passing does not change the agent.\<close>

definition attached :: "handler env \<Rightarrow> wire \<Rightarrow> string \<Rightarrow> (string \<Rightarrow> int \<Rightarrow> exec_io) \<Rightarrow> bool" where
  "attached e wr uid behave =
     ((\<forall>cx t q h. http_Do e cx t q h = map_prod Inr id (agent_mux wr uid behave q h)) \<and> (\<forall>h. snd (elapse e h) = h))"

lemma no_slash_digits: "CHR ''/'' \<notin> set (Itoa n)"
  by (simp add: Itoa_def is_digit_code)

lemma url_path_buildURL:
  assumes "CHR ''/'' \<notin> set ip"
  shows "url_path (buildURL c ip (CHR ''/'' # p)) = CHR ''/'' # p"
proof -
  have "CHR ''/'' \<notin> set (JoinHostPort ip (Itoa (port c)))"
    using assms no_slash_digits by (simp add: JoinHostPort_def)
  then have "dropWhile (\<lambda>d. d \<noteq> CHR ''/'') (JoinHostPort ip (Itoa (port c)) @ CHR ''/'' # p) = CHR ''/'' # p"
    by (subst dropWhile_append2) auto
  then show ?thesis by (simp add: url_path_def buildURL_def)
qed

lemma exec_bearer: "extractBearerToken (req_Header (exec_http e c ip tok req)) = Some tok"
proof -
  have "CanonicalHeaderKey ''Content-Type'' \<noteq> CanonicalHeaderKey ''Authorization''" by code_simp
  then show ?thesis
    by (simp add: extractBearerToken_def exec_http_def Header_Get_def Header_Set_def Header_Del_def HasPrefix_def Let_def)
qed

text \<open>One request to \<open>/exec\<close> with the agent's token, on the agent's side and back through the client.\<close>

lemma exec_exchange:
  assumes at: "attached e wr uid behave" and ip: "CHR ''/'' \<notin> set ip"
    and url: "isr (url_Parse (golang e) (buildURL c ip ''/exec''))"
    and assigned: "IsAssigned (state (world s))" "GetToken (state (world s)) = tok"
    and req: "decode_exec_request wr (marshal_exec e req) = Inr req" "length (marshal_exec e req) \<le> maxRequestBody" "Command req \<noteq> []"
    and run: "Execute (wire_lib wr) uid behave (Command req) (int64 (Timeout req * second)) (session (world s)) = (Inr x, bs')"
    and resp: "resp = \<lparr>resp_Stdout = Stdout x, resp_Stderr = Stderr x, resp_ExitCode = ExitCode x, DurationMs = Duration x div 1000000\<rparr>"
    and fits: "unmarshal_exec_response e (encode_exec_response wr resp) = Inr resp" "int (length (encode_exec_response wr resp)) \<le> maxResponseSize c"
  shows "\<exists>s'. run_state (client_Execute e c cx ip tok req) s = (Inr resp, s') \<and> world s' = (world s)\<lparr>session := bs'\<rparr> \<and>
    cache s' = cache s \<and> clock s' = clock s"
proof -
  let ?q = "exec_http e c ip tok req"
  have path: "url_path (URL ?q) = ''/exec''" using url_path_buildURL [OF ip, of c "''exec''"] by (simp add: exec_http_def)
  have m: "Method ?q = ''POST''" "req_Body ?q = marshal_exec e req" by (simp_all add: exec_http_def)
  have "agent_mux wr uid behave ?q (world s) = (http_of wr (ExecResponse x (Duration x div 1000000)), (world s)\<lparr>session := bs'\<rparr>)"
    using assigned req run by (simp add: agent_mux_def Let_def path m HandleExec_def exec_bearer decodeJSONBody_def)
  with at have h: "http_Do e cx (client_Timeout c) ?q (world s) =
      (Inr (http_of wr (ExecResponse x (Duration x div 1000000))), (world s)\<lparr>session := bs'\<rparr>)"
    by (simp add: attached_def)
  have d: "decode_exec e c (buildURL c ip ''/exec'') (http_of wr (ExecResponse x (Duration x div 1000000))) = Inr resp"
    using fits unfolding decode_exec_code by (simp add: http_of_def resp)
  from url obtain u where "url_Parse (golang e) (buildURL c ip ''/exec'') = Inr u" by (cases "url_Parse (golang e) (buildURL c ip ''/exec'')") auto
  with h d show ?thesis by (simp add: client_Execute_def run_steps)
qed


text \<open>An environment whose transport is the agent, for a session whose pod is in the cache.\<close>

definition demo_wire :: wire where
  "demo_wire =
     \<lparr>wire_lib = ascii_lib, decode_exec_request = (\<lambda>b. Inr \<lparr>Command = b, Timeout = 60\<rparr>), decode_assign_request = Inr,
      encode_exec_response = resp_Stdout, encode_error = id, encode_status = id\<rparr>"

definition demo_result :: exec_result where
  "demo_result = \<lparr>Stdout = ''a'' @ [newline] @ ''b'', Stderr = ''warn'', ExitCode = 3, Duration = 5\<rparr>"

definition demo_response :: exec_response where
  "demo_response = \<lparr>resp_Stdout = Stdout demo_result, resp_Stderr = Stderr demo_result, resp_ExitCode = 3, DurationMs = 0\<rparr>"

definition agent_env :: "handler env" where
  "agent_env =
     \<lparr>pods_List = (\<lambda>_ _ _ w. (Inr [], w)),
      pods_Get = (\<lambda>_ _ _ w. (Inr demo_pod, w)),
      pods_Create = (\<lambda>_ _ p w. (Inr p, w)),
      pods_Patch = (\<lambda>_ _ _ _ w. (Inr demo_pod, w)),
      pods_Delete = (\<lambda>_ _ _ _ w. (Inr (), w)),
      secrets_Create = (\<lambda>_ _ _ w. (Inr (), w)),
      secrets_Delete = (\<lambda>_ _ _ w. (Inr (), w)),
      slices_List = (\<lambda>_ _ _ w. (Inr [], w)),
      netpol_Get = (\<lambda>_ _ _ w. (Inr \<lparr>PolicyTypes = []\<rparr>, w)),
      http_Do = (\<lambda>_ _ q w. map_prod Inr id (agent_mux demo_wire ''1f0a'' (\<lambda>_ _. demo_io [] None) q w)),
      ctx_Err = (\<lambda>_ w. (None, w)),
      elapse = (\<lambda>w. (0, w)),
      poll_Ticks = (\<lambda>w. (0, w)),
      golang = demo_lib,
      parse_Quantity = demo_pq,
      hmac_sha256_hex = (\<lambda>k sid. k @ sid),
      format_RFC3339 = (\<lambda>t. ''now''),
      marshal_exec = Command,
      marshal_assign = (\<lambda>t. t),
      unmarshal_exec_response = (\<lambda>b. Inr demo_response)\<rparr>"

definition agent_sys :: "handler sys" where
  "agent_sys =
     \<lparr>world = \<lparr>session = \<lparr>dead = False\<rparr>, state = \<lparr>assigned = True, agent_token = computeToken agent_env (HMACKey demo_config) ''s1''\<rparr>\<rparr>,
      clock = 0, log = [],
      cache = \<lparr>entries = [(''s1'', \<lparr>entry_IP = ''10.0.0.9'', entry_Name = ''p1'', expiresAt = 9\<rparr>)], ttl = 9\<rparr>,
      gate = \<lparr>gate_set = False, gate_at = 0, gate_err = None\<rparr>\<rparr>"

lemma demo_execute:
  "Execute ascii_lib ''1f0a'' (\<lambda>_ _. demo_io [] None) ''ls'' t \<lparr>dead = False\<rparr> = (Inr demo_result, \<lparr>dead = False\<rparr>)"
proof -
  have line: "is_line ''1f0a''" "list_all (plain_line ''1f0a'') [''late'', ''a'', ''b'']" "list_all (plain_line ''1f0a'') [''warn'']"
    by (simp_all add: is_line_def plain_line_def startMarker_def endMarker_def exitMarker_def delimiter_def)
  have trim: "TrimRight (unlines [''a'', ''b'']) newline = ''a'' @ [newline] @ ''b''" "TrimRight (unlines [''warn'']) newline = ''warn''"
    by code_simp+
  show ?thesis
    using Execute_completes [of "\<lambda>_ _. demo_io [] None" "''1f0a''" "''ls''" t "demo_io [] None" "''a'' @ [newline] @ ''b''" ascii_lib "''warn''" 3 "\<lparr>dead = False\<rparr>"]
      read_out_terminated [of "''1f0a''" "[''late'']" "[''a'', ''b'']" None] read_errs_terminated [of "''1f0a''" "[''warn'']" 3 ascii_lib None] line trim
    by (simp add: demo_io_def io_works_def with_notice_def demo_result_def)
qed


section \<open>An assignment whose answer is lost\<close>

text \<open>A cluster that patches the pod, keeps Secrets and does not touch the agent.\<close>

definition plain_cluster :: "handler env \<Rightarrow> pod \<Rightarrow> bool" where
  "plain_cluster e q =
     ((\<forall>cx ns n pat h. pods_Patch e cx ns n pat h = (Inr q, h)) \<and> (\<forall>cx ns x h. secrets_Create e cx ns x h = (Inr (), h)) \<and>
      (\<forall>cx ns n h. secrets_Delete e cx ns n h = (Inr (), h)) \<and> (\<forall>h. snd (elapse e h) = h) \<and> (\<forall>u. isr (url_Parse (golang e) u)))"

text \<open>The transport delivers every request and loses every answer.\<close>

definition loses_answers :: "handler env \<Rightarrow> wire \<Rightarrow> string \<Rightarrow> (string \<Rightarrow> int \<Rightarrow> exec_io) \<Rightarrow> bool" where
  "loses_answers e wr uid behave =
     (\<forall>cx t q h. \<exists>err. http_Do e cx t q h = (Inl err, snd (agent_mux wr uid behave q h)))"

lemma plain_now:
  assumes "plain_cluster e q" "run_state (time_Now e) s = (t, s1)"
  shows "world s1 = world s"
  using assms by (auto simp: run_steps plain_cluster_def split: prod.splits) (metis snd_conv)+

text \<open>A claim in such a cluster is its request to \<open>/assign\<close> and what follows from the answer.\<close>

lemma plain_claim:
  assumes "plain_cluster e q" "PodIP q \<noteq> []"
    and "http_Do e cx (client_Timeout (pool_agent p)) (assign_http e (pool_agent p) (PodIP q) (computeToken e (HMACKey (pool_config p)) sid)) (world s) = (hr, h')"
  shows "\<exists>r s'. run_state (tryClaimPod e p cx pod sid) s = (r, s') \<and> world s' = h' \<and>
    (isr r \<longleftrightarrow> (\<exists>resp. hr = Inr resp \<and> StatusCode resp = 200))"
proof -
  obtain t s1 where t: "run_state (time_Now e) s = (t, s1)" by (cases "run_state (time_Now e) s")
  have w: "world s1 = world s" by (rule plain_now [OF assms(1) t])
  from assms(1) obtain u where u: "url_Parse (golang e) (buildURL (pool_agent p) (PodIP q) ''/assign'') = Inr u"
    unfolding plain_cluster_def isr_iff by blast
  have c: "pods_Patch e cx ns n pat h = (Inr q, h)" "secrets_Create e cx ns x h = (Inr (), h)" "secrets_Delete e cx ns n h = (Inr (), h)"
    for ns n pat x h using assms(1) by (simp_all add: plain_cluster_def)
  show ?thesis
    using assms(2,3) t w u
    by (auto simp: tryClaimPod_def Let_def run_bind run_ret patch_pod_def create_secret_def delete_secret_def do_http_def call_def c assignToken_def
        client_Assign_def rollbackLabel_def bestEffortDeleteSecret_def status_only_def isr_iff split: sum.splits)
qed

lemma assign_exchange:
  assumes "CHR ''/'' \<notin> set ip" "decode_assign_request wr (marshal_assign e tok) = Inr tok" "length (marshal_assign e tok) \<le> maxRequestBody" "tok \<noteq> []"
  shows "agent_mux wr uid behave (assign_http e c ip tok) h =
    (if IsAssigned (state h) then (http_of wr (ErrorResponse 409 ''already assigned''), h)
     else (http_of wr (StatusOnly 200), h\<lparr>state := (state h)\<lparr>agent_token := tok, assigned := True\<rparr>\<rparr>))"
proof -
  have path: "url_path (URL (assign_http e c ip tok)) = ''/assign''"
    using url_path_buildURL [OF assms(1), of c "''assign''"] by (simp add: assign_http_def)
  have m: "Method (assign_http e c ip tok) = ''POST''" "req_Body (assign_http e c ip tok) = marshal_assign e tok"
    by (simp_all add: assign_http_def)
  show ?thesis
    using assms by (simp add: agent_mux_def Let_def path m HandleAssign_def decodeJSONBody_def Assign_def IsAssigned_def writeError_def)
qed

text \<open>
  C37. A lost answer to \<open>/assign\<close> takes a pool pod out of use for good. When the request reaches the agent and its answer is lost, the claim
  fails and is rolled back, which puts the pod back among the free ones, but its agent keeps the session's token. From then on every claim of that pod, for any session
  and over a working network, fails: the agent answers 409.
\<close>

theorem lost_assignment_blocks_pod:
  assumes "plain_cluster e q" "plain_cluster e' q" "PodIP q \<noteq> []" "CHR ''/'' \<notin> set (PodIP q)"
    and "loses_answers e wr uid behave" "attached e' wr uid behave"
    and "tok = computeToken e (HMACKey (pool_config p)) sid" "tok \<noteq> []"
    and "decode_assign_request wr (marshal_assign e tok) = Inr tok" "length (marshal_assign e tok) \<le> maxRequestBody"
    and "tok' = computeToken e' (HMACKey (pool_config p)) sid'" "tok' \<noteq> []"
    and "decode_assign_request wr (marshal_assign e' tok') = Inr tok'" "length (marshal_assign e' tok') \<le> maxRequestBody"
    and "\<not> IsAssigned (state (world s))"
  shows "\<exists>r s1 r' s2. run_state (tryClaimPod e p cx pod sid) s = (r, s1) \<and> isl r \<and>
    (\<exists>evs. log s1 = log s @ evs \<and> claim_trace e p cx pod sid r evs) \<and> GetToken (state (world s1)) = tok \<and>
    run_state (tryClaimPod e' p cx' pod sid') s1 = (r', s2) \<and> isl r' \<and> world s2 = world s1"
proof -
  let ?q = "assign_http e (pool_agent p) (PodIP q) tok" and ?q' = "assign_http e' (pool_agent p) (PodIP q) tok'"
  from assms(5) obtain err where err: "http_Do e cx (client_Timeout (pool_agent p)) ?q (world s) = (Inl err, snd (agent_mux wr uid behave ?q (world s)))"
    unfolding loses_answers_def by blast
  from plain_claim [OF assms(1,3) err [unfolded assms(7)], of pod] obtain r s1 where c1: "run_state (tryClaimPod e p cx pod sid) s = (r, s1)" "isl r"
    "world s1 = snd (agent_mux wr uid behave ?q (world s))"
    unfolding assms(7) by auto
  with assign_exchange [OF assms(4,9,10,8), of uid behave "pool_agent p" "world s"] assms(15)
  have w1: "IsAssigned (state (world s1))" "GetToken (state (world s1)) = tok" by (simp_all add: IsAssigned_def GetToken_def)
  from assms(6) assign_exchange [OF assms(4,13,14,12), of uid behave "pool_agent p" "world s1"] w1(1)
  have "http_Do e' cx' (client_Timeout (pool_agent p)) ?q' (world s1) = (Inr (http_of wr (ErrorResponse 409 ''already assigned'')), world s1)"
    by (simp add: attached_def)
  from plain_claim [OF assms(2,3) this [unfolded assms(11)], of pod] obtain r' s2 where
    "run_state (tryClaimPod e' p cx' pod sid') s1 = (r', s2)" "isl r'" "world s2 = world s1"
    by (auto simp: http_of_def)
  with c1 w1 tryClaimPod_run [OF c1(1)] show ?thesis by blast
qed

definition lossy_env :: "handler env" where
  "lossy_env = agent_env\<lparr>http_Do := (\<lambda>_ _ q w. (Inl (Err ''EOF''), snd (agent_mux demo_wire ''1f0a'' (\<lambda>_ _. demo_io [] None) q w)))\<rparr>"

theorem lost_assignment_blocks_pod_witness:
  "\<exists>r s1 r' s2. run_state (tryClaimPod lossy_env (pool demo_mgr) Request demo_pod ''s1'')
      (agent_sys\<lparr>world := \<lparr>session = \<lparr>dead = False\<rparr>, state = NewAgentState []\<rparr>\<rparr>) = (r, s1) \<and> isl r \<and>
    run_state (tryClaimPod agent_env (pool demo_mgr) Request demo_pod ''s2'') s1 = (r', s2) \<and> isl r' \<and> world s2 = world s1"
proof -
  have plain: "plain_cluster agent_env demo_pod" "plain_cluster lossy_env demo_pod"
    by (simp_all add: plain_cluster_def agent_env_def lossy_env_def)
  have net: "attached agent_env demo_wire ''1f0a'' (\<lambda>_ _. demo_io [] None)" "loses_answers lossy_env demo_wire ''1f0a'' (\<lambda>_ _. demo_io [] None)"
    by (simp_all add: attached_def loses_answers_def agent_env_def lossy_env_def)
  have tok: "computeToken lossy_env (HMACKey demo_config) ''s1'' = ''ks1''" "computeToken agent_env (HMACKey demo_config) ''s2'' = ''ks2''"
    by (simp_all add: computeToken_def lossy_env_def agent_env_def demo_config_def)
  have codec: "decode_assign_request demo_wire (marshal_assign lossy_env x) = Inr x" "decode_assign_request demo_wire (marshal_assign agent_env x) = Inr x"
    "marshal_assign lossy_env x = x" "marshal_assign agent_env x = x" for x
    by (simp_all add: demo_wire_def lossy_env_def agent_env_def)
  show ?thesis
    using lost_assignment_blocks_pod [OF plain(2,1) _ _ net(2,1) refl _ codec(1) _ refl _ codec(2), where p = "pool demo_mgr" and sid = "''s1''" and sid' = "''s2''"
        and s = "agent_sys\<lparr>world := \<lparr>session = \<lparr>dead = False\<rparr>, state = NewAgentState []\<rparr>\<rparr>" and cx = Request and cx' = Request and pod = demo_pod]
    by (simp add: tok codec(3,4) NewAgentState_def IsAssigned_def maxRequestBody_def) blast
qed

end
