(* ===== verification/Kubeconfig.thy ===== *)
theory Kubeconfig
  imports GoNet "HOL-Library.AList"
begin

text \<open>
  Package \<open>pkg/kubeconfig\<close>: host canonicalisation (\<open>host.go\<close>), validation of an
  investigation kubeconfig and its tokens (\<open>validate.go\<close>), the dummy kubeconfig
  (\<open>sanitize.go\<close>) and the proxy routes (\<open>types.go\<close>, \<open>routes.go\<close>).

  The parser and printer of \<open>k8s.io/client-go/tools/clientcmd\<close> are the arguments \<open>load\<close> and
  \<open>write\<close>. Its maps are association lists with distinct keys in the order of a \<open>range\<close> loop, so
  a theorem about every such list holds for every order the Go runtime may choose.
\<close>

section \<open>host.go\<close>

definition CanonicalHostPort :: "golib \<Rightarrow> string \<Rightarrow> string result" where
  "CanonicalHostPort g hostport =
     (case SplitHostPort hostport of
        Inl e \<Rightarrow> Inl (Wrap (''host:port '' @ Quote g hostport) e)
      | Inr (h, port) \<Rightarrow>
          let host = ToLower (uni_lower g) (TrimSpace h) in
          if host = [] then Inl (Err (''host:port '' @ Quote g hostport @ '': empty host''))
          else if Contains host ''*'' then
            Inl (Err (''host '' @ Quote g host @ '': wildcards are not allowed''))
          else if HasPrefix host ''.'' then
            Inl (Err (''host '' @ Quote g host @ '': leading-dot suffix is not allowed''))
          else
            (case Atoi port of
               None \<Rightarrow> Inl (Err (''host:port '' @ Quote g hostport @ '': invalid port''))
             | Some p \<Rightarrow>
                 if p < 1 \<or> p > 65535 then
                   Inl (Err (''host:port '' @ Quote g hostport @ '': invalid port''))
                 else Inr (JoinHostPort host (Itoa p))))"

text \<open>\<open>dnsName\<close>: labels of at most 63 bytes of \<open>a-z0-9-\<close>, no hyphen at either end.\<close>

definition dns_byte :: "char \<Rightarrow> bool" where
  "dns_byte c = (is_lower c \<or> is_digit c \<or> c = CHR ''-'')"

definition dns_label :: "string \<Rightarrow> bool" where
  "dns_label l =
     (l \<noteq> [] \<and> length l \<le> 63 \<and> hd l \<noteq> CHR ''-'' \<and> last l \<noteq> CHR ''-'' \<and> list_all dns_byte l)"

definition dnsName :: "string \<Rightarrow> bool" where
  "dnsName host = (host \<noteq> [] \<and> length host \<le> 253 \<and> list_all dns_label (Split (CHR ''.'') host))"

definition validateAllowlistHost :: "golib \<Rightarrow> string \<Rightarrow> string \<Rightarrow> unit result" where
  "validateAllowlistHost g domain host =
     (if ParseIP host \<noteq> None then Inr ()
      else if HasSuffix host ''.'' then
        Inl (Err (''domain '' @ Quote g domain @ '': trailing dot is not allowed''))
      else if \<not> dnsName host then Inl (Err (''domain '' @ Quote g domain @ '': not a host''))
      else Inr ())"

text \<open>\<open>URL.Hostname\<close> and \<open>URL.Port\<close>: \<open>splitHostPort\<close> of \<open>net/url\<close>.\<close>

definition validOptionalPort :: "string \<Rightarrow> bool" where
  "validOptionalPort port = (port = [] \<or> hd port = CHR '':'' \<and> list_all is_digit (tl port))"

definition url_splitHostPort :: "string \<Rightarrow> string \<times> string" where
  "url_splitHostPort hp =
     (let (host, port) =
        (case LastIndexByte hp (CHR '':'') of
           Some i \<Rightarrow> if validOptionalPort (drop i hp) then (take i hp, drop (Suc i) hp) else (hp, [])
         | None \<Rightarrow> (hp, []))
      in (if HasPrefix host ''['' \<and> HasSuffix host '']'' then butlast (tl host) else host, port))"

definition HostPortFromServerURL :: "golib \<Rightarrow> string \<Rightarrow> string result" where
  "HostPortFromServerURL g server =
     (case url_Parse g server of
        Inl e \<Rightarrow> Inl (Wrap (''parse server URL '' @ Quote g server) e)
      | Inr u \<Rightarrow>
          if Scheme u \<noteq> ''https'' then Inl (Err (''server URL '' @ Quote g server @ '' must use https''))
          else if User u \<noteq> None then
            Inl (Err (''server URL '' @ Quote g server @ '': userinfo is not allowed''))
          else
            let (host, port0) = url_splitHostPort (Host u) in
            if host = [] then Inl (Err (''server URL '' @ Quote g server @ '' has no host''))
            else
              let port = (if port0 = [] then ''443'' else port0) in
              case CanonicalHostPort g (JoinHostPort host port) of
                Inl e \<Rightarrow> Inl (Wrap (''server URL '' @ Quote g server) e)
              | Inr hp \<Rightarrow>
                  (case SplitHostPort hp of
                     Inl e \<Rightarrow> Inl (Wrap (''server URL '' @ Quote g server) e)
                   | Inr (canonicalHost, _) \<Rightarrow>
                       (case validateAllowlistHost g canonicalHost canonicalHost of
                          Inl e \<Rightarrow> Inl (Wrap (''server URL '' @ Quote g server) e)
                        | Inr _ \<Rightarrow> Inr hp)))"

definition ParseAllowlistDomain :: "golib \<Rightarrow> string \<Rightarrow> string result" where
  "ParseAllowlistDomain g domain0 =
     (let domain = TrimSpace domain0 in
      if domain = [] then Inl (Err ''domain is empty'')
      else if Contains domain ''://'' \<or> Contains domain ''/'' then
        Inl (Err (''domain '' @ Quote g domain @ '': not a host''))
      else if Contains domain ''*'' then
        Inl (Err (''domain '' @ Quote g domain @ '': wildcards are not allowed''))
      else if HasPrefix domain ''.'' then
        Inl (Err (''domain '' @ Quote g domain @ '': leading-dot suffix is not allowed''))
      else
        case
          (case SplitHostPort domain of
             Inr _ \<Rightarrow> CanonicalHostPort g domain
           | Inl _ \<Rightarrow>
               if HasPrefix domain ''['' \<and> HasSuffix domain '']'' \<and> length domain > 2 then
                 CanonicalHostPort g (JoinHostPort (butlast (tl domain)) ''443'')
               else if Contains domain '':'' then
                 Inl (Err (''domain '' @ Quote g domain @ '': IPv6 literals must use [host]:port''))
               else CanonicalHostPort g (JoinHostPort domain ''443''))
        of
          Inl e \<Rightarrow> Inl e
        | Inr hostport \<Rightarrow>
            (case SplitHostPort hostport of
               Inl e \<Rightarrow> Inl e
             | Inr (host, _) \<Rightarrow>
                 (case validateAllowlistHost g domain host of
                    Inl e \<Rightarrow> Inl e
                  | Inr _ \<Rightarrow> Inr hostport)))"

section \<open>types.go: kubeconfigs and routes\<close>

record cluster =
  Server :: string
  CertificateAuthorityData :: string
  CertificateAuthority :: string
  InsecureSkipTLSVerify :: bool

record auth_info =
  ClientCertificateData :: string
  ClientCertificate :: string
  ClientKeyData :: string
  ClientKey :: string
  Exec :: bool
  AuthProvider :: bool
  Username :: string
  Password :: string
  TokenFile :: string
  Token :: string

record kube_context =
  ctx_Cluster :: string
  ctx_AuthInfo :: string
  ctx_Namespace :: string

record kconfig =
  Clusters :: "(string \<times> cluster) list"
  AuthInfos :: "(string \<times> auth_info) list"
  Contexts :: "(string \<times> kube_context) list"
  CurrentContext :: string

definition DummyToken :: string where "DummyToken = ''proxy-managed-token''"

type_synonym injector = string
definition InjectorKubernetes :: injector where "InjectorKubernetes = ''kubernetes''"
definition InjectorNone :: injector where "InjectorNone = ''none''"

record proxy_route =
  Domain' :: string
  Injector :: injector
  KubeconfigPath :: string
  CACert :: string

section \<open>validate.go\<close>

record server_identity =
  id_token :: string
  id_ca :: string

type_synonym hosts = "(string \<times> server_identity) list"

definition validateAuth :: "golib \<Rightarrow> string \<Rightarrow> auth_info \<Rightarrow> unit result" where
  "validateAuth g name auth =
     (if ClientCertificateData auth \<noteq> [] \<or> ClientCertificate auth \<noteq> [] \<or>
         ClientKeyData auth \<noteq> [] \<or> ClientKey auth \<noteq> [] then
        Inl (Err (''user '' @ Quote g name @ '' uses client certificate auth''))
      else if Exec auth then Inl (Err (''user '' @ Quote g name @ '' uses exec auth''))
      else if AuthProvider auth then
        Inl (Err (''user '' @ Quote g name @ '' uses auth-provider auth''))
      else if Username auth \<noteq> [] \<or> Password auth \<noteq> [] then
        Inl (Err (''user '' @ Quote g name @ '' uses basic auth''))
      else if TokenFile auth \<noteq> [] then
        Inl (Err (''user '' @ Quote g name @ '' uses tokenFile auth''))
      else if Token auth = [] then Inl (Err (''user '' @ Quote g name @ '' has no token''))
      else Inr ())"

fun validateAuthInfos :: "golib \<Rightarrow> (string \<times> auth_info) list \<Rightarrow> unit result" where
  "validateAuthInfos g [] = Inr ()"
| "validateAuthInfos g ((name, auth) # rest) =
     (case validateAuth g name auth of Inl e \<Rightarrow> Inl e | Inr _ \<Rightarrow> validateAuthInfos g rest)"

definition validateCluster :: "golib \<Rightarrow> string \<Rightarrow> cluster \<Rightarrow> unit result" where
  "validateCluster g name c =
     (if Server c = [] then Inl (Err (''cluster '' @ Quote g name @ '' has no server''))
      else if CertificateAuthority c \<noteq> [] then
        Inl (Err (''cluster '' @ Quote g name @ '' uses a certificate-authority file path''))
      else if InsecureSkipTLSVerify c then
        Inl (Err (''cluster '' @ Quote g name @ '' sets insecure-skip-tls-verify''))
      else Inr ())"

fun index_loop :: "golib \<Rightarrow> (string \<times> cluster) list \<Rightarrow> hosts \<Rightarrow> hosts result" where
  "index_loop g [] hosts = Inr hosts"
| "index_loop g ((name, c) # rest) hosts =
     (case validateCluster g name c of
        Inl e \<Rightarrow> Inl e
      | Inr _ \<Rightarrow>
          (case HostPortFromServerURL g (Server c) of
             Inl e \<Rightarrow> Inl (Wrap (''cluster '' @ Quote g name) e)
           | Inr host \<Rightarrow>
               (case map_of hosts host of
                  None \<Rightarrow>
                    index_loop g rest (hosts @ [(host, \<lparr>id_token = [], id_ca = CertificateAuthorityData c\<rparr>)])
                | Some existing \<Rightarrow>
                    if id_ca existing \<noteq> CertificateAuthorityData c then
                      Inl (Err (''server '' @ host @ '' has conflicting certificate authorities''))
                    else index_loop g rest hosts)))"

definition indexClusters :: "golib \<Rightarrow> kconfig \<Rightarrow> hosts result" where
  "indexClusters g cfg = index_loop g (Clusters cfg) []"

text \<open>
  The context loop writes the token of a host through the pointer stored in the map; the
  model returns the updated map. \<open>hosts[host]\<close> of a missing host would be a nil pointer
  dereference, modelled as the error \<open>nil_deref\<close>.
\<close>

definition nil_deref :: go_error where
  "nil_deref = Err ''runtime error: invalid memory address or nil pointer dereference''"

fun context_loop :: "golib \<Rightarrow> kconfig \<Rightarrow> (string \<times> kube_context) list \<Rightarrow> hosts \<Rightarrow> string list
    \<Rightarrow> (hosts \<times> string list) result" where
  "context_loop g cfg [] hosts covered = Inr (hosts, covered)"
| "context_loop g cfg ((ctxName, ctx) # rest) hosts covered =
     (case map_of (Clusters cfg) (ctx_Cluster ctx) of
        None \<Rightarrow> Inl (Err (''context '' @ Quote g ctxName @ '' references unknown cluster ''
                   @ Quote g (ctx_Cluster ctx)))
      | Some cl \<Rightarrow>
          (case map_of (AuthInfos cfg) (ctx_AuthInfo ctx) of
             None \<Rightarrow> Inl (Err (''context '' @ Quote g ctxName @ '' references unknown user ''
                        @ Quote g (ctx_AuthInfo ctx)))
           | Some auth \<Rightarrow>
               (case HostPortFromServerURL g (Server cl) of
                  Inl e \<Rightarrow> Inl (Wrap (''context '' @ Quote g ctxName) e)
                | Inr host \<Rightarrow>
                    (case map_of hosts host of
                       None \<Rightarrow> Inl nil_deref
                     | Some ident \<Rightarrow>
                         if id_token ident = [] then
                           context_loop g cfg rest
                             (AList.update host (ident\<lparr>id_token := Token auth\<rparr>) hosts) (ctx_Cluster ctx # covered)
                         else if id_token ident \<noteq> Token auth then
                           Inl (Err (''context '' @ Quote g ctxName @ '': server '' @ host
                             @ '' has conflicting tokens''))
                         else context_loop g cfg rest hosts (ctx_Cluster ctx # covered)))))"

definition assignContextTokens :: "golib \<Rightarrow> kconfig \<Rightarrow> hosts \<Rightarrow> hosts result" where
  "assignContextTokens g cfg hosts0 =
     (case context_loop g cfg (Contexts cfg) hosts0 [] of
        Inl e \<Rightarrow> Inl e
      | Inr (hosts, covered) \<Rightarrow>
          (case filter (\<lambda>n. n \<notin> set covered) (map fst (Clusters cfg)) of
             name # _ \<Rightarrow> Inl (Err (''cluster '' @ Quote g name @ '' has no context token''))
           | [] \<Rightarrow>
               (case filter (\<lambda>h. id_token (snd h) = []) hosts of
                  (host, _) # _ \<Rightarrow> Inl (Err (''server '' @ host @ '' has no token''))
                | [] \<Rightarrow> Inr hosts)))"

definition Validate :: "golib \<Rightarrow> (string \<Rightarrow> kconfig result) \<Rightarrow> string \<Rightarrow> kconfig result" where
  "Validate g load data =
     (case load data of
        Inl e \<Rightarrow> Inl (Wrap ''parse kubeconfig'' e)
      | Inr cfg \<Rightarrow>
          if Clusters cfg = [] then Inl (Err ''kubeconfig has no clusters'')
          else
            (case validateAuthInfos g (AuthInfos cfg) of
               Inl e \<Rightarrow> Inl e
             | Inr _ \<Rightarrow>
                 (case indexClusters g cfg of
                    Inl e \<Rightarrow> Inl e
                  | Inr hosts \<Rightarrow>
                      (case assignContextTokens g cfg hosts of
                         Inl e \<Rightarrow> Inl e
                       | Inr _ \<Rightarrow> Inr cfg))))"

definition LoadTokens :: "golib \<Rightarrow> (string \<Rightarrow> kconfig result) \<Rightarrow> string \<Rightarrow> (string \<times> string) list result" where
  "LoadTokens g load data =
     (case Validate g load data of
        Inl e \<Rightarrow> Inl e
      | Inr cfg \<Rightarrow>
          (case indexClusters g cfg of
             Inl e \<Rightarrow> Inl e
           | Inr hosts \<Rightarrow>
               (case assignContextTokens g cfg hosts of
                  Inl e \<Rightarrow> Inl e
                | Inr hosts' \<Rightarrow> Inr (map (\<lambda>(h, ident). (h, id_token ident)) hosts'))))"

section \<open>sanitize.go\<close>

definition sanitize_auth :: "auth_info \<Rightarrow> auth_info" where
  "sanitize_auth a = a\<lparr>Token := DummyToken, TokenFile := []\<rparr>"

definition sanitize_cluster :: "string \<Rightarrow> cluster \<Rightarrow> cluster" where
  "sanitize_cluster pem c =
     c\<lparr>CertificateAuthorityData := pem, InsecureSkipTLSVerify := False, CertificateAuthority := []\<rparr>"

definition sanitize_config :: "string \<Rightarrow> kconfig \<Rightarrow> kconfig" where
  "sanitize_config pem cfg =
     cfg\<lparr>AuthInfos := map (\<lambda>(n, a). (n, sanitize_auth a)) (AuthInfos cfg),
         Clusters := map (\<lambda>(n, c). (n, sanitize_cluster pem c)) (Clusters cfg)\<rparr>"

definition Sanitize :: "golib \<Rightarrow> (string \<Rightarrow> kconfig result) \<Rightarrow> (kconfig \<Rightarrow> string result) \<Rightarrow>
    string \<Rightarrow> string \<Rightarrow> string result" where
  "Sanitize g load write data proxyCAPEM =
     (if proxyCAPEM = [] then Inl (Err ''proxy CA certificate is empty'')
      else
        (case Validate g load data of
           Inl e \<Rightarrow> Inl e
         | Inr cfg \<Rightarrow>
             (case write (sanitize_config proxyCAPEM cfg) of
                Inl e \<Rightarrow> Inl (Wrap ''write kubeconfig'' e)
              | Inr out \<Rightarrow> Inr out)))"

section \<open>routes.go\<close>

definition kube_route :: "golib \<Rightarrow> string \<Rightarrow> string \<Rightarrow> cluster \<Rightarrow> proxy_route" where
  "kube_route g host path c =
     \<lparr>Domain' = host, Injector = InjectorKubernetes, KubeconfigPath = path,
      CACert = (if CertificateAuthorityData c \<noteq> [] then base64_Encode g (CertificateAuthorityData c) else [])\<rparr>"

fun cluster_routes :: "golib \<Rightarrow> kconfig \<Rightarrow> string \<Rightarrow> string list \<Rightarrow> string list \<Rightarrow> proxy_route list result" where
  "cluster_routes g cfg path [] seen = Inr []"
| "cluster_routes g cfg path (name # names) seen =
     (case map_of (Clusters cfg) name of
        None \<Rightarrow> Inl nil_deref
      | Some c \<Rightarrow>
          (case HostPortFromServerURL g (Server c) of
             Inl e \<Rightarrow> Inl (Wrap (''cluster '' @ Quote g name) e)
           | Inr host \<Rightarrow>
               if host \<in> set seen then cluster_routes g cfg path names seen
               else map_sum id (Cons (kube_route g host path c))
                      (cluster_routes g cfg path names (host # seen))))"

definition routesFromClusters :: "golib \<Rightarrow> kconfig \<Rightarrow> string \<Rightarrow> proxy_route list result" where
  "routesFromClusters g cfg path = cluster_routes g cfg path (sort (map fst (Clusters cfg))) []"

definition sortRoutes :: "proxy_route list \<Rightarrow> proxy_route list" where
  "sortRoutes routes = sort_key Domain' routes"

definition BuildProxyRoutes :: "golib \<Rightarrow> (string \<Rightarrow> kconfig result) \<Rightarrow> string \<Rightarrow> string \<Rightarrow> proxy_route list result" where
  "BuildProxyRoutes g load data kubeconfigPath =
     (if kubeconfigPath = [] then Inl (Err ''kubeconfig path is empty'')
      else
        (case Validate g load data of
           Inl e \<Rightarrow> Inl e
         | Inr cfg \<Rightarrow>
             (case routesFromClusters g cfg kubeconfigPath of
                Inl e \<Rightarrow> Inl e
              | Inr routes \<Rightarrow> Inr (sortRoutes routes))))"

definition none_route :: "string \<Rightarrow> proxy_route" where
  "none_route host = \<lparr>Domain' = host, Injector = InjectorNone, KubeconfigPath = [], CACert = []\<rparr>"

fun allowlist_loop :: "golib \<Rightarrow> string list \<Rightarrow> string list \<Rightarrow> proxy_route list result" where
  "allowlist_loop g [] seen = Inr []"
| "allowlist_loop g (domain # domains) seen =
     (case ParseAllowlistDomain g domain of
        Inl e \<Rightarrow> Inl e
      | Inr host \<Rightarrow>
          if host \<in> set seen then Inl (Err (''duplicate domain '' @ host))
          else map_sum id (Cons (none_route host)) (allowlist_loop g domains (host # seen)))"

definition BuildAllowlistRoutes :: "golib \<Rightarrow> string list \<Rightarrow> proxy_route list result" where
  "BuildAllowlistRoutes g domains =
     (if domains = [] then Inl (Err ''allowlist domains are empty'')
      else map_sum id sortRoutes (allowlist_loop g domains []))"

section \<open>Laws: canonical hosts\<close>

lemma CanonicalHostPort_Inr:
  "CanonicalHostPort g s = Inr r \<longleftrightarrow>
     (\<exists>h p n. SplitHostPort s = Inr (h, p) \<and> Atoi p = Some n \<and> 1 \<le> n \<and> n \<le> 65535 \<and>
        ToLower (uni_lower g) (TrimSpace h) \<noteq> [] \<and>
        CHR ''*'' \<notin> set (ToLower (uni_lower g) (TrimSpace h)) \<and>
        \<not> HasPrefix (ToLower (uni_lower g) (TrimSpace h)) ''.'' \<and>
        r = JoinHostPort (ToLower (uni_lower g) (TrimSpace h)) (Itoa n))"
  by (auto simp: CanonicalHostPort_def Let_def split: sum.splits option.splits)

definition port_string :: "string \<Rightarrow> bool" where
  "port_string p = (\<exists>n. 1 \<le> n \<and> n \<le> 65535 \<and> p = Itoa n)"

lemma port_string_props:
  assumes "port_string p"
  shows "no_brackets p" "CHR '':'' \<notin> set p" "\<exists>n. Atoi p = Some n \<and> 1 \<le> n \<and> n \<le> 65535 \<and> Itoa n = p"
proof -
  obtain n where n: "1 \<le> n" "n \<le> 65535" "p = nat_digits (nat n)"
    using assms by (auto simp: port_string_def Itoa_def)
  show "no_brackets p" "CHR '':'' \<notin> set p"
    by (simp_all add: n no_brackets_def is_digit_def)
  have "nat n < 2 ^ 63" using n(2) by simp
  then have "Atoi p = Some n" using n by simp
  then show "\<exists>n. Atoi p = Some n \<and> 1 \<le> n \<and> n \<le> 65535 \<and> Itoa n = p"
    using n by (auto simp: Itoa_def)
qed

definition canonical_host :: "golib \<Rightarrow> string \<Rightarrow> bool" where
  "canonical_host g h =
     (h \<noteq> [] \<and> no_brackets h \<and> CHR ''*'' \<notin> set h \<and> \<not> HasPrefix h ''.'' \<and>
      trimmed h \<and> ToLower (uni_lower g) h = h)"

definition canonical :: "golib \<Rightarrow> string \<Rightarrow> bool" where
  "canonical g hp = (\<exists>h p. canonical_host g h \<and> port_string p \<and> hp = JoinHostPort h p)"

lemma canonical_fix: "canonical g hp \<Longrightarrow> CanonicalHostPort g hp = Inr hp"
  using port_string_props
  by (fastforce simp: canonical_def canonical_host_def CanonicalHostPort_Inr)

lemma no_brackets_lower: "no_brackets (map lower_byte s) = no_brackets s"
  using mem_map_lower [of "CHR ''[''" s] mem_map_lower [of "CHR '']''" s]
  by (simp add: no_brackets_def is_upper_def is_lower_def)

lemma no_brackets_TrimSpace: "no_brackets s \<Longrightarrow> no_brackets (TrimSpace s)"
  using set_TrimSpace [of s] by (auto simp: no_brackets_def)

lemma CanonicalHostPort_port:
  "CanonicalHostPort g s = Inr r \<Longrightarrow> \<exists>h p. port_string p \<and> r = JoinHostPort h p"
  by (auto simp: CanonicalHostPort_Inr port_string_def)

lemma CanonicalHostPort_canonical:
  assumes "list_all is_ascii s" "CanonicalHostPort g s = Inr r"
  shows "canonical g r"
proof -
  obtain h p n where sp: "SplitHostPort s = Inr (h, p)"
    and n: "1 \<le> n" "n \<le> 65535"
    and r: "r = JoinHostPort (ToLower (uni_lower g) (TrimSpace h)) (Itoa n)"
    and h: "ToLower (uni_lower g) (TrimSpace h) \<noteq> []"
        "CHR ''*'' \<notin> set (ToLower (uni_lower g) (TrimSpace h))"
        "\<not> HasPrefix (ToLower (uni_lower g) (TrimSpace h)) ''.''"
    using assms(2) unfolding CanonicalHostPort_Inr by blast
  note c = SplitHostPort_cases [OF sp]
  have ascii: "list_all is_ascii (TrimSpace h)"
    using c assms(1) by (intro ascii_TrimSpace) auto
  have "no_brackets (map lower_byte (TrimSpace h))"
    using c by (simp add: no_brackets_lower no_brackets_TrimSpace)
  moreover have "trimmed (map lower_byte (TrimSpace h))"
    by (rule trimmed_lower [OF ascii trimmed_TrimSpace])
  moreover have "list_all is_ascii (map lower_byte (TrimSpace h))"
    using ascii by (auto simp: list_all_iff)
  ultimately have "canonical_host g (map lower_byte (TrimSpace h))"
    using h ascii by (auto simp: canonical_host_def)
  then show ?thesis
    using n r ascii unfolding canonical_def port_string_def by auto
qed

text \<open>
  What the model relies on of \<open>strings.ToLower\<close> outside ASCII: an ASCII byte of the result is a
  lower-case letter or a byte of the argument that is not an upper-case letter.
\<close>

definition lower_ok :: "golib \<Rightarrow> bool" where
  "lower_ok g = (\<forall>s. \<forall>c \<in> set (uni_lower g s). is_ascii c \<longrightarrow> is_lower c \<or> (c \<in> set s \<and> \<not> is_upper c))"

definition valid_host :: "string \<Rightarrow> bool" where
  "valid_host h = (ParseIP h \<noteq> None \<or> \<not> HasSuffix h ''.'' \<and> dnsName h)"

lemma validateAllowlistHost_Inr: "validateAllowlistHost g d h = Inr u \<longleftrightarrow> valid_host h"
  by (auto simp: validateAllowlistHost_def valid_host_def)

lemma lower_byte_cases: "is_lower (lower_byte c) \<or> (lower_byte c = c \<and> \<not> is_upper c)"
  by (auto simp: lower_byte_def is_upper_def is_lower_def)

lemma ToLower_byte:
  assumes "lower_ok g" "c \<in> set (ToLower (uni_lower g) s)" "is_ascii c"
  shows "is_lower c \<or> (c \<in> set s \<and> \<not> is_upper c)"
proof (cases "list_all is_ascii s")
  case True
  then obtain d where "d \<in> set s" "c = lower_byte d" using assms(2) by auto
  then show ?thesis using lower_byte_cases [of d] by auto
next
  case False
  then show ?thesis using assms by (auto simp: lower_ok_def ToLower_def)
qed

lemma Split_byte: "c \<in> set s \<Longrightarrow> c = b \<or> (\<exists>p \<in> set (Split b s). c \<in> set p)"
proof (induction s)
  case (Cons a s)
  then show ?case by (cases "Split b s") auto
qed simp

lemma dnsName_byte:
  assumes "dnsName h" "c \<in> set h"
  shows "dns_byte c \<or> c = CHR ''.''"
  using Split_byte [OF assms(2), of "CHR ''.''"] assms(1)
  by (auto simp: dnsName_def dns_label_def list_all_iff)

lemma valid_host_byte:
  assumes "valid_host h" "c \<in> set h"
  shows "is_hex c \<or> dns_byte c \<or> c = CHR ''.'' \<or> c = CHR '':''"
  using assms dnsName_byte [OF _ assms(2)] ParseIP_chars [OF _ assms(2)]
  by (auto simp: valid_host_def)

lemma host_byte_props:
  assumes "is_hex c \<or> dns_byte c \<or> c = CHR ''.'' \<or> c = CHR '':''"
  shows "is_ascii c" "\<not> ascii_space c"
  using assms
  by (auto simp: is_hex_def dns_byte_def is_ascii_def ascii_space_def is_digit_def is_lower_def)

lemma valid_host_canonical:
  assumes "lower_ok g" and hp: "CanonicalHostPort g s = Inr hp"
    and "SplitHostPort hp = Inr (host, port)" and v: "valid_host host"
  shows "canonical g hp \<and> canonical_host g host \<and> port_string port \<and> hp = JoinHostPort host port"
proof -
  obtain h p n where sp: "SplitHostPort s = Inr (h, p)"
    and n: "1 \<le> n" "n \<le> 65535"
    and r: "hp = JoinHostPort (ToLower (uni_lower g) (TrimSpace h)) (Itoa n)"
    and h: "ToLower (uni_lower g) (TrimSpace h) \<noteq> []"
        "CHR ''*'' \<notin> set (ToLower (uni_lower g) (TrimSpace h))"
        "\<not> HasPrefix (ToLower (uni_lower g) (TrimSpace h)) ''.''"
    using hp unfolding CanonicalHostPort_Inr by blast
  let ?h = "ToLower (uni_lower g) (TrimSpace h)"
  have p: "port_string (Itoa n)" using n by (auto simp: port_string_def)
  have nb: "no_brackets (TrimSpace h)"
    using SplitHostPort_cases [OF sp] no_brackets_TrimSpace by blast
  have byte: "is_lower c \<or> (c \<in> set (TrimSpace h) \<and> \<not> is_upper c)" if "c \<in> set ?h" "is_ascii c" for c
    using ToLower_byte [OF assms(1) that] .
  have nbh: "no_brackets ?h"
    using byte [of "CHR ''[''"] byte [of "CHR '']''"] nb
    by (auto simp: no_brackets_def is_ascii_def is_lower_def)
  have eq: "host = ?h \<and> port = Itoa n"
    using assms(3) r SplitHostPort_Join [OF nbh port_string_props(1,2) [OF p]] by simp
  have host: "is_ascii c \<and> \<not> ascii_space c" if "c \<in> set host" for c
    using host_byte_props [OF valid_host_byte [OF v that]] by simp
  have ascii: "list_all is_ascii host" using host by (auto simp: list_all_iff)
  have tr: "trimmed host"
    using host by (intro ends_trimmed [OF ascii]) auto
  have "\<not> is_upper c" if "c \<in> set host" for c
    using byte [of c] that host [OF that] eq by (auto simp: is_upper_def is_lower_def)
  then have "map lower_byte host = host"
    by (intro map_idI) (simp add: lower_byte_fix)
  then have "canonical_host g host"
    using h nbh tr ascii eq by (simp add: canonical_host_def)
  then show ?thesis
    using p eq r unfolding canonical_def by blast
qed

lemma HostPortFromServerURL_canonical:
  assumes "lower_ok g" "HostPortFromServerURL g server = Inr hp"
  shows "\<exists>host port. canonical_host g host \<and> valid_host host \<and> port_string port \<and> hp = JoinHostPort host port"
  using assms valid_host_canonical [OF assms(1)]
  by (fastforce simp: HostPortFromServerURL_def Let_def validateAllowlistHost_Inr
      split: sum.splits prod.splits if_splits)

lemma ParseAllowlistDomain_canonical:
  assumes "lower_ok g" "ParseAllowlistDomain g domain = Inr hp"
  shows "\<exists>host port. canonical_host g host \<and> valid_host host \<and> port_string port \<and> hp = JoinHostPort host port"
  using assms valid_host_canonical [OF assms(1)]
  by (fastforce simp: ParseAllowlistDomain_def Let_def validateAllowlistHost_Inr
      split: sum.splits prod.splits if_splits)

section \<open>Laws: validation\<close>

abbreviation host_of :: "golib \<Rightarrow> cluster \<Rightarrow> string result" where
  "host_of g c \<equiv> HostPortFromServerURL g (Server c)"

definition token_only :: "auth_info \<Rightarrow> bool" where
  "token_only a =
     (Token a \<noteq> [] \<and> TokenFile a = [] \<and> Username a = [] \<and> Password a = [] \<and> \<not> Exec a \<and> \<not> AuthProvider a \<and>
      ClientCertificateData a = [] \<and> ClientCertificate a = [] \<and> ClientKeyData a = [] \<and> ClientKey a = [])"

definition cluster_ok :: "golib \<Rightarrow> cluster \<Rightarrow> bool" where
  "cluster_ok g c =
     (Server c \<noteq> [] \<and> CertificateAuthority c = [] \<and> \<not> InsecureSkipTLSVerify c \<and> isr (host_of g c))"

lemma validateAuth_Inr: "isr (validateAuth g n a) \<longleftrightarrow> token_only a"
  by (simp add: validateAuth_def token_only_def)

lemma validateAuthInfos_Inr:
  "isr (validateAuthInfos g as) \<longleftrightarrow> (\<forall>(n, a) \<in> set as. token_only a)"
proof (induction as)
  case (Cons na as)
  obtain n a where na: "na = (n, a)" by (cases na)
  show ?case
    using Cons.IH validateAuth_Inr [of g n a] by (cases "validateAuth g n a") (auto simp: na)
qed simp

lemma validateCluster_Inr:
  "isr (validateCluster g n c) \<longleftrightarrow> Server c \<noteq> [] \<and> CertificateAuthority c = [] \<and> \<not> InsecureSkipTLSVerify c"
  by (simp add: validateCluster_def)

text \<open>What the index of a cluster list promises: every host once, with the CA of its clusters.\<close>

definition indexed :: "golib \<Rightarrow> (string \<times> cluster) list \<Rightarrow> hosts \<Rightarrow> bool" where
  "indexed g cs hs =
     (distinct (map fst hs) \<and> (\<forall>(h, i) \<in> set hs. id_token i = []) \<and>
      fst ` set hs = {h. \<exists>(n, c) \<in> set cs. host_of g c = Inr h} \<and>
      (\<forall>(n, c) \<in> set cs. \<forall>h. host_of g c = Inr h \<longrightarrow> (\<exists>i. map_of hs h = Some i \<and> id_ca i = CertificateAuthorityData c)))"

lemma index_loop_step:
  assumes "index_loop g ((n, c) # cs) hs = Inr hs'"
  obtains h where "cluster_ok g c" "host_of g c = Inr h" "map_of hs h = None"
      "index_loop g cs (hs @ [(h, \<lparr>id_token = [], id_ca = CertificateAuthorityData c\<rparr>)]) = Inr hs'"
  | h i where "cluster_ok g c" "host_of g c = Inr h" "map_of hs h = Some i" "id_ca i = CertificateAuthorityData c"
      "index_loop g cs hs = Inr hs'"
  using assms validateCluster_Inr [of g n c]
  by (auto simp: cluster_ok_def split: sum.splits option.splits if_splits)


lemma indexed_new:
  assumes "indexed g ds hs" "host_of g c = Inr h" "map_of hs h = None"
    "i = \<lparr>id_token = [], id_ca = CertificateAuthorityData c\<rparr>"
  shows "indexed g (ds @ [(n, c)]) (hs @ [(h, i)])"
proof -
  have mono: "map_of (hs @ [(h, i)]) h' = Some j" if "map_of hs h' = Some j" for h' j
    using that by simp
  have "distinct (map fst (hs @ [(h, i)]))"
    using assms(1,3) by (simp add: indexed_def map_of_eq_None_iff)
  moreover have "fst ` set (hs @ [(h, i)]) = {h. \<exists>(n, c) \<in> set (ds @ [(n, c)]). host_of g c = Inr h}"
    using assms(1,2) by (auto simp: indexed_def)
  moreover have "\<exists>j. map_of (hs @ [(h, i)]) h' = Some j \<and> id_ca j = CertificateAuthorityData c'"
    if "(n', c') \<in> set (ds @ [(n, c)])" "host_of g c' = Inr h'" for n' c' h'
  proof (cases "(n', c') \<in> set ds")
    case True
    then show ?thesis using assms(1) that(2) mono unfolding indexed_def by blast
  next
    case False
    then show ?thesis using that assms(2,3,4) by (simp add: map_add_def)
  qed
  moreover have "\<forall>(h, i) \<in> set (hs @ [(h, i)]). id_token i = []"
    using assms(1,4) by (auto simp: indexed_def)
  ultimately show ?thesis unfolding indexed_def by blast
qed

lemma indexed_old:
  assumes "indexed g ds hs" "host_of g c = Inr h" "map_of hs h = Some i" "id_ca i = CertificateAuthorityData c"
  shows "indexed g (ds @ [(n, c)]) hs"
proof -
  have "h \<in> fst ` set hs" using assms(3) by (metis domI dom_map_of_conv_image_fst)
  then have "fst ` set hs = {h. \<exists>(n, c) \<in> set (ds @ [(n, c)]). host_of g c = Inr h}"
    using assms(1,2) by (auto simp: indexed_def)
  moreover have "\<exists>j. map_of hs h' = Some j \<and> id_ca j = CertificateAuthorityData c'"
    if "(n', c') \<in> set (ds @ [(n, c)])" "host_of g c' = Inr h'" for n' c' h'
  proof (cases "(n', c') \<in> set ds")
    case True
    then show ?thesis using assms(1) that(2) unfolding indexed_def by blast
  next
    case False
    then show ?thesis using that assms(2,3,4) by simp
  qed
  moreover have "distinct (map fst hs)" "\<forall>(h, i) \<in> set hs. id_token i = []"
    using assms(1) by (simp_all add: indexed_def)
  ultimately show ?thesis unfolding indexed_def by blast
qed

lemma index_loop_indexed:
  assumes "index_loop g cs hs = Inr hs'" "indexed g ds hs"
  shows "indexed g (ds @ cs) hs' \<and> (\<forall>(n, c) \<in> set cs. cluster_ok g c)"
  using assms
proof (induction cs arbitrary: hs ds)
  case Nil
  then show ?case by simp
next
  case (Cons nc cs)
  obtain n c where nc: "nc = (n, c)" by (cases nc)
  from Cons.prems(1) [unfolded nc] show ?case
  proof (cases rule: index_loop_step)
    case (1 h)
    from Cons.IH [OF 1(4) indexed_new [OF Cons.prems(2) 1(2,3) refl]] show ?thesis
      using 1(1) nc by simp
  next
    case (2 h i)
    from Cons.IH [OF 2(5) indexed_old [OF Cons.prems(2) 2(2,3,4)]] show ?thesis
      using 2(1) nc by simp
  qed
qed

lemma index_loop_complete:
  assumes "\<And>n c. (n, c) \<in> set cs \<Longrightarrow> cluster_ok g c"
    and "\<And>n c n' c' h. (n, c) \<in> set (ds @ cs) \<Longrightarrow> (n', c') \<in> set (ds @ cs) \<Longrightarrow>
      host_of g c = Inr h \<Longrightarrow> host_of g c' = Inr h \<Longrightarrow> CertificateAuthorityData c = CertificateAuthorityData c'"
    and "indexed g ds hs"
  shows "isr (index_loop g cs hs)"
  using assms
proof (induction cs arbitrary: hs ds)
  case Nil
  then show ?case by simp
next
  case (Cons nc cs)
  obtain n c where nc: "nc = (n, c)" by (cases nc)
  have ok: "cluster_ok g c" using Cons.prems(1) [of n c] nc by simp
  then obtain h where h: "host_of g c = Inr h" by (auto simp: cluster_ok_def isr_iff)
  have v: "validateCluster g n c = Inr ()"
    using ok validateCluster_Inr [of g n c] by (simp add: cluster_ok_def isr_iff)
  have IH: "isr (index_loop g cs hs')" if "indexed g (ds @ [nc]) hs'" for hs'
    using Cons.IH [of "ds @ [nc]" hs'] Cons.prems(1,2) that by (metis append_Cons append_Nil append_assoc list.set_intros(2))
  show ?case
  proof (cases "map_of hs h")
    case None
    then show ?thesis
      using IH indexed_new [OF Cons.prems(3) h None refl, of n] h v nc
      by simp
  next
    case (Some i)
    have "h \<in> fst ` set hs" using Some by (metis domI dom_map_of_conv_image_fst)
    then obtain n' c' where c': "(n', c') \<in> set ds" "host_of g c' = Inr h"
      using Cons.prems(3) by (auto simp: indexed_def)
    then have "id_ca i = CertificateAuthorityData c'"
      using Cons.prems(3) Some unfolding indexed_def by fastforce
    also have "\<dots> = CertificateAuthorityData c"
      using Cons.prems(2) [of n' c' n c h] c' h nc by simp
    finally show ?thesis
      using IH indexed_old [OF Cons.prems(3) h Some] h v nc Some by simp
  qed
qed


text \<open>The host a context logs in to and the token it uses there.\<close>

definition login :: "golib \<Rightarrow> kconfig \<Rightarrow> kube_context \<Rightarrow> (string \<times> string) option" where
  "login g cfg ctx =
     (case (map_of (Clusters cfg) (ctx_Cluster ctx), map_of (AuthInfos cfg) (ctx_AuthInfo ctx)) of
        (Some c, Some a) \<Rightarrow> (case host_of g c of Inr h \<Rightarrow> Some (h, Token a) | Inl _ \<Rightarrow> None)
      | _ \<Rightarrow> None)"

definition assigned :: "golib \<Rightarrow> kconfig \<Rightarrow> (string \<times> kube_context) list \<Rightarrow> hosts \<Rightarrow> string list \<Rightarrow> bool" where
  "assigned g cfg ds hs covered =
     (set covered = (ctx_Cluster \<circ> snd) ` set ds \<and>
      (\<forall>(n, ctx) \<in> set ds. \<exists>h i. login g cfg ctx = Some (h, id_token i) \<and> map_of hs h = Some i) \<and>
      (\<forall>h i. map_of hs h = Some i \<longrightarrow> id_token i \<noteq> [] \<longrightarrow> (\<exists>(n, ctx) \<in> set ds. login g cfg ctx = Some (h, id_token i))))"

lemma update_keys: "k \<in> fst ` set al \<Longrightarrow> map fst (AList.update k v al) = map fst al"
  by (induction al) auto

lemma map_of_key: "map_of al k = Some v \<Longrightarrow> k \<in> fst ` set al"
  by (metis domI dom_map_of_conv_image_fst)

lemma context_loop_login:
  assumes "login g cfg ctx = Some (h, t)" "map_of hs h = Some i"
  shows "context_loop g cfg ((n, ctx) # cs) hs cov =
    (if id_token i = [] then context_loop g cfg cs (AList.update h (i\<lparr>id_token := t\<rparr>) hs) (ctx_Cluster ctx # cov)
     else if id_token i \<noteq> t then Inl (Err (''context '' @ Quote g n @ '': server '' @ h @ '' has conflicting tokens''))
     else context_loop g cfg cs hs (ctx_Cluster ctx # cov))"
proof -
  obtain c a where "map_of (Clusters cfg) (ctx_Cluster ctx) = Some c" "host_of g c = Inr h"
    "map_of (AuthInfos cfg) (ctx_AuthInfo ctx) = Some a" "Token a = t"
    using assms(1) by (auto simp: login_def split: option.splits sum.splits)
  then show ?thesis using assms(2) by simp
qed

lemma context_loop_step:
  assumes "context_loop g cfg ((n, ctx) # cs) hs cov = Inr r"
  obtains h t i where "login g cfg ctx = Some (h, t)" "map_of hs h = Some i"
  using assms by (auto simp: login_def split: option.splits sum.splits)

lemma login_token:
  assumes "\<forall>(n, a) \<in> set (AuthInfos cfg). token_only a" "login g cfg ctx = Some (h, t)"
  shows "t \<noteq> []"
  using assms by (fastforce simp: login_def token_only_def dest: map_of_SomeD split: option.splits sum.splits)

lemma assigned_new:
  assumes ok: "\<forall>(n, a) \<in> set (AuthInfos cfg). token_only a"
    and a: "assigned g cfg ds hs cov" and l: "login g cfg ctx = Some (h, t)"
    and i: "map_of hs h = Some i" "id_token i = []"
  shows "assigned g cfg (ds @ [(n, ctx)]) (AList.update h (i\<lparr>id_token := t\<rparr>) hs) (ctx_Cluster ctx # cov)"
proof -
  let ?hs = "AList.update h (i\<lparr>id_token := t\<rparr>) hs"
  have m: "map_of ?hs = (map_of hs)(h \<mapsto> i\<lparr>id_token := t\<rparr>)"
    by (simp add: update_conv')
  have "\<exists>h' i'. login g cfg c' = Some (h', id_token i') \<and> map_of ?hs h' = Some i'"
    if "(n', c') \<in> set (ds @ [(n, ctx)])" for n' c'
  proof (cases "(n', c') \<in> set ds")
    case True
    then obtain h' i' where h': "login g cfg c' = Some (h', id_token i')" "map_of hs h' = Some i'"
      using a unfolding assigned_def by blast
    then have "h' \<noteq> h" using login_token [OF ok h'(1)] i by auto
    then show ?thesis using h' m by auto
  next
    case False
    then show ?thesis using that l m by auto
  qed
  moreover have "\<exists>(n, ctx) \<in> set (ds @ [(n, ctx)]). login g cfg ctx = Some (h', id_token i')"
    if "map_of ?hs h' = Some i'" "id_token i' \<noteq> []" for h' i'
  proof (cases "h' = h")
    case True
    then show ?thesis using l m that by auto
  next
    case False
    then show ?thesis using that a m unfolding assigned_def by auto
  qed
  ultimately show ?thesis using a unfolding assigned_def by auto
qed

lemma assigned_old:
  assumes "assigned g cfg ds hs cov" "login g cfg ctx = Some (h, id_token i)" "map_of hs h = Some i"
  shows "assigned g cfg (ds @ [(n, ctx)]) hs (ctx_Cluster ctx # cov)"
  using assms unfolding assigned_def by auto


lemma context_loop_assigned:
  assumes "\<forall>(n, a) \<in> set (AuthInfos cfg). token_only a"
    and "context_loop g cfg cs hs cov = Inr (hs', cov')" "assigned g cfg ds hs cov"
  shows "assigned g cfg (ds @ cs) hs' cov' \<and> map fst hs' = map fst hs"
  using assms(2,3)
proof (induction cs arbitrary: hs ds cov)
  case Nil
  then show ?case by simp
next
  case (Cons nc cs)
  obtain n ctx where nc: "nc = (n, ctx)" by (cases nc)
  from context_loop_step [OF Cons.prems(1) [unfolded nc]]
  obtain h t i where l: "login g cfg ctx = Some (h, t)" "map_of hs h = Some i" .
  show ?case
  proof (cases "id_token i = []")
    case True
    have r: "context_loop g cfg cs (AList.update h (i\<lparr>id_token := t\<rparr>) hs) (ctx_Cluster ctx # cov) = Inr (hs', cov')"
      using Cons.prems(1) context_loop_login [OF l] nc True by simp
    show ?thesis
      using Cons.IH [OF r assigned_new [OF assms(1) Cons.prems(2) l True, where n = n]] nc
        update_keys [OF map_of_key [OF l(2)]] by simp
  next
    case False
    then have t: "id_token i = t" and r: "context_loop g cfg cs hs (ctx_Cluster ctx # cov) = Inr (hs', cov')"
      using Cons.prems(1) context_loop_login [OF l] nc by (auto split: if_splits)
    show ?thesis
      using Cons.IH [OF r assigned_old [OF Cons.prems(2) l(1) [folded t] l(2), where n = n]] nc by simp
  qed
qed

lemma context_loop_complete:
  assumes "\<forall>(n, a) \<in> set (AuthInfos cfg). token_only a"
    and "\<And>n ctx. (n, ctx) \<in> set cs \<Longrightarrow> \<exists>h t. login g cfg ctx = Some (h, t) \<and> h \<in> fst ` set hs"
    and "\<And>n ctx n' ctx' h t t'. (n, ctx) \<in> set (ds @ cs) \<Longrightarrow> (n', ctx') \<in> set (ds @ cs) \<Longrightarrow>
      login g cfg ctx = Some (h, t) \<Longrightarrow> login g cfg ctx' = Some (h, t') \<Longrightarrow> t = t'"
    and "assigned g cfg ds hs cov"
  shows "isr (context_loop g cfg cs hs cov)"
  using assms(2-4)
proof (induction cs arbitrary: hs ds cov)
  case Nil
  then show ?case by simp
next
  case (Cons nc cs)
  obtain n ctx where nc: "nc = (n, ctx)" by (cases nc)
  obtain h t where l: "login g cfg ctx = Some (h, t)" "h \<in> fst ` set hs"
    using Cons.prems(1) [of n ctx] nc by auto
  then obtain i where i: "map_of hs h = Some i"
    by (metis dom_map_of_conv_image_fst domD)
  have IH: "isr (context_loop g cfg cs hs' cov')"
    if "assigned g cfg (ds @ [nc]) hs' cov'" "fst ` set hs' = fst ` set hs" for hs' cov'
    using Cons.IH [of hs' "ds @ [nc]" cov'] Cons.prems(1,2) that
    by (metis append_Cons append_Nil append_assoc list.set_intros(2))
  have keys: "fst ` set (AList.update h (i\<lparr>id_token := t\<rparr>) hs) = fst ` set hs"
    using update_keys [OF l(2)] by (metis set_map)
  show ?case
  proof (cases "id_token i = []")
    case True
    show ?thesis
      using IH [OF assigned_new [OF assms(1) Cons.prems(3) l(1) i True, where n = n, folded nc] keys]
        context_loop_login [OF l(1) i] True nc by simp
  next
    case False
    then obtain n' ctx' where c': "(n', ctx') \<in> set ds" "login g cfg ctx' = Some (h, id_token i)"
      using Cons.prems(3) i unfolding assigned_def by blast
    have t: "id_token i = t"
      using Cons.prems(2) [of n' ctx' n ctx h "id_token i" t] c' l(1) nc by simp
    show ?thesis
      using IH [OF assigned_old [OF Cons.prems(3) l(1) [folded t] i, where n = n, folded nc] refl]
        context_loop_login [OF l(1) i] False t nc by simp
  qed
qed


text \<open>
  The contract of \<open>Validate\<close>: token-only users, clusters that verify TLS without a file path, one
  CA and one token per server, contexts that resolve, and a context for every cluster.
\<close>

definition wf_kconfig :: "kconfig \<Rightarrow> bool" where
  "wf_kconfig cfg =
     (distinct (map fst (Clusters cfg)) \<and> distinct (map fst (AuthInfos cfg)) \<and> distinct (map fst (Contexts cfg)))"

definition one_ca :: "golib \<Rightarrow> kconfig \<Rightarrow> bool" where
  "one_ca g cfg =
     (\<forall>(n, c) \<in> set (Clusters cfg). \<forall>(n', c') \<in> set (Clusters cfg). \<forall>h.
        host_of g c = Inr h \<longrightarrow> host_of g c' = Inr h \<longrightarrow> CertificateAuthorityData c = CertificateAuthorityData c')"

definition one_token :: "golib \<Rightarrow> kconfig \<Rightarrow> bool" where
  "one_token g cfg =
     (\<forall>(n, ctx) \<in> set (Contexts cfg). \<forall>(n', ctx') \<in> set (Contexts cfg). \<forall>h t t'.
        login g cfg ctx = Some (h, t) \<longrightarrow> login g cfg ctx' = Some (h, t') \<longrightarrow> t = t')"

definition contexts_resolve :: "golib \<Rightarrow> kconfig \<Rightarrow> bool" where
  "contexts_resolve g cfg = (\<forall>(n, ctx) \<in> set (Contexts cfg). login g cfg ctx \<noteq> None)"

definition clusters_covered :: "kconfig \<Rightarrow> bool" where
  "clusters_covered cfg = (fst ` set (Clusters cfg) \<subseteq> (ctx_Cluster \<circ> snd) ` set (Contexts cfg))"

definition valid_kconfig :: "golib \<Rightarrow> kconfig \<Rightarrow> bool" where
  "valid_kconfig g cfg =
     (Clusters cfg \<noteq> [] \<and> (\<forall>(n, a) \<in> set (AuthInfos cfg). token_only a) \<and>
      (\<forall>(n, c) \<in> set (Clusters cfg). cluster_ok g c) \<and> one_ca g cfg \<and>
      contexts_resolve g cfg \<and> one_token g cfg \<and> clusters_covered cfg)"

lemma indexed_Nil: "indexed g [] []"
  by (simp add: indexed_def)

lemma indexed_ca:
  assumes "indexed g cs hs" "(n, c) \<in> set cs" "host_of g c = Inr h"
  shows "\<exists>i. map_of hs h = Some i \<and> id_ca i = CertificateAuthorityData c"
  using assms unfolding indexed_def by blast

lemma indexed_host:
  assumes "indexed g cs hs" "h \<in> fst ` set hs"
  shows "\<exists>n c. (n, c) \<in> set cs \<and> host_of g c = Inr h"
proof -
  have "fst ` set hs = {h. \<exists>(n, c) \<in> set cs. host_of g c = Inr h}"
    using assms(1) by (simp only: indexed_def)
  then show ?thesis using assms(2) by auto
qed

lemma indexClusters_indexed:
  assumes "indexClusters g cfg = Inr hs"
  shows "indexed g (Clusters cfg) hs" "\<forall>(n, c) \<in> set (Clusters cfg). cluster_ok g c" "one_ca g cfg"
proof -
  show i: "indexed g (Clusters cfg) hs" and "\<forall>(n, c) \<in> set (Clusters cfg). cluster_ok g c"
    using index_loop_indexed [OF assms [unfolded indexClusters_def] indexed_Nil] by simp_all
  have "CertificateAuthorityData c = CertificateAuthorityData c'"
    if "(n, c) \<in> set (Clusters cfg)" "(n', c') \<in> set (Clusters cfg)" "host_of g c = Inr h" "host_of g c' = Inr h"
    for n c n' c' h
    using indexed_ca [OF i that(1,3)] indexed_ca [OF i that(2,4)] by auto
  then show "one_ca g cfg" unfolding one_ca_def by blast
qed

lemma indexClusters_complete:
  assumes "\<forall>(n, c) \<in> set (Clusters cfg). cluster_ok g c" "one_ca g cfg"
  shows "\<exists>hs. indexClusters g cfg = Inr hs"
proof -
  have "isr (index_loop g (Clusters cfg) [])"
    using assms(1) assms(2) [unfolded one_ca_def]
    by (intro index_loop_complete [where ds = "[]"] indexed_Nil) (auto, blast)
  then show ?thesis by (simp add: indexClusters_def isr_iff)
qed

lemma assigned_Nil: "indexed g cs hs \<Longrightarrow> assigned g cfg [] hs []"
  by (fastforce simp: assigned_def indexed_def dest: map_of_SomeD)

lemma login_host:
  assumes "login g cfg ctx = Some (h, t)" "indexed g (Clusters cfg) hs"
  shows "h \<in> fst ` set hs"
proof -
  obtain c where "map_of (Clusters cfg) (ctx_Cluster ctx) = Some c" "host_of g c = Inr h"
    using assms(1) by (auto simp: login_def split: option.splits sum.splits)
  then show ?thesis using assms(2) map_of_SomeD unfolding indexed_def by fast
qed


lemma assignContextTokens_Inr:
  "assignContextTokens g cfg hs0 = Inr hs \<longleftrightarrow>
     (\<exists>cov. context_loop g cfg (Contexts cfg) hs0 [] = Inr (hs, cov) \<and>
        fst ` set (Clusters cfg) \<subseteq> set cov \<and> (\<forall>(h, i) \<in> set hs. id_token i \<noteq> []))"
proof (cases "context_loop g cfg (Contexts cfg) hs0 []")
  case (Inl e)
  then show ?thesis by (simp add: assignContextTokens_def)
next
  case (Inr r)
  obtain hs1 cov where r: "r = (hs1, cov)" by (cases r)
  have u: "filter (\<lambda>n. n \<notin> set cov) (map fst (Clusters cfg)) = [] \<longleftrightarrow> fst ` set (Clusters cfg) \<subseteq> set cov"
    by (auto simp: filter_empty_conv)
  have t: "filter (\<lambda>h. id_token (snd h) = []) hs1 = [] \<longleftrightarrow> (\<forall>(h, i) \<in> set hs1. id_token i \<noteq> [])"
    by (auto simp: filter_empty_conv)
  show ?thesis
    unfolding assignContextTokens_def Inr r sum.case prod.case
    using u t by (auto simp del: filter_map split: list.splits)
qed


lemma Validate_Inr:
  "Validate g load data = Inr cfg \<longleftrightarrow>
     load data = Inr cfg \<and> Clusters cfg \<noteq> [] \<and> (\<forall>(n, a) \<in> set (AuthInfos cfg). token_only a) \<and>
     (\<exists>hs hs'. indexClusters g cfg = Inr hs \<and> assignContextTokens g cfg hs = Inr hs')"
  using validateAuthInfos_Inr [of g "AuthInfos cfg"]
  by (auto simp: Validate_def isr_iff split: sum.splits)

lemma assigned_login:
  assumes "assigned g cfg ds hs cov" "(n, ctx) \<in> set ds"
  shows "\<exists>h i. login g cfg ctx = Some (h, id_token i) \<and> map_of hs h = Some i"
  using assms unfolding assigned_def by blast

lemma assigned_source:
  assumes "assigned g cfg ds hs cov" "map_of hs h = Some i" "id_token i \<noteq> []"
  shows "\<exists>(n, ctx) \<in> set ds. login g cfg ctx = Some (h, id_token i)"
  using assms unfolding assigned_def by blast

lemma one_token_eq:
  assumes "one_token g cfg" "(n, ctx) \<in> set (Contexts cfg)" "(n', ctx') \<in> set (Contexts cfg)"
    and "login g cfg ctx = Some (h, t)" "login g cfg ctx' = Some (h, t')"
  shows "t = t'"
  using assms unfolding one_token_def by blast

lemma contexts_resolve_login:
  assumes "contexts_resolve g cfg" "(n, ctx) \<in> set (Contexts cfg)"
  shows "\<exists>h t. login g cfg ctx = Some (h, t)"
  using assms unfolding contexts_resolve_def by fast

lemma assign_sound:
  assumes "\<forall>(n, a) \<in> set (AuthInfos cfg). token_only a"
    and i: "indexed g (Clusters cfg) hs" and "assignContextTokens g cfg hs = Inr hs'"
  shows "map fst hs' = map fst hs" "clusters_covered cfg" "contexts_resolve g cfg" "one_token g cfg"
    "\<And>h t. (\<exists>i. map_of hs' h = Some i \<and> id_token i = t) \<longleftrightarrow> (\<exists>(n, ctx) \<in> set (Contexts cfg). login g cfg ctx = Some (h, t))"
proof -
  obtain cov where l: "context_loop g cfg (Contexts cfg) hs [] = Inr (hs', cov)"
    and c: "fst ` set (Clusters cfg) \<subseteq> set cov" and t: "\<forall>(h, i) \<in> set hs'. id_token i \<noteq> []"
    using assms(3) unfolding assignContextTokens_Inr by blast
  have a: "assigned g cfg (Contexts cfg) hs' cov" and "map fst hs' = map fst hs"
    using context_loop_assigned [OF assms(1) l assigned_Nil [OF i]] by simp_all
  then show "map fst hs' = map fst hs" by simp
  show "clusters_covered cfg" using a c by (simp add: clusters_covered_def assigned_def)
  have login: "\<exists>i. login g cfg ctx = Some (h, id_token i) \<and> map_of hs' h = Some i"
    if "(n, ctx) \<in> set (Contexts cfg)" "login g cfg ctx = Some (h, t)" for n ctx h t
    using assigned_login [OF a that(1)] that(2) by auto
  show "contexts_resolve g cfg"
    unfolding contexts_resolve_def using assigned_login [OF a] by fastforce
  have "t = t'" if "(n, ctx) \<in> set (Contexts cfg)" "(n', ctx') \<in> set (Contexts cfg)"
      "login g cfg ctx = Some (h, t)" "login g cfg ctx' = Some (h, t')" for n ctx n' ctx' h t t'
    using login [OF that(1,3)] login [OF that(2,4)] that by auto
  then show "one_token g cfg" unfolding one_token_def by blast
  show "(\<exists>i. map_of hs' h = Some i \<and> id_token i = t) \<longleftrightarrow> (\<exists>(n, ctx) \<in> set (Contexts cfg). login g cfg ctx = Some (h, t))"
    for h t
  proof
    assume "\<exists>i. map_of hs' h = Some i \<and> id_token i = t"
    then obtain i where i: "map_of hs' h = Some i" "id_token i = t" by blast
    then have "id_token i \<noteq> []" using t map_of_SomeD [OF i(1)] by blast
    then show "\<exists>(n, ctx) \<in> set (Contexts cfg). login g cfg ctx = Some (h, t)"
      using assigned_source [OF a i(1)] i(2) by simp
  next
    assume "\<exists>(n, ctx) \<in> set (Contexts cfg). login g cfg ctx = Some (h, t)"
    then obtain n ctx where "(n, ctx) \<in> set (Contexts cfg)" "login g cfg ctx = Some (h, t)" by blast
    then show "\<exists>i. map_of hs' h = Some i \<and> id_token i = t" using login [of n ctx h t] by auto
  qed
qed

lemma assign_complete:
  assumes auth: "\<forall>(n, a) \<in> set (AuthInfos cfg). token_only a" and "wf_kconfig cfg"
    and i: "indexed g (Clusters cfg) hs" and r: "contexts_resolve g cfg" and "one_token g cfg"
    and cov: "clusters_covered cfg"
  shows "\<exists>hs'. assignContextTokens g cfg hs = Inr hs'"
proof -
  have "isr (context_loop g cfg (Contexts cfg) hs [])"
  proof (rule context_loop_complete [OF auth _ _ assigned_Nil [OF i]])
    show "\<exists>h t. login g cfg ctx = Some (h, t) \<and> h \<in> fst ` set hs" if "(n, ctx) \<in> set (Contexts cfg)" for n ctx
      using contexts_resolve_login [OF r that] login_host [OF _ i] by blast
    show "t = t'" if "(n, ctx) \<in> set ([] @ Contexts cfg)" "(n', ctx') \<in> set ([] @ Contexts cfg)"
        "login g cfg ctx = Some (h, t)" "login g cfg ctx' = Some (h, t')" for n ctx n' ctx' h t t'
      using one_token_eq [OF assms(5) _ _ that(3,4)] that(1,2) by simp
  qed
  then obtain hs' c where l: "context_loop g cfg (Contexts cfg) hs [] = Inr (hs', c)"
    by (auto simp: isr_iff)
  have a: "assigned g cfg (Contexts cfg) hs' c" and k: "map fst hs' = map fst hs"
    using context_loop_assigned [OF auth l assigned_Nil [OF i]] by simp_all
  have "id_token j \<noteq> []" if "(h, j) \<in> set hs'" for h j
  proof -
    have "distinct (map fst hs')" using i k by (simp add: indexed_def)
    then have j: "map_of hs' h = Some j" using that by (rule map_of_is_SomeI)
    have "h \<in> fst ` set hs" using that k by (metis fst_conv image_eqI set_map)
    then obtain n cl where cl: "(n, cl) \<in> set (Clusters cfg)" "host_of g cl = Inr h"
      using indexed_host [OF i] by blast
    then have "n \<in> (ctx_Cluster \<circ> snd) ` set (Contexts cfg)"
      using cov unfolding clusters_covered_def by (metis fst_conv image_eqI subsetD)
    then obtain m ctx where ctx: "(m, ctx) \<in> set (Contexts cfg)" "ctx_Cluster ctx = n"
      by auto
    have "map_of (Clusters cfg) n = Some cl" using cl(1) assms(2) by (simp add: wf_kconfig_def)
    then obtain t where t: "login g cfg ctx = Some (h, t)"
      using contexts_resolve_login [OF r ctx(1)] ctx(2) cl(2) by (auto simp: login_def split: option.splits)
    then show ?thesis
      using assigned_login [OF a ctx(1)] j login_token [OF auth t] by auto
  qed
  moreover have "fst ` set (Clusters cfg) \<subseteq> set c"
    using a cov by (simp add: assigned_def clusters_covered_def)
  ultimately show ?thesis
    using l unfolding assignContextTokens_Inr by blast
qed

lemma Validate_spec:
  assumes "wf_kconfig cfg"
  shows "Validate g load data = Inr cfg \<longleftrightarrow> load data = Inr cfg \<and> valid_kconfig g cfg"
proof
  assume v: "Validate g load data = Inr cfg"
  then obtain hs hs' where hs: "indexClusters g cfg = Inr hs" and hs': "assignContextTokens g cfg hs = Inr hs'"
    and auth: "\<forall>(n, a) \<in> set (AuthInfos cfg). token_only a"
    unfolding Validate_Inr by blast
  show "load data = Inr cfg \<and> valid_kconfig g cfg"
    using v indexClusters_indexed [OF hs] assign_sound(2-4) [OF auth indexClusters_indexed(1) [OF hs] hs']
    by (simp add: Validate_Inr valid_kconfig_def)
next
  assume a: "load data = Inr cfg \<and> valid_kconfig g cfg"
  then obtain hs where hs: "indexClusters g cfg = Inr hs"
    using indexClusters_complete unfolding valid_kconfig_def by blast
  then show "Validate g load data = Inr cfg"
    using a assign_complete [OF _ assms indexClusters_indexed(1) [OF hs]]
    unfolding Validate_Inr valid_kconfig_def by blast
qed

section \<open>Laws: tokens, routes and the dummy kubeconfig\<close>

lemma LoadTokens_spec:
  assumes "Validate g load data = Inr cfg"
  shows "\<exists>ts. LoadTokens g load data = Inr ts \<and> distinct (map fst ts) \<and>
    fst ` set ts = {h. \<exists>(n, c) \<in> set (Clusters cfg). host_of g c = Inr h} \<and>
    (\<forall>h t. map_of ts h = Some t \<longleftrightarrow> (\<exists>(n, ctx) \<in> set (Contexts cfg). login g cfg ctx = Some (h, t)))"
proof -
  obtain hs hs' where hs: "indexClusters g cfg = Inr hs" and hs': "assignContextTokens g cfg hs = Inr hs'"
    and auth: "\<forall>(n, a) \<in> set (AuthInfos cfg). token_only a"
    using assms unfolding Validate_Inr by blast
  note i = indexClusters_indexed(1) [OF hs]
  note a = assign_sound [OF auth i hs']
  let ?ts = "map (\<lambda>(h, ident). (h, id_token ident)) hs'"
  have keys: "map fst ?ts = map fst hs" using a(1) by (simp add: case_prod_beta' comp_def)
  have m: "map_of ?ts h = map_option id_token (map_of hs' h)" for h
    by (induction hs') auto
  have "LoadTokens g load data = Inr ?ts"
    by (simp add: LoadTokens_def assms hs hs')
  moreover have "distinct (map fst ?ts)" using keys i by (simp add: indexed_def)
  moreover have "fst ` set ?ts = fst ` set hs" using keys by (metis set_map)
  moreover have "fst ` set hs = {h. \<exists>(n, c) \<in> set (Clusters cfg). host_of g c = Inr h}"
    using i by (simp only: indexed_def)
  moreover have "map_of ?ts h = Some t \<longleftrightarrow> (\<exists>(n, ctx) \<in> set (Contexts cfg). login g cfg ctx = Some (h, t))" for h t
    unfolding m a(5) [symmetric] by auto
  ultimately show ?thesis by (intro exI [of _ ?ts]) simp
qed


fun keep_first :: "('k \<times> 'v) list \<Rightarrow> 'k list \<Rightarrow> ('k \<times> 'v) list" where
  "keep_first [] seen = []"
| "keep_first ((k, v) # xs) seen =
     (if k \<in> set seen then keep_first xs seen else (k, v) # keep_first xs (k # seen))"

lemma keep_first_keys: "fst ` set (keep_first xs seen) = fst ` set xs - set seen"
  by (induction xs seen rule: keep_first.induct) auto

lemma keep_first_subset: "set (keep_first xs seen) \<subseteq> set xs"
  by (induction xs seen rule: keep_first.induct) auto

lemma keep_first_distinct: "distinct (map fst (keep_first xs seen))"
  by (induction xs seen rule: keep_first.induct) (auto simp: keep_first_keys)

definition named_host :: "golib \<Rightarrow> kconfig \<Rightarrow> string \<Rightarrow> string \<times> cluster" where
  "named_host g cfg n = (let c = the (map_of (Clusters cfg) n) in (projr (host_of g c), c))"

lemma cluster_routes_keep_first:
  assumes "\<And>n. n \<in> set ns \<Longrightarrow> \<exists>c h. map_of (Clusters cfg) n = Some c \<and> host_of g c = Inr h"
  shows "cluster_routes g cfg path ns seen =
    Inr (map (\<lambda>(h, c). kube_route g h path c) (keep_first (map (named_host g cfg) ns) seen))"
  using assms
proof (induction ns arbitrary: seen)
  case (Cons n ns)
  obtain c h where c: "map_of (Clusters cfg) n = Some c" "host_of g c = Inr h"
    using Cons.prems [of n] by auto
  have "named_host g cfg n = (h, c)" by (simp add: named_host_def c)
  moreover have "\<And>n. n \<in> set ns \<Longrightarrow> \<exists>c h. map_of (Clusters cfg) n = Some c \<and> host_of g c = Inr h"
    using Cons.prems by simp
  ultimately show ?case using c Cons.IH by simp
qed simp

lemma sortRoutes_props [simp]:
  "set (sortRoutes rs) = set rs" "sorted (map Domain' (sortRoutes rs))"
  "distinct (map Domain' (sortRoutes rs)) = distinct (map Domain' rs)"
proof -
  show "set (sortRoutes rs) = set rs" "sorted (map Domain' (sortRoutes rs))"
    by (simp_all add: sortRoutes_def)
  have "mset (map Domain' (sortRoutes rs)) = mset (map Domain' rs)"
    by (simp add: sortRoutes_def)
  then show "distinct (map Domain' (sortRoutes rs)) = distinct (map Domain' rs)"
    by (metis mset_eq_imp_distinct_iff)
qed

lemma BuildProxyRoutes_spec:
  assumes v: "Validate g load data = Inr cfg" and wf: "wf_kconfig cfg" and path: "path \<noteq> []"
  shows "\<exists>rs. BuildProxyRoutes g load data path = Inr rs \<and> sorted (map Domain' rs) \<and> distinct (map Domain' rs) \<and>
    Domain' ` set rs = {h. \<exists>(n, c) \<in> set (Clusters cfg). host_of g c = Inr h} \<and>
    (\<forall>r \<in> set rs. \<exists>(n, c) \<in> set (Clusters cfg). host_of g c = Inr (Domain' r) \<and> r = kube_route g (Domain' r) path c)"
proof -
  let ?ns = "sort (map fst (Clusters cfg))"
  let ?hs = "keep_first (map (named_host g cfg) ?ns) []"
  define rs where "rs = map (\<lambda>(h, c). kube_route g h path c) ?hs"
  have ok: "\<forall>(n, c) \<in> set (Clusters cfg). cluster_ok g c"
    using v unfolding Validate_spec [OF wf] valid_kconfig_def by blast
  have named: "named_host g cfg n = (h, c)" if "(n, c) \<in> set (Clusters cfg)" "host_of g c = Inr h" for n c h
    using that wf by (simp add: named_host_def wf_kconfig_def)
  have host: "\<exists>h. host_of g c = Inr h" if "(n, c) \<in> set (Clusters cfg)" for n c
    using ok that by (auto simp: cluster_ok_def isr_iff)
  have "cluster_routes g cfg path ?ns [] = Inr rs"
    unfolding rs_def
  proof (rule cluster_routes_keep_first)
    fix n assume "n \<in> set ?ns"
    then obtain c where c: "(n, c) \<in> set (Clusters cfg)" by auto
    then show "\<exists>c h. map_of (Clusters cfg) n = Some c \<and> host_of g c = Inr h"
      using host [OF c] wf by (auto simp: wf_kconfig_def)
  qed
  then have b: "BuildProxyRoutes g load data path = Inr (sortRoutes rs)"
    by (simp add: BuildProxyRoutes_def routesFromClusters_def path v)
  have src: "\<exists>(n, c) \<in> set (Clusters cfg). host_of g c = Inr h \<and> x = c" if "(h, x) \<in> set (map (named_host g cfg) ?ns)" for h x
  proof -
    obtain n c where c: "(n, c) \<in> set (Clusters cfg)" "named_host g cfg n = (h, x)" using \<open>(h, x) \<in> _\<close> by auto
    then show ?thesis using named [OF c(1)] host [OF c(1)] by auto
  qed
  have doms: "map Domain' rs = map fst ?hs"
    by (auto simp: rs_def kube_route_def)
  have "Domain' ` set rs = fst ` set (map (named_host g cfg) ?ns)"
    using doms keep_first_keys [of "map (named_host g cfg) ?ns" "[]"] by (metis Diff_empty empty_set set_map)
  also have "\<dots> = {h. \<exists>(n, c) \<in> set (Clusters cfg). host_of g c = Inr h}"
  proof (intro equalityI subsetI)
    fix h assume "h \<in> fst ` set (map (named_host g cfg) ?ns)"
    then show "h \<in> {h. \<exists>(n, c) \<in> set (Clusters cfg). host_of g c = Inr h}" using src by fastforce
  next
    fix h assume "h \<in> {h. \<exists>(n, c) \<in> set (Clusters cfg). host_of g c = Inr h}"
    then obtain n c where c: "(n, c) \<in> set (Clusters cfg)" "host_of g c = Inr h" by auto
    then have "n \<in> set ?ns" by force
    then show "h \<in> fst ` set (map (named_host g cfg) ?ns)" using named [OF c] by (metis fst_conv image_eqI set_map)
  qed
  finally have d: "Domain' ` set rs = {h. \<exists>(n, c) \<in> set (Clusters cfg). host_of g c = Inr h}" .
  have "\<exists>(n, c) \<in> set (Clusters cfg). host_of g c = Inr (Domain' r) \<and> r = kube_route g (Domain' r) path c" if "r \<in> set rs" for r
  proof -
    obtain h c where r: "(h, c) \<in> set ?hs" "r = kube_route g h path c" using \<open>r \<in> _\<close> by (auto simp: rs_def)
    then have "(h, c) \<in> set (map (named_host g cfg) ?ns)" using keep_first_subset by blast
    then show ?thesis using src r(2) by (force simp: kube_route_def)
  qed
  moreover have "distinct (map Domain' rs)"
    using doms keep_first_distinct by metis
  ultimately show ?thesis
    using b d by (intro exI [of _ "sortRoutes rs"]) simp
qed


lemma allowlist_loop_Inr:
  assumes "allowlist_loop g ds seen = Inr rs"
  shows "rs = map none_route (map Domain' rs) \<and> map (ParseAllowlistDomain g) ds = map Inr (map Domain' rs) \<and>
    distinct (map Domain' rs) \<and> set (map Domain' rs) \<inter> set seen = {}"
  using assms
proof (induction ds arbitrary: seen rs)
  case (Cons d ds)
  then obtain h rs' where h: "ParseAllowlistDomain g d = Inr h" "h \<notin> set seen"
    and r: "allowlist_loop g ds (h # seen) = Inr rs'" "rs = none_route h # rs'"
    by (cases "ParseAllowlistDomain g d"; cases "allowlist_loop g ds (projr (ParseAllowlistDomain g d) # seen)")
      (auto split: if_splits)
  show ?case using Cons.IH [OF r(1)] r(2) h by (auto simp: none_route_def)
qed simp

lemma wf_sanitize: "wf_kconfig cfg \<Longrightarrow> wf_kconfig (sanitize_config pem cfg)"
  by (simp add: wf_kconfig_def sanitize_config_def case_prod_beta' comp_def)

lemma map_of_map_snd: "map_of (map (\<lambda>(n, x). (n, f x)) xs) k = map_option f (map_of xs k)"
  by (induction xs) auto

lemma host_of_sanitize [simp]: "host_of g (sanitize_cluster pem c) = host_of g c"
  by (simp add: sanitize_cluster_def)

lemma login_sanitize:
  "login g (sanitize_config pem cfg) ctx = map_option (\<lambda>(h, t). (h, DummyToken)) (login g cfg ctx)"
  by (auto simp: login_def sanitize_config_def map_of_map_snd sanitize_auth_def split: option.splits sum.splits)

lemma sanitize_simps [simp]:
  "Contexts (sanitize_config pem cfg) = Contexts cfg"
  "CurrentContext (sanitize_config pem cfg) = CurrentContext cfg"
  "map fst (Clusters (sanitize_config pem cfg)) = map fst (Clusters cfg)"
  "Clusters (sanitize_config pem cfg) = map (\<lambda>(n, c). (n, sanitize_cluster pem c)) (Clusters cfg)"
  by (simp_all add: sanitize_config_def case_prod_beta' comp_def)

lemma valid_sanitize:
  assumes "valid_kconfig g cfg"
  shows "valid_kconfig g (sanitize_config pem cfg)"
proof -
  have "\<forall>(n, a) \<in> set (AuthInfos (sanitize_config pem cfg)). token_only a"
    using assms by (fastforce simp: valid_kconfig_def sanitize_config_def token_only_def sanitize_auth_def DummyToken_def)
  moreover have "\<forall>(n, c) \<in> set (Clusters (sanitize_config pem cfg)). cluster_ok g c"
    using assms by (fastforce simp: valid_kconfig_def cluster_ok_def sanitize_cluster_def)
  moreover have "one_ca g (sanitize_config pem cfg)"
    by (auto simp: one_ca_def sanitize_cluster_def)
  moreover have "contexts_resolve g (sanitize_config pem cfg)"
    using assms by (auto simp: valid_kconfig_def contexts_resolve_def login_sanitize)
  moreover have "one_token g (sanitize_config pem cfg)"
    by (auto simp: one_token_def login_sanitize)
  moreover have "clusters_covered (sanitize_config pem cfg)"
    using assms by (simp add: valid_kconfig_def clusters_covered_def image_image case_prod_beta')
  moreover have "Clusters (sanitize_config pem cfg) \<noteq> []"
    using assms by (simp add: valid_kconfig_def)
  ultimately show ?thesis unfolding valid_kconfig_def by blast
qed

definition with_secrets :: "(string \<Rightarrow> string) \<Rightarrow> (string \<Rightarrow> string) \<Rightarrow> kconfig \<Rightarrow> kconfig" where
  "with_secrets tok crt cfg =
     cfg\<lparr>AuthInfos := map (\<lambda>(n, a). (n, a\<lparr>Token := tok n\<rparr>)) (AuthInfos cfg),
         Clusters := map (\<lambda>(n, c). (n, c\<lparr>CertificateAuthorityData := crt n\<rparr>)) (Clusters cfg)\<rparr>"

lemma sanitize_with_secrets: "sanitize_config pem (with_secrets tok crt cfg) = sanitize_config pem cfg"
  by (simp add: sanitize_config_def with_secrets_def sanitize_auth_def sanitize_cluster_def
      case_prod_beta' comp_def)

lemma same_set_valid:
  assumes "wf_kconfig cfg" "mset (Clusters cfg) = mset (Clusters cfg')" "mset (AuthInfos cfg) = mset (AuthInfos cfg')"
    "mset (Contexts cfg) = mset (Contexts cfg')"
  shows "valid_kconfig g cfg = valid_kconfig g cfg' \<and> wf_kconfig cfg'"
proof -
  have sets: "set (Clusters cfg) = set (Clusters cfg')" "set (AuthInfos cfg) = set (AuthInfos cfg')"
    "set (Contexts cfg) = set (Contexts cfg')"
    using assms mset_eq_setD by blast+
  have wf: "wf_kconfig cfg'"
    using assms unfolding wf_kconfig_def by (metis mset_eq_imp_distinct_iff mset_map)
  have "map_of (Clusters cfg) = map_of (Clusters cfg')" "map_of (AuthInfos cfg) = map_of (AuthInfos cfg')"
    using sets assms(1) wf by (simp_all add: map_of_inject_set wf_kconfig_def)
  then have l: "login g cfg = login g cfg'" by (auto simp: login_def)
  have "Clusters cfg = [] \<longleftrightarrow> Clusters cfg' = []" using sets(1) by (metis set_empty)
  then have "valid_kconfig g cfg = valid_kconfig g cfg'"
    unfolding valid_kconfig_def one_ca_def one_token_def contexts_resolve_def clusters_covered_def sets l by simp
  then show ?thesis using wf by simp
qed




lemma BuildProxyRoutes_tokens:
  assumes "load data = Inr cfg" "wf_kconfig cfg" "BuildProxyRoutes g load data path = Inr rs"
  shows "\<exists>ts. LoadTokens g load data = Inr ts \<and> Domain' ` set rs = fst ` set ts \<and>
    sorted (map Domain' rs) \<and> distinct (map Domain' rs) \<and>
    (\<forall>r \<in> set rs. Injector r = InjectorKubernetes \<and> KubeconfigPath r = path \<and>
       (\<exists>t. map_of ts (Domain' r) = Some t \<and> t \<noteq> []))"
proof -
  have path: "path \<noteq> []" and v: "Validate g load data = Inr cfg"
    using assms(1,3) by (auto simp: BuildProxyRoutes_def Validate_def split: if_splits sum.splits)
  obtain ts where ts: "LoadTokens g load data = Inr ts"
      "fst ` set ts = {h. \<exists>(n, c) \<in> set (Clusters cfg). host_of g c = Inr h}"
      "\<forall>h t. map_of ts h = Some t \<longleftrightarrow> (\<exists>(n, ctx) \<in> set (Contexts cfg). login g cfg ctx = Some (h, t))"
    using LoadTokens_spec [OF v] by blast
  have rs: "sorted (map Domain' rs)" "distinct (map Domain' rs)"
      "Domain' ` set rs = {h. \<exists>(n, c) \<in> set (Clusters cfg). host_of g c = Inr h}"
      "\<forall>r \<in> set rs. \<exists>(n, c) \<in> set (Clusters cfg). host_of g c = Inr (Domain' r) \<and> r = kube_route g (Domain' r) path c"
    using BuildProxyRoutes_spec [OF v assms(2) path] assms(3) by auto
  have auth: "\<forall>(n, a) \<in> set (AuthInfos cfg). token_only a"
    using v unfolding Validate_Inr by blast
  have "Injector r = InjectorKubernetes \<and> KubeconfigPath r = path \<and> (\<exists>t. map_of ts (Domain' r) = Some t \<and> t \<noteq> [])"
    if r: "r \<in> set rs" for r
  proof -
    obtain c where "r = kube_route g (Domain' r) path c" using rs(4) r by blast
    then have "Injector r = InjectorKubernetes" "KubeconfigPath r = path"
      by (metis kube_route_def proxy_route.select_convs(2,3))+
    moreover have "Domain' r \<in> fst ` set ts" using ts(2) rs(3) r by blast
    then obtain t where t: "map_of ts (Domain' r) = Some t" by (metis dom_map_of_conv_image_fst domD)
    moreover have "t \<noteq> []" using ts(3) t login_token [OF auth] by blast
    ultimately show ?thesis by blast
  qed
  then show ?thesis using ts(1,2) rs(1-3) by auto
qed

section \<open>Laws: allowlist domains\<close>

lemma Contains_mem: "Contains s p \<Longrightarrow> c \<in> set p \<Longrightarrow> c \<in> set s"
  by (auto simp: Contains_iff)

definition hostport_byte :: "char \<Rightarrow> bool" where
  "hostport_byte c = (is_hex c \<or> dns_byte c \<or> c \<in> set ''.:[]'')"

lemma hostport_bytes:
  assumes "valid_host h" "port_string p"
  shows "\<forall>c \<in> set (JoinHostPort h p). hostport_byte c"
proof -
  have "\<forall>c \<in> set p. is_digit c"
    using assms(2) nat_digits_digits by (fastforce simp: port_string_def Itoa_def list_all_iff)
  then show ?thesis
    using valid_host_byte [OF assms(1)] digit_is_hex by (auto simp: JoinHostPort_def hostport_byte_def)
qed

lemma hostport_byte_props:
  assumes "hostport_byte c"
  shows "is_ascii c" "\<not> ascii_space c" "c \<noteq> CHR ''/''" "c \<noteq> CHR ''*''"
  using assms
  by (auto simp: hostport_byte_def is_hex_def dns_byte_def is_ascii_def ascii_space_def is_digit_def is_lower_def)

lemma ParseAllowlistDomain_fix:
  assumes h: "canonical_host g h" "valid_host h" and p: "port_string p"
  shows "ParseAllowlistDomain g (JoinHostPort h p) = Inr (JoinHostPort h p)"
proof -
  let ?hp = "JoinHostPort h p"
  note b = hostport_byte_props [OF bspec [OF hostport_bytes [OF h(2) p]]]
  have ne: "?hp \<noteq> []" by (simp add: JoinHostPort_def)
  have "trimmed ?hp"
    using b(1,2) ne by (intro ends_trimmed) (auto simp: list_all_iff)
  then have t: "TrimSpace ?hp = ?hp" by simp
  have no: "\<not> Contains ?hp ''://''" "CHR ''/'' \<notin> set ?hp" "CHR ''*'' \<notin> set ?hp"
    using b(3,4) Contains_mem [of ?hp "''://''" "CHR ''/''"] by auto
  have dot: "\<not> HasPrefix ?hp ''.''"
    using h(1) by (cases h) (auto simp: canonical_host_def JoinHostPort_def HasPrefix_byte)
  have sp: "SplitHostPort ?hp = Inr (h, p)"
    using h(1) port_string_props [OF p] by (simp add: canonical_host_def)
  have "CanonicalHostPort g ?hp = Inr ?hp"
    using h(1) p by (intro canonical_fix) (auto simp: canonical_def)
  then show ?thesis
    using t ne no dot sp h(2) validateAllowlistHost_Inr [of g ?hp h "()"]
    by (simp add: ParseAllowlistDomain_def)
qed

section \<open>A concrete kubeconfig\<close>

definition sample_kconfig :: kconfig where
  "sample_kconfig =
     \<lparr>Clusters = [(''prod'', \<lparr>Server = ''https://API.example.com'', CertificateAuthorityData = ''pem'',
                     CertificateAuthority = [], InsecureSkipTLSVerify = False\<rparr>)],
      AuthInfos = [(''sa'', \<lparr>ClientCertificateData = [], ClientCertificate = [], ClientKeyData = [], ClientKey = [],
                     Exec = False, AuthProvider = False, Username = [], Password = [], TokenFile = [],
                     Token = ''t1''\<rparr>)],
      Contexts = [(''prod'', \<lparr>ctx_Cluster = ''prod'', ctx_AuthInfo = ''sa'', ctx_Namespace = ''ns''\<rparr>)],
      CurrentContext = ''prod''\<rparr>"

definition two_clusters :: kconfig where
  "two_clusters = sample_kconfig\<lparr>
     Clusters := Clusters sample_kconfig @ [(''stage'', \<lparr>Server = ''https://stage:6443'', CertificateAuthorityData = [],
                     CertificateAuthority = [], InsecureSkipTLSVerify = False\<rparr>)]\<rparr>"

definition sample_load :: "string \<Rightarrow> kconfig result" where
  "sample_load s =
     (if s = ''admin'' then Inr sample_kconfig
      else if s = ''rotated'' then Inr (with_secrets (\<lambda>_. ''t2'') (\<lambda>_. ''pem2'') sample_kconfig)
      else if s = ''dummy'' then Inr (sanitize_config ''proxy'' sample_kconfig)
      else Inl (Err ''unknown''))"

definition sample_write :: "kconfig \<Rightarrow> string result" where
  "sample_write c = (if c = sanitize_config ''proxy'' sample_kconfig then Inr ''dummy'' else Inl (Err ''no space''))"

lemma sample_valid: "Validate ascii_lib sample_load ''admin'' = Inr sample_kconfig"
  by code_simp

lemma sample_rotated:
  "Validate ascii_lib sample_load ''rotated'' = Inr (with_secrets (\<lambda>_. ''t2'') (\<lambda>_. ''pem2'') sample_kconfig)"
  by code_simp

lemma sample_wf: "wf_kconfig sample_kconfig"
  by code_simp

lemma ascii_lib_lower_ok: "lower_ok ascii_lib"
  using lower_byte_cases by (fastforce simp: lower_ok_def ascii_lib_def)

section \<open>Properties\<close>

text \<open>
  \<open>CanonicalHostPort\<close> is idempotent on ASCII input: the canonical form of a host:port is its
  own canonical form, so a stored route key is found again when it is canonicalised for matching.
\<close>

theorem canonical_idempotent:
  assumes "list_all is_ascii s" "CanonicalHostPort g s = Inr r"
  shows "CanonicalHostPort g r = Inr r"
  using canonical_fix [OF CanonicalHostPort_canonical [OF assms]] .

theorem canonical_idempotent_witness:
  "CanonicalHostPort ascii_lib ''api.example.com:443'' = Inr ''api.example.com:443''"
  by (rule canonical_idempotent [of "'' API.Example.com:0443''"]) code_simp+

text \<open>
  An accepted allowlist domain is stored as a fixed point of both parsers: its host is an IP
  or a DNS name, its port is a number from 1 to 65535, and reading it back changes nothing.
\<close>

theorem allowlist_domain_stable:
  assumes "lower_ok g" "ParseAllowlistDomain g domain = Inr hp"
  shows "ParseAllowlistDomain g hp = Inr hp \<and> CanonicalHostPort g hp = Inr hp \<and>
    (\<exists>host n. valid_host host \<and> 1 \<le> n \<and> n \<le> 65535 \<and> hp = JoinHostPort host (Itoa n))"
proof -
  obtain h p where hp: "canonical_host g h" "valid_host h" "port_string p" "hp = JoinHostPort h p"
    using ParseAllowlistDomain_canonical [OF assms] by blast
  then have "CanonicalHostPort g hp = Inr hp"
    by (intro canonical_fix) (auto simp: canonical_def)
  then show ?thesis
    using hp ParseAllowlistDomain_fix by (auto simp: port_string_def)
qed

theorem allowlist_domain_stable_witness:
  "ParseAllowlistDomain ascii_lib ''pypi.org:443'' = Inr ''pypi.org:443''"
proof -
  have "ParseAllowlistDomain ascii_lib ''PyPI.org'' = Inr ''pypi.org:443''" by code_simp
  from allowlist_domain_stable [OF ascii_lib_lower_ok this] show ?thesis by simp
qed



text \<open>
  C15. \<open>Validate\<close> accepts exactly the kubeconfigs of its contract: token-only users, https servers
  that verify TLS, one CA and one token per server host:port, contexts that resolve, and a context
  for every cluster. Neither check is missing and none refuses more than the contract.
\<close>

theorem validate_contract:
  assumes "wf_kconfig cfg"
  shows "Validate g load data = Inr cfg \<longleftrightarrow> load data = Inr cfg \<and> valid_kconfig g cfg"
  by (rule Validate_spec [OF assms])

theorem validate_contract_witness:
  "valid_kconfig ascii_lib sample_kconfig"
  using validate_contract [OF sample_wf, of ascii_lib sample_load "''admin''"] sample_valid by simp

text \<open>
  The verdict of \<open>Validate\<close> does not depend on the order in which the runtime iterates over
  the cluster, user and context maps.
\<close>

theorem validate_order_independent:
  assumes "wf_kconfig cfg" "mset (Clusters cfg) = mset (Clusters cfg')"
    "mset (AuthInfos cfg) = mset (AuthInfos cfg')" "mset (Contexts cfg) = mset (Contexts cfg')"
  shows "Validate g (\<lambda>_. Inr cfg) data = Inr cfg \<longleftrightarrow> Validate g (\<lambda>_. Inr cfg') data = Inr cfg'"
  using same_set_valid [OF assms, of g] by (simp add: Validate_spec assms(1))

theorem validate_order_independent_witness:
  "Validate ascii_lib (\<lambda>_. Inr two_clusters) [] = Inr two_clusters \<longleftrightarrow>
   Validate ascii_lib (\<lambda>_. Inr (two_clusters\<lparr>Clusters := rev (Clusters two_clusters)\<rparr>)) [] =
     Inr (two_clusters\<lparr>Clusters := rev (Clusters two_clusters)\<rparr>)"
  by (rule validate_order_independent) (simp add: two_clusters_def sample_kconfig_def wf_kconfig_def, simp_all)

text \<open>
  C23. Every route that \<open>BuildProxyRoutes\<close> emits has a nonempty token under its own domain in
  \<open>LoadTokens\<close> of the same bytes, and every host with a token has a route; the routes are sorted,
  without duplicates, and all carry the kubernetes injector and the given path.
\<close>

theorem routes_match_tokens:
  assumes "load data = Inr cfg" "wf_kconfig cfg" "BuildProxyRoutes g load data path = Inr rs"
  shows "\<exists>ts. LoadTokens g load data = Inr ts \<and> Domain' ` set rs = fst ` set ts \<and>
    sorted (map Domain' rs) \<and> distinct (map Domain' rs) \<and>
    (\<forall>r \<in> set rs. Injector r = InjectorKubernetes \<and> KubeconfigPath r = path \<and>
       (\<exists>t. map_of ts (Domain' r) = Some t \<and> t \<noteq> []))"
  by (rule BuildProxyRoutes_tokens [OF assms])

theorem routes_match_tokens_witness:
  "\<exists>ts. LoadTokens ascii_lib sample_load ''admin'' = Inr ts \<and> fst ` set ts = {''api.example.com:443''}"
proof -
  have "BuildProxyRoutes ascii_lib sample_load ''admin'' ''/k'' =
      Inr [\<lparr>Domain' = ''api.example.com:443'', Injector = ''kubernetes'', KubeconfigPath = ''/k'', CACert = ''pem''\<rparr>]"
    by code_simp
  moreover have "sample_load ''admin'' = Inr sample_kconfig" by (simp add: sample_load_def)
  ultimately show ?thesis using routes_match_tokens [OF _ sample_wf] by fastforce
qed

text \<open>
  C19. The dummy kubeconfig carries no credential: whatever tokens and CAs the kubeconfig holds,
  \<open>Sanitize\<close> returns the same bytes.
\<close>

theorem sanitize_hides_credentials:
  assumes "Validate g load data = Inr cfg" "Validate g load data' = Inr (with_secrets tok crt cfg)"
  shows "Sanitize g load write data' pem = Sanitize g load write data pem"
  by (simp add: Sanitize_def assms sanitize_with_secrets)

theorem sanitize_hides_credentials_witness:
  "Sanitize ascii_lib sample_load sample_write ''rotated'' ''proxy'' = Sanitize ascii_lib sample_load sample_write ''admin'' ''proxy''"
  by (rule sanitize_hides_credentials [OF sample_valid sample_rotated])

text \<open>
  The dummy kubeconfig is usable: when \<open>clientcmd.Load\<close> reads back what \<open>clientcmd.Write\<close>
  wrote, the sanitized bytes validate, name the same server hosts, and every token is the dummy.
\<close>

theorem sanitize_dummy_tokens:
  assumes "\<forall>c out. write c = Inr out \<longrightarrow> load out = Inr c" "wf_kconfig cfg"
    and v: "Validate g load data = Inr cfg" and s: "Sanitize g load write data pem = Inr out"
  shows "\<exists>ts ts'. LoadTokens g load data = Inr ts \<and> LoadTokens g load out = Inr ts' \<and>
    fst ` set ts' = fst ` set ts \<and> (\<forall>h t. map_of ts' h = Some t \<longrightarrow> t = DummyToken)"
proof -
  let ?c = "sanitize_config pem cfg"
  have "write ?c = Inr out"
    using s v by (auto simp: Sanitize_def split: if_splits sum.splits)
  then have "load out = Inr ?c" using assms(1) by blast
  then have v': "Validate g load out = Inr ?c"
    using v valid_sanitize by (simp add: Validate_spec assms(2) wf_sanitize)
  obtain ts where ts: "LoadTokens g load data = Inr ts"
      "fst ` set ts = {h. \<exists>(n, c) \<in> set (Clusters cfg). host_of g c = Inr h}"
    using LoadTokens_spec [OF v] by blast
  obtain ts' where ts': "LoadTokens g load out = Inr ts'"
      "fst ` set ts' = {h. \<exists>(n, c) \<in> set (Clusters ?c). host_of g c = Inr h}"
      "\<forall>h t. map_of ts' h = Some t \<longleftrightarrow> (\<exists>(n, ctx) \<in> set (Contexts ?c). login g ?c ctx = Some (h, t))"
    using LoadTokens_spec [OF v'] by blast
  have "fst ` set ts' = fst ` set ts" unfolding ts(2) ts'(2) by (simp add: case_prod_beta')
  moreover have "t = DummyToken" if "map_of ts' h = Some t" for h t
    using that ts'(3) by (auto simp: login_sanitize)
  ultimately show ?thesis using ts(1) ts'(1) by blast
qed


theorem sanitize_dummy_tokens_witness:
  "\<exists>ts. LoadTokens ascii_lib sample_load ''dummy'' = Inr ts \<and> (\<forall>h t. map_of ts h = Some t \<longrightarrow> t = DummyToken)"
proof -
  have "\<forall>c out. sample_write c = Inr out \<longrightarrow> sample_load out = Inr c"
    by (simp add: sample_write_def sample_load_def)
  moreover have "Sanitize ascii_lib sample_load sample_write ''admin'' ''proxy'' = Inr ''dummy''"
    by (simp add: Sanitize_def sample_valid sample_write_def)
  ultimately show ?thesis
    using sanitize_dummy_tokens [OF _ sample_wf sample_valid] by blast
qed

end
