(* ===== verification/CredProxy.thy ===== *)
theory CredProxy
  imports Kubeconfig
begin

text \<open>
  Package \<open>pkg/proxy\<close>: the credential proxy. Route tables (\<open>config.go\<close>, \<open>pem.go\<close>, \<open>ca.go\<close>), header
  stripping and the Kubernetes path filter (\<open>strip.go\<close>), injectors (\<open>injector.go\<close>), upstream
  trust (\<open>transport.go\<close>) and the request handlers that \<open>server.go\<close> hangs into goproxy.

  The JSON decoder and the file system are the arguments \<open>decode\<close> and \<open>read_file\<close>. A request is
  reduced to what the handlers read and write; the HTTP server always sets \<open>req.URL\<close>. Log calls
  are left out.
\<close>

section \<open>config.go, pem.go\<close>

definition pemCertOK :: "golib \<Rightarrow> string \<Rightarrow> bool" where
  "pemCertOK g raw =
     (case pem_Decode g raw of
        None \<Rightarrow> False
      | Some (ty, der) \<Rightarrow> ty = ''CERTIFICATE'' \<and> isr (x509_ParseCertificate g der))"

definition validateCACert :: "golib \<Rightarrow> string \<Rightarrow> unit result" where
  "validateCACert g encoded =
     (if encoded = [] then Inr ()
      else
        (case base64_Decode g encoded of
           Inl e \<Rightarrow> Inl (Wrap ''decode caCert'' e)
         | Inr raw \<Rightarrow>
             if \<not> pemCertOK g raw then Inl (Err ''caCert is not a PEM certificate'') else Inr ()))"

definition prepareRoute :: "golib \<Rightarrow> proxy_route \<Rightarrow> proxy_route result" where
  "prepareRoute g route =
     (case CanonicalHostPort g (Domain' route) of
        Inl e \<Rightarrow> Inl e
      | Inr host \<Rightarrow>
          let route' = route\<lparr>Domain' := host\<rparr> in
          if Injector route = InjectorKubernetes then
            (if KubeconfigPath route = [] then
               Inl (Err (''kubernetes route '' @ host @ '' requires kubeconfigPath''))
             else
               (case validateCACert g (CACert route) of
                  Inl e \<Rightarrow> Inl (Wrap (''kubernetes route '' @ host) e)
                | Inr _ \<Rightarrow> Inr route'))
          else if Injector route = InjectorNone then Inr route'
          else Inl (Err (''unknown injector '' @ Quote g (Injector route))))"

record config =
  Routes :: "proxy_route list"
  byHost :: "(string \<times> proxy_route) list"

fun index_routes :: "golib \<Rightarrow> nat \<Rightarrow> proxy_route list \<Rightarrow> config \<Rightarrow> config result" where
  "index_routes g i [] c = Inr c"
| "index_routes g i (r # rs) c =
     (case prepareRoute g r of
        Inl e \<Rightarrow> Inl (Wrap (''route '' @ Itoa (int i)) e)
      | Inr prepared \<Rightarrow>
          if map_of (byHost c) (Domain' prepared) \<noteq> None then
            Inl (Err (''duplicate domain '' @ Domain' prepared))
          else
            index_routes g (Suc i) rs
              (c\<lparr>Routes := (Routes c)[i := prepared], byHost := byHost c @ [(Domain' prepared, prepared)]\<rparr>))"

definition index :: "golib \<Rightarrow> proxy_route list \<Rightarrow> config result" where
  "index g routes =
     (if routes = [] then Inl (Err ''config has no routes'')
      else index_routes g 0 routes \<lparr>Routes = routes, byHost = []\<rparr>)"

text \<open>\<open>decode\<close> is the JSON decoder with unknown fields refused: the routes and \<open>dec.More()\<close>.\<close>

definition ParseConfig :: "golib \<Rightarrow> (string \<Rightarrow> (proxy_route list \<times> bool) result) \<Rightarrow> string \<Rightarrow> config result" where
  "ParseConfig g decode data =
     (case decode data of
        Inl e \<Rightarrow> Inl (Wrap ''parse config'' e)
      | Inr (routes, trailing) \<Rightarrow>
          if trailing then Inl (Err ''parse config: trailing data'') else index g routes)"

definition LoadConfig :: "golib \<Rightarrow> (string \<Rightarrow> (proxy_route list \<times> bool) result) \<Rightarrow> (string \<Rightarrow> string result)
    \<Rightarrow> string \<Rightarrow> config result" where
  "LoadConfig g decode read_file path =
     (case read_file path of
        Inl e \<Rightarrow> Inl (Wrap ''read config'' e)
      | Inr data \<Rightarrow> ParseConfig g decode data)"

definition Match :: "golib \<Rightarrow> config \<Rightarrow> string \<Rightarrow> proxy_route option" where
  "Match g c host =
     (case CanonicalHostPort g host of Inl _ \<Rightarrow> None | Inr key \<Rightarrow> map_of (byHost c) key)"

section \<open>ca.go\<close>

definition parseCertPEM :: "golib \<Rightarrow> string \<Rightarrow> certificate result" where
  "parseCertPEM g certPEM =
     (case pem_Decode g certPEM of
        None \<Rightarrow> Inl (Err ''failed to decode certificate PEM'')
      | Some (_, der) \<Rightarrow>
          (case x509_ParseCertificate g der of
             Inl e \<Rightarrow> Inl (Wrap ''parse certificate'' e)
           | Inr cert \<Rightarrow> Inr cert))"

definition parseKeyPEM :: "golib \<Rightarrow> string \<Rightarrow> private_key result" where
  "parseKeyPEM g keyPEM =
     (case pem_Decode g keyPEM of
        None \<Rightarrow> Inl (Err ''failed to decode key PEM'')
      | Some (_, der) \<Rightarrow>
          (case x509_ParseECPrivateKey g der of
             Inr key \<Rightarrow> Inr key
           | Inl _ \<Rightarrow>
               (case x509_ParsePKCS8PrivateKey g der of
                  Inl e \<Rightarrow> Inl (Wrap ''parse key'' e)
                | Inr None \<Rightarrow> Inl (Err ''CA key is not ECDSA'')
                | Inr (Some key) \<Rightarrow> Inr key)))"

definition parseCA :: "golib \<Rightarrow> string \<Rightarrow> string \<Rightarrow> (certificate \<times> private_key) result" where
  "parseCA g certPEM keyPEM =
     (case parseCertPEM g certPEM of
        Inl e \<Rightarrow> Inl (Wrap ''parse CA'' e)
      | Inr cert \<Rightarrow>
          if \<not> IsCA cert then Inl (Err ''parse CA: certificate has IsCA=false'')
          else if \<not> bit (KeyUsage cert) 5 then
            Inl (Err ''parse CA: certificate missing KeyUsageCertSign'')
          else
            (case parseKeyPEM g keyPEM of
               Inl e \<Rightarrow> Inl (Wrap ''parse CA'' e)
             | Inr key \<Rightarrow>
                 if Curve key \<noteq> ''P-256'' then Inl (Err ''parse CA: private key is not P-256'')
                 else if PublicKey cert = OtherPublicKey \<or> PublicKey cert \<noteq> Public key then
                   Inl (Err ''parse CA: private key does not match certificate'')
                 else Inr (cert, key)))"

section \<open>strip.go\<close>

record request =
  URL_Scheme :: string
  URL_Host :: string
  EscapedPath :: string
  req_Host :: string
  Header :: header

definition authHeaders :: "string list" where
  "authHeaders =
     [''Authorization'', ''Cookie'', ''X-Api-Key'', ''X-Goog-Api-Key'', ''Proxy-Authorization'',
      ''Impersonate-User'', ''Impersonate-Group'', ''Impersonate-Uid'']"

definition impersonate_extra :: "golib \<Rightarrow> string \<Rightarrow> bool" where
  "impersonate_extra g key = HasPrefix (ToLower (uni_lower g) key) ''impersonate-extra-''"

definition stripAuthHeaders :: "golib \<Rightarrow> request \<Rightarrow> request" where
  "stripAuthHeaders g req =
     (let h1 = fold (\<lambda>k h. Header_Del h k) authHeaders (Header req);
          h2 = fold (\<lambda>k h. if impersonate_extra g k then Header_Del h k else h) (map fst h1) h1
      in req\<lparr>Header := h2\<rparr>)"

definition stripResponseCookies :: "header \<Rightarrow> header" where
  "stripResponseCookies h = Header_Del h ''Set-Cookie''"

definition parseKubePath :: "string \<Rightarrow> string \<times> string" where
  "parseKubePath cleanPath =
     (let parts = Split (CHR ''/'') (Trim cleanPath (CHR ''/'')) in
      if length parts < 3 \<or> (hd parts \<noteq> ''api'' \<and> hd parts \<noteq> ''apis'') then ([], [])
      else
        let prefix = hd parts; parts1 = tl parts in
        if prefix = ''apis'' \<and> length parts1 < 3 then ([], [])
        else
          let parts2 = (if prefix = ''apis'' then tl parts1 else parts1); parts3 = tl parts2 in
          if parts3 = [] then ([], [])
          else
            let special = (hd parts3 = ''proxy'' \<or> hd parts3 = ''watch'') in
            if special \<and> length parts3 < 2 then ([], [])
            else
              let verb = (if special then hd parts3 else []);
                  parts4 = (if special then tl parts3 else parts3);
                  parts5 = (if length parts4 > 2 \<and> hd parts4 = ''namespaces'' \<and> parts4 ! 2 \<noteq> ''status'' \<and>
                               parts4 ! 2 \<noteq> ''finalize''
                            then drop 2 parts4 else parts4)
              in if verb = ''proxy'' \<or> length parts5 < 3 then ([], verb) else (parts5 ! 2, verb))"

definition deniedKubePath :: "string \<Rightarrow> bool" where
  "deniedKubePath urlPath =
     (let clean = path_Clean (''/'' @ TrimPrefix urlPath ''/'') in
      if clean = ''/'' \<or> clean = ''.'' then False
      else
        let (subresource, verb) = parseKubePath clean in
        verb = ''proxy'' \<or>
        subresource \<in> set [''exec'', ''attach'', ''portforward'', ''proxy'', ''ephemeralcontainers''])"

definition kubePathDenied :: "string \<Rightarrow> bool" where
  "kubePathDenied urlPath =
     (if deniedKubePath urlPath then True
      else
        (case PathUnescape urlPath of
           None \<Rightarrow> False
         | Some unescaped \<Rightarrow> if unescaped = urlPath then False else deniedKubePath unescaped))"

section \<open>injector.go\<close>

datatype request_injector = NoneInjector | KubernetesInjector "(string \<times> string) list"

definition newKubernetesInjector :: "golib \<Rightarrow> (string \<Rightarrow> kconfig result) \<Rightarrow> (string \<Rightarrow> string result) \<Rightarrow>
    string \<Rightarrow> (string \<times> string) list result" where
  "newKubernetesInjector g load read_file path =
     (case read_file path of
        Inl e \<Rightarrow> Inl (Wrap ''read kubeconfig'' e)
      | Inr data \<Rightarrow>
          (case LoadTokens g load data of
             Inl e \<Rightarrow> Inl (Wrap ''kubeconfig'' e)
           | Inr tokens \<Rightarrow> Inr tokens))"

definition requestHost :: "request \<Rightarrow> string" where
  "requestHost req = (if URL_Host req \<noteq> [] then URL_Host req else req_Host req)"

definition Inject :: "golib \<Rightarrow> request_injector \<Rightarrow> request \<Rightarrow> request result" where
  "Inject g ij req =
     (case ij of
        NoneInjector \<Rightarrow> Inr req
      | KubernetesInjector tokens \<Rightarrow>
          (case CanonicalHostPort g (requestHost req) of
             Inl e \<Rightarrow> Inl (Wrap ''request host'' e)
           | Inr host \<Rightarrow>
               (case map_of tokens host of
                  None \<Rightarrow> Inl (Err (''no token for host '' @ host))
                | Some t \<Rightarrow>
                    if t = [] then Inl (Err (''no token for host '' @ host))
                    else Inr (req\<lparr>Header := Header_Set (Header req) ''Authorization'' (''Bearer '' @ t)\<rparr>))))"

section \<open>transport.go\<close>

text \<open>A pool is the system pool or a pool holding only the PEM bytes appended to it.\<close>

datatype cert_pool = SystemPool | PinnedPool string

definition pinnedCAPool :: "golib \<Rightarrow> string \<Rightarrow> cert_pool result" where
  "pinnedCAPool g encoded =
     (case base64_Decode g encoded of
        Inl e \<Rightarrow> Inl (Wrap ''decode caCert'' e)
      | Inr raw \<Rightarrow>
          if \<not> AppendCertsFromPEM g raw then Inl (Err ''caCert is not a PEM certificate'')
          else Inr (PinnedPool raw))"

text \<open>\<open>system\<close> is the pointer through which the system pool is loaded once.\<close>

definition systemPool :: "golib \<Rightarrow> cert_pool option \<Rightarrow> (cert_pool \<times> cert_pool option) result" where
  "systemPool g system =
     (case system of
        Some p \<Rightarrow> Inr (p, system)
      | None \<Rightarrow>
          (case SystemCertPool g of
             Inl e \<Rightarrow> Inl (Wrap ''load system cert pool'' e)
           | Inr nonnil \<Rightarrow>
               if \<not> nonnil then Inl (Err ''system cert pool is empty'')
               else Inr (SystemPool, Some SystemPool)))"

definition certPool :: "golib \<Rightarrow> proxy_route \<Rightarrow> cert_pool option \<Rightarrow> (cert_pool \<times> cert_pool option) result" where
  "certPool g route system =
     (if Injector route = InjectorKubernetes then
        (if CACert route \<noteq> [] then map_sum id (\<lambda>p. (p, system)) (pinnedCAPool g (CACert route))
         else systemPool g system)
      else if Injector route = InjectorNone then systemPool g system
      else Inl (Err (''unknown injector '' @ Quote g (Injector route))))"

fun newHostTransport :: "golib \<Rightarrow> (string \<times> proxy_route) list \<Rightarrow> cert_pool option \<Rightarrow>
    (string \<times> cert_pool) list result" where
  "newHostTransport g [] system = Inr []"
| "newHostTransport g ((host, route) # rest) system =
     (case certPool g route system of
        Inl e \<Rightarrow> Inl (Wrap (''route '' @ host) e)
      | Inr (pool, system') \<Rightarrow>
          map_sum id (Cons (host, pool)) (newHostTransport g rest system'))"

record tls_dial =
  RootCAs :: cert_pool
  ServerName :: string
  Addr :: string

definition dialTLS :: "golib \<Rightarrow> (string \<times> cert_pool) list \<Rightarrow> string \<Rightarrow> tls_dial result" where
  "dialTLS g pools addr =
     (case CanonicalHostPort g addr of
        Inl e \<Rightarrow> Inl (Wrap ''upstream host'' e)
      | Inr host \<Rightarrow>
          (case map_of pools host of
             None \<Rightarrow> Inl (Err (''no upstream CA for '' @ host))
           | Some pool \<Rightarrow>
               (case SplitHostPort host of
                  Inl e \<Rightarrow> Inl e
                | Inr (serverName, _) \<Rightarrow>
                    Inr \<lparr>RootCAs = pool, ServerName = serverName, Addr = addr\<rparr>)))"

section \<open>server.go\<close>

type_synonym injector_cache = "(string \<times> (string \<times> string) list) list"

definition cachedKubernetesInjector :: "golib \<Rightarrow> (string \<Rightarrow> kconfig result) \<Rightarrow> (string \<Rightarrow> string result) \<Rightarrow>
    injector_cache \<Rightarrow> string \<Rightarrow> ((string \<times> string) list \<times> injector_cache) result" where
  "cachedKubernetesInjector g load read_file cache path =
     (case map_of cache path of
        Some ij \<Rightarrow> Inr (ij, cache)
      | None \<Rightarrow>
          (case newKubernetesInjector g load read_file path of
             Inl e \<Rightarrow> Inl e
           | Inr ij \<Rightarrow> Inr (ij, (path, ij) # cache)))"

fun newInjectors :: "golib \<Rightarrow> (string \<Rightarrow> kconfig result) \<Rightarrow> (string \<Rightarrow> string result) \<Rightarrow>
    (string \<times> proxy_route) list \<Rightarrow> injector_cache \<Rightarrow> (string \<times> request_injector) list result" where
  "newInjectors g load read_file [] cache = Inr []"
| "newInjectors g load read_file ((host, route) # rest) cache =
     (if Injector route = InjectorNone then
        map_sum id (Cons (host, NoneInjector)) (newInjectors g load read_file rest cache)
      else if Injector route = InjectorKubernetes then
        (case cachedKubernetesInjector g load read_file cache (KubeconfigPath route) of
           Inl e \<Rightarrow> Inl e
         | Inr (ij, cache') \<Rightarrow>
             if map_of ij host = None then Inl (Err (''route '' @ host @ '' has no token''))
             else map_sum id (Cons (host, KubernetesInjector ij)) (newInjectors g load read_file rest cache'))
      else Inl (Err (''unknown injector '' @ Quote g (Injector route))))"

record route_table =
  rt_cfg :: config
  injectors :: "(string \<times> request_injector) list"
  transport :: "(string \<times> cert_pool) list"

definition newRouteTable :: "golib \<Rightarrow> (string \<Rightarrow> kconfig result) \<Rightarrow> (string \<Rightarrow> string result) \<Rightarrow>
    config \<Rightarrow> route_table result" where
  "newRouteTable g load read_file c =
     (case newHostTransport g (byHost c) None of
        Inl e \<Rightarrow> Inl e
      | Inr tr \<Rightarrow>
          (case newInjectors g load read_file (byHost c) [] of
             Inl e \<Rightarrow> Inl e
           | Inr ij \<Rightarrow> Inr \<lparr>rt_cfg = c, injectors = ij, transport = tr\<rparr>))"

definition NewServer :: "golib \<Rightarrow> (string \<Rightarrow> kconfig result) \<Rightarrow> (string \<Rightarrow> string result) \<Rightarrow>
    config option \<Rightarrow> string \<Rightarrow> string \<Rightarrow> route_table result" where
  "NewServer g load read_file c caCertPEM caKeyPEM =
     (case c of
        None \<Rightarrow> Inl (Err ''config is not loaded'')
      | Some conf \<Rightarrow>
          (case parseCA g caCertPEM caKeyPEM of
             Inl e \<Rightarrow> Inl e
           | Inr _ \<Rightarrow> newRouteTable g load read_file conf))"

datatype connect_action = ConnectMitm string | ConnectReject string nat string

definition handle_connect :: "golib \<Rightarrow> route_table \<Rightarrow> string \<Rightarrow> connect_action" where
  "handle_connect g t host =
     (case Match g (rt_cfg t) host of
        None \<Rightarrow> ConnectReject host 403 ''domain not allowed''
      | Some _ \<Rightarrow> ConnectMitm host)"

datatype verdict = Forward request | Reply request nat string

definition handle :: "golib \<Rightarrow> route_table \<Rightarrow> request \<Rightarrow> verdict" where
  "handle g t req =
     (case Match g (rt_cfg t) (requestHost req) of
        None \<Rightarrow> Reply req 403 ''domain not allowed''
      | Some route \<Rightarrow>
          let req1 = stripAuthHeaders g req in
          if Injector route = InjectorKubernetes \<and> kubePathDenied (EscapedPath req1) then
            Reply req1 403 ''path not allowed''
          else if Injector route = InjectorKubernetes \<and> URL_Scheme req1 \<noteq> ''https'' then
            Reply req1 403 ''https required''
          else
            (case map_of (injectors t) (Domain' route) of
               None \<Rightarrow> Reply req1 502 ''credential injection failed''
             | Some ij \<Rightarrow>
                 (case Inject g ij req1 of
                    Inl _ \<Rightarrow> Reply req1 502 ''credential injection failed''
                  | Inr req2 \<Rightarrow>
                      Forward (req2\<lparr>Header := Header_Del (Header_Del (Header req2) ''Via'') ''X-Forwarded-For''\<rparr>))))"

section \<open>Laws: headers\<close>

lemma map_of_Header_Del [simp]:
  "map_of (Header_Del h k) k' = (if k' = CanonicalHeaderKey k then None else map_of h k')"
  by (induction h) (auto simp: Header_Del_def)

lemma map_of_Header_Set [simp]:
  "map_of (Header_Set h k v) k' = (if k' = CanonicalHeaderKey k then Some [v] else map_of h k')"
  by (auto simp: Header_Set_def map_add_def split: option.splits)

lemma map_of_fold_Del:
  "map_of (fold (\<lambda>k h. if P k then Header_Del h k else h) ks h) k' =
     (if \<exists>k \<in> set ks. P k \<and> CanonicalHeaderKey k = k' then None else map_of h k')"
  by (induction ks arbitrary: h) auto

definition canonical_keys :: "header \<Rightarrow> bool" where
  "canonical_keys h = list_all (\<lambda>e. CanonicalHeaderKey (fst e) = fst e) h"

lemma keys_fold_Del: "set (fold (\<lambda>k h. if P k then Header_Del h k else h) ks h) \<subseteq> set h"
proof (induction ks arbitrary: h)
  case (Cons k ks)
  have "set (if P k then Header_Del h k else h) \<subseteq> set h" by (auto simp: Header_Del_def)
  with Cons [of "if P k then Header_Del h k else h"] show ?case by (simp only: fold_simps)
qed simp

lemma authHeaders_canonical: "map CanonicalHeaderKey authHeaders = authHeaders"
  by code_simp

lemma stripAuthHeaders_map_of:
  assumes "canonical_keys (Header req)"
  shows "map_of (Header (stripAuthHeaders g req)) k =
    (if k \<in> set authHeaders \<or> impersonate_extra g k then None else map_of (Header req) k)"
proof -
  let ?h1 = "fold (\<lambda>k h. if True then Header_Del h k else h) authHeaders (Header req)"
  have "set authHeaders = CanonicalHeaderKey ` set authHeaders"
    using authHeaders_canonical by (metis set_map)
  then have h1: "map_of ?h1 k' = (if k' \<in> set authHeaders then None else map_of (Header req) k')" for k'
    unfolding map_of_fold_Del by (metis image_iff)
  have canon: "CanonicalHeaderKey k' = k'" if "k' \<in> fst ` set ?h1" for k'
    using that assms keys_fold_Del [of "\<lambda>_. True" authHeaders "Header req"]
    by (auto simp: canonical_keys_def list_all_iff)
  have "map_of (Header (stripAuthHeaders g req)) k =
      (if \<exists>k' \<in> fst ` set ?h1. impersonate_extra g k' \<and> CanonicalHeaderKey k' = k then None else map_of ?h1 k)"
    by (auto simp: stripAuthHeaders_def map_of_fold_Del Let_def)
  also have "\<dots> = (if impersonate_extra g k then None else map_of ?h1 k)"
    using canon by (metis map_of_eq_None_iff)
  finally show ?thesis using h1 by simp
qed

lemma stripAuthHeaders_simps [simp]:
  "URL_Scheme (stripAuthHeaders g req) = URL_Scheme req" "URL_Host (stripAuthHeaders g req) = URL_Host req"
  "EscapedPath (stripAuthHeaders g req) = EscapedPath req" "req_Host (stripAuthHeaders g req) = req_Host req"
  "requestHost (stripAuthHeaders g req) = requestHost req"
  by (simp_all add: stripAuthHeaders_def requestHost_def Let_def)

section \<open>Laws: route tables\<close>

lemma prepareRoute_Inr:
  "prepareRoute g r = Inr p \<Longrightarrow>
     CanonicalHostPort g (Domain' r) = Inr (Domain' p) \<and> p = r\<lparr>Domain' := Domain' p\<rparr> \<and>
     (Injector p = InjectorKubernetes \<and> KubeconfigPath p \<noteq> [] \<and> isr (validateCACert g (CACert p)) \<or>
      Injector p = InjectorNone)"
  by (auto simp: prepareRoute_def Let_def split: sum.splits if_splits)

lemma index_routes_Inr:
  assumes "index_routes g i rs c = Inr c'" "distinct (map fst (byHost c))" "length (Routes c) = i + length rs"
  shows "\<exists>ps. list_all2 (\<lambda>r p. prepareRoute g r = Inr p) rs ps \<and> Routes c' = take i (Routes c) @ ps \<and>
    byHost c' = byHost c @ map (\<lambda>r. (Domain' r, r)) ps \<and> distinct (map fst (byHost c'))"
  using assms
proof (induction rs arbitrary: i c)
  case Nil
  then show ?case by simp
next
  case (Cons r rs)
  then obtain p where p: "prepareRoute g r = Inr p" "map_of (byHost c) (Domain' p) = None"
    and rest: "index_routes g (Suc i) rs
      (c\<lparr>Routes := (Routes c)[i := p], byHost := byHost c @ [(Domain' p, p)]\<rparr>) = Inr c'" (is "index_routes _ _ _ ?c = _")
    by (auto simp: map_of_eq_None_iff image_iff split: sum.splits if_splits)
  have d: "distinct (map fst (byHost ?c))"
    using Cons.prems(2) p(2) by (simp add: map_of_eq_None_iff)
  have l: "length (Routes ?c) = Suc i + length rs" using Cons.prems(3) by simp
  obtain ps where ps: "list_all2 (\<lambda>r p. prepareRoute g r = Inr p) rs ps" "Routes c' = take (Suc i) (Routes ?c) @ ps"
    "byHost c' = byHost ?c @ map (\<lambda>r. (Domain' r, r)) ps" "distinct (map fst (byHost c'))"
    using Cons.IH [OF rest d l] by blast
  have "take (Suc i) (Routes ?c) = take i (Routes c) @ [p]"
    using Cons.prems(3) by (simp add: take_Suc_conv_app_nth)
  then show ?case
    using ps p(1) by (intro exI [of _ "p # ps"]) simp
qed

lemma ParseConfig_Inr:
  assumes "ParseConfig g decode data = Inr c"
  shows "\<exists>rs. decode data = Inr (rs, False) \<and> rs \<noteq> [] \<and>
    list_all2 (\<lambda>r p. prepareRoute g r = Inr p) rs (Routes c) \<and>
    byHost c = map (\<lambda>r. (Domain' r, r)) (Routes c) \<and> distinct (map Domain' (Routes c))"
proof -
  obtain rs where rs: "decode data = Inr (rs, False)" "rs \<noteq> []"
      "index_routes g 0 rs \<lparr>Routes = rs, byHost = []\<rparr> = Inr c"
    using assms by (auto simp: ParseConfig_def index_def split: sum.splits if_splits)
  then show ?thesis
    using index_routes_Inr [OF rs(3)] by (auto simp: comp_def)
qed

lemma map_of_self: "distinct (map f xs) \<Longrightarrow> map_of (map (\<lambda>x. (f x, x)) xs) k = Some x \<longleftrightarrow> x \<in> set xs \<and> k = f x"
  by (induction xs) auto

lemma Match_iff:
  assumes "byHost c = map (\<lambda>r. (Domain' r, r)) (Routes c)" "distinct (map Domain' (Routes c))"
  shows "Match g c host = Some r \<longleftrightarrow> r \<in> set (Routes c) \<and> CanonicalHostPort g host = Inr (Domain' r)"
  using map_of_self [OF assms(2)] by (auto simp: Match_def assms(1) split: sum.splits)


text \<open>The injector a route gets: none, or the tokens of the route's own kubeconfig file.\<close>

definition injector_for :: "golib \<Rightarrow> (string \<Rightarrow> kconfig result) \<Rightarrow> (string \<Rightarrow> string result) \<Rightarrow>
    string \<Rightarrow> proxy_route \<Rightarrow> request_injector \<Rightarrow> bool" where
  "injector_for g load read_file host route ij =
     (case ij of
        NoneInjector \<Rightarrow> Injector route = InjectorNone
      | KubernetesInjector ts \<Rightarrow>
          Injector route = InjectorKubernetes \<and> map_of ts host \<noteq> None \<and>
          newKubernetesInjector g load read_file (KubeconfigPath route) = Inr ts)"

lemma newInjectors_Inr:
  assumes "newInjectors g load read_file routes cache = Inr is"
    and "\<And>path ts. map_of cache path = Some ts \<Longrightarrow> newKubernetesInjector g load read_file path = Inr ts"
  shows "list_all2 (\<lambda>(h, r) (h', ij). h' = h \<and> injector_for g load read_file h r ij) routes is"
  using assms
proof (induction routes arbitrary: cache "is")
  case Nil
  then show ?case by simp
next
  case (Cons hr routes)
  obtain host route where hr: "hr = (host, route)" by (cases hr)
  consider (n) "Injector route = InjectorNone" | (k) "Injector route = InjectorKubernetes" "Injector route \<noteq> InjectorNone"
    using Cons.prems(1) hr by (auto split: if_splits)
  then show ?case
  proof cases
    case n
    then obtain is' where is': "newInjectors g load read_file routes cache = Inr is'" "is = (host, NoneInjector) # is'"
      using Cons.prems(1) hr by (cases "newInjectors g load read_file routes cache") auto
    show ?thesis
      using Cons.IH [OF is'(1) Cons.prems(2)] is'(2) hr n by (simp add: injector_for_def)
  next
    case k
    then obtain ts cache' where c: "cachedKubernetesInjector g load read_file cache (KubeconfigPath route) = Inr (ts, cache')"
      "map_of ts host \<noteq> None"
      using Cons.prems(1) hr by (auto split: sum.splits if_splits)
    then obtain is' where is': "newInjectors g load read_file routes cache' = Inr is'" "is = (host, KubernetesInjector ts) # is'"
      using Cons.prems(1) hr k by (cases "newInjectors g load read_file routes cache'") auto
    have ts: "newKubernetesInjector g load read_file (KubeconfigPath route) = Inr ts"
      and c': "\<And>path ts. map_of cache' path = Some ts \<Longrightarrow> newKubernetesInjector g load read_file path = Inr ts"
      using c(1) Cons.prems(2)
      by (auto simp: cachedKubernetesInjector_def split: option.splits sum.splits if_splits)
    show ?thesis
      using Cons.IH [OF is'(1) c'] is'(2) hr k c(2) ts by (simp add: injector_for_def)
  qed
qed

lemma list_all2_map_of:
  assumes "list_all2 (\<lambda>(h, r) (h', x). h' = h \<and> P h r x) rs xs" "map_of rs k = Some r"
  shows "\<exists>x. map_of xs k = Some x \<and> P k r x"
  using assms by (induction rs xs rule: list_all2_induct) (auto split: if_splits)

lemma list_all2_map_of_rev:
  assumes "list_all2 (\<lambda>(h, r) (h', x). h' = h \<and> P h r x) rs xs" "map_of xs k = Some x"
  shows "\<exists>r. map_of rs k = Some r"
  using assms by (induction rs xs rule: list_all2_induct) (auto split: if_splits)

lemma newRouteTable_Inr:
  assumes "newRouteTable g load read_file c = Inr t"
  shows "rt_cfg t = c" "newHostTransport g (byHost c) None = Inr (transport t)"
    "list_all2 (\<lambda>(h, r) (h', ij). h' = h \<and> injector_for g load read_file h r ij) (byHost c) (injectors t)"
proof -
  have "newInjectors g load read_file (byHost c) [] = Inr (injectors t)" and
    "rt_cfg t = c" "newHostTransport g (byHost c) None = Inr (transport t)"
    using assms by (auto simp: newRouteTable_def split: sum.splits)
  then show "rt_cfg t = c" "newHostTransport g (byHost c) None = Inr (transport t)"
    "list_all2 (\<lambda>(h, r) (h', ij). h' = h \<and> injector_for g load read_file h r ij) (byHost c) (injectors t)"
    using newInjectors_Inr [where cache = "[]"] by simp_all
qed

text \<open>A table built from parsed route JSON.\<close>

definition loaded :: "golib \<Rightarrow> (string \<Rightarrow> (proxy_route list \<times> bool) result) \<Rightarrow> (string \<Rightarrow> kconfig result) \<Rightarrow>
    (string \<Rightarrow> string result) \<Rightarrow> string \<Rightarrow> config \<Rightarrow> route_table \<Rightarrow> bool" where
  "loaded g decode load read_file data c t =
     (ParseConfig g decode data = Inr c \<and> newRouteTable g load read_file c = Inr t)"

lemma loaded_route:
  assumes "loaded g decode load read_file data c t" "Match g (rt_cfg t) host = Some r"
  shows "r \<in> set (Routes c) \<and> CanonicalHostPort g host = Inr (Domain' r) \<and>
    (\<exists>ij. map_of (injectors t) (Domain' r) = Some ij \<and> injector_for g load read_file (Domain' r) r ij)"
proof -
  have c: "byHost c = map (\<lambda>r. (Domain' r, r)) (Routes c)" "distinct (map Domain' (Routes c))"
    using assms(1) ParseConfig_Inr unfolding loaded_def by blast+
  note t = newRouteTable_Inr [OF assms(1) [unfolded loaded_def, THEN conjunct2]]
  have r: "r \<in> set (Routes c)" "CanonicalHostPort g host = Inr (Domain' r)"
    using assms(2) unfolding t(1) Match_iff [OF c] by simp_all
  then have "map_of (byHost c) (Domain' r) = Some r"
    using map_of_self [OF c(2)] by (simp add: c(1))
  then show ?thesis using list_all2_map_of [OF t(3)] r by blast
qed


section \<open>Laws: the request handler\<close>

lemma header_names_canonical [simp]:
  "CanonicalHeaderKey ''Authorization'' = ''Authorization''"
  "CanonicalHeaderKey ''Via'' = ''Via''"
  "CanonicalHeaderKey ''X-Forwarded-For'' = ''X-Forwarded-For''"
  by code_simp+

lemma injectors_differ [simp]: "InjectorKubernetes \<noteq> InjectorNone" "InjectorNone \<noteq> InjectorKubernetes"
  by (simp_all add: InjectorKubernetes_def InjectorNone_def)

definition stripped :: "golib \<Rightarrow> string \<Rightarrow> bool" where
  "stripped g k = (k \<in> set authHeaders \<or> impersonate_extra g k \<or> k = ''Via'' \<or> k = ''X-Forwarded-For'')"

lemma handle_Forward:
  assumes "handle g t req = Forward req'"
  obtains r ij req2 where "Match g (rt_cfg t) (requestHost req) = Some r"
    "Injector r = InjectorKubernetes \<Longrightarrow> URL_Scheme req = ''https'' \<and> \<not> kubePathDenied (EscapedPath req)"
    "map_of (injectors t) (Domain' r) = Some ij" "Inject g ij (stripAuthHeaders g req) = Inr req2"
    "req' = req2\<lparr>Header := Header_Del (Header_Del (Header req2) ''Via'') ''X-Forwarded-For''\<rparr>"
  using assms by (auto simp: handle_def Let_def split: option.splits sum.splits if_splits)

lemma Inject_Kubernetes_Inr:
  assumes "Inject g (KubernetesInjector ts) req = Inr req'" "CanonicalHostPort g (requestHost req) = Inr h"
  obtains t where "map_of ts h = Some t" "t \<noteq> []"
    "req' = req\<lparr>Header := Header_Set (Header req) ''Authorization'' (''Bearer '' @ t)\<rparr>"
  using assms by (auto simp: Inject_def split: option.splits if_splits)

lemma newKubernetesInjector_Inr:
  "newKubernetesInjector g load read_file path = Inr ts \<longleftrightarrow>
     (\<exists>data. read_file path = Inr data \<and> LoadTokens g load data = Inr ts)"
  by (auto simp: newKubernetesInjector_def split: sum.splits)

lemma forwarded_headers:
  assumes "canonical_keys (Header req)" "k \<noteq> ''Authorization''"
    and "Inject g ij (stripAuthHeaders g req) = Inr req2"
  shows "map_of (Header_Del (Header_Del (Header req2) ''Via'') ''X-Forwarded-For'') k =
    (if stripped g k then None else map_of (Header req) k)"
  using assms
  by (auto simp: Inject_def stripped_def stripAuthHeaders_map_of
      split: request_injector.splits sum.splits option.splits if_splits)


lemma LoadTokens_nonempty:
  assumes "LoadTokens g load data = Inr ts" "map_of ts h = Some t"
  shows "t \<noteq> []"
proof -
  obtain cfg where v: "Validate g load data = Inr cfg"
    using assms(1) by (auto simp: LoadTokens_def split: sum.splits)
  then have auth: "\<forall>(n, a) \<in> set (AuthInfos cfg). token_only a" unfolding Validate_Inr by blast
  obtain n ctx where "login g cfg ctx = Some (h, t)"
    using LoadTokens_spec [OF v] assms by auto
  then show ?thesis by (rule login_token [OF auth])
qed

lemma Inject_total:
  assumes "injector_for g load read_file h r ij" "CanonicalHostPort g (requestHost req) = Inr h"
  shows "\<exists>req'. Inject g ij req = Inr req'"
proof (cases ij)
  case NoneInjector
  then show ?thesis by (simp add: Inject_def)
next
  case (KubernetesInjector ts)
  then obtain t where t: "map_of ts h = Some t" and ts: "newKubernetesInjector g load read_file (KubeconfigPath r) = Inr ts"
    using assms(1) by (auto simp: injector_for_def)
  then have "t \<noteq> []" using LoadTokens_nonempty unfolding newKubernetesInjector_Inr by blast
  then show ?thesis using KubernetesInjector t assms(2) by (simp add: Inject_def)
qed

subsection \<open>Upstream trust\<close>

definition pool_for :: "golib \<Rightarrow> proxy_route \<Rightarrow> cert_pool \<Rightarrow> bool" where
  "pool_for g r p =
     (if Injector r = InjectorKubernetes \<and> CACert r \<noteq> [] then \<exists>raw. base64_Decode g (CACert r) = Inr raw \<and> p = PinnedPool raw
      else p = SystemPool)"

lemma certPool_Inr:
  assumes "certPool g r sys = Inr (p, sys')" "sys \<in> {None, Some SystemPool}"
  shows "pool_for g r p \<and> sys' \<in> {None, Some SystemPool}"
  using assms
  by (auto simp: certPool_def pool_for_def pinnedCAPool_def systemPool_def map_sum_def
      split: if_splits sum.splits option.splits)

lemma newHostTransport_Inr:
  assumes "newHostTransport g rs sys = Inr ps" "sys \<in> {None, Some SystemPool}"
  shows "list_all2 (\<lambda>(h, r) (h', p). h' = h \<and> pool_for g r p) rs ps"
  using assms
proof (induction rs arbitrary: sys ps)
  case Nil
  then show ?case by simp
next
  case (Cons hr rs)
  obtain h r where hr: "hr = (h, r)" by (cases hr)
  obtain p sys' where p: "certPool g r sys = Inr (p, sys')"
    using Cons.prems(1) hr by (auto split: sum.splits)
  then obtain ps' where ps': "newHostTransport g rs sys' = Inr ps'" "ps = (h, p) # ps'"
    using Cons.prems(1) hr by (cases "newHostTransport g rs sys'") auto
  show ?case
    using certPool_Inr [OF p Cons.prems(2)] Cons.IH [OF ps'(1)] ps'(2) hr by simp
qed


subsection \<open>Kubernetes paths\<close>

definition segment :: "string \<Rightarrow> bool" where
  "segment x = (x \<noteq> [] \<and> CHR ''/'' \<notin> set x)"

lemma Join_ends:
  assumes "xs \<noteq> []" "\<forall>x \<in> set xs. segment x"
  shows "Join_strings sep xs \<noteq> []" "hd (Join_strings sep xs) \<noteq> CHR ''/''" "last (Join_strings sep xs) \<noteq> CHR ''/''"
proof -
  have "Join_strings sep xs \<noteq> [] \<and> hd (Join_strings sep xs) = hd (hd xs) \<and> last (Join_strings sep xs) = last (last xs)"
    using assms by (induction sep xs rule: Join_strings.induct) (auto simp: segment_def)
  moreover have "hd (hd xs) \<noteq> CHR ''/''" "last (last xs) \<noteq> CHR ''/''"
    using assms by (metis segment_def hd_in_set, metis segment_def last_in_set)
  ultimately show "Join_strings sep xs \<noteq> []" "hd (Join_strings sep xs) \<noteq> CHR ''/''" "last (Join_strings sep xs) \<noteq> CHR ''/''"
    by simp_all
qed

lemma path_segments:
  assumes "xs \<noteq> []" "\<forall>x \<in> set xs. segment x"
  shows "Split (CHR ''/'') (Trim (CHR ''/'' # Join_strings ''/'' xs) (CHR ''/'')) = xs"
proof -
  let ?j = "Join_strings ''/'' xs"
  have "dropWhile (\<lambda>c. c = CHR ''/'') (CHR ''/'' # ?j) = ?j"
    using Join_ends [OF assms, of "''/''"] by (cases ?j) auto
  moreover have "trim_end (\<lambda>c. c = CHR ''/'') ?j = ?j"
    using Join_ends [OF assms, of "''/''"] by (cases ?j rule: rev_cases) (auto simp: trim_end_def)
  ultimately have "Trim (CHR ''/'' # ?j) (CHR ''/'') = ?j" by (simp add: Trim_def)
  then show ?thesis using Split_Join [OF assms(1), of "CHR ''/''"] assms(2) by (simp add: segment_def)
qed

definition denied_subresources :: "string list" where
  "denied_subresources = [''exec'', ''attach'', ''portforward'', ''proxy'', ''ephemeralcontainers'']"

text \<open>The API root of a path: \<open>api/<version>\<close> or \<open>apis/<group>/<version>\<close>.\<close>

definition api_root :: "string list \<Rightarrow> bool" where
  "api_root xs = (list_all segment xs \<and> (length xs = 2 \<and> hd xs = ''api'' \<or> length xs = 3 \<and> hd xs = ''apis''))"

lemma api_rootE:
  assumes "api_root xs"
  obtains v where "xs = [''api'', v]" "segment v" | grp v where "xs = [''apis'', grp, v]" "segment grp" "segment v"
  using assms by (auto simp: api_root_def length_Suc_conv numeral_2_eq_2 numeral_3_eq_3)

lemma parse_api_path:
  assumes "api_root root" "rest \<noteq> []" "\<forall>x \<in> set rest. segment x" "hd rest \<notin> {''proxy'', ''watch''}"
  shows "parseKubePath (CHR ''/'' # Join_strings ''/'' (root @ rest)) =
    (let parts = (if length rest > 2 \<and> hd rest = ''namespaces'' \<and> rest ! 2 \<noteq> ''status'' \<and> rest ! 2 \<noteq> ''finalize''
                  then drop 2 rest else rest)
     in (if length parts < 3 then [] else parts ! 2, []))"
proof -
  have segs: "\<forall>x \<in> set (root @ rest). segment x"
    using assms by (auto simp: api_root_def list_all_iff)
  have sp: "Split (CHR ''/'') (Trim (CHR ''/'' # Join_strings ''/'' (root @ rest)) (CHR ''/'')) = root @ rest"
    using path_segments [OF _ segs] assms(2) by simp
  obtain y ys where rest: "rest = y # ys" using assms(2) by (cases rest) auto
  from assms(1) show ?thesis
    by (cases rule: api_rootE) (use sp assms(4) rest in \<open>auto simp: parseKubePath_def Let_def\<close>)
qed


lemma PathUnescape_plain: "CHR ''%'' \<notin> set p \<Longrightarrow> PathUnescape p = Some p"
  by (induction p rule: PathUnescape.induct) auto

text \<open>A resource path: an API root, an optional namespace, a resource type and a name.\<close>

definition resource_path :: "string list \<Rightarrow> string list \<Rightarrow> string \<Rightarrow> string \<Rightarrow> string list \<Rightarrow> bool" where
  "resource_path root scope res name tail =
     (api_root root \<and> (scope = [] \<or> (\<exists>ns. segment ns \<and> scope = [''namespaces'', ns])) \<and>
      segment res \<and> res \<notin> {''proxy'', ''watch'', ''namespaces'', ''status'', ''finalize''} \<and>
      segment name \<and> (\<forall>x \<in> set tail. segment x))"

lemma parse_resource_path:
  assumes "resource_path root scope res name tail"
  shows "parseKubePath (CHR ''/'' # Join_strings ''/'' (root @ scope @ [res, name] @ tail)) =
    (if tail = [] then [] else hd tail, [])"
proof -
  have seg: "segment ''namespaces''" by (simp add: segment_def)
  have root: "api_root root" using assms by (simp add: resource_path_def)
  have ok: "scope @ [res, name] @ tail \<noteq> []" "\<forall>x \<in> set (scope @ [res, name] @ tail). segment x"
    "hd (scope @ [res, name] @ tail) \<notin> {''proxy'', ''watch''}"
    using assms seg by (auto simp: resource_path_def)
  show ?thesis
    using parse_api_path [OF root ok] assms by (auto simp: resource_path_def Let_def hd_conv_nth)
qed

lemma deniedKubePath_resource:
  assumes "resource_path root scope res name tail"
    and "path_Clean (''/'' @ TrimPrefix q ''/'') = CHR ''/'' # Join_strings ''/'' (root @ scope @ [res, name] @ tail)"
  shows "deniedKubePath q \<longleftrightarrow> tail \<noteq> [] \<and> hd tail \<in> set denied_subresources"
proof -
  have "\<forall>x \<in> set (root @ scope @ [res, name] @ tail). segment x"
    using assms(1) by (auto simp: resource_path_def api_root_def list_all_iff segment_def)
  then have ne: "Join_strings ''/'' (root @ scope @ [res, name] @ tail) \<noteq> []"
    by (intro Join_ends(1)) auto
  then show ?thesis
    using parse_resource_path [OF assms(1)]
    unfolding deniedKubePath_def assms(2) by (simp add: denied_subresources_def)
qed


section \<open>A concrete route table\<close>

definition sample_routes :: "proxy_route list" where
  "sample_routes =
     [\<lparr>Domain' = ''api.example.com:443'', Injector = InjectorKubernetes, KubeconfigPath = ''/k'', CACert = ''pem''\<rparr>,
      none_route ''pypi.org:443'']"

definition sample_conf :: config where
  "sample_conf = \<lparr>Routes = sample_routes, byHost = map (\<lambda>r. (Domain' r, r)) sample_routes\<rparr>"

definition sample_table :: route_table where
  "sample_table =
     \<lparr>rt_cfg = sample_conf,
      injectors = [(''api.example.com:443'', KubernetesInjector [(''api.example.com:443'', ''t1'')]),
                   (''pypi.org:443'', NoneInjector)],
      transport = [(''api.example.com:443'', PinnedPool ''pem''), (''pypi.org:443'', SystemPool)]\<rparr>"

definition sample_request :: request where
  "sample_request =
     \<lparr>URL_Scheme = ''https'', URL_Host = ''API.example.com:443'', EscapedPath = ''/api/v1/pods'', req_Host = [],
      Header = [(''Accept'', [''json'']), (''Authorization'', [''Bearer dummy'']), (''Impersonate-Extra-Scopes'', [''x''])]\<rparr>"

lemma sample_loaded:
  "loaded ascii_lib (\<lambda>_. Inr (sample_routes, False)) sample_load (\<lambda>_. Inr ''admin'') [] sample_conf sample_table"
  by code_simp

lemma sample_keys: "canonical_keys (Header sample_request)"
  by code_simp

lemma sample_forward:
  "handle ascii_lib sample_table sample_request =
     Forward (sample_request\<lparr>Header := [(''Accept'', [''json'']), (''Authorization'', [''Bearer t1''])]\<rparr>)"
  by code_simp

section \<open>Properties\<close>

text \<open>
  C2. Credential isolation. A request leaves the proxy only for a configured host. On a
  kubernetes route it is https, its path is not a denied subresource, and its Authorization is the
  bearer token that the route's own kubeconfig holds for exactly that host; on an allowlist route
  it carries no Authorization. Every other credential, impersonation and forwarding header of the
  client is gone, and no other header changes.
\<close>

theorem credential_isolation:
  assumes "loaded g decode load read_file data c t" "canonical_keys (Header req)"
    and "handle g t req = Forward req'"
  shows "\<exists>r \<in> set (Routes c). CanonicalHostPort g (requestHost req) = Inr (Domain' r) \<and>
    (Injector r = InjectorKubernetes \<and> URL_Scheme req = ''https'' \<and> \<not> kubePathDenied (EscapedPath req) \<and>
       (\<exists>kube ts tok. read_file (KubeconfigPath r) = Inr kube \<and> LoadTokens g load kube = Inr ts \<and>
          map_of ts (Domain' r) = Some tok \<and> map_of (Header req') ''Authorization'' = Some [''Bearer '' @ tok]) \<or>
     Injector r = InjectorNone \<and> map_of (Header req') ''Authorization'' = None) \<and>
    (\<forall>k. k \<noteq> ''Authorization'' \<longrightarrow> map_of (Header req') k = (if stripped g k then None else map_of (Header req) k))"
proof -
  obtain r ij req2 where m: "Match g (rt_cfg t) (requestHost req) = Some r"
    and k: "Injector r = InjectorKubernetes \<Longrightarrow> URL_Scheme req = ''https'' \<and> \<not> kubePathDenied (EscapedPath req)"
    and ij: "map_of (injectors t) (Domain' r) = Some ij" "Inject g ij (stripAuthHeaders g req) = Inr req2"
    and req': "req' = req2\<lparr>Header := Header_Del (Header_Del (Header req2) ''Via'') ''X-Forwarded-For''\<rparr>"
    using handle_Forward [OF assms(3)] by metis
  have r: "r \<in> set (Routes c)" "CanonicalHostPort g (requestHost req) = Inr (Domain' r)"
    "injector_for g load read_file (Domain' r) r ij"
    using loaded_route [OF assms(1) m] ij(1) by auto
  have other: "\<forall>k. k \<noteq> ''Authorization'' \<longrightarrow> map_of (Header req') k = (if stripped g k then None else map_of (Header req) k)"
    using forwarded_headers [OF assms(2) _ ij(2)] req' by simp
  show ?thesis
  proof (cases ij)
    case NoneInjector
    then have "map_of (Header req') ''Authorization'' = None"
      using ij(2) req' stripAuthHeaders_map_of [OF assms(2), of g "''Authorization''"]
      by (simp add: Inject_def authHeaders_def)
    then show ?thesis using NoneInjector r other by (auto simp: injector_for_def)
  next
    case (KubernetesInjector ts)
    then obtain tok where tok: "map_of ts (Domain' r) = Some tok"
      "req2 = (stripAuthHeaders g req)\<lparr>Header := Header_Set (Header (stripAuthHeaders g req)) ''Authorization'' (''Bearer '' @ tok)\<rparr>"
      using Inject_Kubernetes_Inr ij(2) r(2) by (metis stripAuthHeaders_simps(5))
    then have "map_of (Header req') ''Authorization'' = Some [''Bearer '' @ tok]"
      using req' by simp
    then show ?thesis
      using KubernetesInjector r k tok(1) other newKubernetesInjector_Inr
      by (fastforce simp: injector_for_def)
  qed
qed


theorem credential_isolation_witness:
  "\<exists>r \<in> set (Routes sample_conf). CanonicalHostPort ascii_lib (requestHost sample_request) = Inr (Domain' r)"
  using credential_isolation [OF sample_loaded sample_keys sample_forward] by blast

text \<open>
  C25. A host that is not a configured route is refused, as a CONNECT target and as a request,
  with 403 and before anything is rewritten; and only such a host gets that answer.
\<close>

theorem unlisted_host_blocked:
  assumes "loaded g decode load read_file data c t"
  shows "(handle g t req = Reply req 403 ''domain not allowed'' \<longleftrightarrow>
      (\<forall>r \<in> set (Routes c). CanonicalHostPort g (requestHost req) \<noteq> Inr (Domain' r))) \<and>
    (handle_connect g t host = ConnectReject host 403 ''domain not allowed'' \<longleftrightarrow>
      (\<forall>r \<in> set (Routes c). CanonicalHostPort g host \<noteq> Inr (Domain' r)))"
proof -
  have c: "byHost c = map (\<lambda>r. (Domain' r, r)) (Routes c)" "distinct (map Domain' (Routes c))"
    using assms ParseConfig_Inr unfolding loaded_def by blast+
  have t: "rt_cfg t = c" using assms newRouteTable_Inr(1) unfolding loaded_def by blast
  have m: "Match g c h = None \<longleftrightarrow> (\<forall>r \<in> set (Routes c). CanonicalHostPort g h \<noteq> Inr (Domain' r))" for h
    using Match_iff [OF c, of g h] by (metis not_Some_eq)
  have "handle g t req = Reply req 403 ''domain not allowed'' \<longleftrightarrow> Match g c (requestHost req) = None"
    by (auto simp: handle_def t Let_def split: option.splits sum.splits)
  moreover have "handle_connect g t host = ConnectReject host 403 ''domain not allowed'' \<longleftrightarrow> Match g c host = None"
    by (auto simp: handle_connect_def t split: option.splits)
  ultimately show ?thesis unfolding m by simp
qed

theorem unlisted_host_blocked_witness:
  "handle_connect ascii_lib sample_table ''example.com:443'' = ConnectReject ''example.com:443'' 403 ''domain not allowed''"
proof -
  have "\<forall>r \<in> set (Routes sample_conf). CanonicalHostPort ascii_lib ''example.com:443'' \<noteq> Inr (Domain' r)"
    by code_simp
  then show ?thesis using unlisted_host_blocked [OF sample_loaded] by blast
qed

text \<open>
  Injection never fails at run time: once the route table was built, every request is either
  forwarded or refused with 403. The two 502 branches of the handler are unreachable.
\<close>

theorem injection_never_fails:
  assumes "loaded g decode load read_file data c t" "handle g t req = Reply req' status msg"
  shows "status = 403"
proof (cases "Match g (rt_cfg t) (requestHost req)")
  case None
  then show ?thesis using assms(2) by (simp add: handle_def)
next
  case (Some r)
  obtain ij where ij: "map_of (injectors t) (Domain' r) = Some ij" "injector_for g load read_file (Domain' r) r ij"
    and h: "CanonicalHostPort g (requestHost (stripAuthHeaders g req)) = Inr (Domain' r)"
    using loaded_route [OF assms(1) Some] by auto
  show ?thesis
    using assms(2) Some ij(1) Inject_total [OF ij(2) h] by (auto simp: handle_def Let_def split: if_splits)
qed

theorem injection_never_fails_witness:
  "\<exists>status msg. handle ascii_lib sample_table (sample_request\<lparr>URL_Scheme := ''http''\<rparr>) =
     Reply (sample_request\<lparr>URL_Scheme := ''http'', Header := [(''Accept'', [''json''])]\<rparr>) status msg \<and> status = 403"
proof -
  have "handle ascii_lib sample_table (sample_request\<lparr>URL_Scheme := ''http''\<rparr>) =
      Reply (sample_request\<lparr>URL_Scheme := ''http'', Header := [(''Accept'', [''json''])]\<rparr>) 403 ''https required''"
    by code_simp
  then show ?thesis using injection_never_fails [OF sample_loaded] by blast
qed

text \<open>
  C24. Upstream trust. Dialling a host succeeds only for a configured route. The connection
  verifies the host name of that route, against the pinned cluster CA alone when the route is a
  kubernetes route with a CA, and against the system pool otherwise.
\<close>

theorem upstream_trust:
  assumes "loaded g decode load read_file data c t" "dialTLS g (transport t) addr = Inr d"
  shows "\<exists>r \<in> set (Routes c). CanonicalHostPort g addr = Inr (Domain' r) \<and>
    (\<exists>port. SplitHostPort (Domain' r) = Inr (ServerName d, port)) \<and>
    (if Injector r = InjectorKubernetes \<and> CACert r \<noteq> []
     then \<exists>raw. base64_Decode g (CACert r) = Inr raw \<and> RootCAs d = PinnedPool raw else RootCAs d = SystemPool)"
proof -
  have c: "byHost c = map (\<lambda>r. (Domain' r, r)) (Routes c)" "distinct (map Domain' (Routes c))"
    using assms(1) ParseConfig_Inr unfolding loaded_def by blast+
  have "newHostTransport g (byHost c) None = Inr (transport t)"
    using assms(1) newRouteTable_Inr(2) unfolding loaded_def by blast
  then have ps: "list_all2 (\<lambda>(h, r) (h', p). h' = h \<and> pool_for g r p) (byHost c) (transport t)"
    by (intro newHostTransport_Inr) auto
  obtain h p sn port where d: "CanonicalHostPort g addr = Inr h" "map_of (transport t) h = Some p"
      "SplitHostPort h = Inr (sn, port)" "d = \<lparr>RootCAs = p, ServerName = sn, Addr = addr\<rparr>"
    using assms(2) by (auto simp: dialTLS_def split: sum.splits option.splits)
  obtain r where r: "map_of (byHost c) h = Some r"
    using list_all2_map_of_rev [OF ps d(2)] by blast
  then have "r \<in> set (Routes c) \<and> h = Domain' r"
    using map_of_self [OF c(2)] by (simp add: c(1))
  moreover have "pool_for g r p"
    using list_all2_map_of [OF ps r] d(2) by auto
  ultimately show ?thesis
    using d unfolding pool_for_def by (intro bexI [of _ r]) auto
qed


theorem upstream_trust_witness:
  "\<exists>r \<in> set (Routes sample_conf). CanonicalHostPort ascii_lib ''pypi.org:443'' = Inr (Domain' r)"
proof -
  have "dialTLS ascii_lib (transport sample_table) ''pypi.org:443'' =
      Inr \<lparr>RootCAs = SystemPool, ServerName = ''pypi.org'', Addr = ''pypi.org:443''\<rparr>"
    by code_simp
  then show ?thesis using upstream_trust [OF sample_loaded] by blast
qed

text \<open>
  C16. The Kubernetes path filter. For a path that cleans to a resource of some API group, with or
  without a namespace, the filter denies exactly the subresources exec, attach, portforward, proxy
  and ephemeralcontainers, whatever follows them; a resource or namespace with such a name is not
  denied. A path that decodes once to a denied path is denied too.
\<close>

theorem kube_path_filter:
  assumes "resource_path root scope res name tail"
    and "path_Clean (''/'' @ TrimPrefix q ''/'') = CHR ''/'' # Join_strings ''/'' (root @ scope @ [res, name] @ tail)"
  shows "(CHR ''%'' \<notin> set q \<longrightarrow> (kubePathDenied q \<longleftrightarrow> tail \<noteq> [] \<and> hd tail \<in> set denied_subresources)) \<and>
    (\<forall>p. PathUnescape p = Some q \<longrightarrow> tail \<noteq> [] \<longrightarrow> hd tail \<in> set denied_subresources \<longrightarrow> kubePathDenied p)"
  using deniedKubePath_resource [OF assms] by (auto simp: kubePathDenied_def PathUnescape_plain)

theorem kube_path_filter_witness:
  "kubePathDenied ''/api/v1/x/../namespaces/ns/pods/p/%65xec'' \<and> \<not> kubePathDenied ''/api/v1/namespaces/exec/pods/exec''"
proof
  have 1: "resource_path [''api'', ''v1''] [''namespaces'', ''ns''] ''pods'' ''p'' [''exec'']"
    by (simp add: resource_path_def api_root_def segment_def)
  have 2: "path_Clean (''/'' @ TrimPrefix ''/api/v1/x/../namespaces/ns/pods/p/exec'' ''/'') =
      CHR ''/'' # Join_strings ''/'' ([''api'', ''v1''] @ [''namespaces'', ''ns''] @ [''pods'', ''p''] @ [''exec''])"
    by code_simp
  have "PathUnescape ''/api/v1/x/../namespaces/ns/pods/p/%65xec'' = Some ''/api/v1/x/../namespaces/ns/pods/p/exec''"
    by code_simp
  then show "kubePathDenied ''/api/v1/x/../namespaces/ns/pods/p/%65xec''"
    using kube_path_filter [OF 1 2] by (simp add: denied_subresources_def)
next
  have 1: "resource_path [''api'', ''v1''] [''namespaces'', ''exec''] ''pods'' ''exec'' []"
    by (simp add: resource_path_def api_root_def segment_def)
  have 2: "path_Clean (''/'' @ TrimPrefix ''/api/v1/namespaces/exec/pods/exec'' ''/'') =
      CHR ''/'' # Join_strings ''/'' ([''api'', ''v1''] @ [''namespaces'', ''exec''] @ [''pods'', ''exec''] @ [])"
    by code_simp
  show "\<not> kubePathDenied ''/api/v1/namespaces/exec/pods/exec''"
    using kube_path_filter [OF 1 2] by simp
qed

end
