(* ===== verification/ProxyRoutes.thy ===== *)
theory ProxyRoutes
  imports CredProxy
begin

text \<open>
  The operator's side of the route table, from \<open>internal/controller/proxy.go\<close>: the allowlist
  entries that parse, the merge with the kubernetes routes, and the problems shown on the Ready
  condition. The second part proves that what the operator publishes is what the proxy accepts.
\<close>

section \<open>Definitions\<close>

record route_problem =
  entry :: string
  reason :: string

record proxy_target =
  Type :: string
  SecretName :: string
  Domains :: "string list"

definition ProxyTargetKubernetes :: string where "ProxyTargetKubernetes = ''kubernetes''"
definition ProxyTargetAllowlist :: string where "ProxyTargetAllowlist = ''allowlist''"

definition routeSkipReason :: "go_error \<Rightarrow> string" where
  "routeSkipReason err =
     (let msg = error_text err in
      case LastIndex msg '': '' of
        Some i \<Rightarrow> if i + 2 < length msg then drop (i + 2) msg else msg
      | None \<Rightarrow> msg)"

fun allowlist_entries :: "golib \<Rightarrow> string list \<Rightarrow> string list \<Rightarrow> proxy_route list \<times> route_problem list" where
  "allowlist_entries g [] seen = ([], [])"
| "allowlist_entries g (domain # domains) seen =
     (case ParseAllowlistDomain g domain of
        Inl err \<Rightarrow>
          (let (routes, problems) = allowlist_entries g domains seen
           in (routes, \<lparr>entry = domain, reason = routeSkipReason err\<rparr> # problems))
      | Inr host \<Rightarrow>
          if host \<in> set seen then allowlist_entries g domains seen
          else (let (routes, problems) = allowlist_entries g domains (host # seen)
                in (none_route host # routes, problems)))"

definition allowlistRoutes :: "golib \<Rightarrow> string list \<Rightarrow> proxy_route list \<times> route_problem list" where
  "allowlistRoutes g domains = allowlist_entries g domains []"

record seen_route =
  route :: proxy_route
  conflict :: bool

text \<open>
  The first loop of \<open>mergeRoutes\<close>: the map by host and the hosts in order of first appearance.
  The map's entries are pointers, so a conflict is recorded in place.
\<close>

fun merge_loop :: "proxy_route list \<Rightarrow> (string \<times> seen_route) list \<Rightarrow> string list \<Rightarrow>
    (string \<times> seen_route) list \<times> string list" where
  "merge_loop [] hosts order = (hosts, order)"
| "merge_loop (r # rs) hosts order =
     (case map_of hosts (Domain' r) of
        None \<Rightarrow> merge_loop rs (AList.update (Domain' r) \<lparr>route = r, conflict = False\<rparr> hosts) (order @ [Domain' r])
      | Some current \<Rightarrow>
          merge_loop rs
            (if Injector (route current) \<noteq> Injector r
             then AList.update (Domain' r) (current\<lparr>conflict := True\<rparr>) hosts else hosts) order)"

fun merge_finish :: "(string \<times> seen_route) list \<Rightarrow> string list \<Rightarrow> proxy_route list \<times> route_problem list" where
  "merge_finish hosts [] = ([], [])"
| "merge_finish hosts (host # order) =
     (let (kept, problems) = merge_finish hosts order in
      case map_of hosts host of
        None \<Rightarrow> (kept, problems)
      | Some current \<Rightarrow>
          if conflict current then
            (kept, \<lparr>entry = host, reason = ''claimed by kubernetes and allowlist''\<rparr> # problems)
          else (route current # kept, problems))"

definition mergeRoutes :: "proxy_route list \<Rightarrow> proxy_route list \<times> route_problem list" where
  "mergeRoutes routes =
     (let (hosts, order) = merge_loop routes [] []; (kept, problems) = merge_finish hosts order
      in (sort_key Domain' kept, problems))"

definition collectProxyRoutes :: "golib \<Rightarrow> proxy_target list \<Rightarrow> proxy_route list \<Rightarrow>
    proxy_route list \<times> route_problem list" where
  "collectProxyRoutes g targets kubeRoutes =
     (let parts = map (\<lambda>t. allowlistRoutes g (Domains t)) (filter (\<lambda>t. Type t = ProxyTargetAllowlist) targets);
          routes = kubeRoutes @ concat (map fst parts);
          problems = concat (map snd parts);
          (merged, conflicts) = mergeRoutes routes
      in (merged, conflicts @ problems))"

definition problem_text :: "golib \<Rightarrow> route_problem \<Rightarrow> string" where
  "problem_text g p = Quote g (TrimSpace (entry p)) @ '' ('' @ reason p @ '')''"

definition proxyRouteProblemMessage :: "golib \<Rightarrow> route_problem list \<Rightarrow> string" where
  "proxyRouteProblemMessage g problems =
     (let n = length problems;
          parts = map (problem_text g) (take (min n 3) problems);
          noun = (if n = 1 then ''domain'' else ''domains'');
          msg = ''ignored '' @ Itoa (int n) @ '' proxy '' @ noun @ '': '' @ Join_strings '', '' parts
      in if n > 3 then msg @ '', and '' @ Itoa (int n - 3) @ '' more'' else msg)"

section \<open>Laws: the merge\<close>

definition conflicting :: "proxy_route list \<Rightarrow> string \<Rightarrow> bool" where
  "conflicting rs h = (\<exists>r \<in> set rs. \<exists>r' \<in> set rs. Domain' r = h \<and> Domain' r' = h \<and> Injector r \<noteq> Injector r')"

definition first_route :: "proxy_route list \<Rightarrow> string \<Rightarrow> proxy_route option" where
  "first_route rs h = List.find (\<lambda>r. Domain' r = h) rs"

text \<open>What the loop has established after the routes \<open>ds\<close>.\<close>

definition merged :: "proxy_route list \<Rightarrow> (string \<times> seen_route) list \<Rightarrow> string list \<Rightarrow> bool" where
  "merged ds hosts order =
     (distinct order \<and> set order = Domain' ` set ds \<and>
      (\<forall>h. map_of hosts h = map_option (\<lambda>r. \<lparr>route = r, conflict = conflicting ds h\<rparr>) (first_route ds h)))"

lemma first_route_Some: "first_route ds h = Some r \<Longrightarrow> r \<in> set ds \<and> Domain' r = h"
  by (auto simp: first_route_def find_Some_iff)

lemma first_route_None: "first_route ds h = None \<longleftrightarrow> h \<notin> Domain' ` set ds"
  by (auto simp: first_route_def find_None_iff)

lemma first_route_snoc:
  "first_route (ds @ [r]) h = (case first_route ds h of Some x \<Rightarrow> Some x | None \<Rightarrow> if Domain' r = h then Some r else None)"
  by (induction ds) (auto simp: first_route_def)

lemma conflicting_snoc_new:
  "h \<notin> Domain' ` set ds \<Longrightarrow> Domain' r = h \<Longrightarrow> \<not> conflicting (ds @ [r]) h"
  unfolding conflicting_def by (auto simp: image_iff)

lemma conflicting_snoc_other: "Domain' r \<noteq> h \<Longrightarrow> conflicting (ds @ [r]) h = conflicting ds h"
  by (auto simp: conflicting_def)

lemma conflicting_first:
  assumes "first_route ds h = Some x"
  shows "conflicting ds h \<longleftrightarrow> (\<exists>r \<in> set ds. Domain' r = h \<and> Injector r \<noteq> Injector x)"
proof
  assume "conflicting ds h"
  then obtain r r' where "r \<in> set ds" "r' \<in> set ds" "Domain' r = h" "Domain' r' = h" "Injector r \<noteq> Injector r'"
    by (auto simp: conflicting_def)
  then show "\<exists>r \<in> set ds. Domain' r = h \<and> Injector r \<noteq> Injector x" by (cases "Injector r = Injector x") auto
next
  assume "\<exists>r \<in> set ds. Domain' r = h \<and> Injector r \<noteq> Injector x"
  then show "conflicting ds h" using first_route_Some [OF assms] by (auto simp: conflicting_def)
qed

lemma conflicting_snoc_old:
  assumes "first_route ds h = Some x" "Domain' r = h"
  shows "conflicting (ds @ [r]) h \<longleftrightarrow> conflicting ds h \<or> Injector x \<noteq> Injector r"
proof -
  have "first_route (ds @ [r]) h = Some x" using assms(1) by (simp add: first_route_snoc)
  from conflicting_first [OF this] show ?thesis unfolding conflicting_first [OF assms(1)] using assms(2) by auto
qed

lemma merged_map_of:
  "merged ds hosts order \<Longrightarrow> map_of hosts h = map_option (\<lambda>r. \<lparr>route = r, conflict = conflicting ds h\<rparr>) (first_route ds h)"
  by (simp add: merged_def)

lemma mergedI:
  assumes "distinct order" "set order = Domain' ` set ds"
    and "\<And>h. map_of hosts h = map_option (\<lambda>r. \<lparr>route = r, conflict = conflicting ds h\<rparr>) (first_route ds h)"
  shows "merged ds hosts order"
  unfolding merged_def using assms by blast

lemma merged_new:
  assumes m: "merged ds hosts order" and "map_of hosts (Domain' r) = None"
  shows "merged (ds @ [r]) (AList.update (Domain' r) \<lparr>route = r, conflict = False\<rparr> hosts) (order @ [Domain' r])"
proof (rule mergedI)
  have n: "first_route ds (Domain' r) = None" using assms(2) by (simp add: merged_map_of [OF m])
  then have new: "Domain' r \<notin> Domain' ` set ds" by (simp add: first_route_None)
  show "distinct (order @ [Domain' r])" "set (order @ [Domain' r]) = Domain' ` set (ds @ [r])"
    using m new by (simp_all add: merged_def)
  show "map_of (AList.update (Domain' r) \<lparr>route = r, conflict = False\<rparr> hosts) h =
      map_option (\<lambda>x. \<lparr>route = x, conflict = conflicting (ds @ [r]) h\<rparr>) (first_route (ds @ [r]) h)" for h
  proof (cases "h = Domain' r")
    case True
    then show ?thesis using n conflicting_snoc_new [OF new refl] by (simp add: update_conv' first_route_snoc)
  next
    case False
    then have "Domain' r \<noteq> h" by simp
    then show ?thesis
      using merged_map_of [OF m, of h] by (simp add: update_conv' first_route_snoc conflicting_snoc_other split: option.split)
  qed
qed

lemma merged_old:
  assumes m: "merged ds hosts order" and c: "map_of hosts (Domain' r) = Some current"
  shows "merged (ds @ [r]) (if Injector (route current) \<noteq> Injector r
     then AList.update (Domain' r) (current\<lparr>conflict := True\<rparr>) hosts else hosts) order"
proof (rule mergedI)
  obtain x where x: "first_route ds (Domain' r) = Some x" "current = \<lparr>route = x, conflict = conflicting ds (Domain' r)\<rparr>"
    using c merged_map_of [OF m, of "Domain' r"] by auto
  show "distinct order" using m by (simp add: merged_def)
  have "Domain' r \<in> Domain' ` set ds" using first_route_Some [OF x(1)] by (metis imageI)
  then show "set order = Domain' ` set (ds @ [r])" using m by (auto simp: merged_def)
  show "map_of (if Injector (route current) \<noteq> Injector r
       then AList.update (Domain' r) (current\<lparr>conflict := True\<rparr>) hosts else hosts) h =
      map_option (\<lambda>x. \<lparr>route = x, conflict = conflicting (ds @ [r]) h\<rparr>) (first_route (ds @ [r]) h)" for h
  proof (cases "h = Domain' r")
    case True
    then show ?thesis
      using x c conflicting_snoc_old [OF x(1) refl] by (simp add: update_conv' first_route_snoc)
  next
    case False
    then have "Domain' r \<noteq> h" by simp
    then show ?thesis
      using merged_map_of [OF m, of h] by (simp add: update_conv' first_route_snoc conflicting_snoc_other split: option.split)
  qed
qed

lemma merge_loop_merged:
  "merged ds hosts order \<Longrightarrow> merge_loop rs hosts order = (hosts', order') \<Longrightarrow> merged (ds @ rs) hosts' order'"
proof (induction rs arbitrary: ds hosts order)
  case (Cons r rs)
  show ?case
  proof (cases "map_of hosts (Domain' r)")
    case None
    then show ?thesis using Cons.IH [OF merged_new [OF Cons.prems(1) None]] Cons.prems(2) by simp
  next
    case (Some current)
    then show ?thesis using Cons.IH [OF merged_old [OF Cons.prems(1) Some]] Cons.prems(2) by simp
  qed
qed simp


lemma merge_finish_spec:
  assumes "\<And>h. h \<in> set order \<Longrightarrow> map_of hosts h \<noteq> None"
  shows "merge_finish hosts order =
    (map (\<lambda>h. route (the (map_of hosts h))) (filter (\<lambda>h. \<not> conflict (the (map_of hosts h))) order),
     map (\<lambda>h. \<lparr>entry = h, reason = ''claimed by kubernetes and allowlist''\<rparr>)
       (filter (\<lambda>h. conflict (the (map_of hosts h))) order))"
  using assms by (induction order) (auto split: option.splits)

text \<open>The contract of the merge: the first route of every host that one injector claims.\<close>

lemma mergeRoutes_spec:
  assumes "mergeRoutes rs = (kept, problems)"
  shows "sorted (map Domain' kept)" "distinct (map Domain' kept)"
    "set kept = {r. first_route rs (Domain' r) = Some r \<and> \<not> conflicting rs (Domain' r)}"
    "entry ` set problems = {h. conflicting rs h}" "distinct (map entry problems)"
proof -
  obtain hosts order where l: "merge_loop rs [] [] = (hosts, order)" by (cases "merge_loop rs [] []")
  have "merged [] [] []" by (rule mergedI) (simp_all add: first_route_def)
  from merge_loop_merged [OF this l] have m: "merged rs hosts order" by simp
  define fr where "fr h = the (first_route rs h)" for h
  have so: "set order = Domain' ` set rs" and d: "distinct order" using m by (simp_all add: merged_def)
  have fr: "first_route rs h = Some (fr h)" if "h \<in> set order" for h
    using that so first_route_None [of rs h] by (auto simp: fr_def)
  then have the: "the (map_of hosts h) = \<lparr>route = fr h, conflict = conflicting rs h\<rparr>" "map_of hosts h \<noteq> None" if "h \<in> set order" for h
    using that merged_map_of [OF m, of h] by auto
  have dom: "Domain' (fr h) = h" if "h \<in> set order" for h
    using first_route_Some [OF fr [OF that]] by simp
  define ok where "ok = filter (\<lambda>h. \<not> conflicting rs h) order"
  have f: "filter (\<lambda>h. \<not> conflict (the (map_of hosts h))) order = ok"
      "filter (\<lambda>h. conflict (the (map_of hosts h))) order = filter (conflicting rs) order"
    unfolding ok_def by (simp_all add: the(1) cong: filter_cong)
  have r: "map (\<lambda>h. route (the (map_of hosts h))) ok = map fr ok"
    using the(1) by (auto simp: ok_def)
  have k: "kept = sort_key Domain' (map fr ok)"
    and p: "problems = map (\<lambda>h. \<lparr>entry = h, reason = ''claimed by kubernetes and allowlist''\<rparr>) (filter (conflicting rs) order)"
    using assms merge_finish_spec [of order hosts] the(2) l by (simp_all add: mergeRoutes_def f r)
  have doms: "map Domain' (map fr ok) = ok" using dom by (auto simp: ok_def intro: map_idI)
  show "sorted (map Domain' kept)" by (simp add: k)
  have "mset (map Domain' kept) = mset ok" using doms by (metis k mset_map mset_sort)
  then show "distinct (map Domain' kept)" using d unfolding ok_def by (metis distinct_filter mset_eq_imp_distinct_iff)
  have "r \<in> fr ` set ok \<longleftrightarrow> first_route rs (Domain' r) = Some r \<and> \<not> conflicting rs (Domain' r)" for r
  proof
    assume "r \<in> fr ` set ok"
    then show "first_route rs (Domain' r) = Some r \<and> \<not> conflicting rs (Domain' r)"
      using fr dom by (auto simp: ok_def)
  next
    assume a: "first_route rs (Domain' r) = Some r \<and> \<not> conflicting rs (Domain' r)"
    then have "Domain' r \<in> set ok" using first_route_Some so by (auto simp: ok_def)
    then show "r \<in> fr ` set ok" using a fr by (metis fr_def image_eqI option.sel)
  qed
  then show "set kept = {r. first_route rs (Domain' r) = Some r \<and> \<not> conflicting rs (Domain' r)}" by (auto simp: k)
  have "conflicting rs h \<Longrightarrow> h \<in> set order" for h using so by (auto simp: conflicting_def)
  then show "entry ` set problems = {h. conflicting rs h}" by (auto simp: p image_iff)
  show "distinct (map entry problems)" using d by (simp add: p comp_def)
qed

section \<open>Laws: allowlist entries\<close>

lemma allowlist_entries_spec:
  assumes "allowlist_entries g ds seen = (rs, ps)"
  shows "rs = map none_route (map Domain' rs)" "distinct (map Domain' rs)"
    "set (map Domain' rs) = {h. h \<notin> set seen \<and> (\<exists>d \<in> set ds. ParseAllowlistDomain g d = Inr h)}"
    "map entry ps = filter (\<lambda>d. isl (ParseAllowlistDomain g d)) ds"
proof -
  have "rs = map none_route (map Domain' rs) \<and> distinct (map Domain' rs) \<and>
    set (map Domain' rs) = {h. h \<notin> set seen \<and> (\<exists>d \<in> set ds. ParseAllowlistDomain g d = Inr h)} \<and>
    map entry ps = filter (\<lambda>d. isl (ParseAllowlistDomain g d)) ds"
    using assms
  proof (induction ds arbitrary: seen rs ps)
    case (Cons d ds)
    show ?case
    proof (cases "ParseAllowlistDomain g d")
      case (Inl e)
      obtain rs' ps' where r: "allowlist_entries g ds seen = (rs', ps')" by (cases "allowlist_entries g ds seen")
      show ?thesis using Cons.IH [OF r] Cons.prems Inl r by auto
    next
      case (Inr h)
      show ?thesis
      proof (cases "h \<in> set seen")
        case True
        then show ?thesis using Cons.IH [of seen rs ps] Cons.prems Inr by auto
      next
        case False
        obtain rs' ps' where r: "allowlist_entries g ds (h # seen) = (rs', ps')" by (cases "allowlist_entries g ds (h # seen)")
        then have "rs = none_route h # rs'" "ps = ps'" using Cons.prems Inr False by auto
        then show ?thesis using Cons.IH [OF r] Inr False by (auto simp: none_route_def)
      qed
    qed
  qed simp
  then show "rs = map none_route (map Domain' rs)" "distinct (map Domain' rs)"
    "set (map Domain' rs) = {h. h \<notin> set seen \<and> (\<exists>d \<in> set ds. ParseAllowlistDomain g d = Inr h)}"
    "map entry ps = filter (\<lambda>d. isl (ParseAllowlistDomain g d)) ds"
    by blast+
qed

definition allowed_domains :: "proxy_target list \<Rightarrow> string list" where
  "allowed_domains targets = concat (map Domains (filter (\<lambda>t. Type t = ProxyTargetAllowlist) targets))"

lemma allowlistRoutes_spec:
  "set (fst (allowlistRoutes g ds)) = {none_route h | h. \<exists>d \<in> set ds. ParseAllowlistDomain g d = Inr h}"
  "map entry (snd (allowlistRoutes g ds)) = filter (\<lambda>d. isl (ParseAllowlistDomain g d)) ds"
proof -
  obtain rs ps where r: "allowlist_entries g ds [] = (rs, ps)" by (cases "allowlist_entries g ds []")
  note sp = allowlist_entries_spec [OF r]
  have "set rs = none_route ` set (map Domain' rs)" using sp(1) by (metis set_map)
  then show "set (fst (allowlistRoutes g ds)) = {none_route h | h. \<exists>d \<in> set ds. ParseAllowlistDomain g d = Inr h}"
    using sp(3) by (auto simp: allowlistRoutes_def r)
  show "map entry (snd (allowlistRoutes g ds)) = filter (\<lambda>d. isl (ParseAllowlistDomain g d)) ds"
    using sp(4) by (simp add: allowlistRoutes_def r)
qed

text \<open>The candidates of an instance: its kubernetes routes and one route per parsed domain.\<close>

lemma collectProxyRoutes_spec:
  assumes "collectProxyRoutes g targets kr = (rs, ps)"
  obtains cand conflicts where "mergeRoutes cand = (rs, conflicts)"
    "set cand = set kr \<union> {none_route h | h. \<exists>d \<in> set (allowed_domains targets). ParseAllowlistDomain g d = Inr h}"
    "map entry ps = map entry conflicts @ filter (\<lambda>d. isl (ParseAllowlistDomain g d)) (allowed_domains targets)"
proof -
  let ?parts = "map (\<lambda>t. allowlistRoutes g (Domains t)) (filter (\<lambda>t. Type t = ProxyTargetAllowlist) targets)"
  let ?cand = "kr @ concat (map fst ?parts)"
  obtain conflicts where m: "mergeRoutes ?cand = (rs, conflicts)" and ps: "ps = conflicts @ concat (map snd ?parts)"
    using assms by (auto simp: collectProxyRoutes_def split: prod.splits)
  have "set ?cand = set kr \<union> {none_route h | h. \<exists>d \<in> set (allowed_domains targets). ParseAllowlistDomain g d = Inr h}"
    by (auto simp: allowlistRoutes_spec(1) allowed_domains_def)
  moreover have "map entry (concat (map snd ?parts)) = filter (\<lambda>d. isl (ParseAllowlistDomain g d)) (allowed_domains targets)"
    unfolding allowed_domains_def map_concat filter_concat map_map comp_def allowlistRoutes_spec(2) ..
  ultimately show ?thesis using m ps that by auto
qed

section \<open>Laws: the proxy accepts what the operator publishes\<close>

lemma index_routes_complete:
  assumes "\<And>r. r \<in> set rs \<Longrightarrow> prepareRoute g r = Inr r"
    and "distinct (map Domain' rs)" "\<And>r. r \<in> set rs \<Longrightarrow> map_of (byHost c) (Domain' r) = None"
    and "drop i (Routes c) = rs"
  shows "index_routes g i rs c = Inr (c\<lparr>byHost := byHost c @ map (\<lambda>r. (Domain' r, r)) rs\<rparr>)"
  using assms
proof (induction rs arbitrary: i c)
  case Nil
  then show ?case by simp
next
  case (Cons r rs)
  have i: "i < length (Routes c)" "Routes c ! i = r" "drop (Suc i) (Routes c) = rs"
    using Cons.prems(4) by (metis Cons_nth_drop_Suc drop_eq_Nil leI list.distinct(1), metis hd_drop_conv_nth drop_eq_Nil leI list.sel(1) list.distinct(1), metis drop_Suc list.sel(3) tl_drop)
  then have same: "(Routes c)[i := r] = Routes c" by (metis list_update_id)
  let ?c = "c\<lparr>byHost := byHost c @ [(Domain' r, r)]\<rparr>"
  have "index_routes g i (r # rs) c = index_routes g (Suc i) rs ?c"
    using Cons.prems(1,3) same by simp
  also have "\<dots> = Inr (?c\<lparr>byHost := byHost ?c @ map (\<lambda>r. (Domain' r, r)) rs\<rparr>)"
  proof (rule Cons.IH)
    show "map_of (byHost ?c) (Domain' r') = None" if "r' \<in> set rs" for r'
    proof -
      have "Domain' r' \<in> Domain' ` set rs" using that by (rule imageI)
      then have "Domain' r' \<noteq> Domain' r" using Cons.prems(2) by auto
      then show ?thesis using Cons.prems(3) [of r'] that by (simp add: map_add_def)
    qed
  qed (use Cons.prems i in auto)
  finally show ?case by simp
qed


lemma newInjectors_complete:
  assumes "\<And>h r. (h, r) \<in> set rs \<Longrightarrow> Injector r = InjectorNone \<or>
      Injector r = InjectorKubernetes \<and> (\<exists>ts. newKubernetesInjector g load read_file (KubeconfigPath r) = Inr ts \<and> map_of ts h \<noteq> None)"
    and "\<And>path ts. map_of cache path = Some ts \<Longrightarrow> newKubernetesInjector g load read_file path = Inr ts"
  shows "isr (newInjectors g load read_file rs cache)"
  using assms
proof (induction rs arbitrary: cache)
  case Nil
  then show ?case by simp
next
  case (Cons hr rs)
  obtain h r where hr: "hr = (h, r)" by (cases hr)
  have IH: "isr (newInjectors g load read_file rs cache')"
    if "\<And>path ts. map_of cache' path = Some ts \<Longrightarrow> newKubernetesInjector g load read_file path = Inr ts" for cache'
    using Cons.IH [of cache'] Cons.prems(1) that by simp
  show ?case
  proof (cases "Injector r = InjectorNone")
    case True
    have "isr (newInjectors g load read_file rs cache)" by (rule IH) (rule Cons.prems(2))
    then show ?thesis using True hr by (auto simp: isr_iff)
  next
    case False
    then obtain ts where ts: "Injector r = InjectorKubernetes" "newKubernetesInjector g load read_file (KubeconfigPath r) = Inr ts"
        "map_of ts h \<noteq> None"
      using Cons.prems(1) [of h r] hr by auto
    obtain cache' where c: "cachedKubernetesInjector g load read_file cache (KubeconfigPath r) = Inr (ts, cache')"
      and c': "\<And>path ts. map_of cache' path = Some ts \<Longrightarrow> newKubernetesInjector g load read_file path = Inr ts"
    proof (cases "map_of cache (KubeconfigPath r)")
      case None
      show thesis
      proof (rule that [of "(KubeconfigPath r, ts) # cache"])
        show "cachedKubernetesInjector g load read_file cache (KubeconfigPath r) = Inr (ts, (KubeconfigPath r, ts) # cache)"
          using None ts(2) by (simp add: cachedKubernetesInjector_def)
        show "newKubernetesInjector g load read_file path = Inr ts'" if "map_of ((KubeconfigPath r, ts) # cache) path = Some ts'" for path ts'
          using that ts(2) Cons.prems(2) by (simp split: if_splits)
      qed
    next
      case (Some x)
      then show thesis using that [of cache] ts(2) Cons.prems(2) [OF Some] Cons.prems(2)
        by (simp add: cachedKubernetesInjector_def)
    qed
    have "isr (newInjectors g load read_file rs cache')" by (rule IH) (rule c')
    then show ?thesis using False ts c hr by (auto simp: isr_iff)
  qed
qed

definition trust_ok :: "golib \<Rightarrow> proxy_route \<Rightarrow> bool" where
  "trust_ok g r =
     (SystemCertPool g = Inr True \<and>
      (CACert r \<noteq> [] \<longrightarrow> (\<exists>raw. base64_Decode g (CACert r) = Inr raw \<and> pemCertOK g raw \<and> AppendCertsFromPEM g raw)))"

lemma newHostTransport_complete:
  assumes "\<And>h r. (h, r) \<in> set rs \<Longrightarrow> trust_ok g r \<and> Injector r \<in> {InjectorKubernetes, InjectorNone}"
    and "sys \<in> {None, Some SystemPool}"
  shows "isr (newHostTransport g rs sys)"
  using assms
proof (induction rs arbitrary: sys)
  case (Cons hr rs)
  obtain h r where hr: "hr = (h, r)" by (cases hr)
  have r: "trust_ok g r" "Injector r \<in> {InjectorKubernetes, InjectorNone}" using Cons.prems(1) [of h r] hr by auto
  have "\<exists>p sys'. certPool g r sys = Inr (p, sys')"
    using r Cons.prems(2) by (auto simp: trust_ok_def certPool_def pinnedCAPool_def systemPool_def split: option.splits)
  then obtain p sys' where p: "certPool g r sys = Inr (p, sys')" by blast
  have "isr (newHostTransport g rs sys')"
    using Cons.IH Cons.prems(1) certPool_Inr [OF p Cons.prems(2)] by auto
  then show ?case using p hr by (auto simp: isr_iff)
qed simp

lemma prepareRoute_fix:
  assumes "canonical g (Domain' r)" "Injector r = InjectorNone \<or> Injector r = InjectorKubernetes \<and> KubeconfigPath r \<noteq> []"
    and "trust_ok g r"
  shows "prepareRoute g r = Inr r"
proof -
  have "CanonicalHostPort g (Domain' r) = Inr (Domain' r)" using assms(1) by (rule canonical_fix)
  moreover have "validateCACert g (CACert r) = Inr ()"
    using assms(3) by (auto simp: validateCACert_def trust_ok_def)
  ultimately show ?thesis using assms(2) by (auto simp: prepareRoute_def Let_def)
qed


text \<open>What the operator knows of the kubernetes routes it publishes for the file at \<open>path\<close>.\<close>

definition kube_source :: "golib \<Rightarrow> (string \<Rightarrow> kconfig result) \<Rightarrow> (string \<Rightarrow> string result) \<Rightarrow> proxy_route list \<Rightarrow> bool" where
  "kube_source g load read_file kr =
     (kr = [] \<or> (\<exists>kube cfg path. load kube = Inr cfg \<and> wf_kconfig cfg \<and>
        BuildProxyRoutes g load kube path = Inr kr \<and> read_file path = Inr kube))"

lemma kube_source_route:
  assumes "kube_source g load read_file kr" "lower_ok g" "r \<in> set kr"
  shows "canonical g (Domain' r) \<and> Injector r = InjectorKubernetes \<and> KubeconfigPath r \<noteq> [] \<and>
    (\<exists>ts. newKubernetesInjector g load read_file (KubeconfigPath r) = Inr ts \<and> map_of ts (Domain' r) \<noteq> None)"
proof -
  obtain kube cfg path where k: "load kube = Inr cfg" "wf_kconfig cfg" "BuildProxyRoutes g load kube path = Inr kr"
      "read_file path = Inr kube"
    using assms(1,3) by (auto simp: kube_source_def)
  have path: "path \<noteq> []" and v: "Validate g load kube = Inr cfg"
    using k(1,3) by (auto simp: BuildProxyRoutes_def Validate_def split: if_splits sum.splits)
  obtain ts where ts: "LoadTokens g load kube = Inr ts"
    "\<forall>r \<in> set kr. Injector r = InjectorKubernetes \<and> KubeconfigPath r = path \<and> (\<exists>t. map_of ts (Domain' r) = Some t \<and> t \<noteq> [])"
    using BuildProxyRoutes_tokens [OF k(1-3)] by blast
  obtain n c where "host_of g c = Inr (Domain' r)"
    using BuildProxyRoutes_spec [OF v k(2) path] k(3) assms(3) by auto
  then have "canonical g (Domain' r)"
    using HostPortFromServerURL_canonical [OF assms(2)] unfolding canonical_def by blast
  then show ?thesis
    using ts assms(3) k(4) path by (auto simp: newKubernetesInjector_Inr)
qed

lemma collect_route:
  assumes "collectProxyRoutes g targets kr = (rs, ps)" "r \<in> set rs"
  shows "r \<in> set kr \<or> (\<exists>d h. ParseAllowlistDomain g d = Inr h \<and> r = none_route h)"
proof -
  obtain cand conflicts where m: "mergeRoutes cand = (rs, conflicts)"
    and c: "set cand = set kr \<union> {none_route h | h. \<exists>d \<in> set (allowed_domains targets). ParseAllowlistDomain g d = Inr h}"
    by (rule collectProxyRoutes_spec [OF assms(1)]) blast
  have "r \<in> set cand" using assms(2) first_route_Some unfolding mergeRoutes_spec(3) [OF m] by blast
  then show ?thesis using c by blast
qed

lemma collect_sorted:
  assumes "collectProxyRoutes g targets kr = (rs, ps)"
  shows "sorted (map Domain' rs)" "distinct (map Domain' rs)"
  by (rule collectProxyRoutes_spec [OF assms], simp add: mergeRoutes_spec(1,2))+

lemma published_accepted:
  assumes lower: "lower_ok g" and kube: "kube_source g load read_file kr"
    and trust: "\<forall>r \<in> set kr \<inter> set rs. trust_ok g r" "SystemCertPool g = Inr True"
    and rs: "collectProxyRoutes g targets kr = (rs, ps)" "rs \<noteq> []"
    and json: "decode raw = Inr (rs, False)"
  shows "\<exists>c t. loaded g decode load read_file raw c t \<and> Routes c = rs"
proof -
  have r: "canonical g (Domain' r) \<and> trust_ok g r \<and>
      (Injector r = InjectorNone \<or> Injector r = InjectorKubernetes \<and> KubeconfigPath r \<noteq> [] \<and>
        (\<exists>ts. newKubernetesInjector g load read_file (KubeconfigPath r) = Inr ts \<and> map_of ts (Domain' r) \<noteq> None))"
    if "r \<in> set rs" for r
    using collect_route [OF rs(1) that]
  proof
    assume "r \<in> set kr"
    then show ?thesis using kube_source_route [OF kube lower] trust that by blast
  next
    assume "\<exists>d h. ParseAllowlistDomain g d = Inr h \<and> r = none_route h"
    then obtain d h where h: "ParseAllowlistDomain g d = Inr h" "r = none_route h" by blast
    then have "canonical g h"
      using ParseAllowlistDomain_canonical [OF lower h(1)] unfolding canonical_def by blast
    then show ?thesis using h(2) trust(2) by (simp add: trust_ok_def none_route_def)
  qed
  have prep: "prepareRoute g r = Inr r" if "r \<in> set rs" for r
    using r [OF that] by (intro prepareRoute_fix) auto
  let ?c = "\<lparr>Routes = rs, byHost = map (\<lambda>r. (Domain' r, r)) rs\<rparr>"
  have "index_routes g 0 rs \<lparr>Routes = rs, byHost = []\<rparr> = Inr ?c"
    using index_routes_complete [OF prep collect_sorted(2) [OF rs(1)], of "\<lparr>Routes = rs, byHost = []\<rparr>" 0] by simp
  then have p: "ParseConfig g decode raw = Inr ?c"
    using json rs(2) by (simp add: ParseConfig_def index_def)
  have "isr (newHostTransport g (byHost ?c) None)"
    using r by (intro newHostTransport_complete) auto
  moreover have "isr (newInjectors g load read_file (byHost ?c) [])"
    using r by (intro newInjectors_complete) auto
  ultimately have "\<exists>t. newRouteTable g load read_file ?c = Inr t"
    by (auto simp: newRouteTable_def isr_iff)
  then show ?thesis using p unfolding loaded_def by (intro exI [of _ ?c]) auto
qed


lemma index_routes_fails:
  assumes "r \<in> set rs" "isl (prepareRoute g r)"
  shows "isl (index_routes g i rs c)"
  using assms(1)
proof (induction rs arbitrary: i c)
  case (Cons x rs)
  show ?case
  proof (cases "prepareRoute g x")
    case (Inr p)
    then have "r \<in> set rs" using Cons.prems assms(2) by auto
    then show ?thesis using Cons.IH Inr by simp
  qed simp
qed simp

section \<open>Properties\<close>

text \<open>
  The merge keeps exactly the first route of every host:port that one injector claims, sorted
  and without duplicates, and reports exactly the hosts that two injectors claim, each once.
\<close>

theorem merge_routes_contract:
  assumes "mergeRoutes rs = (kept, problems)"
  shows "sorted (map Domain' kept) \<and> distinct (map Domain' kept) \<and>
    set kept = {r. first_route rs (Domain' r) = Some r \<and> \<not> conflicting rs (Domain' r)} \<and>
    entry ` set problems = {h. conflicting rs h} \<and> distinct (map entry problems)"
  using mergeRoutes_spec [OF assms] by blast

theorem merge_routes_contract_witness:
  "fst (mergeRoutes [none_route ''b:443'', none_route ''a:443'', none_route ''b:443'',
      (none_route ''c:443'')\<lparr>Injector := InjectorKubernetes\<rparr>, none_route ''c:443'']) = [none_route ''a:443'', none_route ''b:443''] \<and>
   \<not> conflicting [none_route ''a:443''] ''a:443''"
proof
  let ?rs = "[none_route ''b:443'', none_route ''a:443'', none_route ''b:443'',
      (none_route ''c:443'')\<lparr>Injector := InjectorKubernetes\<rparr>, none_route ''c:443'']"
  show "fst (mergeRoutes ?rs) = [none_route ''a:443'', none_route ''b:443'']" by code_simp
  have "mergeRoutes [none_route ''a:443''] = ([none_route ''a:443''], [])" by code_simp
  from merge_routes_contract [OF this] show "\<not> conflicting [none_route ''a:443''] ''a:443''" by auto
qed

text \<open>
  No allowlist entry disappears silently. Every domain of an allowlist target is a published
  route, or is reported, as an entry that is not a host or as a host with two injectors; and the
  conflicting hosts are reported before the entries that do not parse.
\<close>

theorem allowlist_entries_accounted:
  assumes "collectProxyRoutes g targets kr = (rs, ps)"
  shows "(\<forall>d \<in> set (allowed_domains targets).
      case ParseAllowlistDomain g d of Inl _ \<Rightarrow> d \<in> entry ` set ps
      | Inr h \<Rightarrow> h \<in> Domain' ` set rs \<or> h \<in> entry ` set ps) \<and>
    (\<exists>conflicts. map entry ps = conflicts @ filter (\<lambda>d. isl (ParseAllowlistDomain g d)) (allowed_domains targets) \<and>
       set conflicts \<inter> Domain' ` set rs = {})"
proof -
  obtain cand conflicts where m: "mergeRoutes cand = (rs, conflicts)"
    and c: "set cand = set kr \<union> {none_route h | h. \<exists>d \<in> set (allowed_domains targets). ParseAllowlistDomain g d = Inr h}"
    and ps: "map entry ps = map entry conflicts @ filter (\<lambda>d. isl (ParseAllowlistDomain g d)) (allowed_domains targets)"
    by (rule collectProxyRoutes_spec [OF assms])
  note sp = mergeRoutes_spec [OF m]
  have e: "entry ` set ps = {h. conflicting cand h} \<union> {d \<in> set (allowed_domains targets). isl (ParseAllowlistDomain g d)}"
    using arg_cong [OF ps, of set] sp(4) by (simp only: set_map set_append set_filter)
  have "h \<in> Domain' ` set rs \<or> conflicting cand h"
    if "d \<in> set (allowed_domains targets)" "ParseAllowlistDomain g d = Inr h" for d h
  proof -
    have "none_route h \<in> set cand" using c that by blast
    then obtain r where r: "first_route cand h = Some r"
      using first_route_None [of cand h] by (force simp: none_route_def)
    then have "Domain' r = h" using first_route_Some by blast
    then show ?thesis using r sp(3) by blast
  qed
  then have "\<forall>d \<in> set (allowed_domains targets). case ParseAllowlistDomain g d of Inl _ \<Rightarrow> d \<in> entry ` set ps
      | Inr h \<Rightarrow> h \<in> Domain' ` set rs \<or> h \<in> entry ` set ps"
    unfolding e by (auto split: sum.splits)
  moreover have "set (map entry conflicts) \<inter> Domain' ` set rs = {}"
    using sp(3,4) by auto
  ultimately show ?thesis using ps by blast
qed

theorem allowlist_entries_accounted_witness:
  "snd (collectProxyRoutes ascii_lib [\<lparr>Type = ''allowlist'', SecretName = [], Domains = [''*.x'', ''pypi.org'']\<rparr>] []) \<noteq> []"
proof -
  let ?t = "[\<lparr>Type = ''allowlist'', SecretName = [], Domains = [''*.x'', ''pypi.org'']\<rparr>]"
  obtain rs ps where c: "collectProxyRoutes ascii_lib ?t [] = (rs, ps)" by (cases "collectProxyRoutes ascii_lib ?t []")
  have "isl (ParseAllowlistDomain ascii_lib ''*.x'')" by code_simp
  then show ?thesis
    using allowlist_entries_accounted [OF c] c
    by (auto simp: allowed_domains_def ProxyTargetAllowlist_def split: sum.splits)
qed





end
