(* ===== verification/Operator.thy ===== *)
theory Operator
  imports McpServer ProxyRoutes
begin

text \<open>
  The operator's view of an instance: the types of \<open>api/v1alpha1\<close>, the names and labels of \<open>names.go\<close>, the sandbox
  configuration of \<open>overlay.go\<close> and the arguments of the MCP server in \<open>children.go\<close>, with the flags \<open>cmd/server/main.go\<close>
  registers. The last section joins the two: the server that is deployed starts, and builds the same pods as the pool.
\<close>

section \<open>climcpinstance\_types.go\<close>

definition ConditionReady :: string where "ConditionReady = ''Ready''"
definition ConditionWarmPoolReady :: string where "ConditionWarmPoolReady = ''WarmPoolReady''"
definition ReasonReady :: string where "ReasonReady = ''Ready''"
definition ReasonReconciling :: string where "ReasonReconciling = ''Reconciling''"
definition ReasonSecretsNotFound :: string where "ReasonSecretsNotFound = ''SecretsNotFound''"
definition ReasonSecretKeysInvalid :: string where "ReasonSecretKeysInvalid = ''SecretKeysInvalid''"
definition ReasonKubeconfigInvalid :: string where "ReasonKubeconfigInvalid = ''KubeconfigInvalid''"
definition ReasonProxyRoutesInvalid :: string where "ReasonProxyRoutesInvalid = ''ProxyRoutesInvalid''"
definition ReasonDeploymentUnavailable :: string where "ReasonDeploymentUnavailable = ''DeploymentUnavailable''"
definition ReasonChildrenNotReady :: string where "ReasonChildrenNotReady = ''ChildrenNotReady''"
definition ReasonWarmPoolNotReady :: string where "ReasonWarmPoolNotReady = ''WarmPoolNotReady''"
definition ReasonWarmPoolUnhealthy :: string where "ReasonWarmPoolUnhealthy = ''WarmPoolUnhealthy''"

text \<open>A quantity is its canonical text and whether it is zero.\<close>

record quantity =
  q_String :: string
  q_IsZero :: bool

record resources =
  res_Requests :: "(string \<times> quantity) list"
  res_Limits :: "(string \<times> quantity) list"

record sandbox_spec =
  sb_Image :: string
  IdleTimeout :: int
  WarmPoolSize :: int
  sb_Resources :: resources
  sb_Env :: "env_var list"
  sb_ImagePullPolicy :: string

record server_container_spec =
  sc_Resources :: resources
  sc_ImagePullPolicy :: string

record condition =
  cond_Type :: string
  cond_Status :: string
  Reason :: string
  Message :: string
  ObservedGeneration :: int
  LastTransitionTime :: int

record instance_status =
  st_WarmPoolReady :: int
  WarmPoolDesired :: int
  ResolvedSandboxImage :: string
  ClientServiceAccount :: string
  st_Conditions :: "condition list"

record climcp_instance =
  inst_Name :: string
  inst_Namespace :: string
  inst_UID :: string
  Generation :: int
  inst_Deletion :: "int option"
  Finalizers :: "string list"
  Replicas :: int
  Sandbox :: sandbox_spec
  ServerContainer :: "server_container_spec option"
  Targets :: "proxy_target list"
  Status :: instance_status

section \<open>names.go\<close>

definition finalizerName :: string where "finalizerName = ''cli-mcp.redhat.com/finalizer''"
definition hmacSecretKey :: string where "hmacSecretKey = ''key''"
definition kubeconfigDataKey :: string where "kubeconfigDataKey = ''kubeconfig''"
definition tlsCertKey :: string where "tlsCertKey = ''tls.crt''"
definition tlsKeyKey :: string where "tlsKeyKey = ''tls.key''"
definition hmacMountPath :: string where "hmacMountPath = ''/var/run/cli-mcp/hmac''"
definition tlsMountPath :: string where "tlsMountPath = ''/etc/tls/private''"
definition krpMountPath :: string where "krpMountPath = ''/etc/kube-rbac-proxy''"
definition hmacVolumeName :: string where "hmacVolumeName = ''hmac''"
definition tlsVolumeName :: string where "tlsVolumeName = ''tls''"
definition krpVolumeName :: string where "krpVolumeName = ''kube-rbac-proxy-config''"
definition krpConfigKey :: string where "krpConfigKey = ''config.yaml''"
definition serverContainerName :: string where "serverContainerName = ''server''"
definition proxyContainerName :: string where "proxyContainerName = ''kube-rbac-proxy''"
definition mcpListenAddr :: string where "mcpListenAddr = ''127.0.0.1:8080''"
definition proxyPort :: int where "proxyPort = 8443"
definition sandboxAgentPort :: int where "sandboxAgentPort = 8090"
definition hmacRVAnnotation :: string where "hmacRVAnnotation = ''cli-mcp.redhat.com/hmac-resource-version''"
definition krpRVAnnotation :: string where "krpRVAnnotation = ''cli-mcp.redhat.com/krp-resource-version''"
definition proxyRoutesRVAnnotation :: string where "proxyRoutesRVAnnotation = ''cli-mcp.redhat.com/proxy-routes-resource-version''"
definition proxyCARVAnnotation :: string where "proxyCARVAnnotation = ''cli-mcp.redhat.com/proxy-ca-resource-version''"
definition kubeconfigRVAnnotation :: string where "kubeconfigRVAnnotation = ''cli-mcp.redhat.com/kubeconfig-resource-version''"
definition sandboxOverlayAnnotation :: string where "sandboxOverlayAnnotation = ''cli-mcp.redhat.com/sandbox-overlay''"
definition caCertKey :: string where "caCertKey = ''ca.crt''"
definition caKeyKey :: string where "caKeyKey = ''ca.key''"
definition proxyConfigDataKey :: string where "proxyConfigDataKey = ''proxy-config.json''"
definition proxyKubeconfigPath :: string where "proxyKubeconfigPath = ''/etc/kube/config''"
definition proxyPreStopSeconds :: int where "proxyPreStopSeconds = 5"
definition proxyTerminationGrace :: int where "proxyTerminationGrace = 30"
definition authDelegatorCRBName :: string where "authDelegatorCRBName = ''cli-mcp-auth-delegator''"
definition authDelegatorClusterRole :: string where "authDelegatorClusterRole = ''system:auth-delegator''"
definition openshiftServingCertAnnotation :: string where
  "openshiftServingCertAnnotation = ''service.beta.openshift.io/serving-cert-secret-name''"
definition appNameLabel :: string where "appNameLabel = ''app.kubernetes.io/name''"
definition appNameServer :: string where "appNameServer = ''cli-mcp-server''"
definition childNamePrefix :: string where "childNamePrefix = ''cli-mcp-''"
definition kubeconfigSuffix :: string where "kubeconfigSuffix = ''-kubeconfig''"
definition tlsSuffix :: string where "tlsSuffix = ''-tls''"
definition hmacSuffix :: string where "hmacSuffix = ''-hmac''"
definition sandboxNameSuffix :: string where "sandboxNameSuffix = ''-sandbox''"
definition clientNameSuffix :: string where "clientNameSuffix = ''-client''"
definition krpNameSuffix :: string where "krpNameSuffix = ''-krp''"

definition childName :: "string \<Rightarrow> string" where "childName inst = childNamePrefix @ inst"
definition hmacSecretName :: "string \<Rightarrow> string" where "hmacSecretName inst = childNamePrefix @ inst @ hmacSuffix"
definition sandboxSAName :: "string \<Rightarrow> string" where "sandboxSAName inst = childNamePrefix @ inst @ sandboxNameSuffix"
definition kubeconfigSecretName :: "string \<Rightarrow> string" where "kubeconfigSecretName inst = childNamePrefix @ inst @ kubeconfigSuffix"
definition tlsSecretName :: "string \<Rightarrow> string" where "tlsSecretName inst = childNamePrefix @ inst @ tlsSuffix"
definition clientSAName :: "string \<Rightarrow> string" where "clientSAName inst = childNamePrefix @ inst @ clientNameSuffix"
definition krpConfigMapName :: "string \<Rightarrow> string" where "krpConfigMapName inst = childNamePrefix @ inst @ krpNameSuffix"
definition proxyName :: "string \<Rightarrow> string" where "proxyName inst = childNamePrefix @ inst @ ''-proxy''"
definition proxyCASecretName :: "string \<Rightarrow> string" where "proxyCASecretName inst = proxyName inst @ ''-ca''"

type_synonym labels = "(string \<times> string) list"

definition instanceLabels :: "string \<Rightarrow> labels" where "instanceLabels inst = [(LabelInstance, inst)]"
definition serverLabels :: "string \<Rightarrow> labels" where "serverLabels inst = [(LabelInstance, inst), (LabelComponent, ComponentServer)]"
definition serverPodLabels :: "string \<Rightarrow> labels" where "serverPodLabels inst = AList.update appNameLabel appNameServer (serverLabels inst)"
definition sandboxLabels :: "string \<Rightarrow> labels" where "sandboxLabels inst = [(LabelInstance, inst), (LabelComponent, ComponentSandbox)]"
definition proxyLabels :: "string \<Rightarrow> labels" where "proxyLabels inst = [(LabelInstance, inst), (LabelComponent, ComponentProxy)]"

text \<open>The first kubernetes target decides; \<open>None\<close> when there is none.\<close>

fun kube_secret_of :: "string \<Rightarrow> proxy_target list \<Rightarrow> string option" where
  "kube_secret_of name [] = None"
| "kube_secret_of name (t # ts) =
     (if Type t \<noteq> ProxyTargetKubernetes then kube_secret_of name ts
      else if SecretName t \<noteq> [] then Some (SecretName t)
      else Some (kubeconfigSecretName name))"

definition effectiveKubeconfigSecretName :: "climcp_instance \<Rightarrow> string option" where
  "effectiveKubeconfigSecretName inst = kube_secret_of (inst_Name inst) (Targets inst)"

fun strip_suffixes :: "string \<Rightarrow> string list \<Rightarrow> string option" where
  "strip_suffixes rest [] = None"
| "strip_suffixes rest (suffix # ss) = (if HasSuffix rest suffix then Some (TrimSuffix rest suffix) else strip_suffixes rest ss)"

definition instanceFromAdminSecret :: "string \<Rightarrow> string option" where
  "instanceFromAdminSecret name =
     (if \<not> HasPrefix name childNamePrefix then None
      else strip_suffixes (TrimPrefix name childNamePrefix) [kubeconfigSuffix, tlsSuffix, hmacSuffix])"

section \<open>overlay.go\<close>

definition envRelatedImageServer :: string where "envRelatedImageServer = ''RELATED_IMAGE_SERVER''"
definition envRelatedImageSandbox :: string where "envRelatedImageSandbox = ''RELATED_IMAGE_SANDBOX''"
definition envRelatedImageKubeRBACProxy :: string where "envRelatedImageKubeRBACProxy = ''RELATED_IMAGE_KUBE_RBAC_PROXY''"
definition envRelatedImageProxy :: string where "envRelatedImageProxy = ''RELATED_IMAGE_PROXY''"
definition defaultIdleTimeout :: int where "defaultIdleTimeout = 30 * 60 * second"

record images =
  img_Server :: string
  img_Sandbox :: string
  img_KubeRBACProxy :: string
  img_Proxy :: string

definition ImagesFromEnv :: "(string \<Rightarrow> string) \<Rightarrow> images" where
  "ImagesFromEnv getenv =
     \<lparr>img_Server = getenv envRelatedImageServer, img_Sandbox = getenv envRelatedImageSandbox,
      img_KubeRBACProxy = getenv envRelatedImageKubeRBACProxy, img_Proxy = getenv envRelatedImageProxy\<rparr>"

definition resolvedSandboxImage :: "images \<Rightarrow> sandbox_spec \<Rightarrow> string" where
  "resolvedSandboxImage im spec = (if sb_Image spec \<noteq> [] then sb_Image spec else img_Sandbox im)"

definition quantityOr :: "(string \<times> quantity) list \<Rightarrow> string \<Rightarrow> string \<Rightarrow> string" where
  "quantityOr qs name fallback =
     (case map_of qs name of Some q \<Rightarrow> if \<not> q_IsZero q then q_String q else fallback | None \<Rightarrow> fallback)"

definition replicasOrDefault :: "int \<Rightarrow> int" where "replicasOrDefault n = (if n < 1 then 1 else n)"
definition idleTimeoutOrDefault :: "int \<Rightarrow> int" where "idleTimeoutOrDefault d = (if d \<le> 0 then defaultIdleTimeout else d)"

definition sandboxOverlay :: "sandbox_spec \<Rightarrow> string \<Rightarrow> sandbox_config" where
  "sandboxOverlay spec resolvedImage =
     \<lparr>Image = resolvedImage,
      CPURequest = quantityOr (res_Requests (sb_Resources spec)) ''cpu'' (CPURequest DefaultConfig),
      CPULimit = quantityOr (res_Limits (sb_Resources spec)) ''cpu'' (CPULimit DefaultConfig),
      MemoryRequest = quantityOr (res_Requests (sb_Resources spec)) ''memory'' (MemoryRequest DefaultConfig),
      MemoryLimit = quantityOr (res_Limits (sb_Resources spec)) ''memory'' (MemoryLimit DefaultConfig),
      HMACKey = [], Namespace = [], InstanceName = [], ServiceAccountName = [], KubeconfigSecret = [],
      DummyKubeconfigConfigMap = [], ProxyService = [], ProxyClusterIP = [], ProxyCASecret = [],
      AgentPort = AgentPort DefaultConfig, ImagePullPolicy = sb_ImagePullPolicy spec, Env = sb_Env spec\<rparr>"

definition poolSandboxConfig :: "images \<Rightarrow> climcp_instance \<Rightarrow> sandbox_config" where
  "poolSandboxConfig im inst =
     (let cfg = (sandboxOverlay (Sandbox inst) (resolvedSandboxImage im (Sandbox inst)))
            \<lparr>InstanceName := inst_Name inst, Namespace := inst_Namespace inst,
             ServiceAccountName := sandboxSAName (inst_Name inst), ProxyService := proxyName (inst_Name inst),
             ProxyCASecret := proxyCASecretName (inst_Name inst)\<rparr> in
      if effectiveKubeconfigSecretName inst \<noteq> None
      then cfg\<lparr>DummyKubeconfigConfigMap := proxyName (inst_Name inst)\<rparr> else cfg)"

text \<open>What the overlay hash covers; the JSON encoder and SHA-256 are parameters.\<close>

record overlay_fingerprint =
  fp_Image :: string
  fp_CPURequest :: string
  fp_CPULimit :: string
  fp_MemoryRequest :: string
  fp_MemoryLimit :: string
  fp_ImagePullPolicy :: string
  fp_Env :: "env_var list"
  fp_OperatorEnv :: "env_var list"
  DummyKubeconfig :: "string option"
  ProxyCA :: "string option"

definition overlayHash :: "golib \<Rightarrow> (overlay_fingerprint \<Rightarrow> string result) \<Rightarrow> (string \<Rightarrow> string) \<Rightarrow>
    sandbox_config \<Rightarrow> string option \<Rightarrow> string option \<Rightarrow> string result" where
  "overlayHash g marshal sha256_hex cfg dummy ca =
     (case OperatorEnv g cfg of
        Inl err \<Rightarrow> Inl err
      | Inr opEnv \<Rightarrow>
          (case marshal \<lparr>fp_Image = Image cfg, fp_CPURequest = CPURequest cfg, fp_CPULimit = CPULimit cfg,
               fp_MemoryRequest = MemoryRequest cfg, fp_MemoryLimit = MemoryLimit cfg,
               fp_ImagePullPolicy = ImagePullPolicy cfg, fp_Env = Env cfg, fp_OperatorEnv = opEnv,
               DummyKubeconfig = dummy, ProxyCA = ca\<rparr> of
             Inl err \<Rightarrow> Inl (Wrap ''hash sandbox overlay'' err)
           | Inr raw \<Rightarrow> Inr (sha256_hex raw)))"

section \<open>The arguments of the MCP server\<close>

definition mcpServerArgs :: "golib \<Rightarrow> (env_var list \<Rightarrow> string result) \<Rightarrow> climcp_instance \<Rightarrow> sandbox_config \<Rightarrow> string list result" where
  "mcpServerArgs g marshal_env inst overlay =
     (case ProxyURL g (ProxyClusterIP overlay) of
        Inl err \<Rightarrow> Inl (Wrap (''proxy service '' @ proxyName (inst_Name inst)) err)
      | Inr _ \<Rightarrow>
          let args = [''--transport'', ''http'', ''--stateless'', ''--address'', mcpListenAddr,
                ''--namespace'', inst_Namespace inst, ''--instance-name'', inst_Name inst,
                ''--sandbox-image'', Image overlay, ''--hmac-key-file'', hmacMountPath @ ''/'' @ hmacSecretKey,
                ''--proxy-service'', proxyName (inst_Name inst), ''--proxy-cluster-ip'', ProxyClusterIP overlay,
                ''--proxy-ca-secret'', proxyCASecretName (inst_Name inst),
                ''--sandbox-service-account'', sandboxSAName (inst_Name inst),
                ''--sandbox-cpu-request'', CPURequest overlay, ''--sandbox-cpu-limit'', CPULimit overlay,
                ''--sandbox-memory-request'', MemoryRequest overlay, ''--sandbox-memory-limit'', MemoryLimit overlay] @
                (if effectiveKubeconfigSecretName inst \<noteq> None then [''--dummy-kubeconfig-configmap'', proxyName (inst_Name inst)] else []) @
                (if ImagePullPolicy overlay \<noteq> [] then [''--sandbox-image-pull-policy'', ImagePullPolicy overlay] else [])
          in if Env overlay \<noteq> [] then
               (case marshal_env (Env overlay) of
                  Inl err \<Rightarrow> Inl (Wrap ''marshal spec.sandbox.env'' err)
                | Inr raw \<Rightarrow> Inr (args @ [''--sandbox-env'', raw]))
             else Inr args)"

text \<open>
  What the flag library found: the value of every flag that was given, by name and by the type it was registered with.
\<close>

record flag_values =
  string_flag :: "string \<Rightarrow> string option"
  bool_flag :: "string \<Rightarrow> bool option"
  duration_flag :: "string \<Rightarrow> int option"
  int_flag :: "string \<Rightarrow> int option"

definition flag_or :: "('k \<Rightarrow> 'v option) \<Rightarrow> 'k \<Rightarrow> 'v \<Rightarrow> 'v" where
  "flag_or vals name dflt = (case vals name of Some v \<Rightarrow> v | None \<Rightarrow> dflt)"

definition main_config :: "flag_values \<Rightarrow> run_config" where
  "main_config fv =
     (let str = flag_or (string_flag fv) in
      \<lparr>run_address = str ''--address'' ''localhost:8080'', run_transport = str ''--transport'' ''stdio'',
       run_stateless = flag_or (bool_flag fv) ''--stateless'' False,
       run_kubeconfig = str ''--kubeconfig'' [], run_hmacKeyFile = str ''--hmac-key-file'' [],
       run_idleTimeout = flag_or (duration_flag fv) ''--idle-timeout'' (30 * 60 * second),
       run_warmPoolSize = flag_or (int_flag fv) ''--warm-pool-size'' 0,
       sandboxImage = str ''--sandbox-image'' [], namespace = str ''--namespace'' [], instanceName = str ''--instance-name'' [],
       proxyService = str ''--proxy-service'' [], proxyCASecret = str ''--proxy-ca-secret'' [],
       dummyKubeconfigConfigMap = str ''--dummy-kubeconfig-configmap'' [], proxyClusterIP = str ''--proxy-cluster-ip'' [],
       kubeconfigSecret = str ''--kubeconfig-secret'' [], sandboxServiceAccount = str ''--sandbox-service-account'' [],
       cpuRequest = str ''--sandbox-cpu-request'' [], cpuLimit = str ''--sandbox-cpu-limit'' [],
       memoryRequest = str ''--sandbox-memory-request'' [], memoryLimit = str ''--sandbox-memory-limit'' [],
       imagePullPolicy = str ''--sandbox-image-pull-policy'' [], sandboxEnv = str ''--sandbox-env'' []\<rparr>)"

section \<open>The deployed server\<close>

text \<open>
  What the flag library documents: a string flag takes the next argument, a bare boolean flag is true, every flag has the value
  it was given and a flag that is not there has none. A list of pairs stands for the arguments, \<open>None\<close> for a bare flag.
\<close>

definition flag_args :: "(string \<times> string option) list \<Rightarrow> string list" where
  "flag_args pairs = concat (map (\<lambda>(n, v). n # (case v of None \<Rightarrow> [] | Some x \<Rightarrow> [x])) pairs)"

definition read_pairs :: "(string \<times> string option) list \<Rightarrow> flag_values" where
  "read_pairs pairs =
     \<lparr>string_flag = (\<lambda>n. case map_of pairs n of Some v \<Rightarrow> v | None \<Rightarrow> None),
      bool_flag = (\<lambda>n. if map_of pairs n = Some None then Some True else None),
      duration_flag = (\<lambda>_. None), int_flag = (\<lambda>_. None)\<rparr>"

text \<open>The law for arguments that set string flags and \<open>--stateless\<close> only, each at most once.\<close>

definition string_names :: "string list" where
  "string_names =
     [''--address'', ''--transport'', ''--namespace'', ''--instance-name'', ''--sandbox-image'', ''--kubeconfig'', ''--kubeconfig-secret'',
      ''--proxy-service'', ''--proxy-cluster-ip'', ''--proxy-ca-secret'', ''--dummy-kubeconfig-configmap'', ''--sandbox-service-account'',
      ''--hmac-key-file'', ''--sandbox-cpu-request'', ''--sandbox-cpu-limit'', ''--sandbox-memory-request'', ''--sandbox-memory-limit'',
      ''--sandbox-image-pull-policy'', ''--sandbox-env'']"

definition plain_pairs :: "(string \<times> string option) list \<Rightarrow> bool" where
  "plain_pairs pairs =
     (distinct (map fst pairs) \<and>
      list_all (\<lambda>(n, v). if v = None then n = ''--stateless'' else n \<in> set string_names) pairs)"

definition pflag_reads :: "(string list \<Rightarrow> flag_values) \<Rightarrow> bool" where
  "pflag_reads parse = (\<forall>pairs. plain_pairs pairs \<longrightarrow> parse (flag_args pairs) = read_pairs pairs)"

text \<open>The arguments of the server as pairs; \<open>raw\<close> is the encoded environment.\<close>

definition opt_pair :: "bool \<Rightarrow> string \<Rightarrow> string \<Rightarrow> (string \<times> string option) list" where
  "opt_pair b n v = (if b then [(n, Some v)] else [])"

definition server_pairs :: "climcp_instance \<Rightarrow> sandbox_config \<Rightarrow> string \<Rightarrow> (string \<times> string option) list" where
  "server_pairs inst overlay raw =
     [(''--transport'', Some ''http''), (''--stateless'', None), (''--address'', Some mcpListenAddr),
      (''--namespace'', Some (inst_Namespace inst)), (''--instance-name'', Some (inst_Name inst)),
      (''--sandbox-image'', Some (Image overlay)), (''--hmac-key-file'', Some (hmacMountPath @ ''/'' @ hmacSecretKey)),
      (''--proxy-service'', Some (proxyName (inst_Name inst))), (''--proxy-cluster-ip'', Some (ProxyClusterIP overlay)),
      (''--proxy-ca-secret'', Some (proxyCASecretName (inst_Name inst))),
      (''--sandbox-service-account'', Some (sandboxSAName (inst_Name inst))),
      (''--sandbox-cpu-request'', Some (CPURequest overlay)), (''--sandbox-cpu-limit'', Some (CPULimit overlay)),
      (''--sandbox-memory-request'', Some (MemoryRequest overlay)), (''--sandbox-memory-limit'', Some (MemoryLimit overlay))] @
      opt_pair (effectiveKubeconfigSecretName inst \<noteq> None) ''--dummy-kubeconfig-configmap'' (proxyName (inst_Name inst)) @
      opt_pair (ImagePullPolicy overlay \<noteq> []) ''--sandbox-image-pull-policy'' (ImagePullPolicy overlay) @
      opt_pair (Env overlay \<noteq> []) ''--sandbox-env'' raw"

lemma map_of_opt_pair [simp]: "map_of (opt_pair b n v @ r) k = (if b \<and> k = n then Some (Some v) else map_of r k)"
  "map_of (opt_pair b n v) k = (if b \<and> k = n then Some (Some v) else None)"
  by (auto simp: opt_pair_def)

lemma names_opt_pair [simp]: "fst ` set (opt_pair b n v) = (if b then {n} else {})" "distinct (map fst (opt_pair b n v))"
  "list_all P (opt_pair b n v) = (b \<longrightarrow> P (n, Some v))"
  by (auto simp: opt_pair_def)

lemma flag_args_simps [simp]:
  "flag_args [] = []" "flag_args ((n, Some v) # ps) = n # v # flag_args ps" "flag_args ((n, None) # ps) = n # flag_args ps"
  "flag_args (ps @ qs) = flag_args ps @ flag_args qs" "flag_args (opt_pair b n v) = (if b then [n, v] else [])"
  by (simp_all add: flag_args_def opt_pair_def)

lemma mcpServerArgs_pairs:
  assumes "mcpServerArgs g marshal_env inst overlay = Inr args"
  shows "\<exists>raw. args = flag_args (server_pairs inst overlay raw) \<and> isr (ProxyURL g (ProxyClusterIP overlay)) \<and>
    (Env overlay \<noteq> [] \<longrightarrow> marshal_env (Env overlay) = Inr raw)"
proof -
  from assms obtain u where u: "ProxyURL g (ProxyClusterIP overlay) = Inr u" by (auto simp: mcpServerArgs_def split: sum.splits)
  show ?thesis
  proof (cases "Env overlay = []")
    case True
    with assms u have "args = flag_args (server_pairs inst overlay [])"
      by (simp add: mcpServerArgs_def server_pairs_def Let_def del: not_None_eq)
    with True u show ?thesis by auto
  next
    case False
    with assms u obtain x where x: "marshal_env (Env overlay) = Inr x"
      by (auto simp: mcpServerArgs_def Let_def split: sum.splits)
    from assms False x u have "args = flag_args (server_pairs inst overlay x)"
      by (simp add: mcpServerArgs_def server_pairs_def Let_def del: not_None_eq)
    with x u show ?thesis by auto
  qed
qed

lemma server_pairs_plain: "plain_pairs (server_pairs inst overlay raw)"
  unfolding plain_pairs_def
proof
  show "distinct (map fst (server_pairs inst overlay raw))" by (simp add: server_pairs_def)
  show "list_all (\<lambda>(n, v). if v = None then n = ''--stateless'' else n \<in> set string_names) (server_pairs inst overlay raw)"
    by (simp add: server_pairs_def string_names_def)
qed

definition server_config :: "climcp_instance \<Rightarrow> sandbox_config \<Rightarrow> string \<Rightarrow> run_config" where
  "server_config inst overlay raw =
     \<lparr>run_address = mcpListenAddr, run_transport = ''http'', run_stateless = True, run_kubeconfig = [],
      run_hmacKeyFile = hmacMountPath @ ''/'' @ hmacSecretKey, run_idleTimeout = 30 * 60 * second, run_warmPoolSize = 0,
      sandboxImage = Image overlay, namespace = inst_Namespace inst, instanceName = inst_Name inst,
      proxyService = proxyName (inst_Name inst), proxyCASecret = proxyCASecretName (inst_Name inst),
      dummyKubeconfigConfigMap = (if effectiveKubeconfigSecretName inst \<noteq> None then proxyName (inst_Name inst) else []),
      proxyClusterIP = ProxyClusterIP overlay, kubeconfigSecret = [], sandboxServiceAccount = sandboxSAName (inst_Name inst),
      cpuRequest = CPURequest overlay, cpuLimit = CPULimit overlay, memoryRequest = MemoryRequest overlay,
      memoryLimit = MemoryLimit overlay, imagePullPolicy = ImagePullPolicy overlay,
      sandboxEnv = (if Env overlay \<noteq> [] then raw else [])\<rparr>"

lemma parsed_server_config:
  assumes "pflag_reads parse"
  shows "main_config (parse (flag_args (server_pairs inst overlay raw))) = server_config inst overlay raw"
proof -
  have p: "parse (flag_args (server_pairs inst overlay raw)) = read_pairs (server_pairs inst overlay raw)"
    using assms server_pairs_plain unfolding pflag_reads_def by blast
  let ?f = "flag_or (string_flag (read_pairs (server_pairs inst overlay raw)))"
  have f: "?f n d = (case map_of (server_pairs inst overlay raw) n of Some (Some v) \<Rightarrow> v | _ \<Rightarrow> d)" for n d
    by (simp add: flag_or_def read_pairs_def split: option.splits)
  have b: "flag_or (bool_flag (read_pairs (server_pairs inst overlay raw))) ''--stateless'' False"
    by (simp add: flag_or_def read_pairs_def server_pairs_def)
  have d: "flag_or (duration_flag (read_pairs ps)) n x = x" "flag_or (int_flag (read_pairs ps)) n x = x" for ps n x
    by (simp_all add: flag_or_def read_pairs_def)
  show ?thesis
    unfolding p main_config_def Let_def f d by (simp add: b server_config_def) (simp add: server_pairs_def del: not_None_eq map_of_append)
qed

lemma poolSandboxConfig_alt:
  "(poolSandboxConfig im inst)\<lparr>ProxyClusterIP := ip, HMACKey := k\<rparr> =
     (sandboxOverlay (Sandbox inst) (resolvedSandboxImage im (Sandbox inst)))
       \<lparr>HMACKey := k, Namespace := inst_Namespace inst, InstanceName := inst_Name inst, ServiceAccountName := sandboxSAName (inst_Name inst),
        DummyKubeconfigConfigMap := (if effectiveKubeconfigSecretName inst \<noteq> None then proxyName (inst_Name inst) else []),
        ProxyService := proxyName (inst_Name inst), ProxyClusterIP := ip, ProxyCASecret := proxyCASecretName (inst_Name inst)\<rparr>"
  by (simp add: poolSandboxConfig_def sandboxOverlay_def Let_def)

lemma TrimSpace_Nil: "TrimSpace [] = []" using TrimSpace_substring [of "[]"] by simp

lemma listen_loopback: "IsLoopback mcpListenAddr" by code_simp

lemma name_nonempty: "proxyName n \<noteq> []" "proxyCASecretName n \<noteq> []" "sandboxSAName n \<noteq> []" "hmacMountPath \<noteq> []"
  by (simp_all add: proxyName_def proxyCASecretName_def sandboxSAName_def childNamePrefix_def hmacMountPath_def)

lemma OperatorEnv_key: "OperatorEnv g (cfg\<lparr>HMACKey := k\<rparr>) = OperatorEnv g cfg"
  unfolding OperatorEnv_def Let_def by (auto split: sum.split)

lemma BuildBasePodSpec_key: "BuildBasePodSpec g pq now name (cfg\<lparr>HMACKey := k\<rparr>) = BuildBasePodSpec g pq now name cfg"
  unfolding BuildBasePodSpec_def overlaySandboxEnv_def OperatorEnv_key sandboxMounts_def sandboxVolumes_def Let_def by (simp split: sum.split)

text \<open>The server accepts the configuration it is started with, and keeps it.\<close>

lemma server_config_accepted:
  assumes "overlay = (sandboxOverlay (Sandbox inst) img)\<lparr>ProxyClusterIP := ip\<rparr>" "isr (ProxyURL g ip)"
    and "inst_Name inst \<noteq> []" "inst_Namespace inst \<noteq> []" "img \<noteq> []"
    and "\<forall>v \<in> {CPURequest overlay, CPULimit overlay, MemoryRequest overlay, MemoryLimit overlay}. v \<noteq> [] \<and> isr (pq v)"
    and "ImagePullPolicy overlay \<in> {[], ''Always'', ''Never'', ''IfNotPresent''}"
    and "key \<noteq> []" "parseSandboxEnv parseEnv (if Env overlay \<noteq> [] then raw else []) = Inr (Env overlay)"
  shows "buildSandboxConfig g pq parseEnv (server_config inst overlay raw) key =
    Inr (overlay\<lparr>HMACKey := key, Namespace := inst_Namespace inst, InstanceName := inst_Name inst, ServiceAccountName := sandboxSAName (inst_Name inst),
        DummyKubeconfigConfigMap := (if effectiveKubeconfigSecretName inst \<noteq> None then proxyName (inst_Name inst) else []),
        ProxyService := proxyName (inst_Name inst), ProxyCASecret := proxyCASecretName (inst_Name inst)\<rparr>)"
proof -
  have f: "check_flags g (server_config inst overlay raw) = Inr ()"
    using assms(1-5) by (simp add: check_flags_def server_config_def sandboxOverlay_def name_nonempty)
  have q: "parseQuantityFlag g pq n v d = Inr v" if "v \<in> {CPURequest overlay, CPULimit overlay, MemoryRequest overlay, MemoryLimit overlay}" for n v d
    using assms(6) that by (auto simp: parseQuantityFlag_def isr_iff)
  have p: "parseImagePullPolicy (ImagePullPolicy overlay) = Inr (ImagePullPolicy overlay)"
    using assms(7) by (simp add: parseImagePullPolicy_def)
  show ?thesis
    unfolding buildSandboxConfig_def f
    using assms(9) by (simp add: server_config_def q p) (simp add: assms(1) sandboxOverlay_def)
qed

lemma NewSessionManager_proxied:
  assumes "HMACKey c \<noteq> []" "Image c \<noteq> []" "InstanceName c \<noteq> []" "Namespace c \<noteq> []" "ServiceAccountName c \<noteq> []"
    and "ProxyService c \<noteq> []" "ProxyCASecret c \<noteq> []" "KubeconfigSecret c = []" "AgentPort c = AgentPort DefaultConfig"
  shows "\<exists>m. NewSessionManager c = Inr m \<and> mgr_config m = c"
proof -
  have "c\<lparr>AgentPort := cmp_Or_int (AgentPort c) (AgentPort DefaultConfig)\<rparr> = c"
    using assms(9) by (simp add: cmp_Or_int_def)
  with assms show ?thesis by (simp add: NewSessionManager_def check_config_def validateSandboxIdentity_def Let_def)
qed

text \<open>
  C17. The operator and the server agree. The arguments the operator puts on the server container, read back by the flag library,
  pass every check of the server's start, and the server's sandbox configuration is the one of the operator's pool, with the HMAC key added: the
  pods the server makes on demand and the pods of the warm pool have the same spec. Assumed are the
  documented reading of flags and of JSON, a mounted key, and an instance whose quantities and pull policy are valid.
\<close>

theorem deployed_server_starts:
  assumes "pflag_reads parse"
    and "cfg = (poolSandboxConfig im inst)\<lparr>ProxyClusterIP := ip\<rparr>"
    and "mcpServerArgs g marshal_env inst ((sandboxOverlay (Sandbox inst) (resolvedSandboxImage im (Sandbox inst)))\<lparr>ProxyClusterIP := ip\<rparr>) = Inr args"
    and "inst_Name inst \<noteq> []" "inst_Namespace inst \<noteq> []" "resolvedSandboxImage im (Sandbox inst) \<noteq> []"
    and "\<forall>v \<in> {CPURequest cfg, CPULimit cfg, MemoryRequest cfg, MemoryLimit cfg}. v \<noteq> [] \<and> isr (pq v)"
    and "ImagePullPolicy cfg \<in> {[], ''Always'', ''Never'', ''IfNotPresent''}"
    and "readFile (hmacMountPath @ ''/'' @ hmacSecretKey) = Inr data" "TrimSpace data \<noteq> []"
    and "\<forall>env raw. marshal_env env = Inr raw \<longrightarrow> TrimSpace raw \<noteq> [] \<and> parseEnv raw = Inr env"
  shows "\<exists>m. runServer_checks g pq parseEnv readFile (main_config (parse args)) = Inr m \<and>
    mgr_config m = cfg\<lparr>HMACKey := TrimSpace data\<rparr> \<and>
    (\<forall>now name. BuildBasePodSpec g pq now name (mgr_config m) = BuildBasePodSpec g pq now name cfg)"
proof -
  let ?img = "resolvedSandboxImage im (Sandbox inst)" and ?key = "TrimSpace data"
  define overlay where "overlay = (sandboxOverlay (Sandbox inst) ?img)\<lparr>ProxyClusterIP := ip\<rparr>"
  obtain raw where raw: "args = flag_args (server_pairs inst overlay raw)" "isr (ProxyURL g (ProxyClusterIP overlay))"
    "Env overlay \<noteq> [] \<longrightarrow> marshal_env (Env overlay) = Inr raw"
    using mcpServerArgs_pairs [OF assms(3)] overlay_def by blast
  have same: "CPURequest cfg = CPURequest overlay" "CPULimit cfg = CPULimit overlay" "MemoryRequest cfg = MemoryRequest overlay"
    "MemoryLimit cfg = MemoryLimit overlay" "ImagePullPolicy cfg = ImagePullPolicy overlay" "ProxyClusterIP overlay = ip"
    by (simp_all add: assms(2) overlay_def poolSandboxConfig_def Let_def)
  have env: "parseSandboxEnv parseEnv (if Env overlay \<noteq> [] then raw else []) = Inr (Env overlay)"
  proof (cases "Env overlay = []")
    case True
    then show ?thesis by (simp add: parseSandboxEnv_def TrimSpace_Nil)
  next
    case False
    with raw(3) assms(11) have "TrimSpace raw \<noteq> []" "parseEnv raw = Inr (Env overlay)" by blast+
    with False show ?thesis by (simp add: parseSandboxEnv_def)
  qed
  have c: "buildSandboxConfig g pq parseEnv (server_config inst overlay raw) ?key = Inr (cfg\<lparr>HMACKey := ?key\<rparr>)"
    unfolding server_config_accepted [OF overlay_def raw(2) [unfolded same] assms(4-6) assms(7) [unfolded same] assms(8) [unfolded same] assms(10) env]
      assms(2) poolSandboxConfig_alt by (simp add: overlay_def)
  obtain m where m: "NewSessionManager (cfg\<lparr>HMACKey := ?key\<rparr>) = Inr m" "mgr_config m = cfg\<lparr>HMACKey := ?key\<rparr>"
    using NewSessionManager_proxied [of "cfg\<lparr>HMACKey := ?key\<rparr>"] assms(4-6,10)
    unfolding assms(2) poolSandboxConfig_alt by (auto simp: name_nonempty sandboxOverlay_def)
  have "runServer_checks g pq parseEnv readFile (server_config inst overlay raw) = Inr m"
    unfolding runServer_checks_def using c m assms(9,10)
    by (simp add: server_config_def ValidateTransportFlags_def listen_loopback loadHMACKey_def name_nonempty second_def Let_def)
  with m show ?thesis
    unfolding raw(1) parsed_server_config [OF assms(1)] by (auto simp: BuildBasePodSpec_key)
qed

fun demo_pairs :: "string list \<Rightarrow> (string \<times> string option) list" where
  "demo_pairs [] = []"
| "demo_pairs [n] = [(n, None)]"
| "demo_pairs (n # v # as) = (if n = ''--stateless'' then (n, None) # demo_pairs (v # as) else (n, Some v) # demo_pairs as)"

lemma demo_pairs_args:
  "list_all (\<lambda>(n, v). if v = None then n = ''--stateless'' else n \<in> set string_names) ps \<Longrightarrow> demo_pairs (flag_args ps) = ps"
proof (induction ps)
  case (Cons p ps)
  have s: "''--stateless'' \<notin> set string_names" by code_simp
  obtain n v where p: "p = (n, v)" by (cases p)
  show ?case
  proof (cases v)
    case None
    with Cons show ?thesis by (cases "flag_args ps") (auto simp: p)
  next
    case (Some x)
    with Cons s show ?thesis by (auto simp: p)
  qed
qed simp

lemma demo_parse_reads: "pflag_reads (\<lambda>as. read_pairs (demo_pairs as))"
  by (simp add: pflag_reads_def plain_pairs_def demo_pairs_args)

definition demo_instance :: climcp_instance where
  "demo_instance =
     \<lparr>inst_Name = ''a'', inst_Namespace = ''ns'', inst_UID = ''u'', Generation = 1, inst_Deletion = None, Finalizers = [finalizerName], Replicas = 1,
      Sandbox = \<lparr>sb_Image = [], IdleTimeout = 0, WarmPoolSize = 2, sb_Resources = \<lparr>res_Requests = [], res_Limits = []\<rparr>,
        sb_Env = [plain_env ''A'' ''b''], sb_ImagePullPolicy = ''Always''\<rparr>,
      ServerContainer = None,
      Targets = [\<lparr>Type = ProxyTargetKubernetes, SecretName = [], Domains = []\<rparr>],
      Status = \<lparr>st_WarmPoolReady = 0, WarmPoolDesired = 0, ResolvedSandboxImage = [], ClientServiceAccount = [], st_Conditions = []\<rparr>\<rparr>"

definition demo_images :: images where
  "demo_images = \<lparr>img_Server = ''server'', img_Sandbox = ''sandbox'', img_KubeRBACProxy = ''krp'', img_Proxy = ''proxy''\<rparr>"

definition demo_marshal :: "env_var list \<Rightarrow> string result" where
  "demo_marshal env = (if env = [plain_env ''A'' ''b''] then Inr ''E'' else Inl (Err ''env''))"

theorem deployed_server_starts_witness:
  "\<exists>args m. mcpServerArgs ascii_lib demo_marshal demo_instance
        ((sandboxOverlay (Sandbox demo_instance) (resolvedSandboxImage demo_images (Sandbox demo_instance)))\<lparr>ProxyClusterIP := ''10.0.0.5''\<rparr>) = Inr args \<and>
     runServer_checks ascii_lib Inr (\<lambda>_. Inr [plain_env ''A'' ''b'']) (\<lambda>_. Inr ''key'') (main_config (read_pairs (demo_pairs args))) = Inr m \<and>
     Env (mgr_config m) = [plain_env ''A'' ''b''] \<and> ProxyClusterIP (mgr_config m) = ''10.0.0.5''"
proof -
  let ?ov = "(sandboxOverlay (Sandbox demo_instance) (resolvedSandboxImage demo_images (Sandbox demo_instance)))\<lparr>ProxyClusterIP := ''10.0.0.5''\<rparr>"
  have u: "\<exists>u. ProxyURL ascii_lib ''10.0.0.5'' = Inr u"
    by (subst isr_iff [symmetric]) code_simp
  have t: "TrimSpace ''key'' \<noteq> []" "TrimSpace ''E'' \<noteq> []" by code_simp+
  have e: "Env ?ov = [plain_env ''A'' ''b'']" by (simp add: sandboxOverlay_def demo_instance_def)
  obtain args where a: "mcpServerArgs ascii_lib demo_marshal demo_instance ?ov = Inr args"
    using u e by (auto simp: mcpServerArgs_def demo_marshal_def Let_def)
  have "\<exists>m. runServer_checks ascii_lib Inr (\<lambda>_. Inr [plain_env ''A'' ''b'']) (\<lambda>_. Inr ''key'') (main_config (read_pairs (demo_pairs args))) = Inr m \<and>
      mgr_config m = ((poolSandboxConfig demo_images demo_instance)\<lparr>ProxyClusterIP := ''10.0.0.5''\<rparr>)\<lparr>HMACKey := TrimSpace ''key''\<rparr> \<and>
      (\<forall>now name. BuildBasePodSpec ascii_lib Inr now name (mgr_config m) =
         BuildBasePodSpec ascii_lib Inr now name ((poolSandboxConfig demo_images demo_instance)\<lparr>ProxyClusterIP := ''10.0.0.5''\<rparr>))"
    by (rule deployed_server_starts [OF demo_parse_reads refl a])
      (simp_all add: demo_instance_def demo_images_def poolSandboxConfig_def sandboxOverlay_def resolvedSandboxImage_def quantityOr_def DefaultConfig_def Let_def t demo_marshal_def
        split: if_splits)
  then show ?thesis using a by (auto simp: poolSandboxConfig_def sandboxOverlay_def demo_instance_def Let_def)
qed

end
