(* ===== verification/Normalize.thy ===== *)
theory Normalize
  imports Operator
begin

text \<open>
  \<open>internal/controller/normalize.go\<close>: the defaults the operator writes into a Deployment before it compares it with the one in
  the cluster. The records hold the fields of a Deployment the operator sets or normalizes. Filling in defaults twice is
  the same as once, so a Deployment that was applied is left alone by the next run.
\<close>

section \<open>Objects and Deployments\<close>

record owner =
  owner_Kind :: string
  owner_Name :: string
  owner_UID :: string
  owner_Controller :: bool

record metadata =
  obj_Name :: string
  obj_Namespace :: string
  obj_Labels :: labels
  obj_Annotations :: labels
  obj_Owners :: "owner list"
  obj_ResourceVersion :: string
  obj_Generation :: int

datatype int_or_string = IntPort int | NamePort string

record t_probe =
  pr_Exec :: "string list option"
  pr_TCPSocket :: "int_or_string option"
  pr_HTTPGet_Scheme :: "string option"
  pr_InitialDelaySeconds :: int
  pr_TimeoutSeconds :: int
  pr_PeriodSeconds :: int
  pr_SuccessThreshold :: int
  pr_FailureThreshold :: int

datatype t_env_source = FieldRef (ref_APIVersion: string) (ref_FieldPath: string) | OtherRef string

record t_env =
  te_Name :: string
  te_Value :: string
  te_ValueFrom :: "t_env_source option"

record t_port =
  tp_Name :: string
  tp_ContainerPort :: int
  tp_Protocol :: string

record t_container =
  tc_Name :: string
  tc_Image :: string
  tc_ImagePullPolicy :: string
  tc_Args :: "string list"
  tc_Env :: "t_env list"
  tc_Ports :: "t_port list"
  tc_Resources :: resources
  tc_AllowPrivilegeEscalation :: "bool option"
  tc_DropCapabilities :: "string list"
  tc_VolumeMounts :: "volume_mount list"
  tc_ReadinessProbe :: "t_probe option"
  tc_LivenessProbe :: "t_probe option"
  tc_StartupProbe :: "t_probe option"
  tc_PreStopSleep :: "int option"
  tc_TerminationMessagePath :: string
  tc_TerminationMessagePolicy :: string

record t_volume_source =
  vs_Name :: string
  vs_Items :: "(string \<times> string) list"
  vs_DefaultMode :: "int option"

record t_volume =
  tv_Name :: string
  tv_ConfigMap :: "t_volume_source option"
  tv_Secret :: "t_volume_source option"
  tv_DownwardAPI :: "t_volume_source option"
  tv_Projected :: "t_volume_source option"
  tv_EmptyDir :: bool

record t_security =
  sc_RunAsNonRoot :: "bool option"
  sc_SeccompProfile :: "string option"

record t_pod_spec =
  ts_ServiceAccountName :: string
  ts_DeprecatedServiceAccount :: string
  ts_AutomountServiceAccountToken :: "bool option"
  ts_RestartPolicy :: string
  ts_DNSPolicy :: string
  ts_SchedulerName :: string
  ts_TerminationGracePeriodSeconds :: "int option"
  ts_SecurityContext :: "t_security option"
  ts_EnableServiceLinks :: "bool option"
  ts_InitContainers :: "t_container list"
  ts_Containers :: "t_container list"
  ts_Volumes :: "t_volume list"

record t_template =
  tt_Labels :: labels
  tt_Annotations :: labels
  tt_Spec :: t_pod_spec

record d_strategy =
  ds_Type :: string
  ds_RollingUpdate :: "(int_or_string \<times> int_or_string) option"

record deployment_spec =
  d_Replicas :: "int option"
  d_Selector :: labels
  d_Strategy :: d_strategy
  d_RevisionHistoryLimit :: "int option"
  d_ProgressDeadlineSeconds :: "int option"
  d_Template :: t_template

record deployment =
  d_Meta :: metadata
  d_Spec :: deployment_spec
  d_ObservedGeneration :: int
  d_ReadyReplicas :: int
  d_Conditions :: "(string \<times> string) list"

section \<open>normalize.go\<close>

text \<open>A pointer that is set keeps its value.\<close>

definition or_default :: "'a option \<Rightarrow> 'a \<Rightarrow> 'a option" where
  "or_default p d = (case p of None \<Rightarrow> Some d | Some _ \<Rightarrow> p)"

definition or_string :: "string \<Rightarrow> string \<Rightarrow> string" where "or_string s d = (if s = [] then d else s)"

definition or_int :: "int \<Rightarrow> int \<Rightarrow> int" where "or_int n d = (if n = 0 then d else n)"

definition imageHasLatestOrNoTag :: "string \<Rightarrow> bool" where
  "imageHasLatestOrNoTag img =
     (if HasSuffix img '':latest'' then True
      else
        let afterSlash = (case LastIndexByte img (CHR ''/'') of Some i \<Rightarrow> drop (i + 1) img | None \<Rightarrow> img) in
        \<not> Contains afterSlash '':'')"

definition normalizeProbe :: "t_probe \<Rightarrow> t_probe" where
  "normalizeProbe p =
     p\<lparr>pr_TimeoutSeconds := or_int (pr_TimeoutSeconds p) 1, pr_PeriodSeconds := or_int (pr_PeriodSeconds p) 10,
       pr_SuccessThreshold := or_int (pr_SuccessThreshold p) 1, pr_FailureThreshold := or_int (pr_FailureThreshold p) 3,
       pr_HTTPGet_Scheme := map_option (\<lambda>s. or_string s ''HTTP'') (pr_HTTPGet_Scheme p)\<rparr>"

definition normalizeEnv :: "t_env \<Rightarrow> t_env" where
  "normalizeEnv v =
     (case te_ValueFrom v of
        Some (FieldRef ver path) \<Rightarrow> v\<lparr>te_ValueFrom := Some (FieldRef (or_string ver ''v1'') path)\<rparr>
      | _ \<Rightarrow> v)"

definition normalizeContainer :: "t_container \<Rightarrow> t_container" where
  "normalizeContainer c =
     c\<lparr>tc_Env := map normalizeEnv (tc_Env c),
       tc_TerminationMessagePath := or_string (tc_TerminationMessagePath c) ''/dev/termination-log'',
       tc_TerminationMessagePolicy := or_string (tc_TerminationMessagePolicy c) ''File'',
       tc_ImagePullPolicy := or_string (tc_ImagePullPolicy c) (if imageHasLatestOrNoTag (tc_Image c) then ''Always'' else ''IfNotPresent''),
       tc_Ports := map (\<lambda>p. p\<lparr>tp_Protocol := or_string (tp_Protocol p) ''TCP''\<rparr>) (tc_Ports c),
       tc_LivenessProbe := map_option normalizeProbe (tc_LivenessProbe c),
       tc_ReadinessProbe := map_option normalizeProbe (tc_ReadinessProbe c),
       tc_StartupProbe := map_option normalizeProbe (tc_StartupProbe c)\<rparr>"

definition defaultVolumeMode :: int where "defaultVolumeMode = 420"

definition default_mode :: "t_volume_source \<Rightarrow> t_volume_source" where
  "default_mode v = v\<lparr>vs_DefaultMode := or_default (vs_DefaultMode v) defaultVolumeMode\<rparr>"

definition normalizeVolume :: "t_volume \<Rightarrow> t_volume" where
  "normalizeVolume v =
     v\<lparr>tv_ConfigMap := map_option default_mode (tv_ConfigMap v), tv_Secret := map_option default_mode (tv_Secret v),
       tv_DownwardAPI := map_option default_mode (tv_DownwardAPI v), tv_Projected := map_option default_mode (tv_Projected v)\<rparr>"

definition normalizePodSpec :: "t_pod_spec \<Rightarrow> t_pod_spec" where
  "normalizePodSpec spec =
     (let sa = or_string (ts_ServiceAccountName spec) ''default'' in
      spec\<lparr>ts_RestartPolicy := or_string (ts_RestartPolicy spec) ''Always'',
           ts_DNSPolicy := or_string (ts_DNSPolicy spec) ''ClusterFirst'',
           ts_SchedulerName := or_string (ts_SchedulerName spec) ''default-scheduler'',
           ts_TerminationGracePeriodSeconds := or_default (ts_TerminationGracePeriodSeconds spec) 30,
           ts_ServiceAccountName := sa,
           ts_DeprecatedServiceAccount := or_string (ts_DeprecatedServiceAccount spec) sa,
           ts_SecurityContext := or_default (ts_SecurityContext spec) \<lparr>sc_RunAsNonRoot = None, sc_SeccompProfile = None\<rparr>,
           ts_EnableServiceLinks := or_default (ts_EnableServiceLinks spec) True,
           ts_InitContainers := map normalizeContainer (ts_InitContainers spec),
           ts_Containers := map normalizeContainer (ts_Containers spec),
           ts_Volumes := map normalizeVolume (ts_Volumes spec)\<rparr>)"

definition normalizeDeploymentStrategy :: "d_strategy \<Rightarrow> d_strategy" where
  "normalizeDeploymentStrategy st =
     (let t = or_string (ds_Type st) ''RollingUpdate'' in
      if t = ''RollingUpdate''
      then st\<lparr>ds_Type := t, ds_RollingUpdate := or_default (ds_RollingUpdate st) (NamePort ''25%'', NamePort ''25%'')\<rparr>
      else st\<lparr>ds_Type := t\<rparr>)"

definition NormalizeDeployment :: "deployment_spec \<Rightarrow> deployment_spec" where
  "NormalizeDeployment d =
     d\<lparr>d_Strategy := normalizeDeploymentStrategy (d_Strategy d),
       d_RevisionHistoryLimit := or_default (d_RevisionHistoryLimit d) 10,
       d_ProgressDeadlineSeconds := or_default (d_ProgressDeadlineSeconds d) 600,
       d_Template := (d_Template d)\<lparr>tt_Spec := normalizePodSpec (tt_Spec (d_Template d))\<rparr>\<rparr>"

section \<open>Defaults are stable\<close>

lemma or_default_idem [simp]: "or_default (or_default p d) d' = or_default p d"
  by (simp add: or_default_def split: option.splits)

lemma or_string_idem: "d \<noteq> [] \<Longrightarrow> or_string (or_string s d) d' = or_string s d"
  by (simp add: or_string_def)

lemma or_string_nonempty: "d \<noteq> [] \<Longrightarrow> or_string s d \<noteq> []"
  by (simp add: or_string_def)

lemma or_int_idem: "d \<noteq> 0 \<Longrightarrow> or_int (or_int n d) d = or_int n d"
  by (simp add: or_int_def)

lemmas idem_simps = or_string_idem or_int_idem or_string_nonempty option.map_comp comp_def

lemma normalizeProbe_idem [simp]: "normalizeProbe (normalizeProbe p) = normalizeProbe p"
  by (simp add: normalizeProbe_def idem_simps)

lemma normalizeEnv_idem [simp]: "normalizeEnv (normalizeEnv v) = normalizeEnv v"
  by (simp add: normalizeEnv_def or_string_idem split: option.splits t_env_source.splits)

lemma normalizeContainer_idem [simp]: "normalizeContainer (normalizeContainer c) = normalizeContainer c"
  by (simp add: normalizeContainer_def idem_simps)

lemma default_mode_idem [simp]: "default_mode (default_mode v) = default_mode v"
  by (simp add: default_mode_def)

lemma normalizeVolume_idem [simp]: "normalizeVolume (normalizeVolume v) = normalizeVolume v"
  by (simp add: normalizeVolume_def option.map_comp comp_def)

lemma normalizePodSpec_idem [simp]: "normalizePodSpec (normalizePodSpec s) = normalizePodSpec s"
  by (simp add: normalizePodSpec_def idem_simps Let_def)

lemma normalizeDeploymentStrategy_idem [simp]: "normalizeDeploymentStrategy (normalizeDeploymentStrategy s) = normalizeDeploymentStrategy s"
  by (simp add: normalizeDeploymentStrategy_def or_string_def Let_def)

lemma NormalizeDeployment_idem: "NormalizeDeployment (NormalizeDeployment d) = NormalizeDeployment d"
  by (simp add: NormalizeDeployment_def)

text \<open>What the operator chose survives: nothing that was set is changed.\<close>

lemma NormalizeDeployment_keeps:
  "d_Replicas (NormalizeDeployment d) = d_Replicas d" "d_Selector (NormalizeDeployment d) = d_Selector d"
  "tt_Labels (d_Template (NormalizeDeployment d)) = tt_Labels (d_Template d)"
  "tt_Annotations (d_Template (NormalizeDeployment d)) = tt_Annotations (d_Template d)"
  "map tc_Args (ts_Containers (tt_Spec (d_Template (NormalizeDeployment d)))) = map tc_Args (ts_Containers (tt_Spec (d_Template d)))"
  "map tc_VolumeMounts (ts_Containers (tt_Spec (d_Template (NormalizeDeployment d)))) = map tc_VolumeMounts (ts_Containers (tt_Spec (d_Template d)))"
  "map tv_Name (ts_Volumes (tt_Spec (d_Template (NormalizeDeployment d)))) = map tv_Name (ts_Volumes (tt_Spec (d_Template d)))"
  by (simp_all add: NormalizeDeployment_def normalizePodSpec_def normalizeContainer_def normalizeVolume_def Let_def comp_def)

end
