(* ===== verification/Cluster.thy ===== *)
theory Cluster
  imports Normalize
begin

text \<open>
  What the operator acts on: the objects it reads and writes through the controller-runtime client, one client per kind, and the
  libraries it calls, all fields of the record \<open>op_env\<close> over an arbitrary world. Every call is logged with its answer as an \<open>op_event\<close>.
  The context of a call is always the one of the reconcile and is not recorded. \<open>client_CreateOrUpdate\<close> is \<open>controllerutil.CreateOrUpdate\<close>:
  it takes the function that edits the object, which is part of the event.
\<close>

section \<open>Objects\<close>

record service_account =
  sa_Meta :: metadata
  sa_AutomountToken :: "bool option"

record policy_rule =
  APIGroups :: "string list"
  Resources :: "string list"
  ResourceNames :: "string list"
  Verbs :: "string list"

record role =
  role_Meta :: metadata
  Rules :: "policy_rule list"

record role_ref =
  rr_APIGroup :: string
  rr_Kind :: string
  rr_Name :: string

record subject =
  subj_Kind :: string
  subj_Name :: string
  subj_Namespace :: string

text \<open>A RoleBinding or a ClusterRoleBinding.\<close>

record role_binding =
  rb_Meta :: metadata
  RoleRef :: role_ref
  Subjects :: "subject list"

record service_port =
  sp_Name :: string
  sp_Port :: int
  sp_TargetPort :: int_or_string
  sp_Protocol :: string

record service =
  svc_Meta :: metadata
  Selector :: labels
  ClusterIP :: string
  svc_Ports :: "service_port list"

text \<open>A rule of a network policy: the pod selectors of its peers, all in the namespace of the policy, and its ports.\<close>

record np_rule =
  Peers :: "labels list"
  np_Ports :: "(string \<times> int) list"

record np_spec =
  PodSelector :: labels
  np_PolicyTypes :: "string list"
  Ingress :: "np_rule list"
  Egress :: "np_rule list"

record netpol =
  np_Meta :: metadata
  np_Spec :: np_spec

record config_map =
  cm_Meta :: metadata
  cm_Data :: "(string \<times> string) list"

record ksecret =
  sec_Meta :: metadata
  sec_Type :: string
  sec_Data :: "(string \<times> string) list"

definition new_meta :: "string \<Rightarrow> string \<Rightarrow> metadata" where
  "new_meta ns n =
     \<lparr>obj_Name = n, obj_Namespace = ns, obj_Labels = [], obj_Annotations = [], obj_Owners = [], obj_ResourceVersion = [], obj_Generation = 0\<rparr>"

text \<open>Two string maps are equal; a missing map is an empty one.\<close>

definition same_map :: "(string \<times> string) list \<Rightarrow> (string \<times> string) list \<Rightarrow> bool" where
  "same_map a b = list_all (\<lambda>k. map_of a k = map_of b k) (map fst a @ map fst b)"

lemma same_map_iff: "same_map a b \<longleftrightarrow> map_of a = map_of b"
proof
  assume s: "same_map a b"
  show "map_of a = map_of b"
  proof
    fix k
    show "map_of a k = map_of b k"
    proof (cases "k \<in> fst ` set a \<or> k \<in> fst ` set b")
      case True
      with s show ?thesis by (auto simp: same_map_def list_all_iff)
    next
      case False
      then show ?thesis by (metis map_of_eq_None_iff)
    qed
  qed
qed (simp add: same_map_def list_all_iff)

section \<open>Calls and answers\<close>

datatype selector = Everything | MatchingLabels labels | LabelSelector string | MatchingFields string string

datatype 'o access =
    Got string string "'o result"
  | Listed string selector "'o list result"
  | Created 'o "'o result"
  | Updated 'o "'o result"
  | StatusUpdated 'o "'o result"
  | Deleted string string preconditions "unit result"
  | DeletedAll string selector "unit result"
  | Applied string string "'o \<Rightarrow> 'o result" "'o result"

record ('w, 'o) client =
  client_Get :: "string \<Rightarrow> string \<Rightarrow> 'w \<Rightarrow> 'o result \<times> 'w"
  client_List :: "string \<Rightarrow> selector \<Rightarrow> 'w \<Rightarrow> 'o list result \<times> 'w"
  client_Create :: "'o \<Rightarrow> 'w \<Rightarrow> 'o result \<times> 'w"
  client_Update :: "'o \<Rightarrow> 'w \<Rightarrow> 'o result \<times> 'w"
  client_StatusUpdate :: "'o \<Rightarrow> 'w \<Rightarrow> 'o result \<times> 'w"
  client_Delete :: "string \<Rightarrow> string \<Rightarrow> preconditions \<Rightarrow> 'w \<Rightarrow> unit result \<times> 'w"
  client_DeleteAllOf :: "string \<Rightarrow> selector \<Rightarrow> 'w \<Rightarrow> unit result \<times> 'w"
  client_CreateOrUpdate :: "'o \<Rightarrow> ('o \<Rightarrow> 'o result) \<Rightarrow> 'w \<Rightarrow> 'o result \<times> 'w"

datatype op_event =
    OnPod "pod access"
  | OnSecret "ksecret access"
  | OnConfigMap "config_map access"
  | OnServiceAccount "service_account access"
  | OnRole "role access"
  | OnRoleBinding "role_binding access"
  | OnClusterRoleBinding "role_binding access"
  | OnService "service access"
  | OnNetpol "netpol access"
  | OnDeployment "deployment access"
  | OnSlice "endpoint_slice access"
  | OnInstance "climcp_instance access"

record krp_attributes =
  krp_APIGroup :: string
  krp_APIVersion :: string
  krp_Resource :: string
  krp_Subresource :: string
  krp_Namespace :: string
  krp_Name :: string

text \<open>
  The crypto libraries that make the CA of the proxy: \<open>ecdsa.GenerateKey\<close> on a named curve, \<open>rand.Int\<close> below a bound,
  \<open>x509.CreateCertificate\<close> of a template, its parent, a public key and the key that signs, \<open>x509.MarshalECPrivateKey\<close> and
  \<open>pem.EncodeToMemory\<close> of a block type and its bytes.
\<close>

record ca_template =
  SerialNumber :: int
  CommonName :: string
  Organization :: "string list"
  NotBefore :: int
  NotAfter :: int
  tmpl_KeyUsage :: int
  BasicConstraintsValid :: bool
  tmpl_IsCA :: bool

record 'w crypto =
  ecdsa_GenerateKey :: "string \<Rightarrow> 'w \<Rightarrow> private_key result \<times> 'w"
  rand_Int :: "int \<Rightarrow> 'w \<Rightarrow> int result \<times> 'w"
  x509_CreateCertificate :: "ca_template \<Rightarrow> ca_template \<Rightarrow> public_key \<Rightarrow> private_key \<Rightarrow> 'w \<Rightarrow> string result \<times> 'w"
  x509_MarshalECPrivateKey :: "private_key \<Rightarrow> string result"
  pem_EncodeToMemory :: "string \<Rightarrow> string \<Rightarrow> string"

text \<open>
  The libraries: \<open>runtime\<close> is what operator and server share (clock, quantities, time format), the clients, random numbers, the encoders,
  the owners \<open>controllerutil.SetControllerReference\<close> gives an object and the helpers on finalizers and status conditions.
\<close>

record 'w op_env =
  runtime :: "'w env"
  pods :: "('w, pod) client"
  secrets :: "('w, ksecret) client"
  configmaps :: "('w, config_map) client"
  serviceaccounts :: "('w, service_account) client"
  roles :: "('w, role) client"
  rolebindings :: "('w, role_binding) client"
  clusterrolebindings :: "('w, role_binding) client"
  services :: "('w, service) client"
  netpols :: "('w, netpol) client"
  deployments :: "('w, deployment) client"
  slices :: "('w, endpoint_slice) client"
  instances :: "('w, climcp_instance) client"
  new_uuid :: "'w \<Rightarrow> string \<times> 'w"
  rand_Read :: "nat \<Rightarrow> 'w \<Rightarrow> string result \<times> 'w"
  crypto :: "'w crypto"
  SetControllerReference :: "climcp_instance \<Rightarrow> metadata \<Rightarrow> owner list result"
  ContainsFinalizer :: "string list \<Rightarrow> string \<Rightarrow> bool"
  AddFinalizer :: "string list \<Rightarrow> string \<Rightarrow> string list"
  RemoveFinalizer :: "string list \<Rightarrow> string \<Rightarrow> string list"
  SetStatusCondition :: "int \<Rightarrow> condition \<Rightarrow> condition list \<Rightarrow> condition list"
  FindStatusCondition :: "condition list \<Rightarrow> string \<Rightarrow> condition option"
  labels_Parse :: "string \<Rightarrow> selector result"
  parse_RFC3339 :: "string \<Rightarrow> int result"
  error_text :: "go_error \<Rightarrow> string"
  load_kubeconfig :: "string \<Rightarrow> kconfig result"
  write_kubeconfig :: "kconfig \<Rightarrow> string result"
  marshal_env :: "env_var list \<Rightarrow> string result"
  marshal_routes :: "proxy_route list \<Rightarrow> string result"
  marshal_overlay :: "overlay_fingerprint \<Rightarrow> string result"
  sha256_hex :: "string \<Rightarrow> string"
  marshal_krp :: "krp_attributes \<Rightarrow> string result"

record reconciler =
  rec_Images :: images
  OnOpenShift :: bool

type_synonym ('w, 'a) op = "('w, op_event, 'a) gio"

abbreviation lib :: "'w op_env \<Rightarrow> golib" where "lib e \<equiv> golang (runtime e)"

definition get_obj :: "('w, 'o) client \<Rightarrow> ('o access \<Rightarrow> op_event) \<Rightarrow> string \<Rightarrow> string \<Rightarrow> ('w, 'o result) op" where
  "get_obj c on ns n = call (client_Get c ns n) (\<lambda>r. on (Got ns n r))"

definition list_objs :: "('w, 'o) client \<Rightarrow> ('o access \<Rightarrow> op_event) \<Rightarrow> string \<Rightarrow> selector \<Rightarrow> ('w, 'o list result) op" where
  "list_objs c on ns sel = call (client_List c ns sel) (\<lambda>r. on (Listed ns sel r))"

definition create_obj :: "('w, 'o) client \<Rightarrow> ('o access \<Rightarrow> op_event) \<Rightarrow> 'o \<Rightarrow> ('w, 'o result) op" where
  "create_obj c on x = call (client_Create c x) (\<lambda>r. on (Created x r))"

definition update_obj :: "('w, 'o) client \<Rightarrow> ('o access \<Rightarrow> op_event) \<Rightarrow> 'o \<Rightarrow> ('w, 'o result) op" where
  "update_obj c on x = call (client_Update c x) (\<lambda>r. on (Updated x r))"

definition update_status :: "('w, 'o) client \<Rightarrow> ('o access \<Rightarrow> op_event) \<Rightarrow> 'o \<Rightarrow> ('w, 'o result) op" where
  "update_status c on x = call (client_StatusUpdate c x) (\<lambda>r. on (StatusUpdated x r))"

definition delete_obj :: "('w, 'o) client \<Rightarrow> ('o access \<Rightarrow> op_event) \<Rightarrow> string \<Rightarrow> string \<Rightarrow> preconditions \<Rightarrow> ('w, unit result) op" where
  "delete_obj c on ns n pre = call (client_Delete c ns n pre) (\<lambda>r. on (Deleted ns n pre r))"

definition delete_all :: "('w, 'o) client \<Rightarrow> ('o access \<Rightarrow> op_event) \<Rightarrow> string \<Rightarrow> selector \<Rightarrow> ('w, unit result) op" where
  "delete_all c on ns sel = call (client_DeleteAllOf c ns sel) (\<lambda>r. on (DeletedAll ns sel r))"

definition apply_obj :: "('w, 'o) client \<Rightarrow> ('o access \<Rightarrow> op_event) \<Rightarrow> string \<Rightarrow> string \<Rightarrow> 'o \<Rightarrow> ('o \<Rightarrow> 'o result) \<Rightarrow> ('w, 'o result) op" where
  "apply_obj c on ns n x f = call (client_CreateOrUpdate c x f) (\<lambda>r. on (Applied ns n f r))"

lemmas op_calls = get_obj_def list_objs_def create_obj_def update_obj_def update_status_def delete_obj_def delete_all_def apply_obj_def

text \<open>The early return on an error, and the wrapping of one.\<close>

definition try_then :: "('w, 'e, 'a result) gio \<Rightarrow> ('a \<Rightarrow> ('w, 'e, 'b result) gio) \<Rightarrow> ('w, 'e, 'b result) gio" where
  "try_then m f = do { r \<leftarrow> m; (case r of Inl err \<Rightarrow> ret (Inl err) | Inr x \<Rightarrow> f x) }"

definition wrap_err :: "string \<Rightarrow> 'a result \<Rightarrow> 'a result" where
  "wrap_err msg r = (case r of Inl err \<Rightarrow> Inl (Wrap msg err) | Inr x \<Rightarrow> Inr x)"

definition wrapping :: "string \<Rightarrow> ('w, 'e, 'a result) gio \<Rightarrow> ('w, 'e, 'a result) gio" where
  "wrapping msg m = do { r \<leftarrow> m; ret (wrap_err msg r) }"

text \<open>\<open>Get\<close> where a missing object is no error.\<close>

definition find_obj :: "('w, 'e, 'o result) gio \<Rightarrow> ('w, 'e, 'o option result) gio" where
  "find_obj m =
     do {
       r \<leftarrow> m;
       ret (case r of Inl err \<Rightarrow> if IsNotFound err then Inr None else Inl err | Inr x \<Rightarrow> Inr (Some x))
     }"

lemma wrap_err_simps [simp]: "wrap_err msg (Inl err) = Inl (Wrap msg err)" "wrap_err msg (Inr x) = Inr x"
  "wrap_err msg r = Inr y \<longleftrightarrow> r = Inr y" "isl (wrap_err msg r) = isl r"
  by (simp_all add: wrap_err_def split: sum.splits)

section \<open>Rules for the program logic\<close>

context policy
begin

lemma obeys_try_then:
  assumes "obeys P m R" "grows P" "\<And>x. obeys (\<lambda>l. P l \<and> R (Inr x) l) (f x) Q" "\<And>err l. P l \<Longrightarrow> R (Inl err) l \<Longrightarrow> Q (Inl err) l"
  shows "obeys P (try_then m f) Q"
  unfolding try_then_def
proof (rule obeys_bind [OF assms(1,2)])
  fix r
  show "obeys (\<lambda>l. P l \<and> R r l) (case r of Inl err \<Rightarrow> ret (Inl err) | Inr x \<Rightarrow> f x) Q"
    by (cases r) (auto intro: assms(3) obeys_ret assms(4))
qed

lemma obeys_wrapping:
  assumes "obeys P m R" "grows P" "\<And>r l. P l \<Longrightarrow> R r l \<Longrightarrow> Q (wrap_err msg r) l"
  shows "obeys P (wrapping msg m) Q"
  unfolding wrapping_def by (rule obeys_bind [OF assms(1,2)], rule obeys_ret) (use assms(3) in blast)

lemma obeys_find_obj:
  assumes "obeys P m R" "grows P"
    "\<And>err l. P l \<Longrightarrow> R (Inl err) l \<Longrightarrow> IsNotFound err \<Longrightarrow> Q (Inr None) l"
    "\<And>err l. P l \<Longrightarrow> R (Inl err) l \<Longrightarrow> \<not> IsNotFound err \<Longrightarrow> Q (Inl err) l"
    "\<And>x l. P l \<Longrightarrow> R (Inr x) l \<Longrightarrow> Q (Inr (Some x)) l"
  shows "obeys P (find_obj m) Q"
  unfolding find_obj_def by (rule obeys_bind [OF assms(1,2)], rule obeys_ret) (auto split: sum.splits intro: assms(3-5))

end

end
