(* ===== verification/Children.thy ===== *)
theory Children
  imports Cluster
begin

text \<open>
  \<open>internal/controller/children.go\<close>, \<open>clientauth.go\<close>, \<open>hmac.go\<close> and the objects of \<open>proxy.go\<close>: the objects the operator
  writes for an instance. A function that edits an object in place is a function from the object to the object, as
  \<open>CreateOrUpdate\<close> takes it.
\<close>

section \<open>Small helpers\<close>

definition data_of :: "(string \<times> string) list \<Rightarrow> string \<Rightarrow> string" where
  "data_of d k = (case map_of d k of Some v \<Rightarrow> v | None \<Rightarrow> [])"

text \<open>The owners of an object after \<open>SetControllerReference\<close>; \<open>put\<close> is the update of its metadata.\<close>

definition own :: "'w op_env \<Rightarrow> climcp_instance \<Rightarrow> ('o \<Rightarrow> metadata) \<Rightarrow> ((metadata \<Rightarrow> metadata) \<Rightarrow> 'o \<Rightarrow> 'o) \<Rightarrow> 'o \<Rightarrow> 'o result" where
  "own e inst get put x = (case SetControllerReference e inst (get x) of Inl err \<Rightarrow> Inl err | Inr ws \<Rightarrow> Inr (put (\<lambda>m. m\<lparr>obj_Owners := ws\<rparr>) x))"

abbreviation with_labels :: "labels \<Rightarrow> metadata \<Rightarrow> metadata" where "with_labels ls m \<equiv> m\<lparr>obj_Labels := ls\<rparr>"

section \<open>hmac.go\<close>

definition hex_EncodeToString :: "string \<Rightarrow> string" where
  "hex_EncodeToString s = concat (map (\<lambda>c. [hex_digit (code_of c div 16), hex_digit (code_of c mod 16)]) s)"

definition generateHMACKey :: "'w op_env \<Rightarrow> ('w, string result) op" where
  "generateHMACKey e =
     do {
       r \<leftarrow> ask (rand_Read e 32);
       ret (case r of Inl err \<Rightarrow> Inl (Wrap ''generate HMAC key'' err) | Inr buf \<Rightarrow> Inr (hex_EncodeToString buf))
     }"

definition secretKeyNonEmpty :: "ksecret option \<Rightarrow> string \<Rightarrow> bool" where
  "secretKeyNonEmpty secret key = (case secret of None \<Rightarrow> False | Some s \<Rightarrow> TrimSpace (data_of (sec_Data s) key) \<noteq> [])"

text \<open>\<open>what\<close> is the prefix of the messages: \<open>adoptHMACMetadata\<close> and \<open>adoptProxyCAMetadata\<close> differ in nothing else.\<close>

definition adopt_metadata :: "string \<Rightarrow> 'w op_env \<Rightarrow> climcp_instance \<Rightarrow> ksecret \<Rightarrow> ('w, ksecret result) op" where
  "adopt_metadata what e inst secret =
     (let labelled = secret\<lparr>sec_Meta := (sec_Meta secret)\<lparr>obj_Labels := AList.update LabelInstance (inst_Name inst) (obj_Labels (sec_Meta secret))\<rparr>\<rparr> in
      case own e inst sec_Meta sec_Meta_update labelled of
        Inl err \<Rightarrow> ret (Inl (Wrap (what @ '' ownerRef'') err))
      | Inr owned \<Rightarrow>
          if same_map (obj_Labels (sec_Meta secret)) (obj_Labels (sec_Meta owned)) \<and> obj_Owners (sec_Meta secret) = obj_Owners (sec_Meta owned)
          then ret (Inr owned)
          else wrapping (''update '' @ what @ '' metadata'') (update_obj (secrets e) OnSecret owned))"

definition adoptHMACMetadata :: "'w op_env \<Rightarrow> climcp_instance \<Rightarrow> ksecret \<Rightarrow> ('w, ksecret result) op" where
  "adoptHMACMetadata = adopt_metadata ''HMAC''"

definition new_secret :: "climcp_instance \<Rightarrow> string \<Rightarrow> (string \<times> string) list \<Rightarrow> ksecret" where
  "new_secret inst n d =
     \<lparr>sec_Meta = with_labels (instanceLabels (inst_Name inst)) (new_meta (inst_Namespace inst) n), sec_Type = ''Opaque'', sec_Data = d\<rparr>"

definition ensureHMAC :: "'w op_env \<Rightarrow> climcp_instance \<Rightarrow> ('w, ksecret result) op" where
  "ensureHMAC e inst =
     (let ns = inst_Namespace inst; n = hmacSecretName (inst_Name inst) in
      do {
        r \<leftarrow> get_obj (secrets e) OnSecret ns n;
        (case r of
           Inr secret \<Rightarrow> adoptHMACMetadata e inst secret
         | Inl err \<Rightarrow>
             if \<not> IsNotFound err then ret (Inl (Wrap ''get HMAC secret'' err))
             else
               try_then (generateHMACKey e) (\<lambda>key.
                 case own e inst sec_Meta sec_Meta_update (new_secret inst n [(hmacSecretKey, key)]) of
                   Inl err \<Rightarrow> ret (Inl (Wrap ''HMAC ownerRef'' err))
                 | Inr secret \<Rightarrow>
                     try_then (wrapping ''create HMAC secret'' (create_obj (secrets e) OnSecret secret)) (\<lambda>_.
                       wrapping ''get HMAC secret after create'' (get_obj (secrets e) OnSecret ns n))))
      })"

section \<open>clientauth.go\<close>

definition GroupVersion_Group :: string where "GroupVersion_Group = ''cli-mcp.redhat.com''"
definition GroupVersion_Version :: string where "GroupVersion_Version = ''v1alpha1''"
definition rbac_GroupName :: string where "rbac_GroupName = ''rbac.authorization.k8s.io''"

definition apply_sa :: "'w op_env \<Rightarrow> climcp_instance \<Rightarrow> string \<Rightarrow> bool option \<Rightarrow> ('w, service_account result) op" where
  "apply_sa e inst n automount =
     apply_obj (serviceaccounts e) OnServiceAccount (inst_Namespace inst) n \<lparr>sa_Meta = new_meta (inst_Namespace inst) n, sa_AutomountToken = None\<rparr>
       (\<lambda>sa. own e inst sa_Meta sa_Meta_update
          (sa\<lparr>sa_Meta := with_labels (instanceLabels (inst_Name inst)) (sa_Meta sa),
              sa_AutomountToken := (case automount of None \<Rightarrow> sa_AutomountToken sa | Some b \<Rightarrow> Some b)\<rparr>))"

definition apply_role :: "'w op_env \<Rightarrow> climcp_instance \<Rightarrow> string \<Rightarrow> policy_rule list \<Rightarrow> ('w, role result) op" where
  "apply_role e inst n rules =
     apply_obj (roles e) OnRole (inst_Namespace inst) n \<lparr>role_Meta = new_meta (inst_Namespace inst) n, Rules = []\<rparr>
       (\<lambda>r. own e inst role_Meta role_Meta_update
          (r\<lparr>role_Meta := with_labels (instanceLabels (inst_Name inst)) (role_Meta r), Rules := rules\<rparr>))"

definition apply_role_binding :: "'w op_env \<Rightarrow> climcp_instance \<Rightarrow> string \<Rightarrow> ('w, role_binding result) op" where
  "apply_role_binding e inst n =
     apply_obj (rolebindings e) OnRoleBinding (inst_Namespace inst) n
       \<lparr>rb_Meta = new_meta (inst_Namespace inst) n, RoleRef = \<lparr>rr_APIGroup = [], rr_Kind = [], rr_Name = []\<rparr>, Subjects = []\<rparr>
       (\<lambda>b. own e inst rb_Meta rb_Meta_update
          (b\<lparr>rb_Meta := with_labels (instanceLabels (inst_Name inst)) (rb_Meta b),
             RoleRef := \<lparr>rr_APIGroup = rbac_GroupName, rr_Kind = ''Role'', rr_Name = n\<rparr>,
             Subjects := [\<lparr>subj_Kind = ''ServiceAccount'', subj_Name = n, subj_Namespace = inst_Namespace inst\<rparr>]\<rparr>))"

definition applyClientSA :: "'w op_env \<Rightarrow> climcp_instance \<Rightarrow> ('w, service_account result) op" where
  "applyClientSA e inst = wrapping ''apply client SA'' (apply_sa e inst (clientSAName (inst_Name inst)) None)"

definition clientRoleRules :: "string \<Rightarrow> policy_rule list" where
  "clientRoleRules inst =
     [\<lparr>APIGroups = [GroupVersion_Group], Resources = [''climcpinstances/mcp''], ResourceNames = [inst], Verbs = [''get'', ''create'', ''delete'']\<rparr>]"

definition applyClientRole :: "'w op_env \<Rightarrow> climcp_instance \<Rightarrow> ('w, role result) op" where
  "applyClientRole e inst =
     wrapping ''apply client Role'' (apply_role e inst (clientSAName (inst_Name inst)) (clientRoleRules (inst_Name inst)))"

definition applyClientRoleBinding :: "'w op_env \<Rightarrow> climcp_instance \<Rightarrow> ('w, role_binding result) op" where
  "applyClientRoleBinding e inst = wrapping ''apply client RoleBinding'' (apply_role_binding e inst (clientSAName (inst_Name inst)))"

definition krpConfigYAML :: "'w op_env \<Rightarrow> climcp_instance \<Rightarrow> string result" where
  "krpConfigYAML e inst =
     wrap_err ''marshal kube-rbac-proxy config''
       (marshal_krp e \<lparr>krp_APIGroup = GroupVersion_Group, krp_APIVersion = GroupVersion_Version, krp_Resource = ''climcpinstances'',
          krp_Subresource = ''mcp'', krp_Namespace = inst_Namespace inst, krp_Name = inst_Name inst\<rparr>)"

definition apply_cm :: "'w op_env \<Rightarrow> climcp_instance \<Rightarrow> string \<Rightarrow> (string \<times> string) list \<Rightarrow> ('w, config_map result) op" where
  "apply_cm e inst n d =
     apply_obj (configmaps e) OnConfigMap (inst_Namespace inst) n \<lparr>cm_Meta = new_meta (inst_Namespace inst) n, cm_Data = []\<rparr>
       (\<lambda>c. own e inst cm_Meta cm_Meta_update
          (c\<lparr>cm_Meta := with_labels (instanceLabels (inst_Name inst)) (cm_Meta c), cm_Data := d\<rparr>))"

definition applyKRPConfigMap :: "'w op_env \<Rightarrow> climcp_instance \<Rightarrow> ('w, config_map result) op" where
  "applyKRPConfigMap e inst =
     (case krpConfigYAML e inst of
        Inl err \<Rightarrow> ret (Inl err)
      | Inr d \<Rightarrow> wrapping ''apply kube-rbac-proxy ConfigMap'' (apply_cm e inst (krpConfigMapName (inst_Name inst)) [(krpConfigKey, d)]))"

definition authDelegatorRoleRef :: role_ref where
  "authDelegatorRoleRef = \<lparr>rr_APIGroup = rbac_GroupName, rr_Kind = ''ClusterRole'', rr_Name = authDelegatorClusterRole\<rparr>"

definition mcpSASubject :: "string \<Rightarrow> string \<Rightarrow> subject" where
  "mcpSASubject n ns = \<lparr>subj_Kind = ''ServiceAccount'', subj_Name = childName n, subj_Namespace = ns\<rparr>"

definition desiredAuthDelegatorSubjects :: "'w op_env \<Rightarrow> ('w, subject list result) op" where
  "desiredAuthDelegatorSubjects e =
     do {
       r \<leftarrow> list_objs (instances e) OnInstance [] Everything;
       ret (case r of
              Inl err \<Rightarrow> Inl err
            | Inr items \<Rightarrow>
                Inr (sort_key (\<lambda>s. (subj_Namespace s, subj_Name s))
                  (map (\<lambda>i. mcpSASubject (inst_Name i) (inst_Namespace i)) (filter (\<lambda>i. inst_Deletion i = None) items))))
     }"

definition errAuthDelegatorRoleRef :: go_error where
  "errAuthDelegatorRoleRef = Err (''ClusterRoleBinding '' @ authDelegatorCRBName @ '' has a different roleRef'')"

definition applyAuthDelegatorCRB :: "'w op_env \<Rightarrow> ('w, unit result) op" where
  "applyAuthDelegatorCRB e =
     try_then (wrapping ''list CliMcpInstance for auth-delegator'' (desiredAuthDelegatorSubjects e)) (\<lambda>subjects.
       do {
         r \<leftarrow> get_obj (clusterrolebindings e) OnClusterRoleBinding [] authDelegatorCRBName;
         (case r of
            Inl err \<Rightarrow>
              if IsNotFound err then
                try_then (wrapping (''create '' @ authDelegatorCRBName)
                    (create_obj (clusterrolebindings e) OnClusterRoleBinding
                       \<lparr>rb_Meta = new_meta [] authDelegatorCRBName, RoleRef = authDelegatorRoleRef, Subjects = subjects\<rparr>))
                  (\<lambda>_. ret (Inr ()))
              else ret (Inl (Wrap (''get '' @ authDelegatorCRBName) err))
          | Inr crb \<Rightarrow>
              if RoleRef crb \<noteq> authDelegatorRoleRef
                then ret (Inl (Join [errAuthDelegatorRoleRef, Err (''got '' @ rr_Kind (RoleRef crb) @ ''/'' @ rr_Name (RoleRef crb))]))
              else if Subjects crb = subjects then ret (Inr ())
              else
                try_then (wrapping (''update '' @ authDelegatorCRBName)
                    (update_obj (clusterrolebindings e) OnClusterRoleBinding (crb\<lparr>Subjects := subjects\<rparr>)))
                  (\<lambda>_. ret (Inr ())))
       })"

text \<open>The readiness checks answer \<open>Some\<close> message when something is wrong.\<close>

definition authDelegatorNotReady :: "'w op_env \<Rightarrow> climcp_instance \<Rightarrow> ('w, string option) op" where
  "authDelegatorNotReady e inst =
     do {
       r \<leftarrow> get_obj (clusterrolebindings e) OnClusterRoleBinding [] authDelegatorCRBName;
       ret (case r of
              Inl err \<Rightarrow> Some (if IsNotFound err then ''missing ClusterRoleBinding '' @ authDelegatorCRBName else error_text e err)
            | Inr crb \<Rightarrow>
                if RoleRef crb \<noteq> authDelegatorRoleRef
                  then Some (error_text e errAuthDelegatorRoleRef @ '': '' @ rr_Name (RoleRef crb))
                else if inst_Deletion inst \<noteq> None then None
                else if mcpSASubject (inst_Name inst) (inst_Namespace inst) \<notin> set (Subjects crb)
                  then Some (authDelegatorCRBName @ '' subjects missing MCP SA '' @ inst_Namespace inst @ ''/'' @ childName (inst_Name inst))
                else None)
     }"

section \<open>proxy.go\<close>

definition credentialProxyContainer :: string where "credentialProxyContainer = ''proxy''"
definition proxyConfigDir :: string where "proxyConfigDir = ''/etc/cli-mcp/proxy''"
definition proxyCADir :: string where "proxyCADir = ''/etc/cli-mcp/proxy-ca''"
definition proxyKubeDir :: string where "proxyKubeDir = ''/etc/kube''"

definition nonzero :: "string \<Rightarrow> quantity" where "nonzero s = \<lparr>q_String = s, q_IsZero = False\<rparr>"

definition proxyCPURequest :: quantity where "proxyCPURequest = nonzero ''20m''"
definition proxyCPULimit :: quantity where "proxyCPULimit = nonzero ''200m''"
definition proxyMemoryRequest :: quantity where "proxyMemoryRequest = nonzero ''64Mi''"
definition proxyMemoryLimit :: quantity where "proxyMemoryLimit = nonzero ''256Mi''"

text \<open>No dummy kubeconfig is the empty string.\<close>

record proxy_build =
  pb_routes :: "proxy_route list"
  pb_dummy :: string
  pb_kube :: "ksecret option"
  pb_ca :: ksecret

definition npPorts :: "(int \<times> string) list \<Rightarrow> (string \<times> int) list" where
  "npPorts pairs = map (\<lambda>(port, proto). (proto, port)) pairs"

definition sandboxEgress :: "string \<Rightarrow> np_rule list" where
  "sandboxEgress inst = [\<lparr>Peers = [proxyLabels inst], np_Ports = npPorts [(ProxyListenPort, ''TCP'')]\<rparr>]"

definition proxyIngressSpec :: "string \<Rightarrow> np_spec" where
  "proxyIngressSpec inst =
     \<lparr>PodSelector = proxyLabels inst, np_PolicyTypes = [''Ingress''],
      Ingress = [\<lparr>Peers = [sandboxLabels inst], np_Ports = npPorts [(ProxyListenPort, ''TCP'')]\<rparr>], Egress = []\<rparr>"

definition empty_np :: np_spec where "empty_np = \<lparr>PodSelector = [], np_PolicyTypes = [], Ingress = [], Egress = []\<rparr>"

definition apply_np :: "'w op_env \<Rightarrow> climcp_instance \<Rightarrow> string \<Rightarrow> np_spec \<Rightarrow> ('w, netpol result) op" where
  "apply_np e inst n spec =
     apply_obj (netpols e) OnNetpol (inst_Namespace inst) n \<lparr>np_Meta = new_meta (inst_Namespace inst) n, np_Spec = empty_np\<rparr>
       (\<lambda>np. own e inst np_Meta np_Meta_update
          (np\<lparr>np_Meta := with_labels (instanceLabels (inst_Name inst)) (np_Meta np), np_Spec := spec\<rparr>))"

definition applyProxySA :: "'w op_env \<Rightarrow> climcp_instance \<Rightarrow> ('w, service_account result) op" where
  "applyProxySA e inst = wrapping ''apply proxy SA'' (apply_sa e inst (proxyName (inst_Name inst)) (Some False))"

definition apply_svc :: "'w op_env \<Rightarrow> climcp_instance \<Rightarrow> string \<Rightarrow> (service \<Rightarrow> service) \<Rightarrow> ('w, service result) op" where
  "apply_svc e inst n edit =
     apply_obj (services e) OnService (inst_Namespace inst) n
       \<lparr>svc_Meta = new_meta (inst_Namespace inst) n, Selector = [], ClusterIP = [], svc_Ports = []\<rparr>
       (\<lambda>svc. own e inst svc_Meta svc_Meta_update
          (edit (svc\<lparr>svc_Meta := with_labels (instanceLabels (inst_Name inst)) (svc_Meta svc)\<rparr>)))"

text \<open>The cluster IP is read before the edit and written back, so an edit leaves it alone.\<close>

definition applyProxyService :: "'w op_env \<Rightarrow> climcp_instance \<Rightarrow> ('w, service result) op" where
  "applyProxyService e inst =
     wrapping ''apply proxy Service''
       (apply_svc e inst (proxyName (inst_Name inst))
          (\<lambda>svc. svc\<lparr>Selector := proxyLabels (inst_Name inst),
             svc_Ports := [\<lparr>sp_Name = ''http'', sp_Port = ProxyListenPort, sp_TargetPort = IntPort ProxyListenPort, sp_Protocol = ''TCP''\<rparr>]\<rparr>))"

definition applyProxyNP :: "'w op_env \<Rightarrow> climcp_instance \<Rightarrow> ('w, netpol result) op" where
  "applyProxyNP e inst =
     wrapping ''apply proxy NetworkPolicy'' (apply_np e inst (proxyName (inst_Name inst)) (proxyIngressSpec (inst_Name inst)))"

definition hour :: int where "hour = 3600 * second"

definition KeyUsageCertSign :: int where "KeyUsageCertSign = 32"
definition KeyUsageCRLSign :: int where "KeyUsageCRLSign = 64"

definition proxy_ca_template :: "int \<Rightarrow> int \<Rightarrow> ca_template" where
  "proxy_ca_template serial now =
     \<lparr>SerialNumber = serial, CommonName = ''CLI MCP'', Organization = [''CLI MCP''],
      NotBefore = now - hour, NotAfter = now + 10 * 365 * 24 * hour,
      tmpl_KeyUsage = or KeyUsageCertSign KeyUsageCRLSign, BasicConstraintsValid = True, tmpl_IsCA = True\<rparr>"

definition generateProxyCA :: "'w op_env \<Rightarrow> ('w, (string \<times> string) result) op" where
  "generateProxyCA e =
     try_then (wrapping ''generate proxy CA key'' (ask (ecdsa_GenerateKey (crypto e) ''P-256''))) (\<lambda>key.
     try_then (wrapping ''generate proxy CA serial'' (ask (rand_Int (crypto e) (2 ^ 128)))) (\<lambda>serial.
       do {
         now \<leftarrow> time_Now (runtime e);
         let tmpl = proxy_ca_template serial now;
         try_then (wrapping ''create proxy CA certificate'' (ask (x509_CreateCertificate (crypto e) tmpl tmpl (Public key) key))) (\<lambda>der.
           case x509_MarshalECPrivateKey (crypto e) key of
             Inl err \<Rightarrow> ret (Inl (Wrap ''marshal proxy CA key'' err))
           | Inr keyDER \<Rightarrow>
               let certPEM = pem_EncodeToMemory (crypto e) ''CERTIFICATE'' der;
                   keyPEM = pem_EncodeToMemory (crypto e) ''EC PRIVATE KEY'' keyDER in
               if certPEM = [] \<or> keyPEM = [] then ret (Inl (Err ''encode proxy CA PEM'')) else ret (Inr (certPEM, keyPEM)))
       }))"

definition adoptProxyCAMetadata :: "'w op_env \<Rightarrow> climcp_instance \<Rightarrow> ksecret \<Rightarrow> ('w, ksecret result) op" where
  "adoptProxyCAMetadata = adopt_metadata ''proxy CA''"

definition ensureProxyCA :: "'w op_env \<Rightarrow> climcp_instance \<Rightarrow> ('w, ksecret result) op" where
  "ensureProxyCA e inst =
     (let ns = inst_Namespace inst; n = proxyCASecretName (inst_Name inst) in
      do {
        r \<leftarrow> get_obj (secrets e) OnSecret ns n;
        (case r of
           Inr secret \<Rightarrow> adoptProxyCAMetadata e inst secret
         | Inl err \<Rightarrow>
             if \<not> IsNotFound err then ret (Inl (Wrap ''get proxy CA secret'' err))
             else
               try_then (generateProxyCA e) (\<lambda>(certPEM, keyPEM).
                 case own e inst sec_Meta sec_Meta_update (new_secret inst n [(caCertKey, certPEM), (caKeyKey, keyPEM)]) of
                   Inl err \<Rightarrow> ret (Inl (Wrap ''proxy CA ownerRef'' err))
                 | Inr secret \<Rightarrow>
                     try_then (wrapping ''create proxy CA secret'' (create_obj (secrets e) OnSecret secret)) (\<lambda>_.
                       wrapping ''get proxy CA secret after create'' (get_obj (secrets e) OnSecret ns n))))
      })"

definition caUsable :: "ksecret option \<Rightarrow> bool" where
  "caUsable secret = (secretKeyNonEmpty secret caCertKey \<and> secretKeyNonEmpty secret caKeyKey)"

definition getSecret :: "'w op_env \<Rightarrow> string \<Rightarrow> string \<Rightarrow> ('w, ksecret option result) op" where
  "getSecret e ns n = wrapping (''get secret '' @ n) (find_obj (get_obj (secrets e) OnSecret ns n))"

text \<open>The routes, the dummy kubeconfig and the Secret of the kubernetes target, or nothing.\<close>

definition kubernetesRoutes :: "'w op_env \<Rightarrow> climcp_instance \<Rightarrow> ksecret \<Rightarrow> ('w, (proxy_route list \<times> string \<times> ksecret option) result) op" where
  "kubernetesRoutes e inst ca =
     (case effectiveKubeconfigSecretName inst of
        None \<Rightarrow> ret (Inr ([], [], None))
      | Some n \<Rightarrow>
          try_then (getSecret e (inst_Namespace inst) n) (\<lambda>secret.
            if \<not> secretKeyNonEmpty secret kubeconfigDataKey \<or> \<not> caUsable (Some ca) then ret (Inr ([], [], None))
            else
              let data = (case secret of None \<Rightarrow> [] | Some s \<Rightarrow> data_of (sec_Data s) kubeconfigDataKey) in
              if isl (Validate (lib e) (load_kubeconfig e) data) then ret (Inr ([], [], None))
              else
                ret (case Sanitize (lib e) (load_kubeconfig e) (write_kubeconfig e) data (data_of (sec_Data ca) caCertKey) of
                       Inl err \<Rightarrow> Inl (Wrap ''sanitize kubeconfig'' err)
                     | Inr dummy \<Rightarrow>
                         (case BuildProxyRoutes (lib e) (load_kubeconfig e) data proxyKubeconfigPath of
                            Inl err \<Rightarrow> Inl (Wrap ''kubernetes routes'' err)
                          | Inr routes \<Rightarrow> Inr (routes, dummy, secret)))))"

fun load_targets :: "'w op_env \<Rightarrow> climcp_instance \<Rightarrow> ksecret \<Rightarrow> proxy_target list \<Rightarrow> (proxy_route list \<times> string \<times> ksecret option) \<Rightarrow>
    ('w, (proxy_route list \<times> string \<times> ksecret option) result) op" where
  "load_targets e inst ca [] acc = ret (Inr acc)"
| "load_targets e inst ca (t # ts) (routes, dummy, kube) =
     (if Type t = ProxyTargetAllowlist then load_targets e inst ca ts (routes, dummy, kube)
      else if Type t = ProxyTargetKubernetes then
        try_then (kubernetesRoutes e inst ca) (\<lambda>(part, dummy', kube'). load_targets e inst ca ts (routes @ part, dummy', kube'))
      else ret (Inl (Err (''unknown proxy target type '' @ Quote (lib e) (Type t)))))"

definition loadProxyBuild :: "'w op_env \<Rightarrow> climcp_instance \<Rightarrow> ksecret \<Rightarrow> ('w, proxy_build result) op" where
  "loadProxyBuild e inst ca =
     try_then (load_targets e inst ca (Targets inst) ([], [], None)) (\<lambda>(kubeRoutes, dummy, kube).
       ret (Inr \<lparr>pb_routes = fst (collectProxyRoutes (lib e) (Targets inst) kubeRoutes), pb_dummy = dummy, pb_kube = kube, pb_ca = ca\<rparr>))"

definition applyProxyConfigMap :: "'w op_env \<Rightarrow> climcp_instance \<Rightarrow> proxy_build \<Rightarrow> ('w, config_map result) op" where
  "applyProxyConfigMap e inst build =
     (case marshal_routes e (pb_routes build) of
        Inl err \<Rightarrow> ret (Inl (Wrap ''marshal proxy routes'' err))
      | Inr raw \<Rightarrow>
          wrapping ''apply proxy ConfigMap''
            (apply_cm e inst (proxyName (inst_Name inst))
               ((proxyConfigDataKey, raw) # (if pb_dummy build \<noteq> [] then [(kubeconfigDataKey, pb_dummy build)] else []))))"

definition dropPublishedKubeconfig :: "'w op_env \<Rightarrow> climcp_instance \<Rightarrow> ('w, unit result) op" where
  "dropPublishedKubeconfig e inst =
     try_then (wrapping ''get proxy configmap'' (find_obj (get_obj (configmaps e) OnConfigMap (inst_Namespace inst) (proxyName (inst_Name inst))))) (\<lambda>found.
       case found of
         None \<Rightarrow> ret (Inr ())
       | Some cm \<Rightarrow>
           (case marshal_routes e [] of
              Inl err \<Rightarrow> ret (Inl (Wrap ''marshal empty proxy routes'' err))
            | Inr raw \<Rightarrow>
                if data_of (cm_Data cm) proxyConfigDataKey = raw \<and> data_of (cm_Data cm) kubeconfigDataKey = [] then ret (Inr ())
                else
                  try_then (wrapping ''clear proxy configmap''
                      (update_obj (configmaps e) OnConfigMap (cm\<lparr>cm_Data := [(proxyConfigDataKey, raw)]\<rparr>)))
                    (\<lambda>_. ret (Inr ()))))"

text \<open>Whether something changed, and the Deployment with no replicas and nothing of the kubeconfig left in its template.\<close>

definition drop_mounts :: "t_container \<Rightarrow> t_container" where
  "drop_mounts c = c\<lparr>tc_VolumeMounts := filter (\<lambda>m. vm_Name m \<noteq> ''kubeconfig'') (tc_VolumeMounts c)\<rparr>"

definition quiesceProxyDeployment :: "deployment \<Rightarrow> bool \<times> deployment" where
  "quiesceProxyDeployment d =
     (let spec = d_Spec d; tmpl = d_Template spec; ps = tt_Spec tmpl;
          changed = (d_Replicas spec \<noteq> Some 0 \<or> map_of (tt_Annotations tmpl) kubeconfigRVAnnotation \<noteq> None \<or>
            list_ex (\<lambda>v. tv_Name v = ''kubeconfig'') (ts_Volumes ps) \<or>
            list_ex (\<lambda>c. list_ex (\<lambda>m. vm_Name m = ''kubeconfig'') (tc_VolumeMounts c)) (ts_Containers ps))
      in (changed,
          d\<lparr>d_Spec := spec\<lparr>d_Replicas := Some 0,
              d_Template := tmpl\<lparr>tt_Annotations := AList.delete kubeconfigRVAnnotation (tt_Annotations tmpl),
                tt_Spec := ps\<lparr>ts_Volumes := filter (\<lambda>v. tv_Name v \<noteq> ''kubeconfig'') (ts_Volumes ps),
                  ts_Containers := map drop_mounts (ts_Containers ps)\<rparr>\<rparr>\<rparr>\<rparr>))"

definition scaleProxyToZero :: "'w op_env \<Rightarrow> climcp_instance \<Rightarrow> ('w, unit result) op" where
  "scaleProxyToZero e inst =
     try_then (wrapping ''get proxy deployment'' (find_obj (get_obj (deployments e) OnDeployment (inst_Namespace inst) (proxyName (inst_Name inst))))) (\<lambda>found.
       case found of
         None \<Rightarrow> ret (Inr ())
       | Some d \<Rightarrow>
           (case quiesceProxyDeployment d of
              (changed, d') \<Rightarrow>
                if \<not> changed then ret (Inr ())
                else try_then (wrapping ''scale proxy deployment to zero'' (update_obj (deployments e) OnDeployment d')) (\<lambda>_. ret (Inr ()))))"

definition quiesceUnroutedProxy :: "'w op_env \<Rightarrow> climcp_instance \<Rightarrow> ('w, unit result) op" where
  "quiesceUnroutedProxy e inst = try_then (dropPublishedKubeconfig e inst) (\<lambda>_. scaleProxyToZero e inst)"

definition proxyClusterIP :: "'w op_env \<Rightarrow> climcp_instance \<Rightarrow> ('w, string result) op" where
  "proxyClusterIP e inst =
     (let n = proxyName (inst_Name inst) in
      try_then (wrapping (''get proxy service '' @ n) (get_obj (services e) OnService (inst_Namespace inst) n)) (\<lambda>svc.
        ret (if ParseIP (ClusterIP svc) = None then Inl (Err (''proxy service '' @ n @ '' has no cluster IP'')) else Inr (ClusterIP svc))))"

definition blank_probe :: t_probe where
  "blank_probe =
     \<lparr>pr_Exec = None, pr_TCPSocket = None, pr_HTTPGet_Scheme = None, pr_InitialDelaySeconds = 0, pr_TimeoutSeconds = 0,
      pr_PeriodSeconds = 0, pr_SuccessThreshold = 0, pr_FailureThreshold = 0\<rparr>"

definition no_resources :: resources where "no_resources = \<lparr>res_Requests = [], res_Limits = []\<rparr>"

text \<open>A container with the security context all containers of the operator have.\<close>

definition blank_container :: "string \<Rightarrow> string \<Rightarrow> t_container" where
  "blank_container n img =
     \<lparr>tc_Name = n, tc_Image = img, tc_ImagePullPolicy = [], tc_Args = [], tc_Env = [], tc_Ports = [], tc_Resources = no_resources,
      tc_AllowPrivilegeEscalation = Some False, tc_DropCapabilities = [''ALL''], tc_VolumeMounts = [], tc_ReadinessProbe = None,
      tc_LivenessProbe = None, tc_StartupProbe = None, tc_PreStopSleep = None, tc_TerminationMessagePath = [], tc_TerminationMessagePolicy = []\<rparr>"

definition blank_pod_spec :: "string \<Rightarrow> t_pod_spec" where
  "blank_pod_spec sa =
     \<lparr>ts_ServiceAccountName = sa, ts_DeprecatedServiceAccount = [], ts_AutomountServiceAccountToken = None, ts_RestartPolicy = [],
      ts_DNSPolicy = [], ts_SchedulerName = [], ts_TerminationGracePeriodSeconds = None,
      ts_SecurityContext = Some \<lparr>sc_RunAsNonRoot = Some True, sc_SeccompProfile = Some ''RuntimeDefault''\<rparr>,
      ts_EnableServiceLinks = None, ts_InitContainers = [], ts_Containers = [], ts_Volumes = []\<rparr>"

definition blank_volume :: "string \<Rightarrow> t_volume" where
  "blank_volume n = \<lparr>tv_Name = n, tv_ConfigMap = None, tv_Secret = None, tv_DownwardAPI = None, tv_Projected = None, tv_EmptyDir = False\<rparr>"

definition vol_source :: "string \<Rightarrow> (string \<times> string) list \<Rightarrow> t_volume_source option" where
  "vol_source n items = Some \<lparr>vs_Name = n, vs_Items = items, vs_DefaultMode = None\<rparr>"

definition mount :: "string \<Rightarrow> string \<Rightarrow> bool \<Rightarrow> volume_mount" where
  "mount n path ro = \<lparr>vm_Name = n, MountPath = path, SubPath = [], ReadOnly = ro\<rparr>"

definition proxyStrategy :: d_strategy where
  "proxyStrategy = \<lparr>ds_Type = ''RollingUpdate'', ds_RollingUpdate = Some (IntPort 0, IntPort 1)\<rparr>"

definition proxyTCPProbe :: t_probe where
  "proxyTCPProbe = blank_probe\<lparr>pr_TCPSocket := Some (IntPort ProxyListenPort)\<rparr>"

definition proxyVolumeMounts :: "bool \<Rightarrow> volume_mount list" where
  "proxyVolumeMounts kube =
     [mount ''proxy-config'' proxyConfigDir True, mount ''proxy-ca'' proxyCADir True, mount ''tmp'' ''/tmp'' False] @
     (if kube then [mount ''kubeconfig'' proxyKubeDir True] else [])"

definition kubeSecretName :: "proxy_build \<Rightarrow> string" where
  "kubeSecretName build = (case pb_kube build of None \<Rightarrow> [] | Some s \<Rightarrow> obj_Name (sec_Meta s))"

definition proxyVolumes :: "string \<Rightarrow> string \<Rightarrow> t_volume list" where
  "proxyVolumes inst kubeSecret =
     [(blank_volume ''proxy-config'')\<lparr>tv_ConfigMap := vol_source (proxyName inst) []\<rparr>,
      (blank_volume ''proxy-ca'')\<lparr>tv_Secret := vol_source (proxyCASecretName inst) []\<rparr>,
      (blank_volume ''tmp'')\<lparr>tv_EmptyDir := True\<rparr>] @
     (if kubeSecret \<noteq> [] then [(blank_volume ''kubeconfig'')\<lparr>tv_Secret := vol_source kubeSecret [(kubeconfigDataKey, ''config'')]\<rparr>] else [])"

definition proxyPodTemplate :: "string \<Rightarrow> string \<Rightarrow> proxy_build \<Rightarrow> config_map \<Rightarrow> t_template" where
  "proxyPodTemplate img inst build cm =
     \<lparr>tt_Labels = proxyLabels inst,
      tt_Annotations = [(proxyRoutesRVAnnotation, obj_ResourceVersion (cm_Meta cm)), (proxyCARVAnnotation, obj_ResourceVersion (sec_Meta (pb_ca build)))] @
        (case pb_kube build of None \<Rightarrow> [] | Some s \<Rightarrow> [(kubeconfigRVAnnotation, obj_ResourceVersion (sec_Meta s))]),
      tt_Spec = (blank_pod_spec (proxyName inst))
        \<lparr>ts_AutomountServiceAccountToken := Some False, ts_TerminationGracePeriodSeconds := Some proxyTerminationGrace,
         ts_Containers := [(blank_container credentialProxyContainer img)
           \<lparr>tc_Args := [''--config='' @ proxyConfigDir @ ''/'' @ proxyConfigDataKey, ''--ca-cert='' @ proxyCADir @ ''/'' @ caCertKey,
              ''--ca-key='' @ proxyCADir @ ''/'' @ caKeyKey, ''--listen=:'' @ Itoa ProxyListenPort],
            tc_Ports := [\<lparr>tp_Name = ''http'', tp_ContainerPort = ProxyListenPort, tp_Protocol = ''TCP''\<rparr>],
            tc_Resources := \<lparr>res_Requests = [(''cpu'', proxyCPURequest), (''memory'', proxyMemoryRequest)],
              res_Limits = [(''cpu'', proxyCPULimit), (''memory'', proxyMemoryLimit)]\<rparr>,
            tc_ReadinessProbe := Some proxyTCPProbe, tc_LivenessProbe := Some proxyTCPProbe,
            tc_PreStopSleep := Some proxyPreStopSeconds, tc_VolumeMounts := proxyVolumeMounts (pb_kube build \<noteq> None)\<rparr>],
         ts_Volumes := proxyVolumes inst (kubeSecretName build)\<rparr>\<rparr>"

definition blank_deployment_spec :: deployment_spec where
  "blank_deployment_spec =
     \<lparr>d_Replicas = None, d_Selector = [], d_Strategy = \<lparr>ds_Type = [], ds_RollingUpdate = None\<rparr>, d_RevisionHistoryLimit = None,
      d_ProgressDeadlineSeconds = None, d_Template = \<lparr>tt_Labels = [], tt_Annotations = [], tt_Spec = (blank_pod_spec [])\<lparr>ts_SecurityContext := None\<rparr>\<rparr>\<rparr>"

text \<open>\<open>maps.Copy\<close> of the labels, then the spec and the owners of the desired Deployment.\<close>

definition copy_deployment :: "metadata \<Rightarrow> deployment_spec \<Rightarrow> deployment \<Rightarrow> deployment" where
  "copy_deployment m spec d =
     d\<lparr>d_Meta := (d_Meta d)\<lparr>obj_Labels := fold (\<lambda>(k, v). AList.update k v) (obj_Labels m) (obj_Labels (d_Meta d)), obj_Owners := obj_Owners m\<rparr>,
       d_Spec := spec\<rparr>"

definition apply_deployment :: "string \<Rightarrow> string \<Rightarrow> 'w op_env \<Rightarrow> climcp_instance \<Rightarrow> string \<Rightarrow> deployment_spec \<Rightarrow> ('w, unit result) op" where
  "apply_deployment ownMsg applyMsg e inst n spec =
     (let m = with_labels (instanceLabels (inst_Name inst)) (new_meta (inst_Namespace inst) n) in
      case SetControllerReference e inst m of
        Inl err \<Rightarrow> ret (Inl (Wrap ownMsg err))
      | Inr ws \<Rightarrow>
          try_then (wrapping applyMsg
              (apply_obj (deployments e) OnDeployment (inst_Namespace inst) n
                 \<lparr>d_Meta = new_meta (inst_Namespace inst) n, d_Spec = blank_deployment_spec, d_ObservedGeneration = 0, d_ReadyReplicas = 0, d_Conditions = []\<rparr>
                 (\<lambda>d. Inr (copy_deployment (m\<lparr>obj_Owners := ws\<rparr>) (NormalizeDeployment spec) d))))
            (\<lambda>_. ret (Inr ())))"

definition applyProxyDeployment :: "'w op_env \<Rightarrow> reconciler \<Rightarrow> climcp_instance \<Rightarrow> proxy_build \<Rightarrow> config_map \<Rightarrow> ('w, unit result) op" where
  "applyProxyDeployment e rc inst build cm =
     apply_deployment ''proxy deployment ownerRef'' ''apply proxy Deployment'' e inst (proxyName (inst_Name inst))
       (blank_deployment_spec
         \<lparr>d_Replicas := Some 1, d_Selector := proxyLabels (inst_Name inst), d_Strategy := proxyStrategy,
          d_Template := proxyPodTemplate (img_Proxy (rec_Images rc)) (inst_Name inst) build cm\<rparr>)"

definition applyProxy :: "'w op_env \<Rightarrow> reconciler \<Rightarrow> climcp_instance \<Rightarrow> ('w, unit result) op" where
  "applyProxy e rc inst =
     try_then (applyProxySA e inst) (\<lambda>_.
     try_then (applyProxyService e inst) (\<lambda>_.
     try_then (applyProxyNP e inst) (\<lambda>_.
     try_then (ensureProxyCA e inst) (\<lambda>ca.
       if img_Proxy (rec_Images rc) = [] then ret (Inl (Err (envRelatedImageProxy @ '' is empty'')))
       else
         try_then (loadProxyBuild e inst ca) (\<lambda>build.
           if \<not> caUsable (Some ca) \<or> pb_routes build = [] then quiesceUnroutedProxy e inst
           else try_then (applyProxyConfigMap e inst build) (\<lambda>cm. applyProxyDeployment e rc inst build cm))))))"

section \<open>children.go\<close>

definition applySandboxSA :: "'w op_env \<Rightarrow> climcp_instance \<Rightarrow> ('w, service_account result) op" where
  "applySandboxSA e inst = wrapping ''apply sandbox SA'' (apply_sa e inst (sandboxSAName (inst_Name inst)) (Some False))"

definition applyMCPSA :: "'w op_env \<Rightarrow> climcp_instance \<Rightarrow> ('w, service_account result) op" where
  "applyMCPSA e inst = wrapping ''apply MCP SA'' (apply_sa e inst (childName (inst_Name inst)) None)"

definition mcpRoleRules :: "string \<Rightarrow> policy_rule list" where
  "mcpRoleRules inst =
     [\<lparr>APIGroups = [[]], Resources = [''pods''], ResourceNames = [],
       Verbs = [''create'', ''get'', ''list'', ''watch'', ''update'', ''patch'', ''delete'']\<rparr>,
      \<lparr>APIGroups = [[]], Resources = [''secrets''], ResourceNames = [], Verbs = [''create'', ''delete'']\<rparr>,
      \<lparr>APIGroups = [''discovery.k8s.io''], Resources = [''endpointslices''], ResourceNames = [], Verbs = [''list'']\<rparr>,
      \<lparr>APIGroups = [''networking.k8s.io''], Resources = [''networkpolicies''], ResourceNames = [sandboxSAName inst], Verbs = [''get'']\<rparr>]"

definition applyMCPRole :: "'w op_env \<Rightarrow> climcp_instance \<Rightarrow> ('w, role result) op" where
  "applyMCPRole e inst = wrapping ''apply MCP Role'' (apply_role e inst (childName (inst_Name inst)) (mcpRoleRules (inst_Name inst)))"

definition applyMCPRoleBinding :: "'w op_env \<Rightarrow> climcp_instance \<Rightarrow> ('w, role_binding result) op" where
  "applyMCPRoleBinding e inst = wrapping ''apply MCP RoleBinding'' (apply_role_binding e inst (childName (inst_Name inst)))"

definition applyService :: "'w op_env \<Rightarrow> reconciler \<Rightarrow> climcp_instance \<Rightarrow> ('w, service result) op" where
  "applyService e rc inst =
     wrapping ''apply Service''
       (apply_svc e inst (childName (inst_Name inst))
          (\<lambda>svc. svc\<lparr>svc_Meta := (svc_Meta svc)\<lparr>obj_Annotations :=
               (if OnOpenShift rc then AList.update openshiftServingCertAnnotation (tlsSecretName (inst_Name inst)) (obj_Annotations (svc_Meta svc))
                else AList.delete openshiftServingCertAnnotation (obj_Annotations (svc_Meta svc)))\<rparr>,
             Selector := serverLabels (inst_Name inst),
             svc_Ports := [\<lparr>sp_Name = ''https'', sp_Port = proxyPort, sp_TargetPort = NamePort ''https'', sp_Protocol = ''TCP''\<rparr>]\<rparr>))"

definition sandbox_np_spec :: "string \<Rightarrow> np_spec" where
  "sandbox_np_spec inst =
     \<lparr>PodSelector = sandboxLabels inst, np_PolicyTypes = [''Ingress'', ''Egress''],
      Ingress = [\<lparr>Peers = [serverLabels inst], np_Ports = [(''TCP'', sandboxAgentPort)]\<rparr>],
      Egress = sandboxEgress inst\<rparr>"

definition applySandboxIngressNP :: "'w op_env \<Rightarrow> climcp_instance \<Rightarrow> ('w, netpol result) op" where
  "applySandboxIngressNP e inst =
     wrapping ''apply sandbox ingress NetworkPolicy'' (apply_np e inst (sandboxSAName (inst_Name inst)) (sandbox_np_spec (inst_Name inst)))"

definition loopbackLiveProbe :: "int \<Rightarrow> t_probe" where
  "loopbackLiveProbe initialDelay =
     blank_probe\<lparr>pr_Exec := Some [''/bin/sh'', ''-c'', ''echo GET /live >/dev/tcp/127.0.0.1/8080''],
       pr_InitialDelaySeconds := initialDelay, pr_TimeoutSeconds := 2, pr_PeriodSeconds := 10\<rparr>"

definition mcpContainer :: "reconciler \<Rightarrow> climcp_instance \<Rightarrow> string list \<Rightarrow> t_container" where
  "mcpContainer rc inst args =
     (let c = (blank_container serverContainerName (img_Server (rec_Images rc)))
            \<lparr>tc_Args := args, tc_VolumeMounts := [mount hmacVolumeName hmacMountPath True],
             tc_ReadinessProbe := Some (loopbackLiveProbe 2), tc_LivenessProbe := Some (loopbackLiveProbe 15)\<rparr> in
      case ServerContainer inst of
        None \<Rightarrow> c
      | Some sc \<Rightarrow> c\<lparr>tc_Resources := sc_Resources sc, tc_ImagePullPolicy := sc_ImagePullPolicy sc\<rparr>)"

definition kubeRBACProxyContainer :: "string \<Rightarrow> t_container" where
  "kubeRBACProxyContainer img =
     (let https = blank_probe\<lparr>pr_TCPSocket := Some (NamePort ''https'')\<rparr> in
      (blank_container proxyContainerName img)
        \<lparr>tc_Args := [''--secure-listen-address=0.0.0.0:8443'', ''--upstream=http://127.0.0.1:8080/'',
           ''--tls-cert-file='' @ tlsMountPath @ ''/tls.crt'', ''--tls-private-key-file='' @ tlsMountPath @ ''/tls.key'',
           ''--allow-paths=/mcp,/metrics,/live,/health,/sessions,/sessions/*'', ''--config-file='' @ krpMountPath @ ''/'' @ krpConfigKey],
         tc_Ports := [\<lparr>tp_Name = ''https'', tp_ContainerPort = proxyPort, tp_Protocol = ''TCP''\<rparr>],
         tc_VolumeMounts := [mount tlsVolumeName tlsMountPath True, mount krpVolumeName krpMountPath True],
         tc_ReadinessProbe := Some (https\<lparr>pr_InitialDelaySeconds := 2, pr_PeriodSeconds := 10\<rparr>),
         tc_LivenessProbe := Some (https\<lparr>pr_InitialDelaySeconds := 15, pr_PeriodSeconds := 20\<rparr>)\<rparr>)"

definition mcpPodTemplate :: "reconciler \<Rightarrow> climcp_instance \<Rightarrow> string list \<Rightarrow> ksecret \<Rightarrow> config_map \<Rightarrow> t_template" where
  "mcpPodTemplate rc inst args hmac krp =
     \<lparr>tt_Labels = serverPodLabels (inst_Name inst),
      tt_Annotations = [(hmacRVAnnotation, obj_ResourceVersion (sec_Meta hmac)), (krpRVAnnotation, obj_ResourceVersion (cm_Meta krp))],
      tt_Spec = (blank_pod_spec (childName (inst_Name inst)))
        \<lparr>ts_Containers := [mcpContainer rc inst args, kubeRBACProxyContainer (img_KubeRBACProxy (rec_Images rc))],
         ts_Volumes :=
           [(blank_volume hmacVolumeName)\<lparr>tv_Secret := vol_source (hmacSecretName (inst_Name inst)) [(hmacSecretKey, hmacSecretKey)]\<rparr>,
            (blank_volume tlsVolumeName)\<lparr>tv_Secret := vol_source (tlsSecretName (inst_Name inst)) []\<rparr>,
            (blank_volume krpVolumeName)\<lparr>tv_ConfigMap := vol_source (krpConfigMapName (inst_Name inst)) [(krpConfigKey, krpConfigKey)]\<rparr>]\<rparr>\<rparr>"

definition applyDeployment :: "'w op_env \<Rightarrow> reconciler \<Rightarrow> climcp_instance \<Rightarrow> ksecret \<Rightarrow> config_map \<Rightarrow> ('w, unit result) op" where
  "applyDeployment e rc inst hmac krp =
     (let overlay = sandboxOverlay (Sandbox inst) (resolvedSandboxImage (rec_Images rc) (Sandbox inst)) in
      if img_Server (rec_Images rc) = [] then ret (Inl (Err (envRelatedImageServer @ '' is empty'')))
      else if img_KubeRBACProxy (rec_Images rc) = [] then ret (Inl (Err (envRelatedImageKubeRBACProxy @ '' is empty'')))
      else if Image overlay = [] then ret (Inl (Err (''sandbox image is empty: set spec.sandbox.image or '' @ envRelatedImageSandbox)))
      else
        try_then (proxyClusterIP e inst) (\<lambda>ip.
          case mcpServerArgs (lib e) (marshal_env e) inst (overlay\<lparr>ProxyClusterIP := ip\<rparr>) of
            Inl err \<Rightarrow> ret (Inl err)
          | Inr args \<Rightarrow>
              apply_deployment ''deployment ownerRef'' ''apply Deployment'' e inst (childName (inst_Name inst))
                (blank_deployment_spec
                  \<lparr>d_Replicas := Some (replicasOrDefault (Replicas inst)), d_Selector := serverLabels (inst_Name inst),
                   d_Template := mcpPodTemplate rc inst args hmac krp\<rparr>)))"

definition applyChildren :: "'w op_env \<Rightarrow> reconciler \<Rightarrow> climcp_instance \<Rightarrow> ksecret \<Rightarrow> ('w, unit result) op" where
  "applyChildren e rc inst hmac =
     try_then (applySandboxSA e inst) (\<lambda>_.
     try_then (applyMCPSA e inst) (\<lambda>_.
     try_then (applyMCPRole e inst) (\<lambda>_.
     try_then (applyMCPRoleBinding e inst) (\<lambda>_.
     try_then (applyService e rc inst) (\<lambda>_.
     try_then (applySandboxIngressNP e inst) (\<lambda>_.
     try_then (applyClientSA e inst) (\<lambda>_.
     try_then (applyClientRole e inst) (\<lambda>_.
     try_then (applyClientRoleBinding e inst) (\<lambda>_.
     try_then (applyKRPConfigMap e inst) (\<lambda>krp.
     try_then (applyProxy e rc inst) (\<lambda>_. applyDeployment e rc inst hmac krp)))))))))))"

end
