(* ===== verification/Pool.thy ===== *)
theory Pool
  imports Children
begin

text \<open>
  \<open>internal/controller/pool.go\<close> and \<open>idle.go\<close>, with the gate of the pool from \<open>proxy.go\<close> and the inputs of the overlay from \<open>overlay.go\<close>: the
  operator keeps a warm pool of unassigned sandbox pods and deletes sessions that are idle. The
  times of the API are nanoseconds like the clock, and the zero time is 0. A sort keeps pods of one age in the order of the API.
\<close>

section \<open>pool.go\<close>

definition poolPodNamePrefix :: string where "poolPodNamePrefix = ''cli-mcp-sandbox-''"
definition poolReplenishDeadline :: int where "poolReplenishDeadline = 5 * 60 * second"
definition proxyGateRetry :: int where "proxyGateRetry = 2 * second"
definition managedResyncInterval :: int where "managedResyncInterval = 5 * 60 * second"

record pool_snapshot =
  desired :: int
  ready :: int
  unhealthy :: bool
  unhealthyMsg :: string
  overlayRebuild :: bool
  proxyGateClosed :: bool

definition new_snapshot :: "int \<Rightarrow> pool_snapshot" where
  "new_snapshot d = \<lparr>desired = d, ready = 0, unhealthy = False, unhealthyMsg = [], overlayRebuild = False, proxyGateClosed = False\<rparr>"

definition isAssignedSandbox :: "pod \<Rightarrow> bool" where "isAssignedSandbox p = (map_of (Labels p) LabelSessionID \<noteq> None)"

definition isUnassignedSandbox :: "pod \<Rightarrow> bool" where "isUnassignedSandbox p = (\<not> isAssignedSandbox p)"

definition sandboxPodReady :: "pod \<Rightarrow> bool" where
  "sandboxPodReady p =
     (if DeletionTimestamp p \<noteq> None \<or> Phase p \<noteq> ''Running'' then False
      else list_ex (\<lambda>(t, st). t = ''Ready'' \<and> st = ''True'') (Conditions p))"

definition poolPodUnhealthy :: "pod \<Rightarrow> bool" where
  "poolPodUnhealthy p =
     (if isAssignedSandbox p \<or> DeletionTimestamp p \<noteq> None then False else Phase p = ''Failed'' \<or> HasUnhealthyWaiting p)"

fun observe_loop :: "pod list \<Rightarrow> pool_snapshot \<Rightarrow> pool_snapshot" where
  "observe_loop [] snap = snap"
| "observe_loop (p # ps) snap =
     (if \<not> isUnassignedSandbox p then observe_loop ps snap
      else
        let snap1 = (if poolPodUnhealthy p
               then snap\<lparr>unhealthy := True, unhealthyMsg := ''warm pool pod '' @ pod_Name p @ '' is Failed or in backoff''\<rparr> else snap);
            snap2 = (if sandboxPodReady p then snap1\<lparr>ready := ready snap1 + 1\<rparr> else snap1)
        in observe_loop ps snap2)"

definition observePool :: "pod list \<Rightarrow> int \<Rightarrow> pool_snapshot" where
  "observePool items d = observe_loop items (new_snapshot d)"

definition list_sandboxes :: "'w op_env \<Rightarrow> climcp_instance \<Rightarrow> ('w, pod list result) op" where
  "list_sandboxes e inst = list_objs (pods e) OnPod (inst_Namespace inst) (MatchingLabels (sandboxLabels (inst_Name inst)))"

definition observeAfterMutate :: "'w op_env \<Rightarrow> climcp_instance \<Rightarrow> int \<Rightarrow> pool_snapshot \<Rightarrow> go_error option \<Rightarrow> ('w, pool_snapshot \<times> go_error option) op" where
  "observeAfterMutate e inst d pre mutateErr =
     do {
       r \<leftarrow> list_sandboxes e inst;
       ret (case r of
              Inl err \<Rightarrow>
                (new_snapshot d,
                 Some (case mutateErr of
                         Some me \<Rightarrow> Join [me, Wrap ''re-list'' err]
                       | None \<Rightarrow> Wrap ''list sandbox pods after pool adjust'' err))
            | Inr items \<Rightarrow>
                let post = observePool items d;
                    post1 = (if unhealthy pre
                      then post\<lparr>unhealthy := True, unhealthyMsg := (if unhealthyMsg post = [] then unhealthyMsg pre else unhealthyMsg post)\<rparr>
                      else post);
                    post2 = (if overlayRebuild pre then post1\<lparr>overlayRebuild := True\<rparr> else post1)
                in (post2, mutateErr))
     }"

definition deleteUnassignedIfStillUnassigned :: "'w op_env \<Rightarrow> pod \<Rightarrow> ('w, unit result) op" where
  "deleteUnassignedIfStillUnassigned e p =
     do {
       r \<leftarrow> get_obj (pods e) OnPod (pod_Namespace p) (pod_Name p);
       (case r of
          Inl err \<Rightarrow> ret (if IsNotFound err then Inr () else Inl (Wrap (''re-get pool pod '' @ pod_Name p) err))
        | Inr fresh \<Rightarrow>
            if isAssignedSandbox fresh then ret (Inr ())
            else do {
              dr \<leftarrow> delete_obj (pods e) OnPod (pod_Namespace fresh) (pod_Name fresh) (Some (UID fresh, ResourceVersion fresh));
              ret (case dr of
                     Inl err \<Rightarrow> if IsNotFound err \<or> IsConflict err then Inr () else Inl (Wrap (''delete pool pod '' @ pod_Name fresh) err)
                   | Inr _ \<Rightarrow> Inr ())
            })
     }"

definition unassignedOccupiesSlot :: "'w op_env \<Rightarrow> pod \<Rightarrow> ('w, bool result) op" where
  "unassignedOccupiesSlot e p =
     do {
       r \<leftarrow> get_obj (pods e) OnPod (pod_Namespace p) (pod_Name p);
       ret (case r of
              Inl err \<Rightarrow> if IsNotFound err then Inr False else Inl (Wrap (''re-get pool pod '' @ pod_Name p @ '' after delete'') err)
            | Inr fresh \<Rightarrow> Inr (\<not> isAssignedSandbox fresh))
     }"

text \<open>The delete and the look afterwards, which both loops of \<open>reconcilePool\<close> do: how many slots the pod still takes.\<close>

definition delete_slot :: "'w op_env \<Rightarrow> pod \<Rightarrow> ('w, nat result) op" where
  "delete_slot e p =
     try_then (deleteUnassignedIfStillUnassigned e p) (\<lambda>_.
     try_then (unassignedOccupiesSlot e p) (\<lambda>occupies. ret (Inr (if occupies then 1 else 0))))"

definition pod_meta :: "pod \<Rightarrow> metadata" where
  "pod_meta p =
     \<lparr>obj_Name = pod_Name p, obj_Namespace = pod_Namespace p, obj_Labels = Labels p, obj_Annotations = Annotations p, obj_Owners = [],
      obj_ResourceVersion = ResourceVersion p, obj_Generation = 0\<rparr>"

definition own_pod :: "'w op_env \<Rightarrow> climcp_instance \<Rightarrow> pod \<Rightarrow> pod result" where
  "own_pod e inst p =
     (case SetControllerReference e inst (pod_meta p) of
        Inl err \<Rightarrow> Inl err
      | Inr ws \<Rightarrow> Inr (p\<lparr>OwnerUID := map_option owner_UID (find owner_Controller ws)\<rparr>))"

definition createPoolPod :: "'w op_env \<Rightarrow> climcp_instance \<Rightarrow> sandbox_config \<Rightarrow> string \<Rightarrow> ('w, unit result) op" where
  "createPoolPod e inst cfg hash =
     do {
       u \<leftarrow> ask (new_uuid e);
       t \<leftarrow> time_Now (runtime e);
       (case BuildBasePodSpec (lib e) (parse_Quantity (runtime e)) (format_RFC3339 (runtime e) t) (poolPodNamePrefix @ u) cfg of
          Inl err \<Rightarrow> ret (Inl err)
        | Inr p \<Rightarrow>
            (case own_pod e inst (p\<lparr>Annotations := AList.update sandboxOverlayAnnotation hash (Annotations p)\<rparr>) of
               Inl err \<Rightarrow> ret (Inl (Wrap ''pool pod ownerRef'' err))
             | Inr p' \<Rightarrow> try_then (wrapping ''create pool pod'' (create_obj (pods e) OnPod p')) (\<lambda>_. ret (Inr ()))))
     }"

section \<open>The gate and the inputs of the overlay\<close>

definition secretKeyNonEmptyCM :: "config_map \<Rightarrow> string \<Rightarrow> bool" where
  "secretKeyNonEmptyCM cm key = (data_of (cm_Data cm) key \<noteq> [])"

definition proxyPoolOpen :: "'w op_env \<Rightarrow> climcp_instance \<Rightarrow> ('w, bool result) op" where
  "proxyPoolOpen e inst =
     (let ns = inst_Namespace inst; name = inst_Name inst in
      try_then (wrapping ''get proxy configmap'' (find_obj (get_obj (configmaps e) OnConfigMap ns (proxyName name)))) (\<lambda>cm.
        case cm of
          None \<Rightarrow> ret (Inr False)
        | Some c \<Rightarrow>
            if effectiveKubeconfigSecretName inst \<noteq> None \<and> \<not> secretKeyNonEmptyCM c kubeconfigDataKey then ret (Inr False)
            else
              try_then (wrapping ''get sandbox network policy'' (find_obj (get_obj (netpols e) OnNetpol ns (sandboxSAName name)))) (\<lambda>np.
                case np of
                  None \<Rightarrow> ret (Inr False)
                | Some n \<Rightarrow>
                    if ''Egress'' \<notin> set (np_PolicyTypes (np_Spec n)) then ret (Inr False)
                    else
                      try_then (wrapping ''get proxy network policy'' (find_obj (get_obj (netpols e) OnNetpol ns (proxyName name)))) (\<lambda>pnp.
                        case pnp of
                          None \<Rightarrow> ret (Inr False)
                        | Some _ \<Rightarrow>
                            try_then (wrapping ''list proxy endpoint slices''
                                (list_objs (slices e) OnSlice ns (MatchingLabels [(''kubernetes.io/service-name'', proxyName name)])))
                              (\<lambda>items. ret (Inr (EndpointSlicesReady items)))))))"

definition overlayInputs :: "'w op_env \<Rightarrow> reconciler \<Rightarrow> climcp_instance \<Rightarrow> ('w, (sandbox_config \<times> string option \<times> string option) result) op" where
  "overlayInputs e rc inst =
     (let ns = inst_Namespace inst; cfg0 = poolSandboxConfig (rec_Images rc) inst in
      try_then (if ProxyService cfg0 \<noteq> []
          then try_then (proxyClusterIP e inst) (\<lambda>ip. ret (Inr (cfg0\<lparr>ProxyClusterIP := ip\<rparr>)))
          else ret (Inr cfg0)) (\<lambda>cfg.
      try_then (if DummyKubeconfigConfigMap cfg \<noteq> []
          then try_then (wrapping ''get dummy kubeconfig'' (find_obj (get_obj (configmaps e) OnConfigMap ns (DummyKubeconfigConfigMap cfg)))) (\<lambda>cm.
            ret (Inr (case cm of
                        None \<Rightarrow> None
                      | Some c \<Rightarrow> if data_of (cm_Data c) kubeconfigDataKey \<noteq> [] then Some (data_of (cm_Data c) kubeconfigDataKey) else None)))
          else ret (Inr None)) (\<lambda>dummy.
      try_then (wrapping ''get proxy CA'' (find_obj (get_obj (secrets e) OnSecret ns (ProxyCASecret cfg)))) (\<lambda>sec.
        ret (Inr (cfg, dummy,
          (case sec of
             None \<Rightarrow> None
           | Some s \<Rightarrow> let v = TrimSpace (data_of (sec_Data s) caCertKey) in if v \<noteq> [] then Some v else None)))))))"

section \<open>reconcilePool\<close>

text \<open>
  The loop over the listed pods: how many unassigned pods are terminating, the live ones that stay, and how many slots
  deleted pods still take. The snapshot is returned also with an error.
\<close>

fun scan_pool :: "'w op_env \<Rightarrow> string \<Rightarrow> pod list \<Rightarrow> pool_snapshot \<Rightarrow> nat \<Rightarrow> pod list \<Rightarrow> nat \<Rightarrow>
    ('w, pool_snapshot \<times> (nat \<times> pod list \<times> nat) result) op" where
  "scan_pool e hash [] pre terminating live slots = ret (pre, Inr (terminating, live, slots))"
| "scan_pool e hash (p # ps) pre terminating live slots =
     (if \<not> isUnassignedSandbox p then scan_pool e hash ps pre terminating live slots
      else if DeletionTimestamp p \<noteq> None then scan_pool e hash ps pre (terminating + 1) live slots
      else
        let stale = (data_of (Annotations p) sandboxOverlayAnnotation \<noteq> hash);
            pre' = (if stale then pre\<lparr>overlayRebuild := True\<rparr> else pre) in
        if stale \<or> poolPodUnhealthy p then
          do {
            r \<leftarrow> delete_slot e p;
            (case r of
               Inl err \<Rightarrow> ret (pre', Inl err)
             | Inr n \<Rightarrow> scan_pool e hash ps pre' terminating live (slots + n))
          }
        else scan_pool e hash ps pre' terminating (live @ [p]) slots)"

fun trim_pool :: "'w op_env \<Rightarrow> pod list \<Rightarrow> nat \<Rightarrow> ('w, nat result) op" where
  "trim_pool e [] slots = ret (Inr slots)"
| "trim_pool e (p # ps) slots = try_then (delete_slot e p) (\<lambda>n. trim_pool e ps (slots + n))"

primrec fill_pool :: "'w op_env \<Rightarrow> climcp_instance \<Rightarrow> sandbox_config \<Rightarrow> string \<Rightarrow> nat \<Rightarrow> ('w, unit result) op" where
  "fill_pool e inst cfg hash 0 = ret (Inr ())"
| "fill_pool e inst cfg hash (Suc n) = try_then (createPoolPod e inst cfg hash) (\<lambda>_. fill_pool e inst cfg hash n)"

fun delete_live :: "'w op_env \<Rightarrow> pod list \<Rightarrow> ('w, unit result) op" where
  "delete_live e [] = ret (Inr ())"
| "delete_live e (p # ps) = try_then (deleteUnassignedIfStillUnassigned e p) (\<lambda>_. delete_live e ps)"

definition live_unassigned :: "pod list \<Rightarrow> pod list" where
  "live_unassigned items = filter (\<lambda>p. isUnassignedSandbox p \<and> DeletionTimestamp p = None) items"

definition err_of :: "'a result \<Rightarrow> go_error option" where
  "err_of r = (case r of Inl err \<Rightarrow> Some err | Inr _ \<Rightarrow> None)"

definition reconcileZeroPool :: "'w op_env \<Rightarrow> climcp_instance \<Rightarrow> pod list \<Rightarrow> ('w, pool_snapshot \<times> go_error option) op" where
  "reconcileZeroPool e inst items =
     (let live = live_unassigned items in
      if live = [] then ret (observePool items 0, None)
      else do {
        r \<leftarrow> delete_live e (sort_key CreationTimestamp live);
        observeAfterMutate e inst 0 (new_snapshot 0) (err_of r)
      })"

text \<open>What follows the scan: delete the surplus, oldest first, create what is missing.\<close>

definition adjust_pool :: "'w op_env \<Rightarrow> climcp_instance \<Rightarrow> sandbox_config \<Rightarrow> string \<Rightarrow> int \<Rightarrow> nat \<Rightarrow> pod list \<Rightarrow> nat \<Rightarrow> ('w, unit result) op" where
  "adjust_pool e inst cfg hash d terminating found slots =
     (let live = sort_key CreationTimestamp found;
          occupied = int terminating + int (length live) + int slots;
          surplus = nat (min (max (occupied - d) 0) (int (length live)))
      in try_then (trim_pool e (take surplus live) slots) (\<lambda>slots'.
           fill_pool e inst cfg hash (nat (max (d - int terminating - int (length (drop surplus live)) - int slots') 0))))"

definition reconcilePool :: "'w op_env \<Rightarrow> reconciler \<Rightarrow> climcp_instance \<Rightarrow> bool \<Rightarrow> ('w, pool_snapshot \<times> go_error option) op" where
  "reconcilePool e rc inst mutate =
     (let d = WarmPoolSize (Sandbox inst) in
      do {
        lr \<leftarrow> list_sandboxes e inst;
        (case lr of
           Inl err \<Rightarrow> ret (new_snapshot d, Some (Wrap ''list sandbox pods'' err))
         | Inr items \<Rightarrow>
             if \<not> mutate then ret (observePool items d, None)
             else if d = 0 then reconcileZeroPool e inst items
             else do {
               op \<leftarrow> proxyPoolOpen e inst;
               (case op of
                  Inl err \<Rightarrow> ret (observePool items d, Some err)
                | Inr False \<Rightarrow> ret ((observePool items d)\<lparr>proxyGateClosed := d > 0\<rparr>, None)
                | Inr True \<Rightarrow>
                    do {
                      ir \<leftarrow> overlayInputs e rc inst;
                      (case ir of
                         Inl err \<Rightarrow> ret (observePool items d, Some err)
                       | Inr (cfg, dummy, ca) \<Rightarrow>
                           (case overlayHash (lib e) (marshal_overlay e) (sha256_hex e) cfg dummy ca of
                              Inl err \<Rightarrow> ret (observePool items d, Some err)
                            | Inr hash \<Rightarrow>
                                if Image cfg = [] then
                                  ret (observePool items d, Some (Err (''sandbox image is empty: set spec.sandbox.image or '' @ envRelatedImageSandbox)))
                                else do {
                                  sr \<leftarrow> scan_pool e hash items (observePool items d) 0 [] 0;
                                  (case sr of
                                     (pre, Inl err) \<Rightarrow> observeAfterMutate e inst d pre (Some err)
                                   | (pre, Inr (terminating, live, slots)) \<Rightarrow>
                                       do {
                                         r \<leftarrow> adjust_pool e inst cfg hash d terminating live slots;
                                         observeAfterMutate e inst d pre (err_of r)
                                       })
                                }))
                    })
             })
      })"

section \<open>Readiness of the pool and the next look\<close>

definition IsStatusConditionTrue :: "'w op_env \<Rightarrow> condition list \<Rightarrow> string \<Rightarrow> bool" where
  "IsStatusConditionTrue e conds t = (case FindStatusCondition e conds t of Some c \<Rightarrow> cond_Status c = ''True'' | None \<Rightarrow> False)"

definition shortfallPastDeadline :: "'w op_env \<Rightarrow> climcp_instance \<Rightarrow> int \<Rightarrow> bool" where
  "shortfallPastDeadline e orig now =
     (case FindStatusCondition e (st_Conditions (Status orig)) ConditionWarmPoolReady of
        None \<Rightarrow> False
      | Some c \<Rightarrow> if cond_Status c \<noteq> ''False'' then False else \<not> LastTransitionTime c + poolReplenishDeadline > now)"

definition poolReadyGate :: "'w op_env \<Rightarrow> climcp_instance \<Rightarrow> pool_snapshot \<Rightarrow> int \<Rightarrow> bool \<times> string \<times> string" where
  "poolReadyGate e orig snap now =
     (let good = (True, ReasonReady, ''instance is ready'') in
      if desired snap = 0 then good
      else if unhealthy snap then (False, ReasonWarmPoolUnhealthy, unhealthyMsg snap)
      else if ready snap \<ge> desired snap then good
      else
        let previouslyReady = IsStatusConditionTrue e (st_Conditions (Status orig)) ConditionReady;
            increased = (WarmPoolDesired (Status orig) < desired snap) in
        if increased \<or> overlayRebuild snap \<or> \<not> previouslyReady
          then (False, ReasonWarmPoolNotReady, ''waiting for warm pool '' @ Itoa (ready snap) @ ''/'' @ Itoa (desired snap))
        else if shortfallPastDeadline e orig now
          then (False, ReasonWarmPoolNotReady, ''warm pool shortfall exceeded replenish deadline'')
        else good)"

definition poolRequeueAfter :: "'w op_env \<Rightarrow> climcp_instance \<Rightarrow> pool_snapshot \<Rightarrow> int \<Rightarrow> int" where
  "poolRequeueAfter e orig snap now =
     (if proxyGateClosed snap then proxyGateRetry
      else if desired snap = 0 \<or> unhealthy snap \<or> ready snap \<ge> desired snap then 0
      else if \<not> IsStatusConditionTrue e (st_Conditions (Status orig)) ConditionReady then 0
      else
        let start = (case FindStatusCondition e (st_Conditions (Status orig)) ConditionWarmPoolReady of
               Some c \<Rightarrow> if cond_Status c = ''False'' \<and> LastTransitionTime c \<noteq> 0 then LastTransitionTime c else now
             | None \<Rightarrow> now);
            remaining = start + poolReplenishDeadline - now
        in if remaining \<le> 0 then 0 else remaining)"

definition mergeRequeueAfter :: "int \<Rightarrow> int \<Rightarrow> int" where
  "mergeRequeueAfter a b = (if a = 0 then b else if b = 0 then a else min a b)"

definition scheduledRequeueAfter :: "int \<Rightarrow> int \<Rightarrow> int" where
  "scheduledRequeueAfter idle snap = (let d = mergeRequeueAfter idle snap in if d > 0 then d else managedResyncInterval)"

section \<open>idle.go\<close>

definition minIdleRequeue :: int where "minIdleRequeue = second"

definition activityTime :: "'w op_env \<Rightarrow> pod \<Rightarrow> int option" where
  "activityTime e p =
     (let last = data_of (Annotations p) AnnotationLastActivity;
          raw = (if last = [] then data_of (Annotations p) AnnotationCreatedAt else last) in
      if raw = [] then None else (case parse_RFC3339 e raw of Inl _ \<Rightarrow> None | Inr t \<Rightarrow> Some t))"

definition idleExpired :: "'w op_env \<Rightarrow> pod \<Rightarrow> int \<Rightarrow> int \<Rightarrow> bool" where
  "idleExpired e p now timeout =
     (if DeletionTimestamp p \<noteq> None then False
      else if map_of (Labels p) LabelSessionID = None then False
      else (case activityTime e p of None \<Rightarrow> False | Some at \<Rightarrow> \<not> at + timeout > now))"

fun soonest_loop :: "'w op_env \<Rightarrow> pod list \<Rightarrow> int \<Rightarrow> int \<Rightarrow> int \<Rightarrow> int" where
  "soonest_loop e [] now timeout soonest = soonest"
| "soonest_loop e (p # ps) now timeout soonest =
     (if DeletionTimestamp p \<noteq> None then soonest_loop e ps now timeout soonest
      else if map_of (Labels p) LabelSessionID = None then soonest_loop e ps now timeout soonest
      else
        (case activityTime e p of
           None \<Rightarrow> soonest_loop e ps now timeout soonest
         | Some at \<Rightarrow>
             let delay = at + timeout - now in
             if delay \<le> 0 then soonest_loop e ps now timeout soonest
             else soonest_loop e ps now timeout (if soonest = 0 \<or> delay < soonest then delay else soonest)))"

definition soonestIdleRequeue :: "'w op_env \<Rightarrow> pod list \<Rightarrow> int \<Rightarrow> int \<Rightarrow> int" where
  "soonestIdleRequeue e items now timeout =
     (let soonest = soonest_loop e items now timeout 0 in if soonest = 0 then 0 else max soonest minIdleRequeue)"

definition ignoring_not_found :: "('w, 'e, unit result) gio \<Rightarrow> ('w, 'e, unit result) gio" where
  "ignoring_not_found m = do { r \<leftarrow> m; ret (case r of Inl err \<Rightarrow> if IsNotFound err then Inr () else Inl err | Inr _ \<Rightarrow> Inr ()) }"

text \<open>The body of the loop for an expired pod.\<close>

definition gc_pod :: "'w op_env \<Rightarrow> climcp_instance \<Rightarrow> pod \<Rightarrow> ('w, unit result) op" where
  "gc_pod e inst p =
     (let sessionID = data_of (Labels p) LabelSessionID; secret = AuthSecretName sessionID in
      try_then (wrapping (''delete idle pod '' @ pod_Name p)
          (ignoring_not_found (delete_obj (pods e) OnPod (pod_Namespace p) (pod_Name p) None))) (\<lambda>_.
        if sessionID = [] then ret (Inr ())
        else wrapping (''delete idle session secret '' @ secret)
          (ignoring_not_found (delete_obj (secrets e) OnSecret (inst_Namespace inst) secret None))))"

fun gc_loop :: "'w op_env \<Rightarrow> climcp_instance \<Rightarrow> int \<Rightarrow> int \<Rightarrow> pod list \<Rightarrow> ('w, unit result) op" where
  "gc_loop e inst now timeout [] = ret (Inr ())"
| "gc_loop e inst now timeout (p # ps) =
     (if \<not> idleExpired e p now timeout then gc_loop e inst now timeout ps
      else try_then (gc_pod e inst p) (\<lambda>_. gc_loop e inst now timeout ps))"

definition gcIdleAssigned :: "'w op_env \<Rightarrow> climcp_instance \<Rightarrow> int \<Rightarrow> ('w, int result) op" where
  "gcIdleAssigned e inst now =
     (let timeout = idleTimeoutOrDefault (IdleTimeout (Sandbox inst)) in
      case labels_Parse e (AssignedAnySelector (inst_Name inst)) of
        Inl err \<Rightarrow> ret (Inl (Wrap ''parse assigned selector'' err))
      | Inr sel \<Rightarrow>
          try_then (wrapping ''list assigned sandbox pods'' (list_objs (pods e) OnPod (inst_Namespace inst) sel)) (\<lambda>items.
          try_then (gc_loop e inst now timeout items) (\<lambda>_. ret (Inr (soonestIdleRequeue e items now timeout)))))"

text \<open>A result is when to look again; 0 is never.\<close>

definition idleResult :: "'w op_env \<Rightarrow> climcp_instance \<Rightarrow> ('w, int result) op" where
  "idleResult e inst =
     do {
       now \<leftarrow> time_Now (runtime e);
       r \<leftarrow> gcIdleAssigned e inst now;
       ret (case r of Inl err \<Rightarrow> Inl err | Inr d \<Rightarrow> Inr (if d > 0 then d else 0))
     }"

end
