(* ===== verification/Reconcile.thy ===== *)
theory Reconcile
  imports Pool
begin

text \<open>
  \<open>internal/controller/climcpinstance\_controller.go\<close> and \<open>watch.go\<close>: one reconcile of an instance, its finalizer, the readiness it
  publishes, and which changes of the cluster cause a reconcile. A result is when to look again, in nanoseconds; 0 asks for nothing.
\<close>

section \<open>The readiness gate\<close>

text \<open>A check answers \<open>Some\<close> message when something is wrong.\<close>

definition missingRequiredSecrets :: "'w op_env \<Rightarrow> reconciler \<Rightarrow> climcp_instance \<Rightarrow> ksecret option \<Rightarrow> ('w, string option) op" where
  "missingRequiredSecrets e rc inst hmac =
     do {
       kr \<leftarrow> (case effectiveKubeconfigSecretName inst of
                None \<Rightarrow> ret (Inr [])
              | Some n \<Rightarrow> try_then (getSecret e (inst_Namespace inst) n) (\<lambda>kube. ret (Inr (if kube = None then [n] else []))));
       (case kr of
          Inl err \<Rightarrow> ret (Some (error_text e err))
        | Inr kube \<Rightarrow>
            do {
              let missing = kube @ (if hmac = None then [hmacSecretName (inst_Name inst)] else []);
              tr \<leftarrow> (if OnOpenShift rc then ret (Inr [])
                     else try_then (getSecret e (inst_Namespace inst) (tlsSecretName (inst_Name inst)))
                       (\<lambda>tls. ret (Inr (if tls = None then [tlsSecretName (inst_Name inst)] else []))));
              ret (case tr of
                     Inl err \<Rightarrow> Some (error_text e err)
                   | Inr tls \<Rightarrow> if missing @ tls = [] then None else Some (''missing secrets: '' @ Join_strings '', '' (missing @ tls)))
            })
     }"

text \<open>The keys of a Secret that are empty; a Secret that is not there has none.\<close>

definition empty_keys :: "string \<Rightarrow> ksecret option \<Rightarrow> string list \<Rightarrow> string list" where
  "empty_keys n secret keys =
     (case secret of None \<Rightarrow> [] | Some _ \<Rightarrow> map (\<lambda>k. n @ ''/'' @ k) (filter (\<lambda>k. \<not> secretKeyNonEmpty secret k) keys))"

definition invalidRequiredSecretKeys :: "'w op_env \<Rightarrow> reconciler \<Rightarrow> climcp_instance \<Rightarrow> ksecret option \<Rightarrow> ('w, string option) op" where
  "invalidRequiredSecretKeys e rc inst hmac =
     (let ns = inst_Namespace inst; caName = proxyCASecretName (inst_Name inst); tlsName = tlsSecretName (inst_Name inst) in
      do {
        r \<leftarrow> try_then (case effectiveKubeconfigSecretName inst of
                 None \<Rightarrow> ret (Inr [])
               | Some n \<Rightarrow> try_then (getSecret e ns n) (\<lambda>kube. ret (Inr (empty_keys n kube [kubeconfigDataKey])))) (\<lambda>kube.
             try_then (getSecret e ns caName) (\<lambda>ca.
             try_then (if OnOpenShift rc then ret (Inr [])
                 else try_then (getSecret e ns tlsName) (\<lambda>tls. ret (Inr (empty_keys tlsName tls [tlsCertKey, tlsKeyKey])))) (\<lambda>tls.
               ret (Inr (kube @ empty_keys caName ca [caCertKey, caKeyKey] @ empty_keys (hmacSecretName (inst_Name inst)) hmac [hmacSecretKey] @ tls)))));
        ret (case r of
               Inl err \<Rightarrow> Some (error_text e err)
             | Inr invalid \<Rightarrow> if invalid = [] then None else Some (''empty or missing keys: '' @ Join_strings '', '' invalid))
      })"

definition kubeconfigInvalid :: "'w op_env \<Rightarrow> climcp_instance \<Rightarrow> ('w, string option) op" where
  "kubeconfigInvalid e inst =
     (case effectiveKubeconfigSecretName inst of
        None \<Rightarrow> ret None
      | Some n \<Rightarrow>
          do {
            r \<leftarrow> getSecret e (inst_Namespace inst) n;
            ret (case r of
                   Inl err \<Rightarrow> Some (error_text e err)
                 | Inr None \<Rightarrow> None
                 | Inr (Some kube) \<Rightarrow>
                     if \<not> secretKeyNonEmpty (Some kube) kubeconfigDataKey then None
                     else (case Validate (lib e) (load_kubeconfig e) (data_of (sec_Data kube) kubeconfigDataKey) of
                             Inl err \<Rightarrow> Some (error_text e err)
                           | Inr _ \<Rightarrow> None))
          })"

definition kubernetesProxyRoutes :: "'w op_env \<Rightarrow> climcp_instance \<Rightarrow> ('w, proxy_route list result) op" where
  "kubernetesProxyRoutes e inst =
     (case effectiveKubeconfigSecretName inst of
        None \<Rightarrow> ret (Inr [])
      | Some n \<Rightarrow>
          try_then (getSecret e (inst_Namespace inst) n) (\<lambda>kube.
            ret (case kube of
                   None \<Rightarrow> Inr []
                 | Some s \<Rightarrow>
                     if \<not> secretKeyNonEmpty (Some s) kubeconfigDataKey then Inr []
                     else BuildProxyRoutes (lib e) (load_kubeconfig e) (data_of (sec_Data s) kubeconfigDataKey) proxyKubeconfigPath)))"

definition proxyRoutesInvalid :: "'w op_env \<Rightarrow> climcp_instance \<Rightarrow> ('w, string option) op" where
  "proxyRoutesInvalid e inst =
     do {
       r \<leftarrow> kubernetesProxyRoutes e inst;
       ret (case r of
              Inl err \<Rightarrow> Some (error_text e err)
            | Inr kubeRoutes \<Rightarrow>
                (case collectProxyRoutes (lib e) (Targets inst) kubeRoutes of
                   (routes, problems) \<Rightarrow>
                     if problems = [] then None
                     else
                       let msg = proxyRouteProblemMessage (lib e) problems in
                       Some (if routes = [] then ''proxy is not running; '' @ msg
                             else if length routes = 1 then msg @ ''; the other host is still routed''
                             else msg @ ''; the other hosts are still routed'')))
     }"

definition sandboxEgressNotReady :: "'w op_env \<Rightarrow> climcp_instance \<Rightarrow> ('w, string option) op" where
  "sandboxEgressNotReady e inst =
     do {
       r \<leftarrow> get_obj (netpols e) OnNetpol (inst_Namespace inst) (sandboxSAName (inst_Name inst));
       ret (case r of
              Inl err \<Rightarrow> Some (if IsNotFound err then ''sandbox NetworkPolicy is missing'' else error_text e err)
            | Inr np \<Rightarrow> if ''Egress'' \<notin> set (np_PolicyTypes (np_Spec np)) then Some ''sandbox NetworkPolicy does not set Egress'' else None)
     }"

text \<open>The children in the order of the checks, each with its name and its \<open>Get\<close>.\<close>

definition look :: "('w, 'o) client \<Rightarrow> ('o access \<Rightarrow> op_event) \<Rightarrow> string \<Rightarrow> string \<Rightarrow> string \<times> ('w, unit result) op" where
  "look c on ns n = (n, do { r \<leftarrow> get_obj c on ns n; ret (case r of Inl err \<Rightarrow> Inl err | Inr _ \<Rightarrow> Inr ()) })"

definition child_checks :: "'w op_env \<Rightarrow> climcp_instance \<Rightarrow> (string \<times> ('w, unit result) op) list" where
  "child_checks e inst =
     (let ns = inst_Namespace inst; name = inst_Name inst in
      [look (serviceaccounts e) OnServiceAccount ns (childName name),
       look (serviceaccounts e) OnServiceAccount ns (sandboxSAName name),
       look (serviceaccounts e) OnServiceAccount ns (clientSAName name),
       look (roles e) OnRole ns (childName name),
       look (roles e) OnRole ns (clientSAName name),
       look (rolebindings e) OnRoleBinding ns (childName name),
       look (rolebindings e) OnRoleBinding ns (clientSAName name),
       look (services e) OnService ns (childName name),
       look (netpols e) OnNetpol ns (sandboxSAName name),
       look (netpols e) OnNetpol ns (proxyName name),
       look (deployments e) OnDeployment ns (childName name),
       look (deployments e) OnDeployment ns (proxyName name),
       look (services e) OnService ns (proxyName name),
       look (serviceaccounts e) OnServiceAccount ns (proxyName name),
       look (secrets e) OnSecret ns (hmacSecretName name),
       look (secrets e) OnSecret ns (proxyCASecretName name),
       look (configmaps e) OnConfigMap ns (krpConfigMapName name),
       look (configmaps e) OnConfigMap ns (proxyName name)])"

fun missing_loop :: "'w op_env \<Rightarrow> (string \<times> ('w, unit result) op) list \<Rightarrow> string list \<Rightarrow> ('w, string option) op" where
  "missing_loop e [] missing = ret (if missing = [] then None else Some (''missing children: '' @ Join_strings '', '' missing))"
| "missing_loop e ((n, check) # cs) missing =
     do {
       r \<leftarrow> check;
       (case r of
          Inl err \<Rightarrow> if IsNotFound err then missing_loop e cs (missing @ [n]) else ret (Some (error_text e err))
        | Inr _ \<Rightarrow> missing_loop e cs missing)
     }"

definition missingChildren :: "'w op_env \<Rightarrow> climcp_instance \<Rightarrow> ('w, string option) op" where
  "missingChildren e inst = missing_loop e (child_checks e inst) []"

definition deploymentAvailable :: "deployment \<Rightarrow> bool" where
  "deploymentAvailable d =
     (if d_ObservedGeneration d < obj_Generation (d_Meta d) then False
      else
        let want = (case d_Replicas (d_Spec d) of None \<Rightarrow> 1 | Some n \<Rightarrow> n) in
        if want < 1 \<or> d_ReadyReplicas d < want then False
        else list_ex (\<lambda>(t, st). t = ''Available'' \<and> st = ''True'') (d_Conditions d))"

text \<open>The next check when this one found nothing.\<close>

definition unless_wrong :: "string \<Rightarrow> ('w, string option) op \<Rightarrow> ('w, bool \<times> string \<times> string) op \<Rightarrow> ('w, bool \<times> string \<times> string) op" where
  "unless_wrong why check k = do { r \<leftarrow> check; (case r of Some msg \<Rightarrow> ret (False, why, msg) | None \<Rightarrow> k) }"

definition deployment_gate :: "'w op_env \<Rightarrow> climcp_instance \<Rightarrow> string \<Rightarrow> string \<Rightarrow> ('w, bool \<times> string \<times> string) op \<Rightarrow> ('w, bool \<times> string \<times> string) op" where
  "deployment_gate e inst n what k =
     do {
       r \<leftarrow> get_obj (deployments e) OnDeployment (inst_Namespace inst) n;
       (case r of
          Inl err \<Rightarrow> ret (False, ReasonChildrenNotReady, what @ '' Deployment: '' @ error_text e err)
        | Inr d \<Rightarrow> if \<not> deploymentAvailable d then ret (False, ReasonDeploymentUnavailable, what @ '' Deployment is not Available'') else k)
     }"

definition readyGate :: "'w op_env \<Rightarrow> reconciler \<Rightarrow> climcp_instance \<Rightarrow> climcp_instance \<Rightarrow> ksecret option \<Rightarrow> go_error option \<Rightarrow> go_error option \<Rightarrow>
    pool_snapshot \<Rightarrow> ('w, bool \<times> string \<times> string) op" where
  "readyGate e rc orig inst hmac applyErr crbErr snap =
     (case crbErr of
        Some err \<Rightarrow> ret (False, ReasonChildrenNotReady, error_text e err)
      | None \<Rightarrow>
          (case applyErr of
             Some err \<Rightarrow> ret (False, ReasonReconciling, error_text e err)
           | None \<Rightarrow>
               unless_wrong ReasonSecretsNotFound (missingRequiredSecrets e rc inst hmac) (
               unless_wrong ReasonSecretKeysInvalid (invalidRequiredSecretKeys e rc inst hmac) (
               unless_wrong ReasonKubeconfigInvalid (kubeconfigInvalid e inst) (
               unless_wrong ReasonProxyRoutesInvalid (proxyRoutesInvalid e inst) (
               unless_wrong ReasonChildrenNotReady (missingChildren e inst) (
               unless_wrong ReasonChildrenNotReady (sandboxEgressNotReady e inst) (
               unless_wrong ReasonChildrenNotReady (authDelegatorNotReady e inst) (
               deployment_gate e inst (childName (inst_Name inst)) ''MCP'' (
               deployment_gate e inst (proxyName (inst_Name inst)) ''proxy'' (
               do { now \<leftarrow> time_Now (runtime e); ret (poolReadyGate e orig snap now) })))))))))))"

section \<open>The status\<close>

definition new_condition :: "climcp_instance \<Rightarrow> string \<Rightarrow> bool \<Rightarrow> string \<Rightarrow> string \<Rightarrow> condition" where
  "new_condition inst t b why msg =
     \<lparr>cond_Type = t, cond_Status = (if b then ''True'' else ''False''), Reason = why, Message = msg,
      ObservedGeneration = Generation inst, LastTransitionTime = 0\<rparr>"

definition warm_condition :: "climcp_instance \<Rightarrow> pool_snapshot \<Rightarrow> condition" where
  "warm_condition inst snap =
     (if unhealthy snap then new_condition inst ConditionWarmPoolReady False ReasonWarmPoolUnhealthy (unhealthyMsg snap)
      else if desired snap = 0 \<or> ready snap \<ge> desired snap
        then new_condition inst ConditionWarmPoolReady True ReasonReady ''warm pool is ready''
      else new_condition inst ConditionWarmPoolReady False ReasonWarmPoolNotReady
        (''warm pool '' @ Itoa (ready snap) @ ''/'' @ Itoa (desired snap)))"

definition set_condition :: "'w op_env \<Rightarrow> condition \<Rightarrow> climcp_instance \<Rightarrow> ('w, climcp_instance) op" where
  "set_condition e c inst =
     do {
       now \<leftarrow> time_Now (runtime e);
       ret (inst\<lparr>Status := (Status inst)\<lparr>st_Conditions := SetStatusCondition e now c (st_Conditions (Status inst))\<rparr>\<rparr>)
     }"

definition syncStatus :: "'w op_env \<Rightarrow> reconciler \<Rightarrow> climcp_instance \<Rightarrow> ksecret option \<Rightarrow> go_error option \<Rightarrow> go_error option \<Rightarrow> pool_snapshot \<Rightarrow>
    ('w, unit result) op" where
  "syncStatus e rc orig hmac applyErr crbErr snap =
     do {
       inst1 \<leftarrow> set_condition e (warm_condition orig snap)
         (orig\<lparr>Status := (Status orig)\<lparr>WarmPoolDesired := desired snap, st_WarmPoolReady := ready snap,
            ResolvedSandboxImage := resolvedSandboxImage (rec_Images rc) (Sandbox orig),
            ClientServiceAccount := clientSAName (inst_Name orig)\<rparr>\<rparr>);
       g \<leftarrow> readyGate e rc orig inst1 hmac applyErr crbErr snap;
       (case g of
          (good, why, msg) \<Rightarrow>
            do {
              inst2 \<leftarrow> set_condition e (new_condition inst1 ConditionReady good why msg) inst1;
              if Status orig = Status inst2 then ret (Inr ())
              else try_then (wrapping ''update status'' (update_status (instances e) OnInstance inst2)) (\<lambda>_. ret (Inr ()))
            })
     }"

section \<open>Finalizing an instance\<close>

definition scaleMCPToZero :: "'w op_env \<Rightarrow> climcp_instance \<Rightarrow> ('w, unit result) op" where
  "scaleMCPToZero e inst =
     try_then (wrapping ''get MCP Deployment'' (find_obj (get_obj (deployments e) OnDeployment (inst_Namespace inst) (childName (inst_Name inst))))) (\<lambda>found.
       case found of
         None \<Rightarrow> ret (Inr ())
       | Some d \<Rightarrow>
           if d_Replicas (d_Spec d) = Some 0 then ret (Inr ())
           else try_then (wrapping ''scale MCP Deployment to 0''
               (update_obj (deployments e) OnDeployment (d\<lparr>d_Spec := (d_Spec d)\<lparr>d_Replicas := Some 0\<rparr>\<rparr>)))
             (\<lambda>_. ret (Inr ())))"

definition deleteInstanceSandboxes :: "'w op_env \<Rightarrow> climcp_instance \<Rightarrow> ('w, unit result) op" where
  "deleteInstanceSandboxes e inst =
     (let sel = MatchingLabels (sandboxLabels (inst_Name inst)) in
      try_then (wrapping ''delete sandbox pods'' (delete_all (pods e) OnPod (inst_Namespace inst) sel)) (\<lambda>_.
        wrapping ''delete session secrets'' (delete_all (secrets e) OnSecret (inst_Namespace inst) sel)))"

definition stillPresent :: "pod list \<Rightarrow> bool" where "stillPresent ps = (length ps > 0)"

definition secretsPresent :: "ksecret list \<Rightarrow> bool" where "secretsPresent ss = (length ss > 0)"

definition list_server_pods :: "'w op_env \<Rightarrow> climcp_instance \<Rightarrow> ('w, pod list result) op" where
  "list_server_pods e inst = list_objs (pods e) OnPod (inst_Namespace inst) (MatchingLabels (serverLabels (inst_Name inst)))"

definition list_session_secrets :: "'w op_env \<Rightarrow> climcp_instance \<Rightarrow> ('w, ksecret list result) op" where
  "list_session_secrets e inst = list_objs (secrets e) OnSecret (inst_Namespace inst) (MatchingLabels (sandboxLabels (inst_Name inst)))"

definition finalize :: "'w op_env \<Rightarrow> climcp_instance \<Rightarrow> ('w, int result) op" where
  "finalize e inst =
     (if \<not> ContainsFinalizer e (Finalizers inst) finalizerName then ret (Inr 0)
      else
        try_then (applyAuthDelegatorCRB e) (\<lambda>_.
        try_then (scaleMCPToZero e inst) (\<lambda>_.
        try_then (wrapping ''list server pods'' (list_server_pods e inst)) (\<lambda>serverPods.
          if stillPresent serverPods then ret (Inr (2 * second))
          else
            try_then (deleteInstanceSandboxes e inst) (\<lambda>_.
            try_then (wrapping ''list sandbox pods'' (list_sandboxes e inst)) (\<lambda>sandboxPods.
            try_then (wrapping ''list session secrets'' (list_session_secrets e inst)) (\<lambda>sessionSecrets.
              if stillPresent sandboxPods \<or> secretsPresent sessionSecrets then ret (Inr (2 * second))
              else try_then (wrapping ''remove finalizer'' (update_obj (instances e) OnInstance (inst\<lparr>Finalizers := RemoveFinalizer e (Finalizers inst) finalizerName\<rparr>)))
                (\<lambda>_. ret (Inr 0)))))))))"

section \<open>Reconcile\<close>

text \<open>The instance with its finalizer.\<close>

definition with_finalizer :: "'w op_env \<Rightarrow> climcp_instance \<Rightarrow> ('w, climcp_instance result) op" where
  "with_finalizer e inst =
     (if ContainsFinalizer e (Finalizers inst) finalizerName then ret (Inr inst)
      else wrapping ''add finalizer'' (update_obj (instances e) OnInstance (inst\<lparr>Finalizers := AddFinalizer e (Finalizers inst) finalizerName\<rparr>)))"

definition first_err :: "go_error option \<Rightarrow> go_error option \<Rightarrow> go_error option" where
  "first_err a b = (case a of Some err \<Rightarrow> Some err | None \<Rightarrow> b)"

definition reconcile_live :: "'w op_env \<Rightarrow> reconciler \<Rightarrow> climcp_instance \<Rightarrow> ('w, int result) op" where
  "reconcile_live e rc inst =
     try_then (ensureHMAC e inst) (\<lambda>hmac.
       do {
         ar \<leftarrow> applyChildren e rc inst hmac;
         cr \<leftarrow> applyAuthDelegatorCRB e;
         pr \<leftarrow> reconcilePool e rc inst (err_of ar = None);
         (case pr of
            (snap, poolErr) \<Rightarrow>
              try_then (idleResult e inst) (\<lambda>idle.
              try_then (syncStatus e rc inst (Some hmac) (err_of ar) (err_of cr) snap) (\<lambda>_.
                (case first_err (err_of ar) (first_err (err_of cr) poolErr) of
                   Some err \<Rightarrow> ret (Inl err)
                 | None \<Rightarrow>
                     do {
                       now \<leftarrow> time_Now (runtime e);
                       ret (Inr (scheduledRequeueAfter idle (poolRequeueAfter e inst snap now)))
                     }))))
       })"

definition Reconcile :: "'w op_env \<Rightarrow> reconciler \<Rightarrow> string \<Rightarrow> string \<Rightarrow> ('w, int result) op" where
  "Reconcile e rc ns name =
     do {
       r \<leftarrow> get_obj (instances e) OnInstance ns name;
       (case r of
          Inl err \<Rightarrow> ret (if IsNotFound err then Inr 0 else Inl err)
        | Inr inst \<Rightarrow>
            if inst_Deletion inst \<noteq> None then finalize e inst
            else try_then (with_finalizer e inst) (\<lambda>inst'. reconcile_live e rc inst'))
     }"

section \<open>watch.go\<close>

text \<open>A request names the instance: name and namespace.\<close>

type_synonym request_key = "string \<times> string"

definition indexEffectiveKubeconfig :: "climcp_instance \<Rightarrow> string list" where
  "indexEffectiveKubeconfig inst = (case effectiveKubeconfigSecretName inst of None \<Rightarrow> [] | Some n \<Rightarrow> [n])"

definition effectiveKubeconfigIndex :: string where "effectiveKubeconfigIndex = ''spec.proxy.effectiveKubeconfig''"

definition isSandboxPod :: "pod \<Rightarrow> bool" where
  "isSandboxPod p =
     (if data_of (Labels p) LabelComponent \<noteq> ComponentSandbox then False else data_of (Labels p) LabelInstance \<noteq> [])"

definition poolReadinessChanged :: "pod \<Rightarrow> pod \<Rightarrow> bool" where
  "poolReadinessChanged oldPod newPod =
     (if isAssignedSandbox oldPod \<and> isAssignedSandbox newPod then False
      else if sandboxPodReady oldPod \<noteq> sandboxPodReady newPod then True
      else if (Phase oldPod = ''Failed'') \<noteq> (Phase newPod = ''Failed'') then True
      else poolPodUnhealthy oldPod \<noteq> poolPodUnhealthy newPod)"

definition predicate_Update :: "pod \<Rightarrow> pod \<Rightarrow> bool" where
  "predicate_Update oldPod newPod =
     (if \<not> isSandboxPod oldPod \<and> \<not> isSandboxPod newPod then False
      else if (map_of (Labels oldPod) LabelSessionID \<noteq> None) \<noteq> (map_of (Labels newPod) LabelSessionID \<noteq> None) then True
      else poolReadinessChanged oldPod newPod)"

definition mapSandboxPod :: "pod \<Rightarrow> request_key list" where
  "mapSandboxPod p = (let inst = data_of (Labels p) LabelInstance in if inst = [] then [] else [(inst, pod_Namespace p)])"

definition mapSecret :: "ksecret \<Rightarrow> request_key list" where
  "mapSecret s =
     (case find (\<lambda>w. owner_Kind w = ''CliMcpInstance'' \<and> owner_Name w \<noteq> []) (obj_Owners (sec_Meta s)) of
        Some w \<Rightarrow> [(owner_Name w, obj_Namespace (sec_Meta s))]
      | None \<Rightarrow>
          (case instanceFromAdminSecret (obj_Name (sec_Meta s)) of
             None \<Rightarrow> []
           | Some inst \<Rightarrow> if inst = [] then [] else [(inst, obj_Namespace (sec_Meta s))]))"

fun dedupe_loop :: "request_key list \<Rightarrow> request_key list \<Rightarrow> request_key list" where
  "dedupe_loop [] seen = []"
| "dedupe_loop (q # qs) seen = (if q \<in> set seen then dedupe_loop qs seen else q # dedupe_loop qs (q # seen))"

definition dedupeRequests :: "request_key list \<Rightarrow> request_key list" where "dedupeRequests reqs = dedupe_loop reqs []"

definition reconciler_mapSecret :: "'w op_env \<Rightarrow> ksecret \<Rightarrow> ('w, request_key list) op" where
  "reconciler_mapSecret e s =
     do {
       r \<leftarrow> list_objs (instances e) OnInstance (obj_Namespace (sec_Meta s)) (MatchingFields effectiveKubeconfigIndex (obj_Name (sec_Meta s)));
       ret (case r of
              Inl _ \<Rightarrow> mapSecret s
            | Inr items \<Rightarrow> dedupeRequests (mapSecret s @ map (\<lambda>i. (inst_Name i, inst_Namespace i)) items))
     }"

end
