(* ===== verification/OperatorSafety.thy ===== *)
theory OperatorSafety
  imports Reconcile
begin

text \<open>
  What one reconcile may write. The policy below lists, per kind of object, the writes the operator may make given what it was shown before in the
  same reconcile; the lemmas show that every function of the controller keeps it, whatever the API answers.
\<close>

section \<open>What the operator has been shown\<close>

definition read_inst :: "op_event list \<Rightarrow> climcp_instance \<Rightarrow> bool" where
  "read_inst l inst = ((\<exists>ns n. OnInstance (Got ns n (Inr inst)) \<in> set l) \<or> (\<exists>i. OnInstance (Updated i (Inr inst)) \<in> set l))"

text \<open>The gate of the pool was seen open.\<close>

definition gate_open :: "op_event list \<Rightarrow> climcp_instance \<Rightarrow> bool" where
  "gate_open l inst =
     (let ns = inst_Namespace inst; n = inst_Name inst in
      (\<exists>cm. OnConfigMap (Got ns (proxyName n) (Inr cm)) \<in> set l \<and>
         (effectiveKubeconfigSecretName inst \<noteq> None \<longrightarrow> data_of (cm_Data cm) kubeconfigDataKey \<noteq> [])) \<and>
      (\<exists>np. OnNetpol (Got ns (sandboxSAName n) (Inr np)) \<in> set l \<and> ''Egress'' \<in> set (np_PolicyTypes (np_Spec np))) \<and>
      (\<exists>np. OnNetpol (Got ns (proxyName n) (Inr np)) \<in> set l) \<and>
      (\<exists>items. OnSlice (Listed ns (MatchingLabels [(''kubernetes.io/service-name'', proxyName n)]) (Inr items)) \<in> set l \<and> EndpointSlicesReady items))"

text \<open>\<open>y\<close> came after \<open>x\<close>.\<close>

definition after :: "op_event list \<Rightarrow> op_event \<Rightarrow> op_event \<Rightarrow> bool" where
  "after l x y = (\<exists>a b. l = a @ b \<and> x \<in> set a \<and> y \<in> set b)"

text \<open>Nothing of a deleted instance is left: the server pods were gone, then its sandboxes and session Secrets were deleted, then none were left.\<close>

definition cleared :: "op_event list \<Rightarrow> climcp_instance \<Rightarrow> bool" where
  "cleared l inst =
     (let ns = inst_Namespace inst; sandboxes = MatchingLabels (sandboxLabels (inst_Name inst));
          no_server = OnPod (Listed ns (MatchingLabels (serverLabels (inst_Name inst))) (Inr []));
          pods_deleted = OnPod (DeletedAll ns sandboxes (Inr ())); secrets_deleted = OnSecret (DeletedAll ns sandboxes (Inr ()));
          no_pods = OnPod (Listed ns sandboxes (Inr [])); no_secrets = OnSecret (Listed ns sandboxes (Inr []))
      in after l no_server pods_deleted \<and> after l pods_deleted no_pods \<and> after l secrets_deleted no_secrets)"

lemma grows_read_inst [grow]: "grows (\<lambda>l. read_inst l inst)"
  unfolding grows_def read_inst_def by auto

lemma grows_gate_open [grow]: "grows (\<lambda>l. gate_open l inst)"
  unfolding grows_def gate_open_def Let_def by auto

lemma grows_after [grow]: "grows (\<lambda>l. after l x y)"
  unfolding grows_def after_def by (metis UnCI append.assoc set_append)

section \<open>The policy\<close>

text \<open>A pool pod: built from the pool configuration of the instance, with a cluster IP the proxy Service was shown to have.\<close>

definition pool_pod :: "'w op_env \<Rightarrow> reconciler \<Rightarrow> op_event list \<Rightarrow> climcp_instance \<Rightarrow> pod \<Rightarrow> bool" where
  "pool_pod e rc l inst p =
     (\<exists>svc now base. OnService (Got (inst_Namespace inst) (proxyName (inst_Name inst)) (Inr svc)) \<in> set l \<and>
        BuildBasePodSpec (lib e) (parse_Quantity (runtime e)) now (pod_Name p)
          ((poolSandboxConfig (rec_Images rc) inst)\<lparr>ProxyClusterIP := ClusterIP svc\<rparr>) = Inr base \<and>
        Spec p = Spec base \<and> Labels p = Labels base \<and> pod_Namespace p = pod_Namespace base)"

definition pod_policy :: "'w op_env \<Rightarrow> reconciler \<Rightarrow> op_event list \<Rightarrow> pod access \<Rightarrow> bool" where
  "pod_policy e rc l a =
     (case a of
        Got _ _ _ \<Rightarrow> True
      | Listed _ _ _ \<Rightarrow> True
      | Created p _ \<Rightarrow> \<exists>inst. read_inst l inst \<and> gate_open l inst \<and> pool_pod e rc l inst p
      | Deleted ns n pre _ \<Rightarrow>
          (\<exists>p ns' n'. OnPod (Got ns' n' (Inr p)) \<in> set l \<and> \<not> isAssignedSandbox p \<and> ns = pod_Namespace p \<and> n = pod_Name p \<and>
             pre = Some (UID p, ResourceVersion p)) \<or>
          (\<exists>inst sel items p. read_inst l inst \<and> labels_Parse e (AssignedAnySelector (inst_Name inst)) = Inr sel \<and>
             OnPod (Listed (inst_Namespace inst) sel (Inr items)) \<in> set l \<and> p \<in> set items \<and> ns = pod_Namespace p \<and> n = pod_Name p \<and>
             isAssignedSandbox p \<and> DeletionTimestamp p = None \<and> activityTime e p \<noteq> None)
      | DeletedAll ns sel _ \<Rightarrow>
          \<exists>inst. read_inst l inst \<and> inst_Deletion inst \<noteq> None \<and> ns = inst_Namespace inst \<and> sel = MatchingLabels (sandboxLabels (inst_Name inst)) \<and>
            OnPod (Listed ns (MatchingLabels (serverLabels (inst_Name inst))) (Inr [])) \<in> set l
      | _ \<Rightarrow> False)"

text \<open>Secrets the operator owns are made once and keep their data; session Secrets go with the pod of the session or with the instance.\<close>

definition secret_policy :: "'w op_env \<Rightarrow> op_event list \<Rightarrow> ksecret access \<Rightarrow> bool" where
  "secret_policy e l a =
     (case a of
        Got _ _ _ \<Rightarrow> True
      | Listed _ _ _ \<Rightarrow> True
      | Created s _ \<Rightarrow>
          \<exists>inst n err. read_inst l inst \<and> n \<in> {hmacSecretName (inst_Name inst), proxyCASecretName (inst_Name inst)} \<and>
            OnSecret (Got (inst_Namespace inst) n (Inl err)) \<in> set l \<and> IsNotFound err \<and>
            obj_Name (sec_Meta s) = n \<and> obj_Namespace (sec_Meta s) = inst_Namespace inst
      | Updated s _ \<Rightarrow>
          \<exists>inst n s0. read_inst l inst \<and> n \<in> {hmacSecretName (inst_Name inst), proxyCASecretName (inst_Name inst)} \<and>
            OnSecret (Got (inst_Namespace inst) n (Inr s0)) \<in> set l \<and> sec_Data s = sec_Data s0 \<and>
            obj_Name (sec_Meta s) = obj_Name (sec_Meta s0) \<and> obj_Namespace (sec_Meta s) = obj_Namespace (sec_Meta s0)
      | Deleted ns n pre _ \<Rightarrow>
          \<exists>inst p r. read_inst l inst \<and> ns = inst_Namespace inst \<and> n = AuthSecretName (data_of (Labels p) LabelSessionID) \<and> isAssignedSandbox p \<and>
            OnPod (Deleted (pod_Namespace p) (pod_Name p) None r) \<in> set l \<and> (case r of Inl err \<Rightarrow> IsNotFound err | Inr _ \<Rightarrow> True)
      | DeletedAll ns sel _ \<Rightarrow>
          \<exists>inst. read_inst l inst \<and> inst_Deletion inst \<noteq> None \<and> ns = inst_Namespace inst \<and> sel = MatchingLabels (sandboxLabels (inst_Name inst)) \<and>
            OnPod (Listed ns (MatchingLabels (serverLabels (inst_Name inst))) (Inr [])) \<in> set l
      | _ \<Rightarrow> False)"

text \<open>An edit under a name of the instance whose result satisfies \<open>K\<close>.\<close>

definition edits :: "op_event list \<Rightarrow> string \<Rightarrow> string \<Rightarrow> ('o \<Rightarrow> 'o result) \<Rightarrow> (string \<Rightarrow> string) \<Rightarrow> (climcp_instance \<Rightarrow> 'o \<Rightarrow> bool) \<Rightarrow> bool" where
  "edits l ns n f name K =
     (\<exists>inst. read_inst l inst \<and> ns = inst_Namespace inst \<and> n = name (inst_Name inst) \<and> (\<forall>x y. f x = Inr y \<longrightarrow> K inst y))"

definition netpol_policy :: "op_event list \<Rightarrow> netpol access \<Rightarrow> bool" where
  "netpol_policy l a =
     (case a of
        Got _ _ _ \<Rightarrow> True
      | Applied ns n f _ \<Rightarrow>
          edits l ns n f sandboxSAName (\<lambda>inst np. np_Spec np = sandbox_np_spec (inst_Name inst)) \<or>
          edits l ns n f proxyName (\<lambda>inst np. np_Spec np = proxyIngressSpec (inst_Name inst))
      | _ \<Rightarrow> False)"

definition role_policy :: "op_event list \<Rightarrow> role access \<Rightarrow> bool" where
  "role_policy l a =
     (case a of
        Got _ _ _ \<Rightarrow> True
      | Applied ns n f _ \<Rightarrow>
          edits l ns n f childName (\<lambda>inst r. Rules r = mcpRoleRules (inst_Name inst)) \<or>
          edits l ns n f clientSAName (\<lambda>inst r. Rules r = clientRoleRules (inst_Name inst))
      | _ \<Rightarrow> False)"

text \<open>A Role is bound to the ServiceAccount of its own name.\<close>

definition binding_policy :: "op_event list \<Rightarrow> role_binding access \<Rightarrow> bool" where
  "binding_policy l a =
     (case a of
        Got _ _ _ \<Rightarrow> True
      | Applied ns n f _ \<Rightarrow>
          \<exists>name \<in> {childName, clientSAName}. edits l ns n f name (\<lambda>inst b.
            RoleRef b = \<lparr>rr_APIGroup = rbac_GroupName, rr_Kind = ''Role'', rr_Name = name (inst_Name inst)\<rparr> \<and>
            Subjects b = [\<lparr>subj_Kind = ''ServiceAccount'', subj_Name = name (inst_Name inst), subj_Namespace = inst_Namespace inst\<rparr>])
      | _ \<Rightarrow> False)"

text \<open>Sandboxes and the proxy get no token of the API.\<close>

definition sa_policy :: "op_event list \<Rightarrow> service_account access \<Rightarrow> bool" where
  "sa_policy l a =
     (case a of
        Got _ _ _ \<Rightarrow> True
      | Applied ns n f _ \<Rightarrow>
          edits l ns n f sandboxSAName (\<lambda>inst sa. sa_AutomountToken sa = Some False) \<or>
          edits l ns n f proxyName (\<lambda>inst sa. sa_AutomountToken sa = Some False) \<or>
          edits l ns n f childName (\<lambda>inst sa. True) \<or> edits l ns n f clientSAName (\<lambda>inst sa. True)
      | _ \<Rightarrow> False)"

text \<open>What is published to sandboxes under the kubeconfig key is a sanitized kubeconfig; an update publishes none.\<close>

definition sanitized :: "'w op_env \<Rightarrow> config_map \<Rightarrow> bool" where
  "sanitized e cm =
     (\<forall>v. map_of (cm_Data cm) kubeconfigDataKey = Some v \<longrightarrow>
        (\<exists>data ca. Sanitize (lib e) (load_kubeconfig e) (write_kubeconfig e) data ca = Inr v))"

definition configmap_policy :: "'w op_env \<Rightarrow> op_event list \<Rightarrow> config_map access \<Rightarrow> bool" where
  "configmap_policy e l a =
     (case a of
        Got _ _ _ \<Rightarrow> True
      | Updated cm _ \<Rightarrow> map_of (cm_Data cm) kubeconfigDataKey = None
      | Applied ns n f _ \<Rightarrow> edits l ns n f krpConfigMapName (\<lambda>inst cm. sanitized e cm) \<or> edits l ns n f proxyName (\<lambda>inst cm. sanitized e cm)
      | _ \<Rightarrow> False)"

definition service_policy :: "op_event list \<Rightarrow> service access \<Rightarrow> bool" where
  "service_policy l a =
     (case a of
        Got _ _ _ \<Rightarrow> True
      | Applied ns n f _ \<Rightarrow>
          edits l ns n f childName (\<lambda>inst svc. Selector svc = serverLabels (inst_Name inst)) \<or>
          edits l ns n f proxyName (\<lambda>inst svc. Selector svc = proxyLabels (inst_Name inst))
      | _ \<Rightarrow> False)"

text \<open>Outside of an edit a Deployment is only scaled to zero.\<close>

definition deployment_policy :: "op_event list \<Rightarrow> deployment access \<Rightarrow> bool" where
  "deployment_policy l a =
     (case a of
        Got _ _ _ \<Rightarrow> True
      | Updated d _ \<Rightarrow> d_Replicas (d_Spec d) = Some 0
      | Applied ns n f _ \<Rightarrow>
          edits l ns n f childName (\<lambda>inst d. tt_Labels (d_Template (d_Spec d)) = serverPodLabels (inst_Name inst)) \<or>
          edits l ns n f proxyName (\<lambda>inst d. tt_Labels (d_Template (d_Spec d)) = proxyLabels (inst_Name inst))
      | _ \<Rightarrow> False)"

text \<open>The shared binding names exactly the servers of the instances that are not being deleted.\<close>

definition crb_policy :: "op_event list \<Rightarrow> role_binding access \<Rightarrow> bool" where
  "crb_policy l a =
     (let fits = (\<lambda>b. RoleRef b = authDelegatorRoleRef \<and>
            (\<exists>items. OnInstance (Listed [] Everything (Inr items)) \<in> set l \<and>
               set (Subjects b) = {mcpSASubject (inst_Name i) (inst_Namespace i) |i. i \<in> set items \<and> inst_Deletion i = None}))
      in case a of
           Got _ n _ \<Rightarrow> n = authDelegatorCRBName
         | Created b _ \<Rightarrow> fits b \<and> obj_Name (rb_Meta b) = authDelegatorCRBName
         | Updated b _ \<Rightarrow> fits b \<and> (\<exists>b0. OnClusterRoleBinding (Got [] authDelegatorCRBName (Inr b0)) \<in> set l \<and> rb_Meta b = rb_Meta b0)
         | _ \<Rightarrow> False)"


text \<open>The kinds of children and an object of a kind that was read.\<close>

datatype kind = KServiceAccount | KRole | KRoleBinding | KService | KNetpol | KDeployment | KSecret | KConfigMap

definition key_of :: "kind \<Rightarrow> 'o access \<Rightarrow> (kind \<times> string \<times> string) option" where
  "key_of k a = (case a of Got ns n (Inr _) \<Rightarrow> Some (k, ns, n) | _ \<Rightarrow> None)"

definition got_key :: "op_event \<Rightarrow> (kind \<times> string \<times> string) option" where
  "got_key ev =
     (case ev of
        OnServiceAccount a \<Rightarrow> key_of KServiceAccount a | OnRole a \<Rightarrow> key_of KRole a | OnRoleBinding a \<Rightarrow> key_of KRoleBinding a
      | OnService a \<Rightarrow> key_of KService a | OnNetpol a \<Rightarrow> key_of KNetpol a | OnDeployment a \<Rightarrow> key_of KDeployment a
      | OnSecret a \<Rightarrow> key_of KSecret a | OnConfigMap a \<Rightarrow> key_of KConfigMap a | _ \<Rightarrow> None)"

definition seen :: "op_event list \<Rightarrow> string \<Rightarrow> kind \<times> string \<Rightarrow> bool" where
  "seen l ns kn = (\<exists>ev \<in> set l. got_key ev = Some (fst kn, ns, snd kn))"

definition child_keys :: "string \<Rightarrow> (kind \<times> string) list" where
  "child_keys n =
     [(KServiceAccount, childName n), (KServiceAccount, sandboxSAName n), (KServiceAccount, clientSAName n),
      (KRole, childName n), (KRole, clientSAName n), (KRoleBinding, childName n), (KRoleBinding, clientSAName n),
      (KService, childName n), (KNetpol, sandboxSAName n), (KNetpol, proxyName n), (KDeployment, childName n), (KDeployment, proxyName n),
      (KService, proxyName n), (KServiceAccount, proxyName n), (KSecret, hmacSecretName n), (KSecret, proxyCASecretName n),
      (KConfigMap, krpConfigMapName n), (KConfigMap, proxyName n)]"

text \<open>What the operator must have seen of an instance it calls ready; \<open>snap\<close> is its view of the pool.\<close>

definition snap_seen :: "op_event list \<Rightarrow> climcp_instance \<Rightarrow> pool_snapshot \<Rightarrow> bool" where
  "snap_seen l inst snap =
     (desired snap = WarmPoolSize (Sandbox inst) \<and>
      (ready snap = 0 \<or>
       (\<exists>items. OnPod (Listed (inst_Namespace inst) (MatchingLabels (sandboxLabels (inst_Name inst))) (Inr items)) \<in> set l \<and>
          ready snap = int (length (filter (\<lambda>p. \<not> isAssignedSandbox p \<and> sandboxPodReady p) items)))))"

definition available :: "op_event list \<Rightarrow> string \<Rightarrow> string \<Rightarrow> bool" where
  "available l ns n = (\<exists>d. OnDeployment (Got ns n (Inr d)) \<in> set l \<and> deploymentAvailable d)"

definition serving :: "'w op_env \<Rightarrow> op_event list \<Rightarrow> climcp_instance \<Rightarrow> bool" where
  "serving e l inst =
     (let ns = inst_Namespace inst; n = inst_Name inst in
      (\<exists>f d. OnDeployment (Applied ns (childName n) f (Inr d)) \<in> set l) \<and>
      (\<forall>k. effectiveKubeconfigSecretName inst = Some k \<longrightarrow> seen l ns (KSecret, k)) \<and>
      (\<exists>kubeRoutes. snd (collectProxyRoutes (lib e) (Targets inst) kubeRoutes) = []) \<and>
      (\<forall>kn \<in> set (child_keys n). seen l ns kn) \<and>
      (\<exists>np. OnNetpol (Got ns (sandboxSAName n) (Inr np)) \<in> set l \<and> ''Egress'' \<in> set (np_PolicyTypes (np_Spec np))) \<and>
      (\<exists>crb. OnClusterRoleBinding (Got [] authDelegatorCRBName (Inr crb)) \<in> set l \<and> RoleRef crb = authDelegatorRoleRef \<and>
         (inst_Deletion inst = None \<longrightarrow> mcpSASubject n ns \<in> set (Subjects crb))) \<and>
      available l ns (childName n) \<and> available l ns (proxyName n) \<and>
      (\<exists>snap now. snap_seen l inst snap \<and> fst (poolReadyGate e inst snap now)))"

text \<open>The status written is that of an instance that was read, with the Ready condition set, to true only when it is serving.\<close>

definition status_backed :: "'w op_env \<Rightarrow> op_event list \<Rightarrow> climcp_instance \<Rightarrow> bool" where
  "status_backed e l i =
     (\<exists>inst i1 now good why msg. read_inst l inst \<and> inst_Name i1 = inst_Name inst \<and> inst_Namespace i1 = inst_Namespace inst \<and>
        i = i1\<lparr>Status := (Status i1)\<lparr>st_Conditions :=
              SetStatusCondition e now (new_condition i1 ConditionReady good why msg) (st_Conditions (Status i1))\<rparr>\<rparr> \<and>
        (good \<longrightarrow> serving e l inst))"

definition instance_policy :: "'w op_env \<Rightarrow> op_event list \<Rightarrow> climcp_instance access \<Rightarrow> bool" where
  "instance_policy e l a =
     (case a of
        Got _ _ _ \<Rightarrow> True
      | Listed _ _ _ \<Rightarrow> True
      | Updated i _ \<Rightarrow>
          \<exists>inst. read_inst l inst \<and>
            (inst_Deletion inst = None \<and> i = inst\<lparr>Finalizers := AddFinalizer e (Finalizers inst) finalizerName\<rparr> \<or>
             inst_Deletion inst \<noteq> None \<and> i = inst\<lparr>Finalizers := RemoveFinalizer e (Finalizers inst) finalizerName\<rparr> \<and> cleared l inst)
      | StatusUpdated i _ \<Rightarrow> status_backed e l i
      | _ \<Rightarrow> False)"

definition op_policy :: "'w op_env \<Rightarrow> reconciler \<Rightarrow> op_event list \<Rightarrow> op_event \<Rightarrow> bool" where
  "op_policy e rc l ev =
     (case ev of
        OnPod a \<Rightarrow> pod_policy e rc l a
      | OnSecret a \<Rightarrow> secret_policy e l a
      | OnConfigMap a \<Rightarrow> configmap_policy e l a
      | OnServiceAccount a \<Rightarrow> sa_policy l a
      | OnRole a \<Rightarrow> role_policy l a
      | OnRoleBinding a \<Rightarrow> binding_policy l a
      | OnClusterRoleBinding a \<Rightarrow> crb_policy l a
      | OnService a \<Rightarrow> service_policy l a
      | OnNetpol a \<Rightarrow> netpol_policy l a
      | OnDeployment a \<Rightarrow> deployment_policy l a
      | OnSlice a \<Rightarrow> (case a of Listed _ _ _ \<Rightarrow> True | _ \<Rightarrow> False)
      | OnInstance a \<Rightarrow> instance_policy e l a)"

interpretation op: policy "op_policy e rc" "\<lambda>_ _ _. True" for e :: "'w op_env" and rc
  by unfold_locales simp

abbreviation okays :: "'w op_env \<Rightarrow> reconciler \<Rightarrow> (op_event list \<Rightarrow> bool) \<Rightarrow> ('w, 'a) op \<Rightarrow> ('a \<Rightarrow> op_event list \<Rightarrow> bool) \<Rightarrow> bool" where
  "okays e rc \<equiv> policy.obeys (op_policy e rc) (\<lambda>_ _ _. True)"

lemma grows_seen [grow]: "grows (\<lambda>l. seen l ns kn)"
  unfolding grows_def seen_def by auto

lemma grows_available [grow]: "grows (\<lambda>l. available l ns n)"
  unfolding grows_def available_def by auto

lemma grows_snap_seen [grow]: "grows (\<lambda>l. snap_seen l inst snap)"
  unfolding grows_def snap_seen_def by auto

lemma grows_ex_mem [grow]: "grows (\<lambda>l. \<exists>x. F x \<in> set l \<and> K x)" "grows (\<lambda>l. \<exists>x y. F2 x y \<in> set l)"
  unfolding grows_def by auto

section \<open>Every function keeps the policy\<close>

named_theorems okay \<open>what a function of the operator does under its policy\<close>

lemmas policy_defs = op_policy_def pod_policy_def secret_policy_def configmap_policy_def sa_policy_def role_policy_def binding_policy_def
  crb_policy_def service_policy_def netpol_policy_def deployment_policy_def instance_policy_def

lemma grows_ex [grow]: "(\<And>x. grows (P x)) \<Longrightarrow> grows (\<lambda>l. \<exists>x. P x l)"
  unfolding grows_def by blast

lemma okays_wrapping:
  assumes "okays e rc P m R" "grows P"
  shows "okays e rc P (wrapping msg m) (\<lambda>r l. \<exists>r0. r = wrap_err msg r0 \<and> R r0 l)"
  by (rule op.obeys_wrapping [OF assms]) blast

definition found :: "'a result \<Rightarrow> 'a option result" where
  "found r = (case r of Inl err \<Rightarrow> if IsNotFound err then Inr None else Inl err | Inr x \<Rightarrow> Inr (Some x))"

lemma found_simps [simp]: "found (Inr x) = Inr (Some x)" "found r = Inr (Some x) \<longleftrightarrow> r = Inr x"
  "found r = Inr None \<longleftrightarrow> (\<exists>err. r = Inl err \<and> IsNotFound err)"
  by (auto simp: found_def split: sum.splits)

lemma wrap_err_eq [simp]: "Inr y = wrap_err msg r \<longleftrightarrow> r = Inr y" "Inr (Some x) = found r' \<longleftrightarrow> r' = Inr x"
  "Inr None = found r' \<longleftrightarrow> (\<exists>err. r' = Inl err \<and> IsNotFound err)"
  using wrap_err_simps(3) [of msg r y] found_simps [of r'] by metis+

lemma okays_find:
  assumes "okays e rc P m R" "grows P"
  shows "okays e rc P (find_obj m) (\<lambda>r l. \<exists>r0. r = found r0 \<and> R r0 l)"
  unfolding find_obj_def found_def by (rule op.obeys_bind [OF assms], rule op.obeys_ret) blast

lemma okays_call_any: "(\<And>l r. P l \<Longrightarrow> op_policy e rc l (ev r)) \<Longrightarrow> okays e rc P (call f ev) (\<lambda>_ _. True)"
  using op.obeys_call [of P e rc ev f] unfolding op.obeys_def by blast

lemma okays_wrapping_any: "okays e rc P m (\<lambda>_ _. True) \<Longrightarrow> grows P \<Longrightarrow> okays e rc P (wrapping msg m) (\<lambda>_ _. True)"
  by (rule op.obeys_wrapping)

lemmas op_rules = op.obeys_bind op.obeys_try_then op.obeys_split op.obeys_ret op.obeys_ask op.obeys_now okays_wrapping okays_wrapping_any
  okays_find op.obeys_call okays_call_any

lemma own_Inr: "own e inst get put x = Inr y \<longleftrightarrow> (\<exists>ws. SetControllerReference e inst (get x) = Inr ws \<and> y = put (\<lambda>m. m\<lparr>obj_Owners := ws\<rparr>) x)"
  by (auto simp: own_def split: sum.splits)

lemma adopt_okay [okay]:
  assumes "grows P" "\<And>l. P l \<Longrightarrow> read_inst l inst \<and> OnSecret (Got (inst_Namespace inst) n (Inr s)) \<in> set l"
    "n \<in> {hmacSecretName (inst_Name inst), proxyCASecretName (inst_Name inst)}"
  shows "okays e rc P (adopt_metadata what e inst s) (\<lambda>_ _. True)"
  unfolding adopt_metadata_def Let_def op_calls
  by (rule op_rules assms(1) | (use assms(2,3) in \<open>fastforce simp: policy_defs own_Inr\<close>; fail))+

lemma generateHMACKey_okay [okay]: "grows P \<Longrightarrow> okays e rc P (generateHMACKey e) (\<lambda>_ _. True)"
  unfolding generateHMACKey_def by (rule op_rules | assumption | simp)+

lemma new_secret_meta [simp]: "obj_Name (sec_Meta (new_secret inst n d)) = n" "obj_Namespace (sec_Meta (new_secret inst n d)) = inst_Namespace inst"
  by (simp_all add: new_secret_def new_meta_def)

lemma create_allowed:
  assumes "own e inst sec_Meta sec_Meta_update (new_secret inst n d) = Inr s" "n \<in> {hmacSecretName (inst_Name inst), proxyCASecretName (inst_Name inst)}"
    "read_inst l inst" "OnSecret (Got (inst_Namespace inst) n (Inl err)) \<in> set l" "IsNotFound err"
  shows "op_policy e rc l (OnSecret (Created s r))"
proof -
  from assms(1) have "obj_Name (sec_Meta s) = n" "obj_Namespace (sec_Meta s) = inst_Namespace inst" by (auto simp: own_Inr)
  with assms(2-5) show ?thesis unfolding op_policy_def secret_policy_def op_event.case access.case by blast
qed

lemma ensureHMAC_okay [okay]:
  assumes "grows P" "\<And>l. P l \<Longrightarrow> read_inst l inst"
  shows "okays e rc P (ensureHMAC e inst) (\<lambda>_ _. True)"
  unfolding ensureHMAC_def adoptHMACMetadata_def Let_def op_calls
  by (rule op_rules okay grow assms(1) | (use assms(2) in \<open>auto intro: create_allowed\<close>; fail) | (use assms(2) in \<open>auto simp: policy_defs\<close>; fail))+

subsection \<open>The children\<close>

lemma editsI: "read_inst l inst \<Longrightarrow> (\<And>x y. f x = Inr y \<Longrightarrow> K inst y) \<Longrightarrow>
    edits l (inst_Namespace inst) (name (inst_Name inst)) f name K"
  unfolding edits_def by blast

lemma service_accounts_okay [okay]:
  assumes "grows P" "\<And>l. P l \<Longrightarrow> read_inst l inst"
  shows "okays e rc P (applySandboxSA e inst) (\<lambda>_ _. True)" "okays e rc P (applyMCPSA e inst) (\<lambda>_ _. True)"
    "okays e rc P (applyClientSA e inst) (\<lambda>_ _. True)" "okays e rc P (applyProxySA e inst) (\<lambda>_ _. True)"
  unfolding applySandboxSA_def applyMCPSA_def applyClientSA_def applyProxySA_def apply_sa_def op_calls
  by (rule op_rules assms(1) | (use assms(2) in \<open>fastforce simp: policy_defs own_Inr intro: editsI\<close>; fail))+

lemma roles_okay [okay]:
  assumes "grows P" "\<And>l. P l \<Longrightarrow> read_inst l inst"
  shows "okays e rc P (applyMCPRole e inst) (\<lambda>_ _. True)" "okays e rc P (applyClientRole e inst) (\<lambda>_ _. True)"
    "okays e rc P (applyMCPRoleBinding e inst) (\<lambda>_ _. True)" "okays e rc P (applyClientRoleBinding e inst) (\<lambda>_ _. True)"
  unfolding applyMCPRole_def applyClientRole_def applyMCPRoleBinding_def applyClientRoleBinding_def apply_role_def apply_role_binding_def op_calls
  by (rule op_rules assms(1) | (use assms(2) in \<open>fastforce simp: policy_defs own_Inr intro: editsI\<close>; fail))+

lemma services_okay [okay]:
  assumes "grows P" "\<And>l. P l \<Longrightarrow> read_inst l inst"
  shows "okays e rc P (applyService e rc' inst) (\<lambda>_ _. True)" "okays e rc P (applyProxyService e inst) (\<lambda>_ _. True)"
  unfolding applyService_def applyProxyService_def apply_svc_def op_calls
  by (rule op_rules assms(1) | (use assms(2) in \<open>fastforce simp: policy_defs own_Inr intro: editsI\<close>; fail))+

lemma netpols_okay [okay]:
  assumes "grows P" "\<And>l. P l \<Longrightarrow> read_inst l inst"
  shows "okays e rc P (applySandboxIngressNP e inst) (\<lambda>_ _. True)" "okays e rc P (applyProxyNP e inst) (\<lambda>_ _. True)"
  unfolding applySandboxIngressNP_def applyProxyNP_def apply_np_def op_calls
  by (rule op_rules assms(1) | (use assms(2) in \<open>fastforce simp: policy_defs own_Inr intro: editsI\<close>; fail))+

lemma config_key: "krpConfigKey \<noteq> kubeconfigDataKey" "proxyConfigDataKey \<noteq> kubeconfigDataKey"
  by (simp_all add: krpConfigKey_def proxyConfigDataKey_def kubeconfigDataKey_def)

lemma applyKRPConfigMap_okay [okay]:
  assumes "grows P" "\<And>l. P l \<Longrightarrow> read_inst l inst"
  shows "okays e rc P (applyKRPConfigMap e inst) (\<lambda>_ _. True)"
  unfolding applyKRPConfigMap_def apply_cm_def op_calls
  by (rule op_rules assms(1) | (use assms(2) config_key in \<open>fastforce simp: policy_defs own_Inr sanitized_def intro: editsI\<close>; fail))+

definition clean_dummy :: "'w op_env \<Rightarrow> string \<Rightarrow> bool" where
  "clean_dummy e d = (d = [] \<or> (\<exists>data ca. Sanitize (lib e) (load_kubeconfig e) (write_kubeconfig e) data ca = Inr d))"

lemma applyProxyConfigMap_okay [okay]:
  assumes "grows P" "\<And>l. P l \<Longrightarrow> read_inst l inst" "\<And>l. P l \<Longrightarrow> clean_dummy e (pb_dummy build)"
  shows "okays e rc P (applyProxyConfigMap e inst build) (\<lambda>_ _. True)"
  unfolding applyProxyConfigMap_def apply_cm_def op_calls
  by (rule op_rules assms(1) |
      (use assms(2,3) config_key in \<open>fastforce simp: policy_defs own_Inr sanitized_def clean_dummy_def intro: editsI split: if_splits\<close>; fail))+

lemma getSecret_okay [okay]:
  assumes "grows P"
  shows "okays e rc P (getSecret e ns n) (\<lambda>r l. \<forall>s. r = Inr (Some s) \<longrightarrow> OnSecret (Got ns n (Inr s)) \<in> set l)"
  unfolding getSecret_def op_calls
  by (rule op.obeys_tail, (rule op_rules assms grow | (auto simp: policy_defs; fail))+)

lemma kubernetesRoutes_okay [okay]:
  assumes "grows P"
  shows "okays e rc P (kubernetesRoutes e inst ca) (\<lambda>r l. \<forall>routes d k. r = Inr (routes, d, k) \<longrightarrow> clean_dummy e d)"
  unfolding kubernetesRoutes_def Let_def
  by (rule op_rules okay assms grow | (auto simp: clean_dummy_def split: sum.splits; fail))+

lemma load_targets_okay [okay]:
  assumes "grows P" "\<And>l. P l \<Longrightarrow> clean_dummy e (fst (snd acc))"
  shows "okays e rc P (load_targets e inst ca ts acc) (\<lambda>r l. \<forall>routes d k. r = Inr (routes, d, k) \<longrightarrow> clean_dummy e d)"
  using assms
proof (induction e inst ca ts acc arbitrary: P rule: load_targets.induct)
  case (1 e inst ca acc)
  then show ?case unfolding load_targets.simps by (intro op.obeys_ret) auto
next
  case (2 e inst ca t ts routes dummy kube)
  show ?case
    unfolding load_targets.simps
    by (rule op_rules okay 2(1,2,3) grow | (use 2(4) in \<open>auto; fail\<close>))+
qed


lemma loadProxyBuild_okay [okay]:
  assumes "grows P"
  shows "okays e rc P (loadProxyBuild e inst ca) (\<lambda>r l. \<forall>b. r = Inr b \<longrightarrow> clean_dummy e (pb_dummy b))"
  unfolding loadProxyBuild_def
  by (rule op_rules okay assms grow | (auto simp: clean_dummy_def; fail))+

lemma quiesce_okay [okay]:
  assumes "grows P"
  shows "okays e rc P (quiesceUnroutedProxy e inst) (\<lambda>_ _. True)"
proof -
  have d: "okays e rc P (dropPublishedKubeconfig e inst) (\<lambda>_ _. True)" if "grows P" for P
    unfolding dropPublishedKubeconfig_def op_calls
    by (rule op_rules that grow | (use config_key in \<open>auto simp: policy_defs\<close>; fail))+
  have s: "okays e rc P (scaleProxyToZero e inst) (\<lambda>_ _. True)" if "grows P" for P
    unfolding scaleProxyToZero_def quiesceProxyDeployment_def Let_def op_calls prod.case
    by (rule op_rules that grow | (auto simp: policy_defs; fail))+
  show ?thesis unfolding quiesceUnroutedProxy_def by (rule op_rules d s assms grow | simp)+
qed

lemma generateProxyCA_okay [okay]:
  assumes "grows P"
  shows "okays e rc P (generateProxyCA e) (\<lambda>_ _. True)"
  unfolding generateProxyCA_def Let_def
  by (rule op_rules okay grow assms | (simp; fail))+

lemma ensureProxyCA_okay [okay]:
  assumes "grows P" "\<And>l. P l \<Longrightarrow> read_inst l inst"
  shows "okays e rc P (ensureProxyCA e inst) (\<lambda>_ _. True)"
  unfolding ensureProxyCA_def adoptProxyCAMetadata_def Let_def op_calls
  by (rule op_rules okay grow assms(1) | (use assms(2) in \<open>auto intro: create_allowed\<close>; fail) | (use assms(2) in \<open>auto simp: policy_defs\<close>; fail))+

lemma proxyClusterIP_okay [okay]:
  assumes "grows P"
  shows "okays e rc P (proxyClusterIP e inst)
    (\<lambda>r l. \<forall>ip. r = Inr ip \<longrightarrow> (\<exists>svc. OnService (Got (inst_Namespace inst) (proxyName (inst_Name inst)) (Inr svc)) \<in> set l \<and> ip = ClusterIP svc))"
  unfolding proxyClusterIP_def Let_def op_calls
  by (rule op_rules okay assms grow | (auto simp: policy_defs split: if_splits; fail))+

lemma template_labels: "tt_Labels (d_Template (d_Spec (copy_deployment m (NormalizeDeployment spec) d))) = tt_Labels (d_Template spec)"
  by (simp add: copy_deployment_def NormalizeDeployment_keeps)

lemma apply_deployment_okay:
  assumes "grows P" "\<And>l. P l \<Longrightarrow> read_inst l inst"
    "n = childName (inst_Name inst) \<and> tt_Labels (d_Template spec) = serverPodLabels (inst_Name inst) \<or>
     n = proxyName (inst_Name inst) \<and> tt_Labels (d_Template spec) = proxyLabels (inst_Name inst)"
  shows "okays e rc P (apply_deployment m1 m2 e inst n spec)
    (\<lambda>r l. r = Inr () \<longrightarrow> (\<exists>f d. OnDeployment (Applied (inst_Namespace inst) n f (Inr d)) \<in> set l))"
  unfolding apply_deployment_def Let_def op_calls
  by (rule op_rules assms(1) grow | (use assms(2,3) in \<open>fastforce simp: policy_defs template_labels intro: editsI\<close>; fail))+

lemma applyProxyDeployment_okay [okay]:
  assumes "grows P" "\<And>l. P l \<Longrightarrow> read_inst l inst"
  shows "okays e rc P (applyProxyDeployment e rc' inst build cm) (\<lambda>_ _. True)"
  unfolding applyProxyDeployment_def
  by (rule op.obeys_tail [OF apply_deployment_okay], (use assms in \<open>simp_all add: proxyPodTemplate_def\<close>))

lemma applyDeployment_okay [okay]:
  assumes "grows P" "\<And>l. P l \<Longrightarrow> read_inst l inst"
  shows "okays e rc P (applyDeployment e rc' inst hmac krp)
    (\<lambda>r l. r = Inr () \<longrightarrow> (\<exists>f d. OnDeployment (Applied (inst_Namespace inst) (childName (inst_Name inst)) f (Inr d)) \<in> set l))"
  unfolding applyDeployment_def Let_def
  by (rule op_rules okay apply_deployment_okay assms(1) grow | (use assms(2) in \<open>auto simp: mcpPodTemplate_def\<close>; fail))+

lemma applyProxy_okay [okay]:
  assumes "grows P" "\<And>l. P l \<Longrightarrow> read_inst l inst"
  shows "okays e rc P (applyProxy e rc' inst) (\<lambda>_ _. True)"
  unfolding applyProxy_def
  by (rule op_rules okay assms(1) grow | (use assms(2) in \<open>auto; fail\<close>))+

lemma applyChildren_okay [okay]:
  assumes "grows P" "\<And>l. P l \<Longrightarrow> read_inst l inst"
  shows "okays e rc P (applyChildren e rc' inst hmac)
    (\<lambda>r l. r = Inr () \<longrightarrow> (\<exists>f d. OnDeployment (Applied (inst_Namespace inst) (childName (inst_Name inst)) f (Inr d)) \<in> set l))"
  unfolding applyChildren_def
  by (rule op_rules okay assms(1) grow | (use assms(2) in \<open>auto; fail\<close>))+

subsection \<open>The shared binding\<close>

lemma applyAuthDelegatorCRB_okay [okay]:
  assumes "grows P"
  shows "okays e rc P (applyAuthDelegatorCRB e) (\<lambda>_ _. True)"
proof -
  let ?wanted = "\<lambda>l ss. \<exists>items. OnInstance (Listed [] Everything (Inr items)) \<in> set l \<and>
    set ss = {mcpSASubject (inst_Name i) (inst_Namespace i) |i. i \<in> set items \<and> inst_Deletion i = None}"
  have g: "grows (\<lambda>l. ?wanted l ss)" for ss unfolding grows_def by auto
  have s: "okays e rc P (desiredAuthDelegatorSubjects e) (\<lambda>r l. \<forall>ss. r = Inr ss \<longrightarrow> ?wanted l ss)" if "grows P" for P
    unfolding desiredAuthDelegatorSubjects_def op_calls
    by (rule op_rules that grow | (auto simp: policy_defs split: sum.splits; fail))+
  show ?thesis
    unfolding applyAuthDelegatorCRB_def op_calls
    by (rule op_rules s g assms grow | (auto simp: policy_defs new_meta_def; fail))+
qed

subsection \<open>The pool\<close>

lemma deleteUnassigned_okay [okay]:
  assumes "grows P"
  shows "okays e rc P (deleteUnassignedIfStillUnassigned e p) (\<lambda>_ _. True)"
  unfolding deleteUnassignedIfStillUnassigned_def op_calls
  by (rule op_rules assms grow | (auto simp: policy_defs; fail))+

lemma unassignedOccupiesSlot_okay [okay]:
  assumes "grows P"
  shows "okays e rc P (unassignedOccupiesSlot e p) (\<lambda>_ _. True)"
  unfolding unassignedOccupiesSlot_def op_calls
  by (rule op_rules assms grow | (auto simp: policy_defs; fail))+

lemma delete_slot_okay [okay]: "grows P \<Longrightarrow> okays e rc P (delete_slot e p) (\<lambda>_ _. True)"
  unfolding delete_slot_def by (rule op_rules okay grow | assumption | simp)+

lemma scan_pool_okay [okay]: "grows P \<Longrightarrow> okays e rc P (scan_pool e hash ps pre t live slots) (\<lambda>_ _. True)"
proof (induction ps arbitrary: P pre t live slots)
  case Nil
  show ?case unfolding scan_pool.simps by (rule op_rules | simp)+
next
  case (Cons p ps)
  show ?case unfolding scan_pool.simps Let_def by (rule op_rules okay Cons grow | simp)+
qed

lemma trim_pool_okay [okay]: "grows P \<Longrightarrow> okays e rc P (trim_pool e ps slots) (\<lambda>_ _. True)"
proof (induction ps arbitrary: P slots)
  case Nil
  show ?case unfolding trim_pool.simps by (rule op_rules | simp)+
next
  case (Cons p ps)
  show ?case unfolding trim_pool.simps by (rule op_rules okay Cons grow | simp)+
qed

lemma delete_live_okay [okay]: "grows P \<Longrightarrow> okays e rc P (delete_live e ps) (\<lambda>_ _. True)"
proof (induction ps arbitrary: P)
  case Nil
  show ?case unfolding delete_live.simps by (rule op_rules | simp)+
next
  case (Cons p ps)
  show ?case unfolding delete_live.simps by (rule op_rules okay Cons grow | simp)+
qed

definition pool_cfg :: "reconciler \<Rightarrow> op_event list \<Rightarrow> climcp_instance \<Rightarrow> sandbox_config \<Rightarrow> bool" where
  "pool_cfg rc l inst cfg =
     (\<exists>svc. OnService (Got (inst_Namespace inst) (proxyName (inst_Name inst)) (Inr svc)) \<in> set l \<and>
        cfg = (poolSandboxConfig (rec_Images rc) inst)\<lparr>ProxyClusterIP := ClusterIP svc\<rparr>)"

lemma grows_pool_cfg [grow]: "grows (\<lambda>l. pool_cfg rc l inst cfg)"
  unfolding grows_def pool_cfg_def by auto

lemma built_name: "BuildBasePodSpec g pq now n cfg = Inr p \<Longrightarrow> pod_Name p = n"
  by (auto simp: BuildBasePodSpec_def Let_def split: sum.splits)

lemma createPoolPod_okay [okay]:
  assumes "grows P" "\<And>l. P l \<Longrightarrow> read_inst l inst \<and> gate_open l inst \<and> pool_cfg rc l inst cfg"
  shows "okays e rc P (createPoolPod e inst cfg hash) (\<lambda>_ _. True)"
proof -
  have pol: "pool_pod e rc l inst p'"
    if "P l" "BuildBasePodSpec (lib e) (parse_Quantity (runtime e)) now n cfg = Inr p"
      "own_pod e inst (p\<lparr>Annotations := a\<rparr>) = Inr p'" for l now n p p' a
    using assms(2) [OF that(1)] that(2,3) built_name [OF that(2)]
    by (fastforce simp: pool_cfg_def pool_pod_def own_pod_def split: sum.splits)
  show ?thesis
    unfolding createPoolPod_def op_calls
    by (rule op_rules assms(1) grow | (use assms(2) pol in \<open>fastforce simp: policy_defs\<close>; fail))+
qed

lemma fill_pool_okay [okay]:
  assumes "grows P" "\<And>l. P l \<Longrightarrow> read_inst l inst \<and> gate_open l inst \<and> pool_cfg rc l inst cfg"
  shows "okays e rc P (fill_pool e inst cfg hash n) (\<lambda>_ _. True)"
  using assms
proof (induction n arbitrary: P)
  case 0
  show ?case unfolding fill_pool.simps by (rule op_rules | simp)+
next
  case (Suc n)
  show ?case unfolding fill_pool.simps by (rule op_rules okay Suc.IH grow Suc.prems(1) | (use Suc.prems(2) in \<open>auto; fail\<close>))+
qed

lemma adjust_pool_okay [okay]:
  assumes "grows P" "\<And>l. P l \<Longrightarrow> read_inst l inst \<and> gate_open l inst \<and> pool_cfg rc l inst cfg"
  shows "okays e rc P (adjust_pool e inst cfg hash d t live slots) (\<lambda>_ _. True)"
  unfolding adjust_pool_def Let_def
  by (rule op_rules okay assms(1) grow | (use assms(2) in \<open>auto; fail\<close>))+

lemma proxyPoolOpen_okay [okay]:
  assumes "grows P"
  shows "okays e rc P (proxyPoolOpen e inst) (\<lambda>r l. r = Inr True \<longrightarrow> gate_open l inst)"
  unfolding proxyPoolOpen_def Let_def op_calls
  by (rule op_rules assms grow | (fastforce simp: policy_defs gate_open_def secretKeyNonEmptyCM_def Let_def; fail))+

lemma overlayInputs_okay [okay]:
  assumes "grows P"
  shows "okays e rc P (overlayInputs e rc inst) (\<lambda>r l. \<forall>cfg dummy ca. r = Inr (cfg, dummy, ca) \<longrightarrow> pool_cfg rc l inst cfg)"
proof -
  let ?cfg0 = "poolSandboxConfig (rec_Images rc) inst"
  have svc: "ProxyService ?cfg0 \<noteq> []" by (simp add: poolSandboxConfig_def name_nonempty Let_def)
  have c: "okays e rc P (if ProxyService ?cfg0 \<noteq> [] then try_then (proxyClusterIP e inst) (\<lambda>ip. ret (Inr (?cfg0\<lparr>ProxyClusterIP := ip\<rparr>)))
      else ret (Inr ?cfg0)) (\<lambda>r l. \<forall>cfg. r = Inr cfg \<longrightarrow> pool_cfg rc l inst cfg)" if "grows P" for P
    unfolding if_P [OF svc] by (rule op_rules okay that grow | (auto simp: pool_cfg_def; fail))+
  have d: "okays e rc P (if DummyKubeconfigConfigMap cfg \<noteq> []
      then try_then (wrapping ''get dummy kubeconfig'' (find_obj (get_obj (configmaps e) OnConfigMap ns (DummyKubeconfigConfigMap cfg)))) (\<lambda>cm. ret (Inr (f cm)))
      else ret (Inr None)) (\<lambda>_ _. True)" if "grows P" for P cfg ns and f :: "config_map option \<Rightarrow> string option"
    unfolding op_calls by (rule op_rules that grow | (auto simp: policy_defs; fail))+
  show ?thesis
    unfolding overlayInputs_def Let_def op_calls
    by (rule c d [unfolded op_calls] op_rules assms grow | (auto simp: policy_defs; fail))+
qed

lemma list_sandboxes_okay [okay]:
  "okays e rc P (list_sandboxes e inst)
     (\<lambda>r l. OnPod (Listed (inst_Namespace inst) (MatchingLabels (sandboxLabels (inst_Name inst))) r) \<in> set l)"
  unfolding list_sandboxes_def op_calls by (rule op.obeys_call) (simp add: policy_defs)

lemma observe_loop_ready:
  "desired (observe_loop items snap) = desired snap \<and>
   ready (observe_loop items snap) = ready snap + int (length (filter (\<lambda>p. \<not> isAssignedSandbox p \<and> sandboxPodReady p) items))"
  by (induction items snap rule: observe_loop.induct) (auto simp: isUnassignedSandbox_def Let_def)

lemma observed_seen:
  "OnPod (Listed (inst_Namespace inst) (MatchingLabels (sandboxLabels (inst_Name inst))) (Inr items)) \<in> set l \<Longrightarrow> d = WarmPoolSize (Sandbox inst) \<Longrightarrow>
   snap_seen l inst (observePool items d)"
  unfolding snap_seen_def observePool_def using observe_loop_ready [of items "new_snapshot d"] by (auto simp: new_snapshot_def)

lemma new_snapshot_seen: "d = WarmPoolSize (Sandbox inst) \<Longrightarrow> snap_seen l inst (new_snapshot d)"
  by (simp add: snap_seen_def new_snapshot_def)

lemma snap_seen_flags [simp]:
  "snap_seen l inst (snap\<lparr>unhealthy := b\<rparr>) = snap_seen l inst snap" "snap_seen l inst (snap\<lparr>unhealthyMsg := msg\<rparr>) = snap_seen l inst snap"
  "snap_seen l inst (snap\<lparr>overlayRebuild := b\<rparr>) = snap_seen l inst snap" "snap_seen l inst (snap\<lparr>proxyGateClosed := b\<rparr>) = snap_seen l inst snap"
  by (simp_all add: snap_seen_def)

lemma observeAfterMutate_okay [okay]:
  assumes "grows P" "d = WarmPoolSize (Sandbox inst)"
  shows "okays e rc P (observeAfterMutate e inst d pre err) (\<lambda>r l. snap_seen l inst (fst r))"
  unfolding observeAfterMutate_def Let_def
  by (rule op_rules okay assms grow | (use assms(2) in \<open>auto simp: observed_seen new_snapshot_seen split: sum.splits\<close>; fail))+

lemma reconcilePool_okay [okay]:
  assumes "grows P" "\<And>l. P l \<Longrightarrow> read_inst l inst"
  shows "okays e rc P (reconcilePool e rc inst mutate) (\<lambda>r l. snap_seen l inst (fst r))"
proof -
  have z: "okays e rc P (reconcileZeroPool e inst items) (\<lambda>r l. snap_seen l inst (fst r))"
    if "grows P" "0 = WarmPoolSize (Sandbox inst)"
      "\<And>l. P l \<Longrightarrow> OnPod (Listed (inst_Namespace inst) (MatchingLabels (sandboxLabels (inst_Name inst))) (Inr items)) \<in> set l" for P items
    unfolding reconcileZeroPool_def Let_def
    by (rule op_rules okay that(1,2) grow | (use that(2,3) in \<open>auto simp: observed_seen\<close>; fail))+
  show ?thesis
    unfolding reconcilePool_def Let_def
    by (rule op_rules z okay assms(1) grow refl | (use assms(2) in \<open>auto simp: observed_seen new_snapshot_seen\<close>; fail))+
qed

subsection \<open>Idle sessions\<close>

lemma ignoring_okay [okay]:
  assumes "okays e rc P m R" "grows P"
  shows "okays e rc P (ignoring_not_found m) (\<lambda>r l. \<exists>r0. R r0 l \<and> (r = Inr () \<longrightarrow> (case r0 of Inl err \<Rightarrow> IsNotFound err | Inr _ \<Rightarrow> True)))"
  unfolding ignoring_not_found_def
  by (rule op.obeys_bind [OF assms], rule op.obeys_ret) (auto split: sum.splits if_splits)

lemma ignoring_okay_any [okay]:
  assumes "okays e rc P m (\<lambda>_ _. True)" "grows P"
  shows "okays e rc P (ignoring_not_found m) (\<lambda>_ _. True)"
  by (rule op.obeys_tail [OF ignoring_okay [OF assms] assms(2)]) simp

lemma gc_pod_okay [okay]:
  assumes "grows P" "\<And>l. P l \<Longrightarrow> read_inst l inst \<and> labels_Parse e (AssignedAnySelector (inst_Name inst)) = Inr sel \<and>
      OnPod (Listed (inst_Namespace inst) sel (Inr items)) \<in> set l"
    "p \<in> set items" "idleExpired e p now timeout"
  shows "okays e rc P (gc_pod e inst p) (\<lambda>_ _. True)"
proof -
  have p: "isAssignedSandbox p" "DeletionTimestamp p = None" "activityTime e p \<noteq> None"
    using assms(4) by (auto simp: idleExpired_def isAssignedSandbox_def split: if_splits option.splits)
  show ?thesis
    unfolding gc_pod_def Let_def op_calls
    by (rule op_rules okay assms(1) grow | (use assms(2,3) p in \<open>fastforce simp: policy_defs\<close>; fail))+
qed

lemma gc_loop_okay [okay]:
  assumes "grows P" "\<And>l. P l \<Longrightarrow> read_inst l inst \<and> labels_Parse e (AssignedAnySelector (inst_Name inst)) = Inr sel \<and>
      OnPod (Listed (inst_Namespace inst) sel (Inr items)) \<in> set l" "set ps \<subseteq> set items"
  shows "okays e rc P (gc_loop e inst now timeout ps) (\<lambda>_ _. True)"
  using assms
proof (induction ps arbitrary: P)
  case Nil
  show ?case unfolding gc_loop.simps by (rule op_rules | simp)+
next
  case (Cons p ps)
  show ?case
    unfolding gc_loop.simps
    by (rule op_rules Cons.IH gc_pod_okay [of _ inst e sel items] Cons.prems(1) grow | (use Cons.prems(2,3) in \<open>auto; fail\<close>))+
qed

lemma gcIdleAssigned_okay [okay]:
  assumes "grows P" "\<And>l. P l \<Longrightarrow> read_inst l inst"
  shows "okays e rc P (gcIdleAssigned e inst now) (\<lambda>_ _. True)"
  unfolding gcIdleAssigned_def Let_def op_calls
  by (rule op_rules gc_loop_okay [OF _ _ subset_refl] assms(1) grow | (use assms(2) in \<open>auto simp: policy_defs\<close>; fail))+

lemma idleResult_okay [okay]:
  assumes "grows P" "\<And>l. P l \<Longrightarrow> read_inst l inst"
  shows "okays e rc P (idleResult e inst) (\<lambda>_ _. True)"
  unfolding idleResult_def
  by (rule op_rules okay assms(1) grow | (use assms(2) in \<open>auto; fail\<close>))+

subsection \<open>Readiness\<close>

lemma seenI: "ev \<in> set l \<Longrightarrow> got_key ev = Some (k, ns, n) \<Longrightarrow> seen l ns (k, n)"
  unfolding seen_def by auto

lemma seen_secret: "OnSecret (Got ns n (Inr s)) \<in> set l \<Longrightarrow> seen l ns (KSecret, n)"
  by (erule seenI) (simp add: got_key_def key_of_def)

lemma missingRequiredSecrets_okay [okay]:
  assumes "grows P"
  shows "okays e rc P (missingRequiredSecrets e rc' inst hmac)
    (\<lambda>r l. r = None \<longrightarrow> (\<forall>k. effectiveKubeconfigSecretName inst = Some k \<longrightarrow> seen l (inst_Namespace inst) (KSecret, k)))"
proof -
  have k: "okays e rc P (case effectiveKubeconfigSecretName inst of None \<Rightarrow> ret (Inr [])
      | Some n \<Rightarrow> try_then (getSecret e (inst_Namespace inst) n) (\<lambda>kube. ret (Inr (if kube = None then [n] else []))))
    (\<lambda>r l. r = Inr [] \<longrightarrow> (\<forall>k. effectiveKubeconfigSecretName inst = Some k \<longrightarrow> seen l (inst_Namespace inst) (KSecret, k)))" if "grows P" for P
    by (rule op_rules okay that grow | (auto intro: seen_secret split: if_splits; fail))+
  have t: "okays e rc P (if OnOpenShift rc' then ret (Inr [])
      else try_then (getSecret e (inst_Namespace inst) n) (\<lambda>tls. ret (Inr (if tls = None then [n] else [])))) (\<lambda>_ _. True)" if "grows P" for P n
    by (rule op_rules okay that grow | simp)+
  show ?thesis
    unfolding missingRequiredSecrets_def Let_def
    by (rule k t op_rules assms grow | (auto split: sum.splits if_splits; fail))+
qed

lemma invalidRequiredSecretKeys_okay [okay]:
  assumes "grows P"
  shows "okays e rc P (invalidRequiredSecretKeys e rc' inst hmac) (\<lambda>_ _. True)"
proof -
  have c: "okays e rc P (case x of None \<Rightarrow> ret (Inr []) | Some n \<Rightarrow> try_then (getSecret e ns n) (\<lambda>kube. ret (Inr (f n kube)))) (\<lambda>_ _. True)"
    "okays e rc P (if b then ret (Inr []) else try_then (getSecret e ns n') (\<lambda>kube. ret (Inr (f n' kube)))) (\<lambda>_ _. True)"
    if "grows P" for P x ns n' b and f :: "string \<Rightarrow> ksecret option \<Rightarrow> string list"
    by (rule op_rules okay that grow | simp)+
  have k: "okays e rc P (try_then (case effectiveKubeconfigSecretName inst of None \<Rightarrow> ret (Inr [])
      | Some n \<Rightarrow> try_then (getSecret e ns n) (\<lambda>kube. ret (Inr (empty_keys n kube [kubeconfigDataKey])))) (\<lambda>kube.
     try_then (getSecret e ns ca) (\<lambda>ca'.
     try_then (if b then ret (Inr []) else try_then (getSecret e ns tlsName) (\<lambda>tls. ret (Inr (empty_keys tlsName tls [tlsCertKey, tlsKeyKey])))) (\<lambda>tls.
       ret (Inr (g kube ca' tls)))))) (\<lambda>_ _. True)" if "grows P" for P ns ca b tlsName and g :: "string list \<Rightarrow> ksecret option \<Rightarrow> string list \<Rightarrow> string list"
    by (rule c op_rules okay that grow | simp)+
  show ?thesis
    unfolding invalidRequiredSecretKeys_def Let_def by (rule k op_rules assms grow | simp)+
qed

lemma kubeconfigInvalid_okay [okay]: "grows P \<Longrightarrow> okays e rc P (kubeconfigInvalid e inst) (\<lambda>_ _. True)"
  unfolding kubeconfigInvalid_def by (rule op_rules okay grow | assumption | simp)+

lemma kubernetesProxyRoutes_okay [okay]: "grows P \<Longrightarrow> okays e rc P (kubernetesProxyRoutes e inst) (\<lambda>_ _. True)"
  unfolding kubernetesProxyRoutes_def by (rule op_rules okay grow | assumption | simp)+

lemma proxyRoutesInvalid_okay [okay]:
  assumes "grows P"
  shows "okays e rc P (proxyRoutesInvalid e inst) (\<lambda>r l. r = None \<longrightarrow> (\<exists>kubeRoutes. snd (collectProxyRoutes (lib e) (Targets inst) kubeRoutes) = []))"
  unfolding proxyRoutesInvalid_def Let_def
  by (rule op_rules okay assms grow | (auto split: sum.splits prod.splits if_splits simp: prod_eq_iff; fail))+

lemma sandboxEgressNotReady_okay [okay]:
  assumes "grows P"
  shows "okays e rc P (sandboxEgressNotReady e inst) (\<lambda>r l. r = None \<longrightarrow>
    (\<exists>np. OnNetpol (Got (inst_Namespace inst) (sandboxSAName (inst_Name inst)) (Inr np)) \<in> set l \<and> ''Egress'' \<in> set (np_PolicyTypes (np_Spec np))))"
  unfolding sandboxEgressNotReady_def op_calls
  by (rule op_rules assms grow | (auto simp: policy_defs split: sum.splits if_splits; fail))+

lemma grows_ball [grow]: "(\<And>x. grows (P x)) \<Longrightarrow> grows (\<lambda>l. \<forall>x \<in> S. P x l)"
  by (simp add: grows_def)

lemma look_okay:
  assumes "\<And>l r. op_policy e rc l (on (Got ns n r))" "\<And>x. got_key (on (Got ns n (Inr x))) = Some (k, ns, n)" "grows P"
  shows "okays e rc P (snd (look c on ns n)) (\<lambda>r l. r = Inr () \<longrightarrow> seen l ns (k, n))"
  unfolding look_def snd_conv op_calls
  by (rule op_rules assms(1,3) grow | (use assms(2) in \<open>auto intro: seenI split: sum.splits\<close>; fail))+

lemma missing_loop_okay:
  assumes "list_all2 (\<lambda>c kn. \<forall>P. grows P \<longrightarrow> okays e rc P (snd c) (\<lambda>r l. r = Inr () \<longrightarrow> seen l ns kn)) cs kns" "grows P"
  shows "okays e rc P (missing_loop e cs missing) (\<lambda>r l. r = None \<longrightarrow> missing = [] \<and> (\<forall>kn \<in> set kns. seen l ns kn))"
  using assms
proof (induction cs kns arbitrary: P missing rule: list_all2_induct)
  case Nil
  show ?case unfolding missing_loop.simps by (rule op.obeys_ret) simp
next
  case (Cons c cs kn kns)
  obtain n check where c: "c = (n, check)" by (cases c)
  with Cons.hyps(1) have h: "okays e rc P check (\<lambda>r l. r = Inr () \<longrightarrow> seen l ns kn)" if "grows P" for P using that by simp
  show ?case
    unfolding c missing_loop.simps
    by (rule op_rules h op.obeys_tail [OF Cons.IH] Cons.prems grow | (auto; fail))+
qed

lemma missingChildren_okay [okay]:
  assumes "grows P"
  shows "okays e rc P (missingChildren e inst) (\<lambda>r l. r = None \<longrightarrow> (\<forall>kn \<in> set (child_keys (inst_Name inst)). seen l (inst_Namespace inst) kn))"
proof -
  have "list_all2 (\<lambda>c kn. \<forall>P. grows P \<longrightarrow> okays e rc P (snd c) (\<lambda>r l. r = Inr () \<longrightarrow> seen l (inst_Namespace inst) kn))
      (child_checks e inst) (child_keys (inst_Name inst))"
    unfolding child_checks_def child_keys_def Let_def
    by (intro list_all2_Cons [THEN iffD2] conjI allI impI look_okay list.rel_intros(1)) (simp_all add: policy_defs got_key_def key_of_def)
  from missing_loop_okay [OF this assms, of "[]"] show ?thesis unfolding missingChildren_def by simp
qed

lemma authDelegatorNotReady_okay [okay]:
  assumes "grows P"
  shows "okays e rc P (authDelegatorNotReady e inst) (\<lambda>r l. r = None \<longrightarrow>
    (\<exists>crb. OnClusterRoleBinding (Got [] authDelegatorCRBName (Inr crb)) \<in> set l \<and> RoleRef crb = authDelegatorRoleRef \<and>
         (inst_Deletion inst = None \<longrightarrow> mcpSASubject (inst_Name inst) (inst_Namespace inst) \<in> set (Subjects crb))))"
  unfolding authDelegatorNotReady_def op_calls
  by (rule op_rules assms grow | (auto simp: policy_defs split: sum.splits if_splits; fail))+

lemma unless_wrong_okay:
  assumes "okays e rc P check R" "grows P" "okays e rc (\<lambda>l. P l \<and> R None l) k Q" "\<And>msg l. Q (False, why, msg) l"
  shows "okays e rc P (unless_wrong why check k) Q"
  unfolding unless_wrong_def
  by (rule op.obeys_bind [OF assms(1,2)], rule op.obeys_case_option) (auto intro: op.obeys_ret assms)

lemma deployment_gate_okay:
  assumes "grows P" "okays e rc (\<lambda>l. P l \<and> available l (inst_Namespace inst) n) k Q" "\<And>why msg l. Q (False, why, msg) l"
  shows "okays e rc P (deployment_gate e inst n what k) Q"
proof -
  have *: "okays e rc (\<lambda>l. P l \<and> OnDeployment (Got (inst_Namespace inst) n r) \<in> set l) k Q" if "r = Inr d" "\<not> \<not> deploymentAvailable d" for r d
    by (rule op.obeys_weaken [OF assms(2)]) (use that assms(1) in \<open>auto simp: available_def intro: grow\<close>)
  show ?thesis
    unfolding deployment_gate_def op_calls
    by (rule * op_rules assms grow | (auto simp: policy_defs; fail))+
qed

lemma readyGate_okay:
  assumes "grows P" "\<And>l. P l \<Longrightarrow> snap_seen l orig snap"
    "\<And>l. P l \<Longrightarrow> applyErr = None \<Longrightarrow> \<exists>f d. OnDeployment (Applied (inst_Namespace orig) (childName (inst_Name orig)) f (Inr d)) \<in> set l"
    "inst = orig\<lparr>Status := st\<rparr>"
  shows "okays e rc P (readyGate e rc' orig inst hmac applyErr crbErr snap) (\<lambda>r l. fst r \<longrightarrow> serving e l orig)"
proof -
  have same: "inst_Name inst = inst_Name orig" "inst_Namespace inst = inst_Namespace orig" "Targets inst = Targets orig"
    "effectiveKubeconfigSecretName inst = effectiveKubeconfigSecretName orig" "inst_Deletion inst = inst_Deletion orig"
    unfolding assms(4) by (simp_all add: effectiveKubeconfigSecretName_def)
  show ?thesis
    unfolding readyGate_def
    by (rule unless_wrong_okay okay deployment_gate_okay op_rules assms(1) grow
      | (use assms(2,3) in \<open>auto simp: serving_def Let_def same\<close>; fail))+
qed

subsection \<open>The status\<close>

lemma grows_serving [grow]: "grows (\<lambda>l. serving e l orig)"
  unfolding serving_def Let_def by (rule grow)+

lemma set_condition_okay:
  "grows P \<Longrightarrow> okays e rc P (set_condition e c inst) (\<lambda>r l. \<exists>now. r = inst\<lparr>Status := (Status inst)\<lparr>st_Conditions := SetStatusCondition e now c (st_Conditions (Status inst))\<rparr>\<rparr>)"
  unfolding set_condition_def by (rule op_rules grow | assumption | blast)+

lemma set_condition_status:
  "grows P \<Longrightarrow> okays e rc P (set_condition e c (orig\<lparr>Status := st\<rparr>)) (\<lambda>r l. \<exists>st'. r = orig\<lparr>Status := st'\<rparr>)"
  by (rule op.obeys_tail [OF set_condition_okay]) auto

lemma backed_allowed:
  assumes "read_inst l orig" "\<exists>st. inst1 = orig\<lparr>Status := st\<rparr>"
    "\<exists>now. inst2 = inst1\<lparr>Status := (Status inst1)\<lparr>st_Conditions := SetStatusCondition e now (new_condition inst1 ConditionReady good why msg) (st_Conditions (Status inst1))\<rparr>\<rparr>"
    "good \<longrightarrow> serving e l orig"
  shows "op_policy e rc l (OnInstance (StatusUpdated inst2 r))"
proof -
  from assms(2) have "inst_Name inst1 = inst_Name orig" "inst_Namespace inst1 = inst_Namespace orig" by auto
  with assms(1,3,4) have "status_backed e l inst2" unfolding status_backed_def by blast
  then show ?thesis by (simp add: op_policy_def instance_policy_def)
qed

lemma syncStatus_okay [okay]:
  assumes "grows P" "\<And>l. P l \<Longrightarrow> read_inst l orig \<and> snap_seen l orig snap"
    "\<And>l. P l \<Longrightarrow> applyErr = None \<Longrightarrow> \<exists>f d. OnDeployment (Applied (inst_Namespace orig) (childName (inst_Name orig)) f (Inr d)) \<in> set l"
  shows "okays e rc P (syncStatus e rc' orig hmac applyErr crbErr snap) (\<lambda>_ _. True)"
proof -
  have gate: "okays e rc Q (readyGate e rc' orig inst hmac applyErr crbErr snap) (\<lambda>r l. fst r \<longrightarrow> serving e l orig)"
    if "grows Q" "\<And>l. Q l \<Longrightarrow> P l \<and> (\<exists>st. inst = orig\<lparr>Status := st\<rparr>)" for Q inst
  proof (cases "\<exists>st. inst = orig\<lparr>Status := st\<rparr>")
    case True
    then obtain st where "inst = orig\<lparr>Status := st\<rparr>" ..
    then show ?thesis by (intro readyGate_okay [of Q orig snap applyErr inst st]) (use that assms(2,3) in auto)
  next
    case False
    with that(2) have "\<not> Q l" for l by blast
    then show ?thesis unfolding op.obeys_def by blast
  qed
  show ?thesis
    unfolding syncStatus_def op_calls
    apply (rule op.obeys_bind, rule set_condition_status, rule assms(1), rule assms(1))
    apply (rule op.obeys_bind, rule gate, (rule grow assms(1))+, blast, (rule grow assms(1))+)
    apply (rule op.obeys_case_prod)+
    apply (rule op.obeys_bind, rule set_condition_okay, (rule grow assms(1))+)
    apply (rule op.obeys_if, rule op.obeys_ret, rule TrueI)
    apply (rule op.obeys_try_then, rule okays_wrapping_any, rule okays_call_any, rule backed_allowed)
    apply (use assms(2) in blast)
    apply blast
    apply blast
    apply force
    apply (rule op_rules assms(1) grow TrueI)+
    done
qed

subsection \<open>The finalizer\<close>

lemma okays_call_after:
  assumes "\<And>l r. P l \<Longrightarrow> op_policy e rc l (ev r)" "\<And>l. P l \<Longrightarrow> x \<in> set l"
  shows "okays e rc P (call f ev) (\<lambda>r l. after l x (ev r))"
proof (rule op.obeysI)
  fix s r s'
  assume "P (log s)" "run_state (call f ev) s = (r, s')"
  then show "True \<and> (\<exists>evs. log s' = log s @ evs \<and> guarded (op_policy e rc) (log s) evs) \<and> after (log s') x (ev r)"
    using assms by (force simp: call_def after_def split: prod.splits)
qed

lemma after_mem: "after l x y \<Longrightarrow> y \<in> set l"
  by (auto simp: after_def)

lemma scaleMCPToZero_okay [okay]:
  assumes "grows P"
  shows "okays e rc P (scaleMCPToZero e inst) (\<lambda>_ _. True)"
  unfolding scaleMCPToZero_def op_calls
  by (rule op_rules assms grow | (auto simp: policy_defs; fail))+

definition no_servers :: "climcp_instance \<Rightarrow> op_event" where
  "no_servers inst = OnPod (Listed (inst_Namespace inst) (MatchingLabels (serverLabels (inst_Name inst))) (Inr []))"

lemma sweep_allowed:
  assumes "read_inst l inst" "inst_Deletion inst \<noteq> None" "no_servers inst \<in> set l"
  shows "op_policy e rc l (OnPod (DeletedAll (inst_Namespace inst) (MatchingLabels (sandboxLabels (inst_Name inst))) r))"
    "op_policy e rc l (OnSecret (DeletedAll (inst_Namespace inst) (MatchingLabels (sandboxLabels (inst_Name inst))) r))"
  using assms unfolding no_servers_def policy_defs by auto

lemma deleteInstanceSandboxes_okay:
  fixes inst
  defines "ns \<equiv> inst_Namespace inst" and "sel \<equiv> MatchingLabels (sandboxLabels (inst_Name inst))"
  assumes "grows P" "\<And>l. P l \<Longrightarrow> read_inst l inst \<and> inst_Deletion inst \<noteq> None \<and> no_servers inst \<in> set l"
  shows "okays e rc P (deleteInstanceSandboxes e inst)
    (\<lambda>r l. r = Inr () \<longrightarrow> after l (no_servers inst) (OnPod (DeletedAll ns sel (Inr ()))) \<and> OnSecret (DeletedAll ns sel (Inr ())) \<in> set l)"
proof -
  have p: "okays e rc P (call f (\<lambda>r. OnPod (DeletedAll ns sel r))) (\<lambda>r l. after l (no_servers inst) (OnPod (DeletedAll ns sel r)))" for f
    unfolding ns_def sel_def by (rule okays_call_after) (use assms(4) sweep_allowed in blast)+
  have q: "okays e rc (\<lambda>l. P l \<and> Q l) (call f (\<lambda>r. OnSecret (DeletedAll ns sel r))) (\<lambda>r l. OnSecret (DeletedAll ns sel r) \<in> set l)" for f Q
    unfolding ns_def sel_def by (rule op.obeys_call) (use assms(4) sweep_allowed in blast)
  show ?thesis
    unfolding deleteInstanceSandboxes_def Let_def op_calls ns_def [symmetric] sel_def [symmetric]
    by (rule op.obeys_try_then, rule okays_wrapping, rule p, rule assms(3), rule assms(3), rule op.obeys_tail [OF okays_wrapping], rule q)
      ((rule assms(3) grow)+ | (auto; fail))+
qed

lemma list_sandboxes_after:
  assumes "\<And>l. P l \<Longrightarrow> x \<in> set l"
  shows "okays e rc P (list_sandboxes e inst)
     (\<lambda>r l. after l x (OnPod (Listed (inst_Namespace inst) (MatchingLabels (sandboxLabels (inst_Name inst))) r)))"
  unfolding list_sandboxes_def op_calls by (rule okays_call_after) (use assms in \<open>auto simp: policy_defs\<close>)

lemma list_session_secrets_after:
  assumes "\<And>l. P l \<Longrightarrow> x \<in> set l"
  shows "okays e rc P (list_session_secrets e inst)
     (\<lambda>r l. after l x (OnSecret (Listed (inst_Namespace inst) (MatchingLabels (sandboxLabels (inst_Name inst))) r)))"
  unfolding list_session_secrets_def op_calls by (rule okays_call_after) (use assms in \<open>auto simp: policy_defs\<close>)

lemma list_server_pods_okay [okay]:
  "okays e rc P (list_server_pods e inst)
     (\<lambda>r l. OnPod (Listed (inst_Namespace inst) (MatchingLabels (serverLabels (inst_Name inst))) r) \<in> set l)"
  unfolding list_server_pods_def op_calls by (rule op.obeys_call) (simp add: policy_defs)

lemma finalize_okay [okay]:
  assumes "grows P" "\<And>l. P l \<Longrightarrow> read_inst l inst" "inst_Deletion inst \<noteq> None"
  shows "okays e rc P (finalize e inst) (\<lambda>_ _. True)"
proof -
  let ?sel = "MatchingLabels (sandboxLabels (inst_Name inst))" and ?ns = "inst_Namespace inst"
  let ?pods = "OnPod (DeletedAll ?ns ?sel (Inr ()))" and ?secrets = "OnSecret (DeletedAll ?ns ?sel (Inr ()))"
  show ?thesis
    unfolding finalize_def op_calls
    by (rule deleteInstanceSandboxes_okay list_sandboxes_after [of _ ?pods] list_session_secrets_after [of _ ?secrets] op_rules okay assms(1) grow |
        (use assms(2,3) in \<open>auto simp: no_servers_def stillPresent_def dest: after_mem\<close>; fail) |
        (use assms(2,3) in \<open>auto simp: policy_defs cleared_def no_servers_def Let_def stillPresent_def secretsPresent_def\<close>; fail))+
qed

section \<open>One reconcile\<close>

lemma with_finalizer_okay [okay]:
  assumes "grows P" "\<And>l. P l \<Longrightarrow> read_inst l inst" "inst_Deletion inst = None"
  shows "okays e rc P (with_finalizer e inst) (\<lambda>r l. \<forall>inst'. r = Inr inst' \<longrightarrow> read_inst l inst')"
proof -
  have ok: "op_policy e rc l (OnInstance (Updated (inst\<lparr>Finalizers := AddFinalizer e (Finalizers inst) finalizerName\<rparr>) r))" if "P l" for l r
    using assms(2) [OF that] assms(3) by (auto simp: policy_defs)
  show ?thesis
    unfolding with_finalizer_def op_calls
    by (rule op.obeys_if, rule op.obeys_ret, use assms(2) in blast, rule op.obeys_tail [OF okays_wrapping [OF op.obeys_call]])
      (use ok assms(1) in \<open>auto simp: read_inst_def\<close>)
qed

lemma reconcile_live_okay [okay]:
  assumes "grows P" "\<And>l. P l \<Longrightarrow> read_inst l inst"
  shows "okays e rc P (reconcile_live e rc inst) (\<lambda>_ _. True)"
  unfolding reconcile_live_def
  by (rule op_rules okay assms(1) grow | (use assms(2) in \<open>auto simp: err_of_def split: sum.splits\<close>; fail))+

lemma Reconcile_okay: "okays e rc (\<lambda>_. True) (Reconcile e rc ns name) (\<lambda>_ _. True)"
  unfolding Reconcile_def op_calls
  by (rule op_rules okay grow | (auto simp: policy_defs read_inst_def; fail))+

lemma guarded_mono: "guarded G l evs \<Longrightarrow> (\<And>l ev. G l ev \<Longrightarrow> H l ev) \<Longrightarrow> guarded H l evs"
  by (induction evs arbitrary: l) simp_all

lemma reconcile_guarded:
  assumes "\<And>l ev. op_policy e rc l ev \<Longrightarrow> H l ev"
  shows "case run_state (Reconcile e rc ns name) (s\<lparr>log := []\<rparr>) of (r, s') \<Rightarrow> guarded H [] (log s')"
  using Reconcile_okay [of e rc ns name] assms unfolding op.obeys_def by (fastforce elim: guarded_mono split: prod.splits)

definition sandbox_writes :: "'w op_env \<Rightarrow> reconciler \<Rightarrow> op_event list \<Rightarrow> op_event \<Rightarrow> bool" where
  "sandbox_writes e rc l ev = (case ev of OnPod a \<Rightarrow> pod_policy e rc l a | OnSecret a \<Rightarrow> secret_policy e l a | _ \<Rightarrow> True)"

definition child_writes :: "'w op_env \<Rightarrow> op_event list \<Rightarrow> op_event \<Rightarrow> bool" where
  "child_writes e l ev =
     (case ev of
        OnConfigMap a \<Rightarrow> configmap_policy e l a | OnServiceAccount a \<Rightarrow> sa_policy l a | OnRole a \<Rightarrow> role_policy l a
      | OnRoleBinding a \<Rightarrow> binding_policy l a | OnClusterRoleBinding a \<Rightarrow> crb_policy l a | OnService a \<Rightarrow> service_policy l a
      | OnNetpol a \<Rightarrow> netpol_policy l a | OnDeployment a \<Rightarrow> deployment_policy l a | _ \<Rightarrow> True)"

definition instance_writes :: "'w op_env \<Rightarrow> op_event list \<Rightarrow> op_event \<Rightarrow> bool" where
  "instance_writes e l ev = (case ev of OnInstance a \<Rightarrow> instance_policy e l a | _ \<Rightarrow> True)"




end
