(* ===== verification/Permissions.thy ===== *)
theory Permissions
  imports Children
begin

text \<open>
  The Role the operator gives the server (\<open>mcpRoleRules\<close> of \<open>children.go\<close>) against the calls the server makes (\<open>pkg/session\<close>). What a Role
  allows is the documented meaning of RBAC rules; the authorizer is not part of the program.
\<close>

section \<open>Requests and rules\<close>

record api_request =
  rq_Group :: string
  rq_Resource :: string
  rq_Verb :: string
  rq_Namespace :: string
  rq_Name :: "string option"

text \<open>A rule without names is for all objects; one with names fits only a request that names one of them.\<close>

definition rule_allows :: "api_request \<Rightarrow> policy_rule \<Rightarrow> bool" where
  "rule_allows q rule =
     (rq_Group q \<in> set (APIGroups rule) \<and> rq_Resource q \<in> set (Resources rule) \<and> rq_Verb q \<in> set (Verbs rule) \<and>
      (ResourceNames rule = [] \<or> (case rq_Name q of None \<Rightarrow> False | Some n \<Rightarrow> n \<in> set (ResourceNames rule))))"

definition role_allows :: "policy_rule list \<Rightarrow> api_request \<Rightarrow> bool" where
  "role_allows rules q = list_ex (rule_allows q) rules"

abbreviation core_request :: "string \<Rightarrow> string \<Rightarrow> string \<Rightarrow> string option \<Rightarrow> api_request" where
  "core_request resource verb ns n \<equiv> \<lparr>rq_Group = [], rq_Resource = resource, rq_Verb = verb, rq_Namespace = ns, rq_Name = n\<rparr>"

text \<open>The request behind a call of the server; calls to agents are none.\<close>

fun request_of :: "event \<Rightarrow> api_request option" where
  "request_of (PodsList _ ns _ _) = Some (core_request ''pods'' ''list'' ns None)"
| "request_of (PodsGet _ ns n _) = Some (core_request ''pods'' ''get'' ns (Some n))"
| "request_of (PodsCreate _ ns _ _) = Some (core_request ''pods'' ''create'' ns None)"
| "request_of (PodsPatch _ ns n _ _) = Some (core_request ''pods'' ''patch'' ns (Some n))"
| "request_of (PodsDelete _ ns n _ _) = Some (core_request ''pods'' ''delete'' ns (Some n))"
| "request_of (SecretsCreate _ ns _ _) = Some (core_request ''secrets'' ''create'' ns None)"
| "request_of (SecretsDelete _ ns n _) = Some (core_request ''secrets'' ''delete'' ns (Some n))"
| "request_of (SlicesList _ ns _ _) =
     Some \<lparr>rq_Group = ''discovery.k8s.io'', rq_Resource = ''endpointslices'', rq_Verb = ''list'', rq_Namespace = ns, rq_Name = None\<rparr>"
| "request_of (NetpolGet _ ns n _) =
     Some \<lparr>rq_Group = ''networking.k8s.io'', rq_Resource = ''networkpolicies'', rq_Verb = ''get'', rq_Namespace = ns, rq_Name = Some n\<rparr>"
| "request_of (HttpDo _ _ _) = None"

definition permitted :: "climcp_instance \<Rightarrow> event \<Rightarrow> bool" where
  "permitted inst ev =
     (case request_of ev of
        None \<Rightarrow> True
      | Some q \<Rightarrow> rq_Namespace q = inst_Namespace inst \<and> role_allows (mcpRoleRules (inst_Name inst)) q)"

section \<open>The server stays within its Role\<close>

lemma same_policy_name: "SandboxNetworkPolicyName inst = sandboxSAName inst"
  by (simp add: SandboxNetworkPolicyName_def sandboxSAName_def childNamePrefix_def sandboxNameSuffix_def)

lemma policy_permitted:
  assumes "Namespace (mgr_config m) = inst_Namespace inst" "InstanceName (mgr_config m) = inst_Name inst"
  shows "session_policy e m sid l ev \<Longrightarrow> permitted inst ev"
  by (cases ev) (auto simp: permitted_def role_allows_def rule_allows_def mcpRoleRules_def assms same_policy_name)

lemma guarded_permitted: "guarded G l evs \<Longrightarrow> (\<And>l ev. G l ev \<Longrightarrow> H ev) \<Longrightarrow> list_all H evs"
  by (induction evs arbitrary: l) auto

lemma manager_config: "NewSessionManager config = Inr m \<Longrightarrow> Namespace (mgr_config m) = Namespace config \<and> InstanceName (mgr_config m) = InstanceName config"
  by (auto simp: NewSessionManager_def Let_def split: sum.splits)

text \<open>
  C18. The Role the operator binds to the server is enough for it: a server that runs with the namespace and the name of an instance, in any reachable
  state and whatever the API answered, has made no request but in the namespace of the instance and allowed by the rules of that Role.
\<close>
theorem server_role_suffices:
  assumes "NewSessionManager config = Inr m" and "Namespace config = inst_Namespace inst" "InstanceName config = inst_Name inst" and "reachable e m s"
  shows "list_all (permitted inst) (log s)"
proof -
  note ok = NewSessionManager_ok [OF assms(1)]
  from manager_config [OF assms(1)] assms(2,3) have c: "Namespace (mgr_config m) = inst_Namespace inst" "InstanceName (mgr_config m) = inst_Name inst"
    by simp_all
  note all = guarded_permitted [OF _ policy_permitted [OF c]]
  from assms(4) show ?thesis
  proof induction
    case (start w t)
    show ?case by (simp add: start_sys_def)
  next
    case (execute s cx sid command timeout r s')
    from sp.obeysE [OF ExecuteCommand_keeps [OF ok] reachable_inv [OF execute.hyps(1) ok] _ execute.hyps(2)] obtain evs where
      "log s' = log s @ evs" "guarded (session_policy e m sid) (log s) evs" by blast
    with all execute.IH show ?case by simp
  next
    case (cleanup s cx sid r' s')
    from sp.obeysE [OF CleanupSession_keeps reachable_inv [OF cleanup.hyps(1) ok] _ cleanup.hyps(2)] obtain evs where
      "log s' = log s @ evs" "guarded (session_policy e m sid) (log s) evs" by blast
    with all cleanup.IH show ?case by simp
  qed simp
qed

text \<open>The Role lets the server read no Secret.\<close>

lemma role_reads_no_secret: "rq_Resource q = ''secrets'' \<Longrightarrow> rq_Verb q \<in> {''get'', ''list'', ''watch''} \<Longrightarrow> \<not> role_allows (mcpRoleRules n) q"
  by (auto simp: role_allows_def rule_allows_def mcpRoleRules_def)

theorem server_role_suffices_witness:
  "\<exists>r s. run_state (ExecuteCommand demo_env demo_mgr Request ''s1'' ''ls'' 60) (start_sys () 0) = (Inr r, s) \<and> length (log s) = 11 \<and>
     list_all (permitted demo_instance) (log s)"
proof -
  obtain r s where rs: "run_state (ExecuteCommand demo_env demo_mgr Request ''s1'' ''ls'' 60) (start_sys () 0) = (Inr r, s)"
    and evs: "map event_kind (log s) =
     [''list'', ''slices'', ''netpol'', ''list'', ''patch'', ''secret'', ''http'', ''list'', ''get'', ''http'', ''patch'']"
    using demo_run by (elim exE conjE)
  from arg_cong [OF evs, of length] have len: "length (log s) = 11" by simp
  have c: "Namespace demo_config = inst_Namespace demo_instance" "InstanceName demo_config = inst_Name demo_instance"
    by (simp_all add: demo_config_def demo_instance_def)
  from server_role_suffices [OF demo_mgr_new c reachable.execute [OF reachable.start rs]] rs len show ?thesis by blast
qed

end
