(* ===== verification/OperatorRights.thy ===== *)
theory OperatorRights
  imports OperatorSafety Permissions
begin

text \<open>
  What the operator may do in the cluster: the ClusterRole of the \<open>kubebuilder:rbac\<close> markers on \<open>Reconcile\<close> and the Role of \<open>config/rbac/namespaced_role.yaml\<close>, against the
  calls of a reconcile. Reads go through the cache of the manager, which lists and watches a kind; the shared ClusterRoleBinding is read through the API reader, by name. A
  subject may write a Role only if it holds every right in it, and bind a ClusterRole only if it may \<open>bind\<close> it: the documented guard against escalation.
\<close>

section \<open>The roles\<close>

definition write_verbs :: "string list" where
  "write_verbs = [''create'', ''delete'', ''get'', ''list'', ''patch'', ''update'', ''watch'']"

definition manager_role :: "policy_rule list" where
  "manager_role =
     [\<lparr>APIGroups = [''cli-mcp.redhat.com''], Resources = [''climcpinstances''], ResourceNames = [], Verbs = write_verbs\<rparr>,
      \<lparr>APIGroups = [''cli-mcp.redhat.com''], Resources = [''climcpinstances/mcp''], ResourceNames = [], Verbs = [''get'', ''create'', ''delete'']\<rparr>,
      \<lparr>APIGroups = [''cli-mcp.redhat.com''], Resources = [''climcpinstances/status''], ResourceNames = [], Verbs = [''get'', ''update'', ''patch'']\<rparr>,
      \<lparr>APIGroups = [''cli-mcp.redhat.com''], Resources = [''climcpinstances/finalizers''], ResourceNames = [], Verbs = [''update'']\<rparr>,
      \<lparr>APIGroups = [''rbac.authorization.k8s.io''], Resources = [''clusterroles''], ResourceNames = [''system:auth-delegator''], Verbs = [''bind'']\<rparr>,
      \<lparr>APIGroups = [''rbac.authorization.k8s.io''], Resources = [''clusterrolebindings''], ResourceNames = [], Verbs = [''create'']\<rparr>,
      \<lparr>APIGroups = [''rbac.authorization.k8s.io''], Resources = [''clusterrolebindings''], ResourceNames = [''cli-mcp-auth-delegator''],
       Verbs = [''get'', ''update'', ''patch'']\<rparr>]"

definition manager_namespaced_role :: "policy_rule list" where
  "manager_namespaced_role =
     [\<lparr>APIGroups = [[]], Resources = [''pods'', ''secrets''], ResourceNames = [],
       Verbs = [''create'', ''delete'', ''deletecollection'', ''get'', ''list'', ''patch'', ''update'', ''watch'']\<rparr>,
      \<lparr>APIGroups = [[]], Resources = [''services'', ''serviceaccounts'', ''configmaps''], ResourceNames = [], Verbs = write_verbs\<rparr>,
      \<lparr>APIGroups = [''apps''], Resources = [''deployments''], ResourceNames = [], Verbs = write_verbs\<rparr>,
      \<lparr>APIGroups = [''rbac.authorization.k8s.io''], Resources = [''roles'', ''rolebindings''], ResourceNames = [], Verbs = write_verbs\<rparr>,
      \<lparr>APIGroups = [''discovery.k8s.io''], Resources = [''endpointslices''], ResourceNames = [], Verbs = [''list'', ''watch'']\<rparr>,
      \<lparr>APIGroups = [''networking.k8s.io''], Resources = [''networkpolicies''], ResourceNames = [], Verbs = write_verbs\<rparr>]"

text \<open>Both together, in a namespace in which the Role is installed.\<close>

definition manager_rules :: "policy_rule list" where "manager_rules = manager_role @ manager_namespaced_role"

section \<open>The requests of a reconcile\<close>

fun access_verbs :: "'o access \<Rightarrow> (string \<times> string option) list" where
  "access_verbs (Got _ n _) = [(''list'', None), (''watch'', None)]"
| "access_verbs (Listed _ _ _) = [(''list'', None), (''watch'', None)]"
| "access_verbs (Created _ _) = [(''create'', None)]"
| "access_verbs (Updated _ _) = [(''update'', None)]"
| "access_verbs (StatusUpdated _ _) = [(''update'', None)]"
| "access_verbs (Deleted _ n _ _) = [(''delete'', Some n)]"
| "access_verbs (DeletedAll _ _ _) = [(''deletecollection'', None)]"
| "access_verbs (Applied _ n _ _) = [(''list'', None), (''watch'', None), (''create'', None), (''update'', Some n)]"

definition requests_on :: "string \<Rightarrow> string \<Rightarrow> 'o access \<Rightarrow> api_request list" where
  "requests_on gr resource a =
     map (\<lambda>(verb, n). \<lparr>rq_Group = gr, rq_Resource = resource, rq_Verb = verb, rq_Namespace = [], rq_Name = n\<rparr>) (access_verbs a)"

definition rbac_request :: "string \<Rightarrow> string \<Rightarrow> string option \<Rightarrow> api_request" where
  "rbac_request resource verb n = \<lparr>rq_Group = rbac_GroupName, rq_Resource = resource, rq_Verb = verb, rq_Namespace = [], rq_Name = n\<rparr>"

text \<open>
  The requests behind a logged call, but for the update of the shared binding: that goes to the object that was read before, under the name it was read by, which the log so far tells.
\<close>

fun op_requests :: "op_event \<Rightarrow> api_request list" where
  "op_requests (OnPod a) = requests_on [] ''pods'' a"
| "op_requests (OnSecret a) = requests_on [] ''secrets'' a"
| "op_requests (OnConfigMap a) = requests_on [] ''configmaps'' a"
| "op_requests (OnServiceAccount a) = requests_on [] ''serviceaccounts'' a"
| "op_requests (OnService a) = requests_on [] ''services'' a"
| "op_requests (OnDeployment a) = requests_on ''apps'' ''deployments'' a"
| "op_requests (OnRole a) = requests_on rbac_GroupName ''roles'' a"
| "op_requests (OnRoleBinding a) = requests_on rbac_GroupName ''rolebindings'' a"
| "op_requests (OnNetpol a) = requests_on ''networking.k8s.io'' ''networkpolicies'' a"
| "op_requests (OnSlice a) = requests_on ''discovery.k8s.io'' ''endpointslices'' a"
| "op_requests (OnInstance a) =
     requests_on GroupVersion_Group (case a of StatusUpdated _ _ \<Rightarrow> ''climcpinstances/status'' | _ \<Rightarrow> ''climcpinstances'') a"
| "op_requests (OnClusterRoleBinding a) =
     (case a of
        Got _ n _ \<Rightarrow> [rbac_request ''clusterrolebindings'' ''get'' (Some n)]
      | _ \<Rightarrow> requests_on rbac_GroupName ''clusterrolebindings'' a)"

section \<open>Rights that are handed on\<close>

text \<open>The holder of \<open>rules\<close> has every right of a rule, for each name it gives, or for all.\<close>

definition holds_rule :: "policy_rule list \<Rightarrow> policy_rule \<Rightarrow> bool" where
  "holds_rule rules r =
     list_all (\<lambda>gr. list_all (\<lambda>resource. list_all (\<lambda>verb. list_all (\<lambda>n.
       role_allows rules \<lparr>rq_Group = gr, rq_Resource = resource, rq_Verb = verb, rq_Namespace = [], rq_Name = n\<rparr>)
       (if ResourceNames r = [] then [None] else map Some (ResourceNames r))) (Verbs r)) (Resources r)) (APIGroups r)"

definition may_bind :: "policy_rule list \<Rightarrow> role_ref \<Rightarrow> bool" where
  "may_bind rules ref = (rr_Kind ref = ''ClusterRole'' \<and> role_allows rules (rbac_request ''clusterroles'' ''bind'' (Some (rr_Name ref))))"

definition hands_on :: "op_event \<Rightarrow> bool" where
  "hands_on ev =
     (case ev of
        OnRole (Applied _ _ f _) \<Rightarrow> \<forall>x y. f x = Inr y \<longrightarrow> list_all (holds_rule manager_rules) (Rules y)
      | OnClusterRoleBinding (Created b _) \<Rightarrow> may_bind manager_rules (RoleRef b)
      | OnClusterRoleBinding (Updated b _) \<Rightarrow> may_bind manager_rules (RoleRef b)
      | _ \<Rightarrow> True)"

definition may_request :: "op_event list \<Rightarrow> op_event \<Rightarrow> bool" where
  "may_request l ev =
     (case ev of
        OnClusterRoleBinding (Updated b _) \<Rightarrow>
          \<exists>n b0. OnClusterRoleBinding (Got [] n (Inr b0)) \<in> set l \<and> rb_Meta b = rb_Meta b0 \<and>
            role_allows manager_rules (rbac_request ''clusterrolebindings'' ''update'' (Some n))
      | _ \<Rightarrow> list_all (role_allows manager_rules) (op_requests ev))"

definition within_rights :: "op_event list \<Rightarrow> op_event \<Rightarrow> bool" where
  "within_rights l ev = (may_request l ev \<and> hands_on ev)"

lemmas rights_defs = manager_rules_def manager_role_def manager_namespaced_role_def write_verbs_def role_allows_def rule_allows_def

lemma manager_holds: "list_all (holds_rule manager_rules) (mcpRoleRules n)" "list_all (holds_rule manager_rules) (clientRoleRules n)"
  by (simp_all add: holds_rule_def mcpRoleRules_def clientRoleRules_def rights_defs GroupVersion_Group_def)

lemma manager_binds: "may_bind manager_rules authDelegatorRoleRef"
  by (simp add: may_bind_def rbac_request_def rights_defs authDelegatorRoleRef_def rbac_GroupName_def authDelegatorClusterRole_def)

lemma policy_hands_on: "op_policy e rc l ev \<Longrightarrow> hands_on ev"
  using manager_holds manager_binds
  by (cases ev) (auto simp: hands_on_def op_policy_def role_policy_def crb_policy_def edits_def Let_def split: access.splits)

lemma policy_may_request: "op_policy e rc l ev \<Longrightarrow> may_request l ev"
proof (cases ev)
  case (OnClusterRoleBinding a)
  assume "op_policy e rc l ev"
  then show ?thesis
    using OnClusterRoleBinding
    by (cases a) (auto simp: op_policy_def crb_policy_def may_request_def requests_on_def rbac_request_def rights_defs rbac_GroupName_def
      authDelegatorCRBName_def Let_def)
qed (auto simp: op_policy_def may_request_def requests_on_def rights_defs rbac_GroupName_def GroupVersion_Group_def pod_policy_def secret_policy_def
  configmap_policy_def sa_policy_def role_policy_def binding_policy_def service_policy_def netpol_policy_def deployment_policy_def instance_policy_def
  split: access.splits)


text \<open>Owner references that block the deletion of the instance need the finalizers subresource.\<close>

lemma manager_may_own:
  "role_allows manager_rules \<lparr>rq_Group = GroupVersion_Group, rq_Resource = ''climcpinstances/finalizers'', rq_Verb = ''update'', rq_Namespace = ns, rq_Name = n\<rparr>"
  by (simp add: rights_defs GroupVersion_Group_def)

text \<open>The operator cannot write Roles or bindings for all namespaces, nor bind another ClusterRole.\<close>

lemma manager_cannot_escalate:
  "\<not> role_allows manager_rules (rbac_request ''clusterroles'' verb n) \<or> verb = ''bind'' \<and> n = Some ''system:auth-delegator''"
  by (auto simp: rights_defs rbac_request_def rbac_GroupName_def split: option.splits)

end
