(* ===== verification/Flags.thy ===== *)
theory Flags
  imports GoNet
begin

text \<open>
  What the programs use of Go's package \<open>flag\<close>: \<open>FlagSet.Parse\<close> with string and boolean flags, and with flags of libraries, whose
  \<open>Set\<close> is a parameter. The result is the list of values that were set.
\<close>

datatype flag_kind = StringFlag | BoolFlag | LibraryFlag bool "string \<Rightarrow> unit result"

type_synonym flag_set = "(string \<times> flag_kind) list"
type_synonym flag_settings = "(string \<times> string) list"

definition ErrHelp :: go_error where "ErrHelp = Err ''flag: help requested''"

text \<open>\<open>strconv.ParseBool\<close>.\<close>

definition ParseBool :: "string \<Rightarrow> bool option" where
  "ParseBool s =
     (if s \<in> set [''1'', ''t'', ''T'', ''TRUE'', ''true'', ''True''] then Some True
      else if s \<in> set [''0'', ''f'', ''F'', ''FALSE'', ''false'', ''False''] then Some False
      else None)"

fun IsBoolFlag :: "flag_kind \<Rightarrow> bool" where
  "IsBoolFlag StringFlag = False"
| "IsBoolFlag BoolFlag = True"
| "IsBoolFlag (LibraryFlag b _) = b"

fun flag_Set :: "flag_kind \<Rightarrow> string \<Rightarrow> unit result" where
  "flag_Set StringFlag v = Inr ()"
| "flag_Set BoolFlag v = (if ParseBool v = None then Inl (Err ''parse error'') else Inr ())"
| "flag_Set (LibraryFlag _ f) v = f v"

text \<open>The name of a flag and the value after the first equals sign, which cannot be the first byte.\<close>

definition cut_value :: "string \<Rightarrow> string \<times> string option" where
  "cut_value s =
     (let c = hd s; r = tl s; rest = dropWhile (\<lambda>b. b \<noteq> CHR ''='') r in
      (c # takeWhile (\<lambda>b. b \<noteq> CHR ''='') r, if rest = [] then None else Some (tl rest)))"

definition set_value :: "golib \<Rightarrow> flag_kind \<Rightarrow> string \<Rightarrow> string \<Rightarrow> flag_settings \<Rightarrow> flag_settings result" where
  "set_value g k name v vs =
     (case flag_Set k v of
        Inl e \<Rightarrow> Inl (Wrap (if IsBoolFlag k then ''invalid boolean value '' @ Quote g v @ '' for -'' @ name
                           else ''invalid value '' @ Quote g v @ '' for flag -'' @ name) e)
      | Inr _ \<Rightarrow> Inr ((name, v) # vs))"

text \<open>The later of two settings of a flag is in front.\<close>

fun flag_Parse :: "golib \<Rightarrow> flag_set \<Rightarrow> string list \<Rightarrow> flag_settings \<Rightarrow> flag_settings result" where
  "flag_Parse g fs [] vs = Inr vs"
| "flag_Parse g fs (s # args) vs =
     (if length s < 2 \<or> hd s \<noteq> CHR ''-'' \<or> s = ''--'' then Inr vs
      else
        let named = (if s ! 1 = CHR ''-'' then drop 2 s else tl s) in
        if hd named = CHR ''-'' \<or> hd named = CHR ''='' then Inl (Err (''bad flag syntax: '' @ s))
        else
          (case cut_value named of (name, val) \<Rightarrow>
             (case map_of fs name of
                None \<Rightarrow> if name = ''help'' \<or> name = ''h'' then Inl ErrHelp else Inl (Err (''flag provided but not defined: -'' @ name))
              | Some k \<Rightarrow>
                  if IsBoolFlag k then
                    (case set_value g k name (case val of Some v \<Rightarrow> v | None \<Rightarrow> ''true'') vs of
                       Inl e \<Rightarrow> Inl e
                     | Inr vs' \<Rightarrow> flag_Parse g fs args vs')
                  else
                    (case val of
                       Some v \<Rightarrow> (case set_value g k name v vs of Inl e \<Rightarrow> Inl e | Inr vs' \<Rightarrow> flag_Parse g fs args vs')
                     | None \<Rightarrow>
                         (case args of
                            [] \<Rightarrow> Inl (Err (''flag needs an argument: -'' @ name))
                          | v # args' \<Rightarrow> (case set_value g k name v vs of Inl e \<Rightarrow> Inl e | Inr vs' \<Rightarrow> flag_Parse g fs args' vs'))))))"

definition flag_string :: "flag_settings \<Rightarrow> string \<Rightarrow> string \<Rightarrow> string" where
  "flag_string vs name d = (case map_of vs name of None \<Rightarrow> d | Some v \<Rightarrow> v)"

definition flag_bool :: "flag_settings \<Rightarrow> string \<Rightarrow> bool \<Rightarrow> bool" where
  "flag_bool vs name d = (case map_of vs name of None \<Rightarrow> d | Some v \<Rightarrow> ParseBool v = Some True)"

section \<open>Arguments written as name and value\<close>

lemma cut_value_eq: "n \<noteq> [] \<Longrightarrow> CHR ''='' \<notin> set n \<Longrightarrow> cut_value (n @ CHR ''='' # v) = (n, Some v)"
  by (cases n) (auto simp: cut_value_def Let_def takeWhile_append dropWhile_append)

definition flag_arg :: "string \<times> string \<Rightarrow> string" where
  "flag_arg p = ''--'' @ fst p @ CHR ''='' # snd p"

definition plain_name :: "string \<Rightarrow> bool" where
  "plain_name n = (n \<noteq> [] \<and> CHR ''='' \<notin> set n \<and> hd n \<noteq> CHR ''-'')"

lemma flag_Parse_arg:
  assumes "plain_name (fst p)" "map_of fs (fst p) = Some StringFlag"
  shows "flag_Parse g fs (flag_arg p # args) vs = flag_Parse g fs args (p # vs)"
proof -
  have n: "fst p \<noteq> []" "CHR ''='' \<notin> set (fst p)" "hd (fst p) \<noteq> CHR ''-''" using assms(1) by (auto simp: plain_name_def)
  then have h: "hd (fst p @ CHR ''='' # snd p) = hd (fst p)" "hd (fst p) \<noteq> CHR ''=''" by (simp, metis hd_in_set)
  show ?thesis
    using n h assms(2) by (simp add: flag_arg_def cut_value_eq set_value_def)
qed

text \<open>Every string flag written as \<open>--name=value\<close> gets its value, whatever the value holds.\<close>

lemma flag_Parse_args:
  "\<forall>p \<in> set ps. plain_name (fst p) \<and> map_of fs (fst p) = Some StringFlag \<Longrightarrow> flag_Parse g fs (map flag_arg ps) vs = Inr (rev ps @ vs)"
proof (induction ps arbitrary: vs)
  case (Cons p ps)
  then show ?case using flag_Parse_arg [of p fs g "map flag_arg ps" vs] by (simp del: flag_Parse.simps(2))
qed simp

end
