(* ===== verification/Tunnels.thy ===== *)
theory Tunnels
  imports Prelude
begin

text \<open>
  \<open>cmd/proxy/main.go\<close>: the tracker of the connections that CONNECT takes away from the HTTP server, and \<open>drain\<close>, which ends
  them when the proxy stops.

  Handlers, the HTTP server, \<open>drain\<close> and its watcher run at the same time, so the model is a step relation: one event is one section under the mutex of
  the tracker, one call of \<open>net.Conn.Close\<close>, or one change of the outside (a new connection, the end of the context). Any order of events is
  allowed. A connection is a number: the identity of the \<open>trackedConn\<close>, which is what both \<open>ConnState\<close> and \<open>onClose\<close> hand to the tracker.
\<close>

type_synonym conn = nat

section \<open>The tracker\<close>

text \<open>\<open>asleep\<close>: \<open>drain\<close> is in \<open>cond.Wait\<close> and nobody has broadcast since. There is only one waiter.\<close>

record mitm_tracker =
  conns :: "conn list"
  draining :: bool
  asleep :: bool

definition newMitmTracker :: mitm_tracker where
  "newMitmTracker = \<lparr>conns = [], draining = False, asleep = False\<rparr>"

definition Broadcast :: "mitm_tracker \<Rightarrow> mitm_tracker" where
  "Broadcast t = t\<lparr>asleep := False\<rparr>"

text \<open>The result says whether \<open>add\<close> goes on to close the connection, after it released the mutex.\<close>

definition tracker_add :: "conn \<Rightarrow> mitm_tracker \<Rightarrow> bool \<times> mitm_tracker" where
  "tracker_add c t = (if draining t then (True, t) else (False, t\<lparr>conns := List.insert c (conns t)\<rparr>))"

definition tracker_remove :: "conn \<Rightarrow> mitm_tracker \<Rightarrow> mitm_tracker" where
  "tracker_remove c t =
     (let t' = t\<lparr>conns := removeAll c (conns t)\<rparr> in if conns t' = [] then Broadcast t' else t')"

text \<open>Where \<open>drain\<close> is: not called, before its lock, waiting or woken, about to close the rest, between the close of a connection and its callback, returned.\<close>

datatype drain_pc = DrainIdle | DrainLock | DrainWait | DrainClose "conn list" | DrainOnce "conn list" conn | DrainDone

text \<open>The head of the loop of \<open>drain\<close>, with the mutex held: wait again, or take what is left.\<close>

definition drain_check :: "bool \<Rightarrow> mitm_tracker \<Rightarrow> drain_pc \<times> mitm_tracker" where
  "drain_check ctx_ended t =
     (if conns t \<noteq> [] \<and> \<not> ctx_ended then (DrainWait, t\<lparr>asleep := True\<rparr>) else (DrainClose (conns t), t))"

section \<open>Everything that runs\<close>

text \<open>
  \<open>accepted\<close>, \<open>hijacked\<close> and \<open>closed\<close> are the connections for which that has happened. \<open>rejected\<close> are those an \<open>add\<close> has refused
  and is about to close, \<open>in_close\<close> those for which some \<open>trackedConn.Close\<close> is before its \<open>once.Do\<close>, and \<open>fired\<close> those whose callback has run.
  \<open>watching\<close>: the watcher of \<open>drain\<close> is in its \<open>select\<close>; \<open>wakeup\<close>: the channel it selects on is closed.
\<close>

record tunnels =
  tracker :: mitm_tracker
  accepted :: "conn list"
  hijacked :: "conn list"
  rejected :: "conn list"
  in_close :: "conn list"
  closed :: "conn list"
  fired :: "conn list"
  ctx_ended :: bool
  watching :: bool
  wakeup :: bool
  pc :: drain_pc

definition no_tunnels :: tunnels where
  "no_tunnels =
     \<lparr>tracker = newMitmTracker, accepted = [], hijacked = [], rejected = [], in_close = [], closed = [], fired = [],
      ctx_ended = False, watching = False, wakeup = False, pc = DrainIdle\<rparr>"

text \<open>The two halves of \<open>trackedConn.Close\<close>: closing the connection, and the callback that runs once.\<close>

definition conn_close :: "conn \<Rightarrow> tunnels \<Rightarrow> tunnels" where
  "conn_close c s = s\<lparr>closed := List.insert c (closed s)\<rparr>"

definition once_Do :: "conn \<Rightarrow> tunnels \<Rightarrow> tunnels" where
  "once_Do c s = (if c \<in> set (fired s) then s else s\<lparr>fired := c # fired s, tracker := tracker_remove c (tracker s)\<rparr>)"

datatype tunnel_event =
    Accept conn
  | Hijack conn
  | CloseConn conn
  | CloseRejected conn
  | RunOnce conn
  | CtxEnd
  | DrainCall
  | DrainStep
  | Watcher

text \<open>One event, or nothing when it cannot happen. \<open>DrainStep\<close> is the next step of \<open>drain\<close>; the watcher broadcasts when the context has ended and stops when the channel is closed.\<close>

fun drain_step :: "tunnels \<Rightarrow> tunnels option" where
  "drain_step s =
     (case pc s of
        DrainIdle \<Rightarrow> None
      | DrainLock \<Rightarrow> (case drain_check (ctx_ended s) ((tracker s)\<lparr>draining := True\<rparr>) of (p, t) \<Rightarrow>
          Some (s\<lparr>tracker := t, pc := p, wakeup := (p \<noteq> DrainWait)\<rparr>))
      | DrainWait \<Rightarrow>
          if asleep (tracker s) then None
          else (case drain_check (ctx_ended s) (tracker s) of (p, t) \<Rightarrow> Some (s\<lparr>tracker := t, pc := p, wakeup := (p \<noteq> DrainWait)\<rparr>))
      | DrainClose [] \<Rightarrow> Some (s\<lparr>pc := DrainDone\<rparr>)
      | DrainClose (c # cs) \<Rightarrow> Some ((conn_close c s)\<lparr>pc := DrainOnce cs c\<rparr>)
      | DrainOnce cs c \<Rightarrow> Some ((once_Do c s)\<lparr>pc := DrainClose cs\<rparr>)
      | DrainDone \<Rightarrow> None)"

fun tunnel_step :: "tunnel_event \<Rightarrow> tunnels \<Rightarrow> tunnels option" where
  "tunnel_step (Accept c) s = (if c \<in> set (accepted s) then None else Some (s\<lparr>accepted := c # accepted s\<rparr>))"
| "tunnel_step (Hijack c) s =
     (if c \<notin> set (accepted s) \<or> c \<in> set (hijacked s) then None
      else (case tracker_add c (tracker s) of (refused, t) \<Rightarrow>
        Some (s\<lparr>tracker := t, hijacked := c # hijacked s, rejected := (if refused then c # rejected s else rejected s)\<rparr>)))"
| "tunnel_step (CloseConn c) s =
     (if c \<notin> set (accepted s) then None else Some ((conn_close c s)\<lparr>in_close := List.insert c (in_close s)\<rparr>))"
| "tunnel_step (CloseRejected c) s =
     (if c \<notin> set (rejected s) then None
      else Some ((conn_close c s)\<lparr>rejected := removeAll c (rejected s), in_close := List.insert c (in_close s)\<rparr>))"
| "tunnel_step (RunOnce c) s =
     (if c \<notin> set (in_close s) then None else Some ((once_Do c s)\<lparr>in_close := removeAll c (in_close s)\<rparr>))"
| "tunnel_step CtxEnd s = Some (s\<lparr>ctx_ended := True\<rparr>)"
| "tunnel_step DrainCall s = (if pc s \<noteq> DrainIdle then None else Some (s\<lparr>pc := DrainLock, watching := True\<rparr>))"
| "tunnel_step DrainStep s = drain_step s"
| "tunnel_step Watcher s =
     (if \<not> watching s then None
      else if ctx_ended s then Some (s\<lparr>tracker := Broadcast (tracker s), watching := False\<rparr>)
      else if wakeup s then Some (s\<lparr>watching := False\<rparr>)
      else None)"

inductive tunnel_reach :: "tunnels \<Rightarrow> bool" where
  start: "tunnel_reach no_tunnels"
| event: "tunnel_reach s \<Longrightarrow> tunnel_step ev s = Some s' \<Longrightarrow> tunnel_reach s'"

fun tunnel_run :: "tunnel_event list \<Rightarrow> tunnels \<Rightarrow> tunnels option" where
  "tunnel_run [] s = Some s"
| "tunnel_run (ev # evs) s = (case tunnel_step ev s of None \<Rightarrow> None | Some s' \<Rightarrow> tunnel_run evs s')"

lemma tunnel_run_reach: "tunnel_reach s \<Longrightarrow> tunnel_run evs s = Some s' \<Longrightarrow> tunnel_reach s'"
  by (induction evs arbitrary: s) (auto split: option.splits intro: tunnel_reach.event)

section \<open>The invariant\<close>

definition left_over :: "drain_pc \<Rightarrow> conn set" where
  "left_over p = (case p of DrainClose cs \<Rightarrow> set cs | DrainOnce cs c \<Rightarrow> set cs | _ \<Rightarrow> {})"

definition in_hand :: "drain_pc \<Rightarrow> conn set" where
  "in_hand p = (case p of DrainOnce cs c \<Rightarrow> {c} | _ \<Rightarrow> {})"

text \<open>\<open>drain\<close> is closing connections by force.\<close>

definition forced :: "drain_pc \<Rightarrow> bool" where
  "forced p = (case p of DrainClose cs \<Rightarrow> cs \<noteq> [] | DrainOnce cs c \<Rightarrow> True | _ \<Rightarrow> False)"

definition collected :: "drain_pc \<Rightarrow> bool" where
  "collected p = (p \<notin> {DrainIdle, DrainLock, DrainWait})"

definition tracks_all :: "tunnels \<Rightarrow> bool" where
  "tracks_all s =
     (set (hijacked s) \<subseteq> set (closed s) \<union> set (rejected s) \<union> set (conns (tracker s)) \<and>
      set (fired s) \<union> set (in_close s) \<subseteq> set (closed s) \<and>
      in_hand (pc s) \<subseteq> set (closed s) \<and>
      (collected (pc s) \<longrightarrow> set (conns (tracker s)) \<subseteq> set (closed s) \<union> left_over (pc s)) \<and>
      draining (tracker s) = (pc s \<notin> {DrainIdle, DrainLock}))"

text \<open>No wake-up is lost: a sleeping \<open>drain\<close> has connections to wait for and a watcher that will wake it; only an ended context makes it close anything.\<close>

definition sleeps_well :: "tunnels \<Rightarrow> bool" where
  "sleeps_well s =
     ((asleep (tracker s) \<longrightarrow> pc s = DrainWait \<and> conns (tracker s) \<noteq> [] \<and> watching s) \<and>
      (pc s \<noteq> DrainIdle \<and> \<not> watching s \<and> \<not> collected (pc s) \<longrightarrow> ctx_ended s) \<and>
      (wakeup s \<longrightarrow> collected (pc s)) \<and>
      (forced (pc s) \<longrightarrow> ctx_ended s))"

lemmas tunnel_defs = tracker_add_def tracker_remove_def drain_check_def conn_close_def once_Do_def Broadcast_def Let_def

text \<open>Changes of the tracker by \<open>add\<close> and by the callback.\<close>

lemma set_conns_remove [simp]: "set (conns (tracker_remove c t)) = set (conns t) - {c}"
proof -
  have "conns (tracker_remove c t) = removeAll c (conns t)" by (simp add: tracker_remove_def Let_def Broadcast_def)
  then show ?thesis by simp
qed

lemma remove_keeps [simp]: "draining (tracker_remove c t) = draining t"
  by (simp add: tracker_remove_def Let_def Broadcast_def)

lemma asleep_remove: "asleep (tracker_remove c t) \<Longrightarrow> asleep t \<and> conns (tracker_remove c t) \<noteq> []"
  by (auto simp: tracker_remove_def Let_def Broadcast_def split: if_splits)

lemma once_Do_keeps [simp]:
  "accepted (once_Do c s) = accepted s" "hijacked (once_Do c s) = hijacked s" "rejected (once_Do c s) = rejected s"
  "in_close (once_Do c s) = in_close s" "closed (once_Do c s) = closed s" "ctx_ended (once_Do c s) = ctx_ended s"
  "watching (once_Do c s) = watching s" "wakeup (once_Do c s) = wakeup s" "pc (once_Do c s) = pc s"
  "draining (tracker (once_Do c s)) = draining (tracker s)"
  "set (fired (once_Do c s)) = insert c (set (fired s))"
  by (auto simp: once_Do_def)

lemma once_Do_conns: "set (conns (tracker (once_Do c s))) \<subseteq> set (conns (tracker s))"
    "set (conns (tracker s)) \<subseteq> insert c (set (conns (tracker (once_Do c s))))"
  by (auto simp: once_Do_def)

lemma once_Do_asleep: "asleep (tracker (once_Do c s)) \<Longrightarrow> asleep (tracker s) \<and> (conns (tracker s) \<noteq> [] \<longrightarrow> conns (tracker (once_Do c s)) \<noteq> [])"
  using asleep_remove by (auto simp: once_Do_def split: if_splits)

lemma once_Do_tracks: "tracks_all s \<Longrightarrow> c \<in> set (closed s) \<Longrightarrow> tracks_all (once_Do c s)"
  using once_Do_conns [where c = c and s = s] unfolding tracks_all_def by (auto simp del: set_conns_remove)

lemma conn_close_tracks: "tracks_all s \<Longrightarrow> tracks_all (conn_close c s)"
  unfolding tracks_all_def conn_close_def by auto

lemma drain_step_tracks: "drain_step s = Some s' \<Longrightarrow> tracks_all s \<Longrightarrow> tracks_all s'"
proof (cases "pc s")
  case (DrainClose cs)
  assume "drain_step s = Some s'" "tracks_all s"
  then show ?thesis
    using DrainClose by (cases cs) (auto simp: tracks_all_def in_hand_def left_over_def collected_def conn_close_def)
next
  case (DrainOnce cs c)
  assume *: "drain_step s = Some s'" "tracks_all s"
  then have "tracks_all (once_Do c s)" using DrainOnce by (intro once_Do_tracks) (auto simp: tracks_all_def in_hand_def)
  then show ?thesis using * DrainOnce by (auto simp: tracks_all_def in_hand_def left_over_def collected_def)
qed (auto simp: tracks_all_def drain_check_def in_hand_def left_over_def collected_def split: if_splits)

lemma hijack_tracks: "tunnel_step (Hijack c) s = Some s' \<Longrightarrow> tracks_all s \<Longrightarrow> tracks_all s'"
proof (cases "draining (tracker s)")
  case False
  assume *: "tunnel_step (Hijack c) s = Some s'" "tracks_all s"
  then have "\<not> collected (pc s)" using False by (auto simp: tracks_all_def collected_def)
  with * False show ?thesis by (clarsimp simp: tracks_all_def tracker_add_def split: if_splits) blast
next
  case True
  assume "tunnel_step (Hijack c) s = Some s'" "tracks_all s"
  with True show ?thesis by (clarsimp simp: tracks_all_def tracker_add_def split: if_splits) blast
qed

lemma close_conn_tracks: "tunnel_step (CloseConn c) s = Some s' \<Longrightarrow> tracks_all s \<Longrightarrow> tracks_all s'"
  by (clarsimp simp: tracks_all_def conn_close_def split: if_splits) blast

lemma close_rejected_tracks: "tunnel_step (CloseRejected c) s = Some s' \<Longrightarrow> tracks_all s \<Longrightarrow> tracks_all s'"
  by (clarsimp simp: tracks_all_def conn_close_def split: if_splits) blast

lemma run_once_tracks: "tunnel_step (RunOnce c) s = Some s' \<Longrightarrow> tracks_all s \<Longrightarrow> tracks_all s'"
  using once_Do_tracks [of s c] by (clarsimp simp: tracks_all_def split: if_splits) blast

lemma other_tracks:
  "tunnel_step (Accept c) s = Some s' \<Longrightarrow> tracks_all s \<Longrightarrow> tracks_all s'"
  "tunnel_step CtxEnd s = Some s' \<Longrightarrow> tracks_all s \<Longrightarrow> tracks_all s'"
  "tunnel_step DrainCall s = Some s' \<Longrightarrow> tracks_all s \<Longrightarrow> tracks_all s'"
  "tunnel_step Watcher s = Some s' \<Longrightarrow> tracks_all s \<Longrightarrow> tracks_all s'"
  by (clarsimp simp: tracks_all_def Broadcast_def collected_def in_hand_def split: if_splits)+

lemmas step_tracks = hijack_tracks close_conn_tracks close_rejected_tracks run_once_tracks other_tracks
  drain_step_tracks [folded tunnel_step.simps(8)]

lemma tracks_all_step: "tunnel_step ev s = Some s' \<Longrightarrow> tracks_all s \<Longrightarrow> tracks_all s'"
  by (cases ev; hypsubst; erule (1) step_tracks)

lemma hijack_sleeps: "tunnel_step (Hijack c) s = Some s' \<Longrightarrow> tracks_all s \<Longrightarrow> sleeps_well s \<Longrightarrow> sleeps_well s'"
  by (cases "draining (tracker s)") (clarsimp simp: sleeps_well_def tracks_all_def tracker_add_def split: if_splits)+

lemma run_once_sleeps: "tunnel_step (RunOnce c) s = Some s' \<Longrightarrow> sleeps_well s \<Longrightarrow> sleeps_well s'"
  using once_Do_asleep [of c s] by (clarsimp simp: sleeps_well_def split: if_splits)

lemma other_sleeps:
  "tunnel_step (Accept c) s = Some s' \<Longrightarrow> sleeps_well s \<Longrightarrow> sleeps_well s'"
  "tunnel_step (CloseConn c) s = Some s' \<Longrightarrow> sleeps_well s \<Longrightarrow> sleeps_well s'"
  "tunnel_step (CloseRejected c) s = Some s' \<Longrightarrow> sleeps_well s \<Longrightarrow> sleeps_well s'"
  "tunnel_step CtxEnd s = Some s' \<Longrightarrow> sleeps_well s \<Longrightarrow> sleeps_well s'"
  "tunnel_step DrainCall s = Some s' \<Longrightarrow> sleeps_well s \<Longrightarrow> sleeps_well s'"
  "tunnel_step Watcher s = Some s' \<Longrightarrow> sleeps_well s \<Longrightarrow> sleeps_well s'"
  by (clarsimp simp: sleeps_well_def conn_close_def Broadcast_def collected_def forced_def split: if_splits)+

lemma drain_step_sleeps: "tunnel_step DrainStep s = Some s' \<Longrightarrow> sleeps_well s \<Longrightarrow> sleeps_well s'"
proof (cases "pc s")
  case (DrainClose cs)
  assume "tunnel_step DrainStep s = Some s'" "sleeps_well s"
  then show ?thesis
    using DrainClose by (cases cs) (auto simp: sleeps_well_def forced_def collected_def conn_close_def)
next
  case (DrainOnce cs c)
  assume "tunnel_step DrainStep s = Some s'" "sleeps_well s"
  then show ?thesis
    using DrainOnce once_Do_asleep [of c s] by (auto simp: sleeps_well_def forced_def collected_def)
qed (auto simp: sleeps_well_def drain_check_def forced_def collected_def split: if_splits)

lemmas step_sleeps = run_once_sleeps other_sleeps drain_step_sleeps

lemma sleeps_well_step: "tunnel_step ev s = Some s' \<Longrightarrow> tracks_all s \<Longrightarrow> sleeps_well s \<Longrightarrow> sleeps_well s'"
  by (cases ev; hypsubst; (erule (2) hijack_sleeps | erule (1) step_sleeps))

lemma tunnels_reach_ok: "tunnel_reach s \<Longrightarrow> tracks_all s \<and> sleeps_well s"
proof (induction rule: tunnel_reach.induct)
  case start
  show ?case
    by (simp add: tracks_all_def sleeps_well_def no_tunnels_def newMitmTracker_def collected_def in_hand_def forced_def)
next
  case (event s ev s')
  then show ?case using tracks_all_step sleeps_well_step by blast
qed

section \<open>What is left to do for drain\<close>

definition pc_work :: "nat \<Rightarrow> drain_pc \<Rightarrow> nat" where
  "pc_work n p =
     (case p of
        DrainIdle \<Rightarrow> 0
      | DrainLock \<Rightarrow> 2 * n + 2
      | DrainWait \<Rightarrow> 2 * n + 2
      | DrainClose cs \<Rightarrow> 2 * length cs + 1
      | DrainOnce cs c \<Rightarrow> 2 * length cs + 2
      | DrainDone \<Rightarrow> 0)"

definition drain_work :: "tunnels \<Rightarrow> nat" where
  "drain_work s = (if watching s then 1 else 0) + pc_work (length (conns (tracker s))) (pc s)"

lemma pc_work_mono: "m \<le> n \<Longrightarrow> pc_work m p \<le> pc_work n p"
  by (cases p) (simp_all add: pc_work_def)

text \<open>\<open>drain\<close> has nothing to wait for.\<close>

definition due :: "tunnels \<Rightarrow> bool" where
  "due s = (draining (tracker s) \<and> (ctx_ended s \<or> conns (tracker s) = []))"

definition own_step :: "tunnel_event \<Rightarrow> bool" where
  "own_step ev = (ev \<in> {DrainStep, Watcher})"

lemma conns_remove: "conns (tracker_remove c t) = removeAll c (conns t)"
  by (simp add: tracker_remove_def Let_def Broadcast_def)

lemma once_Do_shrinks:
  "length (conns (tracker (once_Do c s))) \<le> length (conns (tracker s))"
  "conns (tracker s) = [] \<Longrightarrow> conns (tracker (once_Do c s)) = []"
  by (simp_all add: once_Do_def conns_remove length_removeAll_less_eq)

text \<open>While \<open>drain\<close> has nothing to wait for, its own steps use up the work and no other step adds to it.\<close>

lemma drain_step_works: "tunnel_step DrainStep s = Some s' \<Longrightarrow> due s \<Longrightarrow> due s' \<and> drain_work s' < drain_work s"
proof (cases "pc s")
  case (DrainClose cs)
  assume "tunnel_step DrainStep s = Some s'" "due s"
  then show ?thesis using DrainClose by (cases cs) (auto simp: due_def drain_work_def pc_work_def conn_close_def)
next
  case (DrainOnce cs c)
  assume "tunnel_step DrainStep s = Some s'" "due s"
  then show ?thesis using DrainOnce once_Do_shrinks [where s = s and c = c] by (auto simp: due_def drain_work_def pc_work_def)
qed (auto simp: due_def drain_work_def pc_work_def drain_check_def split: if_splits)

lemma watcher_works: "tunnel_step Watcher s = Some s' \<Longrightarrow> due s \<Longrightarrow> due s' \<and> drain_work s' < drain_work s"
  by (auto simp: due_def drain_work_def Broadcast_def split: if_splits)

lemma run_once_works: "tunnel_step (RunOnce c) s = Some s' \<Longrightarrow> due s \<Longrightarrow> due s' \<and> drain_work s' \<le> drain_work s"
  using once_Do_shrinks [where s = s and c = c] by (auto simp: due_def drain_work_def intro: pc_work_mono split: if_splits)

lemma other_steps_work:
  "tunnel_step (Accept c) s = Some s' \<Longrightarrow> due s \<Longrightarrow> due s' \<and> drain_work s' \<le> drain_work s"
  "tunnel_step (Hijack c) s = Some s' \<Longrightarrow> due s \<Longrightarrow> due s' \<and> drain_work s' \<le> drain_work s"
  "tunnel_step (CloseConn c) s = Some s' \<Longrightarrow> due s \<Longrightarrow> due s' \<and> drain_work s' \<le> drain_work s"
  "tunnel_step (CloseRejected c) s = Some s' \<Longrightarrow> due s \<Longrightarrow> due s' \<and> drain_work s' \<le> drain_work s"
  "tunnel_step CtxEnd s = Some s' \<Longrightarrow> due s \<Longrightarrow> due s' \<and> drain_work s' \<le> drain_work s"
  by (clarsimp simp: due_def drain_work_def conn_close_def tracker_add_def split: if_splits)+

lemma drain_call_not_due: "tunnel_step DrainCall s = Some s' \<Longrightarrow> tracks_all s \<Longrightarrow> \<not> due s"
  by (auto simp: due_def tracks_all_def split: if_splits)

lemmas outside_works = run_once_works other_steps_work
lemmas own_works = drain_step_works watcher_works

lemma step_works:
  assumes "tunnel_step ev s = Some s'" "due s" "tracks_all s"
  shows "due s' \<and> drain_work s' + (if own_step ev then 1 else 0) \<le> drain_work s"
  using assms
  by (cases ev; hypsubst)
    ((drule (1) outside_works; simp add: own_step_def) | (drule (1) own_works; simp add: own_step_def) | (drule (1) drain_call_not_due; simp))+

lemma run_works:
  "tunnel_run evs s = Some s' \<Longrightarrow> due s \<Longrightarrow> tracks_all s \<Longrightarrow> length (filter own_step evs) + drain_work s' \<le> drain_work s"
proof (induction evs arbitrary: s)
  case (Cons ev evs)
  then obtain s1 where s1: "tunnel_step ev s = Some s1" "tunnel_run evs s1 = Some s'" by (auto split: option.splits)
  show ?case
    using Cons.IH [OF s1(2)] step_works [OF s1(1) Cons.prems(2,3)] tracks_all_step [OF s1(1) Cons.prems(3)]
    by (auto split: if_splits)
qed simp

lemma due_enabled:
  assumes "due s" "tracks_all s" "sleeps_well s" "pc s \<noteq> DrainDone"
  shows "\<exists>ev s'. own_step ev \<and> tunnel_step ev s = Some s'"
proof (cases "asleep (tracker s)")
  case True
  then have "watching s" "ctx_ended s" using assms(1,3) by (auto simp: sleeps_well_def due_def)
  then have "\<exists>s'. tunnel_step Watcher s = Some s'" by simp
  then show ?thesis by (auto simp: own_step_def)
next
  case False
  have "pc s \<noteq> DrainIdle" using assms(1,2) by (auto simp: due_def tracks_all_def)
  then have "\<exists>s'. tunnel_step DrainStep s = Some s'"
    using False assms(4) by (auto split: drain_pc.splits list.splits prod.splits)
  then show ?thesis by (auto simp: own_step_def)
qed

section \<open>Stopping the proxy\<close>

text \<open>
  C12. When \<open>drain\<close> has returned, every connection a CONNECT took over is closed, or its \<open>add\<close> came during the drain and is just about to
  close it; before the context ends \<open>drain\<close> closes nothing, and it sleeps only while there are connections to wait for and somebody who will wake it. This
  holds for every order in which handlers, the HTTP server, the watcher and \<open>drain\<close> run.
\<close>

theorem drain_closes_tunnels:
  assumes "tunnel_reach s"
  shows "(pc s = DrainDone \<longrightarrow> set (hijacked s) \<subseteq> set (closed s) \<union> set (rejected s)) \<and>
    (forced (pc s) \<longrightarrow> ctx_ended s) \<and>
    (asleep (tracker s) \<longrightarrow> conns (tracker s) \<noteq> [] \<and> watching s)"
  using tunnels_reach_ok [OF assms] by (auto simp: tracks_all_def sleeps_well_def collected_def left_over_def)

definition demo_stop :: "tunnel_event list" where
  "demo_stop =
     [Accept 1, Accept 2, Accept 3, Hijack 1, Hijack 2, DrainCall, DrainStep, CloseConn 2, RunOnce 2, Hijack 3, CtxEnd, Watcher,
      DrainStep, DrainStep, DrainStep, DrainStep]"

definition demo_stopped :: tunnels where
  "demo_stopped = the (tunnel_run demo_stop no_tunnels)"

lemma demo_stopped_reach: "tunnel_reach demo_stopped" "pc demo_stopped = DrainDone" "hijacked demo_stopped = [3, 2, 1]"
proof -
  have "tunnel_run demo_stop no_tunnels = Some demo_stopped" by code_simp
  then show "tunnel_reach demo_stopped" using tunnel_run_reach tunnel_reach.start by blast
  show "pc demo_stopped = DrainDone" "hijacked demo_stopped = [3, 2, 1]" by code_simp+
qed

theorem drain_closes_tunnels_witness: "{3, 2, 1} \<subseteq> set (closed demo_stopped) \<union> set (rejected demo_stopped)"
  using drain_closes_tunnels [OF demo_stopped_reach(1)] demo_stopped_reach(2,3) by simp

text \<open>
  C34. \<open>drain\<close> returns. Once it holds the tracker and either the context has ended or the last connection is gone, one of its own steps
  (of \<open>drain\<close> or of its watcher) can always run until it has returned, and whatever else happens in between, it returns after at most
  \<^term>\<open>drain_work s\<close> of them: two for each connection left and three more.
\<close>

theorem drain_returns:
  assumes "tunnel_reach s" "draining (tracker s)" "ctx_ended s \<or> conns (tracker s) = []"
  shows "(pc s = DrainDone \<or> (\<exists>ev s'. own_step ev \<and> tunnel_step ev s = Some s')) \<and>
    (\<forall>evs s'. tunnel_run evs s = Some s' \<longrightarrow> length (filter own_step evs) \<le> drain_work s)"
  using tunnels_reach_ok [OF assms(1)] assms(2,3) due_enabled [of s] run_works [of _ s] by (fastforce simp: due_def)

theorem drain_returns_witness:
  "\<exists>s. tunnel_run (take 12 demo_stop) no_tunnels = Some s \<and> drain_work s = 4 \<and>
     (\<forall>evs s'. tunnel_run evs s = Some s' \<longrightarrow> length (filter own_step evs) \<le> 4)"
proof -
  let ?s = "the (tunnel_run (take 12 demo_stop) no_tunnels)"
  have r: "tunnel_run (take 12 demo_stop) no_tunnels = Some ?s" by code_simp
  have w: "draining (tracker ?s)" "ctx_ended ?s" "drain_work ?s = 4" by code_simp+
  from drain_returns [OF tunnel_run_reach [OF tunnel_reach.start r] w(1)] w(2,3) r show ?thesis by metis
qed

end
