(* ===== verification/Network.thy ===== *)
theory Network
  imports Children
begin

text \<open>
  The network policies of the operator (\<open>children.go\<close> and \<open>proxy.go\<close> under \<open>internal/controller\<close>) and what they mean. The cluster network
  is not part of the program: it is the parameter \<open>delivers\<close>, of which only the documented meaning of a NetworkPolicy is assumed.
\<close>

section \<open>The meaning of network policies\<close>

text \<open>One end of a connection: a pod, by its namespace and labels, or anything outside of the cluster's pods.\<close>

datatype party = PodAt string labels | Outside

definition selects :: "labels \<Rightarrow> labels \<Rightarrow> bool" where
  "selects want have = list_all (\<lambda>(k, v). map_of have k = Some v) want"

text \<open>Policies apply to pods of their own namespace, and a peer that only selects pods is one of that namespace.\<close>

definition applies :: "string \<Rightarrow> netpol \<Rightarrow> party \<Rightarrow> bool" where
  "applies direction np x =
     (case x of
        Outside \<Rightarrow> False
      | PodAt ns ls \<Rightarrow> ns = obj_Namespace (np_Meta np) \<and> selects (PodSelector (np_Spec np)) ls \<and> direction \<in> set (np_PolicyTypes (np_Spec np)))"

definition peer_fits :: "netpol \<Rightarrow> labels \<Rightarrow> party \<Rightarrow> bool" where
  "peer_fits np sel x = (case x of Outside \<Rightarrow> False | PodAt ns ls \<Rightarrow> ns = obj_Namespace (np_Meta np) \<and> selects sel ls)"

text \<open>A rule without peers fits every peer and one without ports fits every port.\<close>

definition rule_fits :: "netpol \<Rightarrow> party \<Rightarrow> string \<times> int \<Rightarrow> np_rule \<Rightarrow> bool" where
  "rule_fits np x pp rule =
     ((Peers rule = [] \<or> list_ex (\<lambda>sel. peer_fits np sel x) (Peers rule)) \<and> (np_Ports rule = [] \<or> pp \<in> set (np_Ports rule)))"

text \<open>A pod that no policy applies to takes everything; otherwise one policy must have a rule that fits.\<close>

definition side_allows :: "string \<Rightarrow> (np_spec \<Rightarrow> np_rule list) \<Rightarrow> netpol list \<Rightarrow> party \<Rightarrow> party \<Rightarrow> string \<times> int \<Rightarrow> bool" where
  "side_allows direction rules nps x peer pp =
     (let mine = filter (\<lambda>np. applies direction np x) nps in
      mine = [] \<or> list_ex (\<lambda>np. list_ex (rule_fits np peer pp) (rules (np_Spec np))) mine)"

definition np_allows :: "netpol list \<Rightarrow> party \<Rightarrow> party \<Rightarrow> string \<times> int \<Rightarrow> bool" where
  "np_allows nps src dst pp = (side_allows ''Egress'' Egress nps src dst pp \<and> side_allows ''Ingress'' Ingress nps dst src pp)"

section \<open>The policies of the instances\<close>

definition sandbox_np :: "climcp_instance \<Rightarrow> netpol" where
  "sandbox_np inst =
     \<lparr>np_Meta = new_meta (inst_Namespace inst) (sandboxSAName (inst_Name inst)), np_Spec = sandbox_np_spec (inst_Name inst)\<rparr>"

definition proxy_np :: "climcp_instance \<Rightarrow> netpol" where
  "proxy_np inst = \<lparr>np_Meta = new_meta (inst_Namespace inst) (proxyName (inst_Name inst)), np_Spec = proxyIngressSpec (inst_Name inst)\<rparr>"

definition operator_netpols :: "climcp_instance list \<Rightarrow> netpol list" where
  "operator_netpols insts = concat (map (\<lambda>inst. [sandbox_np inst, proxy_np inst]) insts)"

text \<open>The pods of an instance, by the labels of one of its components.\<close>

definition member :: "climcp_instance \<Rightarrow> (string \<Rightarrow> labels) \<Rightarrow> party \<Rightarrow> bool" where
  "member inst component x = (case x of Outside \<Rightarrow> False | PodAt ns ls \<Rightarrow> ns = inst_Namespace inst \<and> selects (component (inst_Name inst)) ls)"

lemma component_labels:
  "selects (sandboxLabels n) ls \<longleftrightarrow> map_of ls LabelInstance = Some n \<and> map_of ls LabelComponent = Some ComponentSandbox"
  "selects (proxyLabels n) ls \<longleftrightarrow> map_of ls LabelInstance = Some n \<and> map_of ls LabelComponent = Some ComponentProxy"
  "selects (serverLabels n) ls \<longleftrightarrow> map_of ls LabelInstance = Some n \<and> map_of ls LabelComponent = Some ComponentServer"
  by (simp_all add: selects_def sandboxLabels_def proxyLabels_def serverLabels_def)

lemma components_differ: "ComponentSandbox \<noteq> ComponentProxy" "ComponentSandbox \<noteq> ComponentServer" "ComponentProxy \<noteq> ComponentServer"
  by (simp_all add: ComponentSandbox_def ComponentProxy_def ComponentServer_def)

text \<open>A policy applies to the pods of its component, and its one rule fits one component on one port.\<close>

lemma np_applies:
  "applies ''Egress'' (sandbox_np i) x \<longleftrightarrow> member i sandboxLabels x" "applies ''Ingress'' (sandbox_np i) x \<longleftrightarrow> member i sandboxLabels x"
  "applies ''Ingress'' (proxy_np i) x \<longleftrightarrow> member i proxyLabels x"
  "applies ''Egress'' (proxy_np i) x \<longleftrightarrow> False"
  by (auto simp: applies_def member_def sandbox_np_def proxy_np_def sandbox_np_spec_def proxyIngressSpec_def new_meta_def split: party.splits)

lemma np_fits:
  "list_ex (rule_fits (sandbox_np i) peer pp) (Egress (np_Spec (sandbox_np i))) \<longleftrightarrow> member i proxyLabels peer \<and> pp = (''TCP'', ProxyListenPort)"
  "list_ex (rule_fits (sandbox_np i) peer pp) (Ingress (np_Spec (sandbox_np i))) \<longleftrightarrow> member i serverLabels peer \<and> pp = (''TCP'', sandboxAgentPort)"
  "list_ex (rule_fits (proxy_np i) peer pp) (Ingress (np_Spec (proxy_np i))) \<longleftrightarrow> member i sandboxLabels peer \<and> pp = (''TCP'', ProxyListenPort)"
  by (auto simp: rule_fits_def peer_fits_def member_def sandbox_np_def proxy_np_def sandbox_np_spec_def proxyIngressSpec_def sandboxEgress_def npPorts_def
      new_meta_def split: party.splits)

text \<open>A pod is a member of one component of one instance.\<close>

lemma member_same:
  assumes "member i c x" "member j c' x" "c \<in> {sandboxLabels, proxyLabels, serverLabels}" "c' \<in> {sandboxLabels, proxyLabels, serverLabels}"
  shows "inst_Namespace i = inst_Namespace j" "inst_Name i = inst_Name j" "c = c'"
  using assms components_differ by (auto simp: member_def component_labels split: party.splits)

lemma member_cong: "inst_Namespace i = inst_Namespace j \<Longrightarrow> inst_Name i = inst_Name j \<Longrightarrow> member i = member j"
  by (simp add: member_def fun_eq_iff split: party.splits)

lemma side_allows_iff:
  "side_allows direction rules (operator_netpols insts) x peer pp \<longleftrightarrow>
     (let mine = (\<lambda>np. applies direction np x); fits = (\<lambda>np. list_ex (rule_fits np peer pp) (rules (np_Spec np))) in
      (\<forall>i \<in> set insts. \<not> mine (sandbox_np i) \<and> \<not> mine (proxy_np i)) \<or>
      (\<exists>i \<in> set insts. mine (sandbox_np i) \<and> fits (sandbox_np i) \<or> mine (proxy_np i) \<and> fits (proxy_np i)))"
  unfolding side_allows_def operator_netpols_def Let_def filter_empty_conv list_ex_iff [of _ "filter _ _"] by auto

lemma sandbox_sides:
  assumes "inst \<in> set insts" "member inst sandboxLabels x"
  shows "side_allows ''Egress'' Egress (operator_netpols insts) x peer pp \<longleftrightarrow> member inst proxyLabels peer \<and> pp = (''TCP'', ProxyListenPort)" (is ?egress)
    "side_allows ''Ingress'' Ingress (operator_netpols insts) x peer pp \<longleftrightarrow> member inst serverLabels peer \<and> pp = (''TCP'', sandboxAgentPort)" (is ?ingress)
proof -
  have same: "member i c y \<longleftrightarrow> member inst c y" if "member i sandboxLabels x" for i c y
    using member_cong [OF member_same(1,2) [OF that assms(2)]] by simp
  have other: "\<not> member i proxyLabels x" for i
    using assms(2) components_differ by (auto simp: member_def component_labels split: party.splits)
  show ?egress ?ingress
    unfolding side_allows_iff Let_def np_fits np_applies using assms same other by blast+
qed

lemma proxy_side:
  assumes "inst \<in> set insts" "member inst proxyLabels x"
  shows "side_allows ''Ingress'' Ingress (operator_netpols insts) x peer pp \<longleftrightarrow> member inst sandboxLabels peer \<and> pp = (''TCP'', ProxyListenPort)"
proof -
  have same: "member i c y \<longleftrightarrow> member inst c y" if "member i proxyLabels x" for i c y
    using member_cong [OF member_same(1,2) [OF that assms(2)]] by simp
  have other: "\<not> member i sandboxLabels x" for i
    using assms(2) components_differ by (auto simp: member_def component_labels split: party.splits)
  show ?thesis
    unfolding side_allows_iff Let_def np_fits np_applies using assms same other by blast+
qed

text \<open>The paths the program needs are open.\<close>

lemma network_paths:
  assumes "inst \<in> set insts" "member inst sandboxLabels sandbox"
  shows "member inst proxyLabels p \<Longrightarrow> np_allows (operator_netpols insts) sandbox p (''TCP'', ProxyListenPort)"
    "member inst serverLabels srv \<Longrightarrow> np_allows (operator_netpols insts) srv sandbox (''TCP'', sandboxAgentPort)"
proof -
  have "side_allows ''Egress'' Egress (operator_netpols insts) srv sandbox (''TCP'', sandboxAgentPort)" if "member inst serverLabels srv"
    using that components_differ unfolding side_allows_iff Let_def np_applies by (auto simp: member_def component_labels split: party.splits)
  then show "member inst serverLabels srv \<Longrightarrow> np_allows (operator_netpols insts) srv sandbox (''TCP'', sandboxAgentPort)"
    using sandbox_sides [OF assms] by (simp add: np_allows_def)
qed (use sandbox_sides [OF assms] proxy_side [OF assms(1)] assms(2) in \<open>simp add: np_allows_def\<close>)


definition demo_pair :: "climcp_instance list" where
  "demo_pair = [demo_instance, demo_instance\<lparr>inst_Name := ''other''\<rparr>]"

definition demo_party :: "(string \<Rightarrow> labels) \<Rightarrow> party" where
  "demo_party component = PodAt (inst_Namespace demo_instance) (component (inst_Name demo_instance))"


end
