(* ===== verification/PoolLaws.thy ===== *)
theory PoolLaws
  imports Network Reconcile
begin

text \<open>
  What one pass over the warm pool and one pass over the idle sessions do to the pods of the cluster. The API is a parameter; the laws
  below are what its documentation promises while nobody else writes pods.
\<close>

section \<open>What a program does to the world\<close>

definition leads :: "('w \<Rightarrow> bool) \<Rightarrow> ('w, 'e, 'a) gio \<Rightarrow> ('a \<Rightarrow> 'w \<Rightarrow> bool) \<Rightarrow> bool" where
  "leads P m Q = (\<forall>s. P (world s) \<longrightarrow> (case run_state m s of (r, s') \<Rightarrow> Q r (world s')))"

lemma leads_ret: "(\<And>w. P w \<Longrightarrow> Q x w) \<Longrightarrow> leads P (ret x) Q"
  by (simp add: leads_def run_ret)

lemma leads_bind: "leads P m R \<Longrightarrow> (\<And>x. leads (R x) (f x) Q) \<Longrightarrow> leads P (State_Monad.bind m f) Q"
  by (force simp: leads_def run_bind split: prod.splits)

lemma leads_conseq: "leads P' m Q' \<Longrightarrow> (\<And>w. P w \<Longrightarrow> P' w) \<Longrightarrow> (\<And>r w. Q' r w \<Longrightarrow> Q r w) \<Longrightarrow> leads P m Q"
  by (fastforce simp: leads_def split: prod.splits)

lemma leads_call: "(\<And>w. P w \<Longrightarrow> Q (fst (f w)) (snd (f w))) \<Longrightarrow> leads P (call f ev) Q"
  by (force simp: leads_def call_def split: prod.splits)

lemma leads_ask: "(\<And>w. P w \<Longrightarrow> Q (fst (f w)) (snd (f w))) \<Longrightarrow> leads P (ask f) Q"
  by (force simp: leads_def ask_def split: prod.splits)

lemma leads_now: "(\<And>w r. P w \<Longrightarrow> Q r (snd (elapse e w))) \<Longrightarrow> leads P (time_Now e) Q"
  by (force simp: leads_def time_Now_def run_bind pass_def get_clock_def split: prod.splits)

lemma leads_try_then:
  "leads P m R \<Longrightarrow> (\<And>x. leads (R (Inr x)) (f x) Q) \<Longrightarrow> (\<And>err w. R (Inl err) w \<Longrightarrow> Q (Inl err) w) \<Longrightarrow> leads P (try_then m f) Q"
  unfolding try_then_def by (rule leads_bind, assumption) (auto split: sum.splits intro: leads_ret)

lemma leads_wrapping: "leads P m R \<Longrightarrow> (\<And>r w. R r w \<Longrightarrow> Q (wrap_err msg r) w) \<Longrightarrow> leads P (wrapping msg m) Q"
  unfolding wrapping_def by (rule leads_bind, assumption) (auto intro: leads_ret)

lemma leads_find: "leads P m (\<lambda>_. Q) \<Longrightarrow> leads P (find_obj m) (\<lambda>_. Q)"
  unfolding find_obj_def by (rule leads_bind, assumption) (auto intro: leads_ret)

section \<open>Pods in the cluster\<close>

definition key :: "pod \<Rightarrow> string \<times> string" where "key p = (pod_Namespace p, pod_Name p)"

definition reads_pods :: "'w op_env \<Rightarrow> ('w \<Rightarrow> pod list) \<Rightarrow> bool" where
  "reads_pods e store =
     (\<forall>w. distinct (map key (store w)) \<and>
        (\<forall>ns ls. client_List (pods e) ns (MatchingLabels ls) w = (Inr (filter (\<lambda>p. pod_Namespace p = ns \<and> selects ls (Labels p)) (store w)), w)) \<and>
        (\<forall>ns n. case find (\<lambda>p. key p = (ns, n)) (store w) of
            Some p \<Rightarrow> client_Get (pods e) ns n w = (Inr p, w)
          | None \<Rightarrow> (\<exists>err. client_Get (pods e) ns n w = (Inl err, w) \<and> IsNotFound err)))"

text \<open>A pod that is deleted is gone at once or is marked and goes later.\<close>

definition removed :: "pod \<Rightarrow> pod list \<Rightarrow> pod list" where
  "removed p ps = filter (\<lambda>q. key q \<noteq> key p) ps"

definition marked :: "pod \<Rightarrow> int \<Rightarrow> string \<Rightarrow> pod list \<Rightarrow> pod list" where
  "marked p t v ps = map (\<lambda>q. if key q = key p then q\<lparr>DeletionTimestamp := Some t, ResourceVersion := v\<rparr> else q) ps"

text \<open>A delete whose preconditions hold works, or fails for a reason that is neither a conflict nor a missing pod and then changes nothing.\<close>

definition deletes_pods :: "'w op_env \<Rightarrow> ('w \<Rightarrow> pod list) \<Rightarrow> bool" where
  "deletes_pods e store =
     (\<forall>w. \<forall>p \<in> set (store w). case client_Delete (pods e) (pod_Namespace p) (pod_Name p) (Some (UID p, ResourceVersion p)) w of
        (Inr _, w') \<Rightarrow> store w' = removed p (store w) \<or> (\<exists>t v. store w' = marked p t v (store w))
      | (Inl err, w') \<Rightarrow> \<not> IsNotFound err \<and> \<not> IsConflict err \<and> store w' = store w)"

text \<open>A created pod keeps its metadata and starts pending.\<close>

definition starts :: "pod \<Rightarrow> pod \<Rightarrow> bool" where
  "starts p q = (key q = key p \<and> Labels q = Labels p \<and> Annotations q = Annotations p \<and> DeletionTimestamp q = None \<and> Phase q = ''Pending'' \<and> WaitingReasons q = [])"

definition creates_pods :: "'w op_env \<Rightarrow> ('w \<Rightarrow> pod list) \<Rightarrow> bool" where
  "creates_pods e store =
     (\<forall>w p. case client_Create (pods e) p w of
        (Inr q, w') \<Rightarrow> starts p q \<and> key p \<notin> key ` set (store w) \<and> store w' = store w @ [q]
      | (Inl err, w') \<Rightarrow> store w' = store w)"

text \<open>Nothing else the pass does touches pods.\<close>

definition leaves_pods :: "'w op_env \<Rightarrow> ('w \<Rightarrow> pod list) \<Rightarrow> bool" where
  "leaves_pods e store =
     (\<forall>w. store (snd (new_uuid e w)) = store w \<and> store (snd (elapse (runtime e) w)) = store w \<and>
        (\<forall>ns n. store (snd (client_Get (configmaps e) ns n w)) = store w \<and> store (snd (client_Get (netpols e) ns n w)) = store w \<and>
           store (snd (client_Get (services e) ns n w)) = store w \<and> store (snd (client_Get (secrets e) ns n w)) = store w) \<and>
        (\<forall>ns sel. store (snd (client_List (slices e) ns sel w)) = store w))"

definition quiet_api :: "'w op_env \<Rightarrow> ('w \<Rightarrow> pod list) \<Rightarrow> bool" where
  "quiet_api e store = (reads_pods e store \<and> deletes_pods e store \<and> creates_pods e store \<and> leaves_pods e store)"

section \<open>What a delete does to the pool\<close>

definition pool_member :: "climcp_instance \<Rightarrow> pod \<Rightarrow> bool" where
  "pool_member inst p = (pod_Namespace p = inst_Namespace inst \<and> selects (sandboxLabels (inst_Name inst)) (Labels p) \<and> \<not> isAssignedSandbox p)"

definition pool_pods :: "climcp_instance \<Rightarrow> pod list \<Rightarrow> pod list" where
  "pool_pods inst ps = filter (pool_member inst) ps"

definition live_members :: "climcp_instance \<Rightarrow> pod list \<Rightarrow> pod set" where
  "live_members inst ps = {p \<in> set ps. pool_member inst p \<and> DeletionTimestamp p = None}"

text \<open>A pod was deleted and takes \<open>n\<close> slots still.\<close>

definition dropped :: "pod list \<Rightarrow> pod \<Rightarrow> nat \<Rightarrow> pod list \<Rightarrow> bool" where
  "dropped st p n st' = (n = 0 \<and> st' = removed p st \<or> n = 1 \<and> (\<exists>t v. st' = marked p t v st))"

lemma key_update [simp]: "key (q\<lparr>DeletionTimestamp := t, ResourceVersion := v\<rparr>) = key q"
  by (simp add: key_def)

lemma key_unique: "distinct (map key st) \<Longrightarrow> p \<in> set st \<Longrightarrow> q \<in> set st \<Longrightarrow> key q = key p \<longleftrightarrow> q = p"
  by (auto simp: distinct_map inj_on_def)

lemma dropped_keys: "dropped st p n st' \<Longrightarrow> distinct (map key st) \<Longrightarrow> distinct (map key st')"
  by (auto simp: dropped_def removed_def marked_def distinct_map_filter comp_def if_distrib [of key] cong: if_cong)

lemma marked_differs: "DeletionTimestamp p = None \<Longrightarrow> p = p\<lparr>DeletionTimestamp := Some t, ResourceVersion := v\<rparr> \<Longrightarrow> False"
  by (cases p) simp

lemma dropped_split:
  assumes "dropped st p n st'" "distinct (map key st)" "p \<in> set st"
  obtains xs ys ps' where "st = xs @ p # ys" "st' = xs @ ps' @ ys" "p \<notin> set (xs @ ys)"
    "n = 0 \<and> ps' = [] \<or> n = 1 \<and> (\<exists>t v. ps' = [p\<lparr>DeletionTimestamp := Some t, ResourceVersion := v\<rparr>])"
proof -
  from assms(3) obtain xs ys where st: "st = xs @ p # ys" by (auto dest: split_list)
  with assms(2) have "key p \<notin> key ` set (xs @ ys)" by auto
  then have other: "key q \<noteq> key p" if "q \<in> set (xs @ ys)" for q using that image_eqI by metis
  have keep: "filter (\<lambda>q. key q \<noteq> key p) zs = zs" "map (\<lambda>q. if key q = key p then f q else q) zs = zs" if "set zs \<subseteq> set (xs @ ys)" for zs f
    using other that by (auto simp: filter_id_conv subset_iff intro!: map_idI)
  have p: "p \<notin> set (xs @ ys)" using other by blast
  from assms(1) consider "n = 0" "st' = removed p st" | t v where "n = 1" "st' = marked p t v st" unfolding dropped_def by blast
  then show thesis
  proof cases
    case 1
    have "removed p st = xs @ [] @ ys" using keep(1) [of xs] keep(1) [of ys] by (simp add: st removed_def)
    with that [OF st _ p] 1 show ?thesis by simp
  next
    case 2
    have "marked p t v st = xs @ [p\<lparr>DeletionTimestamp := Some t, ResourceVersion := v\<rparr>] @ ys"
      using keep(2) [of xs] keep(2) [of ys] by (simp add: st marked_def)
    with that [OF st _ p] 2 show ?thesis by blast
  qed
qed

lemma dropped_assigned:
  assumes "dropped st p n st'" "distinct (map key st)" "p \<in> set st" "\<not> isAssignedSandbox p"
  shows "filter isAssignedSandbox st' = filter isAssignedSandbox st"
  using assms(4) by (rule_tac dropped_split [OF assms(1-3)]) (auto simp: isAssignedSandbox_def)

lemma dropped_pool:
  assumes "dropped st p n st'" "distinct (map key st)" "p \<in> set st" "pool_member inst p"
  shows "length (pool_pods inst st') + 1 = length (pool_pods inst st) + n"
  using assms(4) by (rule_tac dropped_split [OF assms(1-3)]) (auto simp: pool_pods_def pool_member_def isAssignedSandbox_def)

lemma dropped_live:
  assumes "dropped st p n st'" "distinct (map key st)" "p \<in> set st"
  shows "live_members inst st' = live_members inst st - {p}"
  by (rule dropped_split [OF assms]) (auto simp: live_members_def dest: marked_differs)

section \<open>Deleting pods of the pool\<close>

lemma api_get:
  assumes "quiet_api e store" "p \<in> set (store w)"
  shows "client_Get (pods e) (pod_Namespace p) (pod_Name p) w = (Inr p, w)"
proof -
  from assms(1) have d: "distinct (map key (store w))" and g: "case find (\<lambda>q. key q = (pod_Namespace p, pod_Name p)) (store w) of
      Some p' \<Rightarrow> client_Get (pods e) (pod_Namespace p) (pod_Name p) w = (Inr p', w)
    | None \<Rightarrow> (\<exists>err. client_Get (pods e) (pod_Namespace p) (pod_Name p) w = (Inl err, w) \<and> IsNotFound err)"
    unfolding quiet_api_def reads_pods_def by blast+
  have "find (\<lambda>q. key q = (pod_Namespace p, pod_Name p)) (store w) = Some p"
  proof (cases "find (\<lambda>q. key q = (pod_Namespace p, pod_Name p)) (store w)")
    case None
    with assms(2) show ?thesis by (auto simp: find_None_iff key_def)
  next
    case (Some q)
    then have "q \<in> set (store w)" "key q = key p" by (auto simp: find_Some_iff key_def)
    with key_unique [OF d assms(2)] Some show ?thesis by simp
  qed
  with g show ?thesis by simp
qed

lemma api_get_gone:
  assumes "quiet_api e store" "(ns, n) \<notin> key ` set (store w)"
  shows "\<exists>err. client_Get (pods e) ns n w = (Inl err, w) \<and> IsNotFound err"
proof -
  have "find (\<lambda>q. key q = (ns, n)) (store w) = None" using assms(2) by (auto simp: find_None_iff image_iff)
  moreover from assms(1) have "case find (\<lambda>q. key q = (ns, n)) (store w) of Some p \<Rightarrow> client_Get (pods e) ns n w = (Inr p, w)
    | None \<Rightarrow> (\<exists>err. client_Get (pods e) ns n w = (Inl err, w) \<and> IsNotFound err)"
    unfolding quiet_api_def reads_pods_def by blast
  ultimately show ?thesis by simp
qed

lemma api_delete:
  assumes "quiet_api e store" "p \<in> set (store w)"
    "client_Delete (pods e) (pod_Namespace p) (pod_Name p) (Some (UID p, ResourceVersion p)) w = (r, w')"
  shows "(\<exists>n. r = Inr () \<and> dropped (store w) p n (store w')) \<or> (\<exists>err. r = Inl err \<and> \<not> IsNotFound err \<and> \<not> IsConflict err)"
proof -
  from assms(1) have "\<forall>p \<in> set (store w). case client_Delete (pods e) (pod_Namespace p) (pod_Name p) (Some (UID p, ResourceVersion p)) w of
        (Inr _, w') \<Rightarrow> store w' = removed p (store w) \<or> (\<exists>t v. store w' = marked p t v (store w))
      | (Inl err, w') \<Rightarrow> \<not> IsNotFound err \<and> \<not> IsConflict err \<and> store w' = store w"
    by (simp add: quiet_api_def deletes_pods_def)
  from bspec [OF this assms(2)] assms(3)
  show ?thesis by (cases r) (auto simp: dropped_def)
qed

lemma deleteUnassigned_leads:
  assumes q: "quiet_api e store" and p: "p \<in> set st" "\<not> isAssignedSandbox p"
  shows "leads (\<lambda>w. store w = st) (deleteUnassignedIfStillUnassigned e p) (\<lambda>r w. r = Inr () \<longrightarrow> (\<exists>n. dropped st p n (store w)))"
  unfolding leads_def
proof (intro allI impI)
  fix s :: "('a, op_event) gsys"
  assume st: "store (world s) = st"
  obtain r w' where d: "client_Delete (pods e) (pod_Namespace p) (pod_Name p) (Some (UID p, ResourceVersion p)) (world s) = (r, w')"
    by fastforce
  from api_delete [OF q _ d] api_get [OF q, of p "world s"] d p st
  show "case run_state (deleteUnassignedIfStillUnassigned e p) s of (r, s') \<Rightarrow> r = Inr () \<longrightarrow> (\<exists>n. dropped st p n (store (world s')))"
    by (auto simp: deleteUnassignedIfStillUnassigned_def op_calls run_bind run_ret call_def)
qed

lemma dropped_slot:
  assumes q: "quiet_api e store" and "dropped st p n (store w)" "distinct (map key st)" "p \<in> set st" "\<not> isAssignedSandbox p"
  shows "(\<exists>err. n = 0 \<and> client_Get (pods e) (pod_Namespace p) (pod_Name p) w = (Inl err, w) \<and> IsNotFound err) \<or>
    (\<exists>fresh. n = 1 \<and> client_Get (pods e) (pod_Namespace p) (pod_Name p) w = (Inr fresh, w) \<and> \<not> isAssignedSandbox fresh)"
proof (cases rule: dropped_split [OF assms(2-4)])
  case (1 xs ys ps')
  from assms(3) 1(1) have k: "key p \<notin> key ` set (xs @ ys)" by auto
  show ?thesis
  proof (cases "n = 0")
    case True
    with 1 k have "(pod_Namespace p, pod_Name p) \<notin> key ` set (store w)" by (auto simp: key_def)
    from api_get_gone [OF q this] True show ?thesis by auto
  next
    case False
    with 1(4) obtain t v where ps: "ps' = [p\<lparr>DeletionTimestamp := Some t, ResourceVersion := v\<rparr>]" "n = 1" by blast
    with 1(2) have "p\<lparr>DeletionTimestamp := Some t, ResourceVersion := v\<rparr> \<in> set (store w)" by simp
    from api_get [OF q this] ps(2) assms(5) show ?thesis by (simp add: isAssignedSandbox_def)
  qed
qed

lemma occupies_leads:
  assumes q: "quiet_api e store" and st: "distinct (map key st)" "p \<in> set st" "\<not> isAssignedSandbox p"
  shows "leads (\<lambda>w. \<exists>n. dropped st p n (store w)) (unassignedOccupiesSlot e p)
    (\<lambda>r w. \<forall>b. r = Inr b \<longrightarrow> dropped st p (if b then 1 else 0) (store w))"
  unfolding leads_def
proof (intro allI impI)
  fix s :: "('a, op_event) gsys"
  assume "\<exists>n. dropped st p n (store (world s))"
  then obtain n where "dropped st p n (store (world s))" ..
  with dropped_slot [OF q this st]
  show "case run_state (unassignedOccupiesSlot e p) s of (r, s') \<Rightarrow> \<forall>b. r = Inr b \<longrightarrow> dropped st p (if b then 1 else 0) (store (world s'))"
    by (elim disjE exE conjE) (simp_all add: unassignedOccupiesSlot_def op_calls run_bind run_ret call_def)
qed

lemma delete_slot_leads:
  assumes q: "quiet_api e store" and st: "distinct (map key st)" "p \<in> set st" "\<not> isAssignedSandbox p"
  shows "leads (\<lambda>w. store w = st) (delete_slot e p) (\<lambda>r w. \<forall>n. r = Inr n \<longrightarrow> dropped st p n (store w))"
  unfolding delete_slot_def
proof (rule leads_try_then [OF deleteUnassigned_leads [OF q st(2,3)]])
  fix x
  have "leads (\<lambda>w. Inr x = Inr () \<longrightarrow> (\<exists>n. dropped st p n (store w))) (unassignedOccupiesSlot e p)
      (\<lambda>r w. \<forall>b. r = Inr b \<longrightarrow> dropped st p (if b then 1 else 0) (store w))"
    by (rule leads_conseq [OF occupies_leads [OF q st]]) simp_all
  then show "leads (\<lambda>w. Inr x = Inr () \<longrightarrow> (\<exists>n. dropped st p n (store w)))
      (try_then (unassignedOccupiesSlot e p) (\<lambda>occupies. ret (Inr (if occupies then 1 else 0)))) (\<lambda>r w. \<forall>n. r = Inr n \<longrightarrow> dropped st p n (store w))"
    by (rule leads_try_then) (auto intro!: leads_ret)
qed simp

section \<open>The pass over the pool\<close>

definition current :: "string \<Rightarrow> pod \<Rightarrow> bool" where
  "current hash p = (data_of (Annotations p) sandboxOverlayAnnotation = hash \<and> \<not> poolPodUnhealthy p)"

text \<open>
  What holds while the pass looks at the listed pods: \<open>ps\<close> is what is left to look at, \<open>t\<close> of the pods seen are terminating, \<open>live\<close> stay and
  \<open>slots\<close> were deleted and are still there.
\<close>

definition pool_inv :: "climcp_instance \<Rightarrow> string \<Rightarrow> pod list \<Rightarrow> nat \<Rightarrow> pod list \<Rightarrow> nat \<Rightarrow> pod list \<Rightarrow> nat \<Rightarrow> pod list \<Rightarrow> bool" where
  "pool_inv inst hash A c0 ps t live slots st =
     (distinct (map key st) \<and> filter isAssignedSandbox st = A \<and> length (pool_pods inst st) \<le> c0 \<and>
      length (pool_pods inst st) = t + length live + slots + length (filter isUnassignedSandbox ps) \<and>
      distinct (live @ live_unassigned ps) \<and> live_members inst st = set (live @ live_unassigned ps) \<and> list_all (current hash) live)"

lemma leads_state: "(\<And>st. I st \<Longrightarrow> leads (\<lambda>w. store w = st) m Q) \<Longrightarrow> leads (\<lambda>w. I (store w)) m Q"
  by (auto simp: leads_def)

lemma leads_inv_delete:
  assumes q: "quiet_api e store" and I: "\<And>st. I st \<Longrightarrow> distinct (map key st) \<and> p \<in> live_members inst st"
    and step: "\<And>st n st'. I st \<Longrightarrow> dropped st p n st' \<Longrightarrow> distinct (map key st') \<Longrightarrow> filter isAssignedSandbox st' = filter isAssignedSandbox st \<Longrightarrow>
      length (pool_pods inst st') + 1 = length (pool_pods inst st) + n \<Longrightarrow> live_members inst st' = live_members inst st - {p} \<Longrightarrow> n \<le> 1 \<Longrightarrow> J n st'"
  shows "leads (\<lambda>w. I (store w)) (delete_slot e p) (\<lambda>r w. \<forall>n. r = Inr n \<longrightarrow> J n (store w))"
proof (rule leads_state [where store = store and I = I])
  fix st
  assume st: "I st"
  with I have p: "distinct (map key st)" "p \<in> set st" "\<not> isAssignedSandbox p" "pool_member inst p"
    by (auto simp: live_members_def pool_member_def)
  show "leads (\<lambda>w. store w = st) (delete_slot e p) (\<lambda>r w. \<forall>n. r = Inr n \<longrightarrow> J n (store w))"
  proof (rule leads_conseq [OF delete_slot_leads [OF q p(1-3)]])
    fix r w
    assume d: "\<forall>n. r = Inr n \<longrightarrow> dropped st p n (store w)"
    show "\<forall>n. r = Inr n \<longrightarrow> J n (store w)"
    proof (intro allI impI)
      fix n
      assume "r = Inr n"
      with d have d: "dropped st p n (store w)" by simp
      moreover from d have "n \<le> 1" by (auto simp: dropped_def)
      ultimately show "J n (store w)"
        using dropped_keys [OF d p(1)] dropped_assigned [OF d p(1-3)] dropped_pool [OF d p(1,2,4)] dropped_live [OF d p(1,2)] by (intro step [OF st])
    qed
  qed simp
qed

lemma pool_inv_step:
  "isAssignedSandbox p \<Longrightarrow> pool_inv inst hash A c0 (p # ps) t live slots = pool_inv inst hash A c0 ps t live slots"
  "\<not> isAssignedSandbox p \<Longrightarrow> DeletionTimestamp p \<noteq> None \<Longrightarrow>
     pool_inv inst hash A c0 (p # ps) t live slots = pool_inv inst hash A c0 ps (Suc t) live slots"
  "\<not> isAssignedSandbox p \<Longrightarrow> DeletionTimestamp p = None \<Longrightarrow> current hash p \<Longrightarrow>
     pool_inv inst hash A c0 (p # ps) t live slots = pool_inv inst hash A c0 ps t (live @ [p]) slots"
  by (auto simp: fun_eq_iff pool_inv_def live_unassigned_def isUnassignedSandbox_def)

lemma scan_leads:
  assumes q: "quiet_api e store"
  shows "leads (\<lambda>w. pool_inv inst hash A c0 ps t live slots (store w)) (scan_pool e hash ps pre t live slots)
    (\<lambda>r w. \<forall>pre' t' live' slots'. r = (pre', Inr (t', live', slots')) \<longrightarrow> pool_inv inst hash A c0 [] t' live' slots' (store w))"
proof (induction ps arbitrary: pre t live slots)
  case Nil
  show ?case by (auto intro: leads_ret)
next
  case (Cons p ps)
  let ?P = "\<lambda>w. pool_inv inst hash A c0 (p # ps) t live slots (store w)"
  consider "isAssignedSandbox p" | "\<not> isAssignedSandbox p" "DeletionTimestamp p \<noteq> None"
    | "\<not> isAssignedSandbox p" "DeletionTimestamp p = None" "current hash p"
    | "\<not> isAssignedSandbox p" "DeletionTimestamp p = None" "\<not> current hash p" by blast
  then show ?case
  proof cases
    case 1
    with Cons.IH [of t live slots pre] show ?thesis by (simp add: isUnassignedSandbox_def pool_inv_step(1))
  next
    case 2
    with Cons.IH [of "Suc t" live slots pre] show ?thesis by (auto simp: isUnassignedSandbox_def pool_inv_step(2))
  next
    case 3
    with Cons.IH [of t "live @ [p]" slots pre] show ?thesis by (simp add: isUnassignedSandbox_def pool_inv_step(3) current_def)
  next
    case 4
    have "leads ?P (delete_slot e p) (\<lambda>r w. \<forall>n. r = Inr n \<longrightarrow> pool_inv inst hash A c0 ps t live (slots + n) (store w))"
      using 4 by (intro leads_inv_delete [OF q, of _ p inst]) (auto simp: pool_inv_def live_unassigned_def isUnassignedSandbox_def)
    then have "leads ?P (State_Monad.bind (delete_slot e p) (\<lambda>r. case r of Inl err \<Rightarrow> ret (pre2, Inl err)
        | Inr n \<Rightarrow> scan_pool e hash ps pre2 t live (slots + n)))
      (\<lambda>r w. \<forall>pre' t' live' slots'. r = (pre', Inr (t', live', slots')) \<longrightarrow> pool_inv inst hash A c0 [] t' live' slots' (store w))" for pre2
      by (rule leads_bind) (auto split: sum.splits intro: leads_ret Cons.IH)
    with 4 show ?thesis by (auto simp: isUnassignedSandbox_def current_def Let_def)
  qed
qed

lemma trim_leads:
  assumes q: "quiet_api e store"
  shows "leads (\<lambda>w. pool_inv inst hash A c0 [] t (xs @ live) slots (store w)) (trim_pool e xs slots)
    (\<lambda>r w. \<forall>slots'. r = Inr slots' \<longrightarrow> pool_inv inst hash A c0 [] t live slots' (store w))"
proof (induction xs arbitrary: slots)
  case Nil
  show ?case by (auto intro: leads_ret)
next
  case (Cons p xs)
  have "leads (\<lambda>w. pool_inv inst hash A c0 [] t ((p # xs) @ live) slots (store w)) (delete_slot e p)
      (\<lambda>r w. \<forall>n. r = Inr n \<longrightarrow> pool_inv inst hash A c0 [] t (xs @ live) (slots + n) (store w))"
    by (intro leads_inv_delete [OF q, of _ p inst]) (auto simp: pool_inv_def live_unassigned_def)
  then show ?case unfolding trim_pool.simps by (rule leads_try_then) (auto intro: Cons.IH)
qed

text \<open>How many pods the pool has and how many of them are live; all live ones are current.\<close>

definition pooled :: "climcp_instance \<Rightarrow> string \<Rightarrow> pod list \<Rightarrow> nat \<Rightarrow> nat \<Rightarrow> pod list \<Rightarrow> bool" where
  "pooled inst hash A c l st =
     (distinct (map key st) \<and> filter isAssignedSandbox st = A \<and> length (pool_pods inst st) = c \<and> card (live_members inst st) = l \<and>
      (\<forall>p \<in> live_members inst st. current hash p))"

lemma inv_pooled: "pool_inv inst hash A c0 [] t live slots st \<Longrightarrow> pooled inst hash A (t + length live + slots) (length live) st"
  by (auto simp: pool_inv_def pooled_def live_unassigned_def distinct_card list_all_iff)

definition for_pool :: "reconciler \<Rightarrow> climcp_instance \<Rightarrow> sandbox_config \<Rightarrow> bool" where
  "for_pool rc inst cfg = (\<exists>ip. cfg = (poolSandboxConfig (rec_Images rc) inst)\<lparr>ProxyClusterIP := ip\<rparr>)"

lemma for_pool_names: "for_pool rc inst cfg \<Longrightarrow> Namespace cfg = inst_Namespace inst \<and> InstanceName cfg = inst_Name inst"
  by (auto simp: for_pool_def poolSandboxConfig_def Let_def)

lemma built_member:
  assumes "BuildBasePodSpec g pq now n cfg = Inr p" "for_pool rc inst cfg" "own_pod e inst' (p\<lparr>Annotations := AList.update sandboxOverlayAnnotation hash a\<rparr>) = Inr p'" "starts p' q"
  shows "pool_member inst q" "current hash q" "DeletionTimestamp q = None"
proof -
  have l: "LabelComponent \<noteq> LabelInstance" "LabelSessionID \<noteq> LabelInstance" "LabelSessionID \<noteq> LabelComponent"
    by (simp_all add: LabelComponent_def LabelInstance_def LabelSessionID_def)
  from assms(1) have p: "pod_Namespace p = Namespace cfg" "Labels p = [(LabelComponent, ComponentSandbox), (LabelInstance, InstanceName cfg)]"
    by (auto simp: BuildBasePodSpec_def Let_def split: sum.splits)
  from assms(3) have p': "pod_Namespace p' = pod_Namespace p" "Labels p' = Labels p" "Annotations p' = AList.update sandboxOverlayAnnotation hash a"
    by (auto simp: own_pod_def split: sum.splits)
  from assms(2,4) p p' l show "pool_member inst q"
    by (auto dest!: for_pool_names simp: pool_member_def starts_def key_def component_labels isAssignedSandbox_def)
  from assms(4) p' show "current hash q"
    by (simp add: starts_def current_def poolPodUnhealthy_def HasUnhealthyWaiting_def data_of_def update_conv')
  from assms(4) show "DeletionTimestamp q = None" by (simp add: starts_def)
qed

lemma pooled_add:
  assumes "pooled inst hash A c l st" "pool_member inst q" "current hash q" "DeletionTimestamp q = None" "key q \<notin> key ` set st"
  shows "pooled inst hash A (Suc c) (Suc l) (st @ [q])"
proof -
  have "live_members inst (st @ [q]) = insert q (live_members inst st)" "q \<notin> live_members inst st" "finite (live_members inst st)"
    using assms by (auto simp: live_members_def)
  with assms show ?thesis by (auto simp: pooled_def pool_pods_def pool_member_def)
qed

lemma api_create:
  assumes "quiet_api e store" "client_Create (pods e) p w = (r, w')"
  shows "(\<exists>q. r = Inr q \<and> starts p q \<and> key p \<notin> key ` set (store w) \<and> store w' = store w @ [q]) \<or> (\<exists>err. r = Inl err)"
proof -
  from assms(1) have "case client_Create (pods e) p w of
        (Inr q, w') \<Rightarrow> starts p q \<and> key p \<notin> key ` set (store w) \<and> store w' = store w @ [q]
      | (Inl err, w') \<Rightarrow> store w' = store w"
    by (simp add: quiet_api_def creates_pods_def)
  with assms(2) show ?thesis by (cases r) auto
qed

lemma createPoolPod_leads:
  assumes q: "quiet_api e store" and cfg: "for_pool rc inst cfg"
  shows "leads (\<lambda>w. pooled inst hash A c l (store w)) (createPoolPod e inst cfg hash) (\<lambda>r w. r = Inr () \<longrightarrow> pooled inst hash A (Suc c) (Suc l) (store w))"
proof -
  let ?I = "\<lambda>w. pooled inst hash A c l (store w)"
  from q have s: "\<And>w. store (snd (new_uuid e w)) = store w" "\<And>w. store (snd (elapse (runtime e) w)) = store w"
    by (simp_all add: quiet_api_def leaves_pods_def)
  have c: "leads ?I (call (client_Create (pods e) p') ev) (\<lambda>r w. \<forall>x. r = Inr x \<longrightarrow> pooled inst hash A (Suc c) (Suc l) (store w))"
    if "BuildBasePodSpec g pq now n cfg = Inr p" "own_pod e inst (p\<lparr>Annotations := AList.update sandboxOverlayAnnotation hash a\<rparr>) = Inr p'" for g pq now n p a p' ev
  proof (rule leads_call, intro allI impI)
    fix w x
    assume I: "?I w" and x: "fst (client_Create (pods e) p' w) = Inr x"
    obtain w' where w: "client_Create (pods e) p' w = (Inr x, w')" using x by (metis prod.collapse)
    from api_create [OF q w] have n: "starts p' x" "key p' \<notin> key ` set (store w)" "store w' = store w @ [x]" by auto
    from n(1,2) have "key x \<notin> key ` set (store w)" by (simp add: starts_def)
    from pooled_add [OF I built_member [OF that(1) cfg that(2) n(1)] this] n(3) w
    show "pooled inst hash A (Suc c) (Suc l) (store (snd (client_Create (pods e) p' w)))" by simp
  qed
  have k: "leads ?I (try_then (wrapping ''create pool pod'' (create_obj (pods e) OnPod p')) (\<lambda>_. ret (Inr ())))
      (\<lambda>r w. r = Inr () \<longrightarrow> pooled inst hash A (Suc c) (Suc l) (store w))"
    if "BuildBasePodSpec g pq now n cfg = Inr p" "own_pod e inst (p\<lparr>Annotations := AList.update sandboxOverlayAnnotation hash a\<rparr>) = Inr p'" for g pq now n p a p'
    unfolding op_calls
    by (rule leads_try_then [where R = "\<lambda>r w. \<forall>x. r = Inr x \<longrightarrow> pooled inst hash A (Suc c) (Suc l) (store w)"], rule leads_wrapping, rule c [OF that])
      (auto intro: leads_ret)
  show ?thesis
    unfolding createPoolPod_def
    by (rule leads_bind [where R = "\<lambda>_. ?I"], rule leads_ask, simp add: s, rule leads_bind [where R = "\<lambda>_. ?I"], rule leads_now, simp add: s)
      (auto split: sum.splits intro!: leads_ret k)
qed

lemma fill_leads:
  assumes "quiet_api e store" "for_pool rc inst cfg"
  shows "leads (\<lambda>w. pooled inst hash A c l (store w)) (fill_pool e inst cfg hash n) (\<lambda>r w. r = Inr () \<longrightarrow> pooled inst hash A (c + n) (l + n) (store w))"
proof (induction n arbitrary: c l)
  case 0
  show ?case by (auto intro: leads_ret)
next
  case (Suc n)
  show ?case
    unfolding fill_pool.simps
    by (rule leads_try_then [OF createPoolPod_leads [OF assms]]) (auto intro: leads_conseq [OF Suc.IH [of "Suc c" "Suc l"]])
qed

lemma adjust_leads:
  assumes q: "quiet_api e store" and cfg: "for_pool rc inst cfg" and d: "0 < d"
  shows "leads (\<lambda>w. pool_inv inst hash A c0 [] t live slots (store w)) (adjust_pool e inst cfg hash d t live slots)
    (\<lambda>r w. r = Inr () \<longrightarrow> (\<exists>c l. pooled inst hash A c l (store w) \<and> d \<le> int c \<and> int c \<le> max d (int c0) \<and> int l \<le> d))"
proof -
  let ?live = "sort_key CreationTimestamp live"
  let ?surplus = "nat (min (max (int t + int (length ?live) + int slots - d) 0) (int (length ?live)))"
  let ?xs = "take ?surplus ?live" and ?ys = "drop ?surplus ?live"
  have start: "pool_inv inst hash A c0 [] t (?xs @ ?ys) slots st" if "pool_inv inst hash A c0 [] t live slots st" for st
    using that by (simp add: pool_inv_def live_unassigned_def list_all_iff)
  have trim: "leads (\<lambda>w. pool_inv inst hash A c0 [] t live slots (store w)) (trim_pool e ?xs slots)
      (\<lambda>r w. \<forall>s. r = Inr s \<longrightarrow> pool_inv inst hash A c0 [] t ?ys s (store w))"
    by (rule leads_conseq [OF trim_leads [OF q, of inst hash A c0 t ?xs ?ys slots]]) (fact start, assumption)
  have ys: "int (length ?ys) \<le> d" using d by (simp add: min_def max_def)
  show ?thesis
    unfolding adjust_pool_def Let_def
  proof (rule leads_try_then [OF trim])
    fix slots'
    let ?c = "t + length ?ys + slots'"
    let ?n = "nat (max (d - int t - int (length ?ys) - int slots') 0)"
    have n: "d \<le> int (?c + ?n)" "int (length ?ys + ?n) \<le> d" "?c \<le> c0 \<Longrightarrow> int (?c + ?n) \<le> max d (int c0)" using ys by linarith+
    have f: "leads (\<lambda>w. store w = st) (fill_pool e inst cfg hash ?n)
      (\<lambda>r w. r = Inr () \<longrightarrow> (\<exists>c l. pooled inst hash A c l (store w) \<and> d \<le> int c \<and> int c \<le> max d (int c0) \<and> int l \<le> d))"
      if "pool_inv inst hash A c0 [] t ?ys slots' st" for st
    proof -
      from that have "?c \<le> c0" by (simp add: pool_inv_def)
      with inv_pooled [OF that] n show ?thesis by (intro leads_conseq [OF fill_leads [OF q cfg, of hash A ?c "length ?ys"]]) blast+
    qed
    show "leads (\<lambda>w. \<forall>s. Inr slots' = Inr s \<longrightarrow> pool_inv inst hash A c0 [] t ?ys s (store w)) (fill_pool e inst cfg hash ?n)
      (\<lambda>r w. r = Inr () \<longrightarrow> (\<exists>c l. pooled inst hash A c l (store w) \<and> d \<le> int c \<and> int c \<le> max d (int c0) \<and> int l \<le> d))"
      using leads_state [OF f] by simp
  qed simp
qed

definition preserves :: "('w \<Rightarrow> bool) \<Rightarrow> ('w, 'e, 'a) gio \<Rightarrow> bool" where
  "preserves I m = leads I m (\<lambda>_. I)"

lemma preserves_rules:
  "preserves I (ret x)" "preserves I m \<Longrightarrow> preserves I (wrapping msg m)" "preserves I m \<Longrightarrow> preserves I (find_obj m)"
  "preserves I m' \<Longrightarrow> (\<And>x. preserves I (f x)) \<Longrightarrow> preserves I (try_then m' f)"
  unfolding preserves_def by (auto intro: leads_ret leads_wrapping leads_find leads_try_then)

lemma preserves_split:
  "(b \<Longrightarrow> preserves I m) \<Longrightarrow> (\<not> b \<Longrightarrow> preserves I m') \<Longrightarrow> preserves I (if b then m else m')"
  "preserves I m \<Longrightarrow> (\<And>x. preserves I (f x)) \<Longrightarrow> preserves I (case v of None \<Rightarrow> m | Some x \<Rightarrow> f x)"
  by (auto split: option.splits)

lemma preserves_reads:
  assumes "quiet_api e store"
  shows "preserves (\<lambda>w. store w = st) (get_obj (configmaps e) OnConfigMap ns n)" "preserves (\<lambda>w. store w = st) (get_obj (netpols e) OnNetpol ns n)"
    "preserves (\<lambda>w. store w = st) (get_obj (services e) OnService ns n)" "preserves (\<lambda>w. store w = st) (get_obj (secrets e) OnSecret ns n)"
    "preserves (\<lambda>w. store w = st) (list_objs (slices e) OnSlice ns sel)"
  using assms unfolding preserves_def op_calls quiet_api_def leaves_pods_def by (auto intro!: leads_call)

lemma proxyPoolOpen_preserves: "quiet_api e store \<Longrightarrow> preserves (\<lambda>w. store w = st) (proxyPoolOpen e inst)"
  unfolding proxyPoolOpen_def Let_def by (rule preserves_rules preserves_split preserves_reads | assumption)+

lemma for_pool_ip: "for_pool rc inst ((poolSandboxConfig (rec_Images rc) inst)\<lparr>ProxyClusterIP := ip\<rparr>)"
  by (auto simp: for_pool_def)

lemma for_pool_plain: "for_pool rc inst (poolSandboxConfig (rec_Images rc) inst)"
  unfolding for_pool_def by (rule exI [of _ "ProxyClusterIP (poolSandboxConfig (rec_Images rc) inst)"]) simp

lemma overlayInputs_leads:
  assumes "quiet_api e store"
  shows "leads (\<lambda>w. store w = st) (overlayInputs e rc inst)
    (\<lambda>r w. store w = st \<and> (\<forall>cfg dummy ca. r = Inr (cfg, dummy, ca) \<longrightarrow> for_pool rc inst cfg))"
proof -
  let ?cfg0 = "poolSandboxConfig (rec_Images rc) inst"
  have ip: "preserves (\<lambda>w. store w = st) (proxyClusterIP e inst)"
    unfolding proxyClusterIP_def Let_def by (rule preserves_rules preserves_split preserves_reads assms)+
  have c: "leads (\<lambda>w. store w = st) (if ProxyService ?cfg0 \<noteq> [] then try_then (proxyClusterIP e inst) (\<lambda>ip. ret (Inr (?cfg0\<lparr>ProxyClusterIP := ip\<rparr>)))
      else ret (Inr ?cfg0)) (\<lambda>r w. store w = st \<and> (\<forall>cfg. r = Inr cfg \<longrightarrow> for_pool rc inst cfg))"
    using ip unfolding preserves_def
    by (auto intro!: leads_ret leads_try_then for_pool_ip for_pool_plain)
  have rest: "leads (\<lambda>w. store w = st \<and> (\<forall>cfg'. Inr cfg = Inr cfg' \<longrightarrow> for_pool rc inst cfg'))
     (try_then m (\<lambda>dummy. try_then m' (\<lambda>sec. ret (Inr (cfg, dummy, f sec)))))
     (\<lambda>r w. store w = st \<and> (\<forall>cfg dummy ca. r = Inr (cfg, dummy, ca) \<longrightarrow> for_pool rc inst cfg))"
    if "preserves (\<lambda>w. store w = st) m" "preserves (\<lambda>w. store w = st) m'" for cfg f and m :: "('a, string option result) op" and m' :: "('a, ksecret option result) op"
  proof (cases "for_pool rc inst cfg")
    case True
    have "leads (\<lambda>w. store w = st) (try_then m (\<lambda>dummy. try_then m' (\<lambda>sec. ret (Inr (cfg, dummy, f sec)))))
       (\<lambda>r w. store w = st \<and> (\<forall>cfg dummy ca. r = Inr (cfg, dummy, ca) \<longrightarrow> for_pool rc inst cfg))"
      by (rule leads_try_then [OF that(1) [unfolded preserves_def]], rule leads_try_then [OF that(2) [unfolded preserves_def]])
        (use True in \<open>auto intro!: leads_ret\<close>)
    then show ?thesis by (rule leads_conseq) simp_all
  qed (simp add: leads_def)
  show ?thesis
    unfolding overlayInputs_def Let_def
    by (rule leads_try_then [OF c], rule rest) (rule preserves_rules preserves_split preserves_reads assms | simp)+
qed

lemma leads_pre: "(K \<Longrightarrow> leads P m Q) \<Longrightarrow> leads (\<lambda>w. P w \<and> K) m Q"
  by (auto simp: leads_def)

lemma observe_gate: "proxyGateClosed (observe_loop items snap) = proxyGateClosed snap"
  by (induction items snap rule: observe_loop.induct) (auto simp: Let_def)

lemma list_leads:
  assumes "quiet_api e store"
  shows "leads (\<lambda>w. I (store w)) (list_sandboxes e inst)
    (\<lambda>r w. \<exists>st. store w = st \<and> I st \<and> r = Inr (filter (\<lambda>p. pod_Namespace p = inst_Namespace inst \<and> selects (sandboxLabels (inst_Name inst)) (Labels p)) st))"
  unfolding list_sandboxes_def op_calls
  by (rule leads_call) (use assms in \<open>simp add: quiet_api_def reads_pods_def\<close>)

lemma observe_leads:
  assumes "quiet_api e store"
  shows "leads (\<lambda>w. K \<longrightarrow> I (store w)) (observeAfterMutate e inst d pre err) (\<lambda>r w. snd r = None \<longrightarrow> err = None \<and> (K \<longrightarrow> I (store w)))"
  unfolding observeAfterMutate_def
  by (rule leads_bind [OF list_leads [OF assms, of "\<lambda>st. K \<longrightarrow> I st"]]) (auto simp: Let_def intro!: leads_ret split: option.splits)

text \<open>The state before the scan.\<close>

lemma scan_start:
  assumes "quiet_api e store" "store w = st"
  shows "pool_inv inst hash (filter isAssignedSandbox st) (length (pool_pods inst st))
    (filter (\<lambda>p. pod_Namespace p = inst_Namespace inst \<and> selects (sandboxLabels (inst_Name inst)) (Labels p)) st) 0 [] 0 st"
proof -
  from assms have "distinct (map key st)" by (auto simp: quiet_api_def reads_pods_def)
  then have "distinct st" by (simp add: distinct_map)
  with \<open>distinct (map key st)\<close> show ?thesis
    by (auto simp: pool_inv_def pool_pods_def pool_member_def [abs_def] live_unassigned_def live_members_def isUnassignedSandbox_def conj_assoc)
qed

definition pool_settled :: "'w op_env \<Rightarrow> climcp_instance \<Rightarrow> pod list \<Rightarrow> string \<Rightarrow> pod list \<Rightarrow> bool" where
  "pool_settled e inst st hash st' =
     (let d = WarmPoolSize (Sandbox inst); before = length (pool_pods inst st) in
      \<exists>c l. pooled inst hash (filter isAssignedSandbox st) c l st' \<and> d \<le> int c \<and> int c \<le> max d (int before) \<and> int l \<le> d)"

lemma scan_adjust_leads:
  assumes q: "quiet_api e store" and cfg: "for_pool rc inst cfg" and d: "0 < WarmPoolSize (Sandbox inst)"
    and items: "items = filter (\<lambda>p. pod_Namespace p = inst_Namespace inst \<and> selects (sandboxLabels (inst_Name inst)) (Labels p)) st"
  shows "leads (\<lambda>w. store w = st)
    (State_Monad.bind (scan_pool e hash items pre0 0 [] 0) (\<lambda>sr. case sr of
        (pre, Inl err) \<Rightarrow> observeAfterMutate e inst (WarmPoolSize (Sandbox inst)) pre (Some err)
      | (pre, Inr (terminating, live, slots)) \<Rightarrow>
          State_Monad.bind (adjust_pool e inst cfg hash (WarmPoolSize (Sandbox inst)) terminating live slots)
            (\<lambda>r. observeAfterMutate e inst (WarmPoolSize (Sandbox inst)) pre (err_of r))))
    (\<lambda>r w. snd r = None \<longrightarrow> pool_settled e inst st hash (store w))"
proof (rule leads_bind)
  let ?A = "filter isAssignedSandbox st" and ?c0 = "length (pool_pods inst st)"
  show "leads (\<lambda>w. store w = st) (scan_pool e hash items pre0 0 [] 0)
    (\<lambda>r w. \<forall>pre' t' live' slots'. r = (pre', Inr (t', live', slots')) \<longrightarrow> pool_inv inst hash ?A ?c0 [] t' live' slots' (store w))"
    by (rule leads_conseq [OF scan_leads [OF q]]) (use scan_start [OF q] items in auto)
  fix sr :: "pool_snapshot \<times> (nat \<times> pod list \<times> nat) result"
  have fail: "leads P (observeAfterMutate e inst d' pre (Some err)) (\<lambda>r w. snd r = None \<longrightarrow> pool_settled e inst st hash (store w))" for P d' pre err
    by (rule leads_conseq [OF observe_leads [OF q, of False]]) auto
  have good: "leads (\<lambda>w. pool_inv inst hash ?A ?c0 [] t live slots (store w))
      (State_Monad.bind (adjust_pool e inst cfg hash (WarmPoolSize (Sandbox inst)) t live slots)
            (\<lambda>r. observeAfterMutate e inst (WarmPoolSize (Sandbox inst)) pre (err_of r)))
      (\<lambda>r w. snd r = None \<longrightarrow> pool_settled e inst st hash (store w))" for t live slots pre
  proof (rule leads_bind [OF adjust_leads [OF q cfg d]])
    fix r :: "unit result"
    show "leads (\<lambda>w. r = Inr () \<longrightarrow> (\<exists>c l. pooled inst hash ?A c l (store w) \<and> WarmPoolSize (Sandbox inst) \<le> int c \<and>
          int c \<le> max (WarmPoolSize (Sandbox inst)) (int ?c0) \<and> int l \<le> WarmPoolSize (Sandbox inst)))
        (observeAfterMutate e inst (WarmPoolSize (Sandbox inst)) pre (err_of r)) (\<lambda>r w. snd r = None \<longrightarrow> pool_settled e inst st hash (store w))"
      by (rule leads_conseq [OF observe_leads [OF q, of "r = Inr ()" "pool_settled e inst st hash"]]) (auto simp: pool_settled_def Let_def err_of_def split: sum.splits)
  qed
  show "leads (\<lambda>w. \<forall>pre' t' live' slots'. sr = (pre', Inr (t', live', slots')) \<longrightarrow> pool_inv inst hash ?A ?c0 [] t' live' slots' (store w))
    (case sr of
        (pre, Inl err) \<Rightarrow> observeAfterMutate e inst (WarmPoolSize (Sandbox inst)) pre (Some err)
      | (pre, Inr (terminating, live, slots)) \<Rightarrow>
          State_Monad.bind (adjust_pool e inst cfg hash (WarmPoolSize (Sandbox inst)) terminating live slots)
            (\<lambda>r. observeAfterMutate e inst (WarmPoolSize (Sandbox inst)) pre (err_of r)))
    (\<lambda>r w. snd r = None \<longrightarrow> pool_settled e inst st hash (store w))"
    by (auto split: prod.splits sum.splits intro: fail good)
qed

definition pool_done :: "'w op_env \<Rightarrow> reconciler \<Rightarrow> climcp_instance \<Rightarrow> pod list \<Rightarrow> pool_snapshot \<times> go_error option \<Rightarrow> pod list \<Rightarrow> bool" where
  "pool_done e rc inst st r st' =
     (snd r = None \<and> \<not> proxyGateClosed (fst r) \<longrightarrow> (\<exists>cfg dummy ca hash. for_pool rc inst cfg \<and>
       overlayHash (lib e) (marshal_overlay e) (sha256_hex e) cfg dummy ca = Inr hash \<and> pool_settled e inst st hash st'))"

lemma pool_done_other: "pool_done e rc inst st (snap, Some err) st'" "proxyGateClosed snap \<Longrightarrow> pool_done e rc inst st (snap, err') st'"
  by (simp_all add: pool_done_def)

lemma reconcilePool_leads:
  assumes q: "quiet_api e store" and d: "0 < WarmPoolSize (Sandbox inst)"
  shows "leads (\<lambda>w. store w = st) (reconcilePool e rc inst True) (\<lambda>r w. pool_done e rc inst st r (store w))"
  (is "leads ?I _ ?Q")
proof -
  let ?d = "WarmPoolSize (Sandbox inst)"
  let ?items = "filter (\<lambda>p. pod_Namespace p = inst_Namespace inst \<and> selects (sandboxLabels (inst_Name inst)) (Labels p)) st"
  let ?scan = "\<lambda>cfg hash. State_Monad.bind (scan_pool e hash ?items (observePool ?items ?d) 0 [] 0) (\<lambda>sr. case sr of
        (pre, Inl err) \<Rightarrow> observeAfterMutate e inst ?d pre (Some err)
      | (pre, Inr (terminating, live, slots)) \<Rightarrow>
          State_Monad.bind (adjust_pool e inst cfg hash ?d terminating live slots) (\<lambda>r. observeAfterMutate e inst ?d pre (err_of r)))"
  have scan: "leads ?I (?scan cfg hash) ?Q" if "for_pool rc inst cfg" "overlayHash (lib e) (marshal_overlay e) (sha256_hex e) cfg dummy ca = Inr hash" for cfg dummy ca hash
    by (rule leads_conseq [OF scan_adjust_leads [OF q that(1) d refl]]) (use that in \<open>auto simp: pool_done_def\<close>)
  have fail: "leads P (ret (snap, Some err)) ?Q" for P snap err by (rule leads_ret) (rule pool_done_other)
  have closed: "leads P (ret (snap\<lparr>proxyGateClosed := True\<rparr>, err)) ?Q" for P snap err
    by (rule leads_ret) (simp add: pool_done_other)
  have inputs: "leads ?I (State_Monad.bind (overlayInputs e rc inst) (\<lambda>ir. case ir of
        Inl err \<Rightarrow> ret (observePool ?items ?d, Some err)
      | Inr (cfg, dummy, ca) \<Rightarrow> (case overlayHash (lib e) (marshal_overlay e) (sha256_hex e) cfg dummy ca of
           Inl err \<Rightarrow> ret (observePool ?items ?d, Some err)
         | Inr hash \<Rightarrow> if Image cfg = [] then ret (observePool ?items ?d, Some (Err msg)) else ?scan cfg hash))) ?Q" for msg
  proof (rule leads_bind [OF overlayInputs_leads [OF q]])
    fix ir :: "(sandbox_config \<times> string option \<times> string option) result"
    show "leads (\<lambda>w. store w = st \<and> (\<forall>cfg dummy ca. ir = Inr (cfg, dummy, ca) \<longrightarrow> for_pool rc inst cfg)) (case ir of
          Inl err \<Rightarrow> ret (observePool ?items ?d, Some err)
        | Inr (cfg, dummy, ca) \<Rightarrow> (case overlayHash (lib e) (marshal_overlay e) (sha256_hex e) cfg dummy ca of
             Inl err \<Rightarrow> ret (observePool ?items ?d, Some err)
           | Inr hash \<Rightarrow> if Image cfg = [] then ret (observePool ?items ?d, Some (Err msg)) else ?scan cfg hash)) ?Q"
      by (rule leads_pre) (auto split: sum.splits prod.splits intro: fail scan)
  qed
  have gate: "leads ?I (State_Monad.bind (proxyPoolOpen e inst) (\<lambda>op. case op of
        Inl err \<Rightarrow> ret (observePool ?items ?d, Some err)
      | Inr False \<Rightarrow> ret ((observePool ?items ?d)\<lparr>proxyGateClosed := ?d > 0\<rparr>, None)
      | Inr True \<Rightarrow> m)) ?Q" if "leads ?I m ?Q" for m
    by (rule leads_bind [OF proxyPoolOpen_preserves [OF q, unfolded preserves_def]])
      (use that d in \<open>auto split: sum.splits bool.splits intro: fail closed\<close>)
  show ?thesis
    unfolding reconcilePool_def Let_def
    by (rule leads_bind [OF list_leads [OF q, of "\<lambda>s. s = st"]]) (use d gate [OF inputs] in \<open>auto split: sum.splits intro: fail simp: leads_def\<close>)
qed


section \<open>A cluster that keeps the laws\<close>

fun keyed :: "pod list \<Rightarrow> pod list" where
  "keyed [] = []"
| "keyed (p # ps) = p # filter (\<lambda>q. key q \<noteq> key p) (keyed ps)"

lemma keyed_distinct: "distinct (map key (keyed ps))"
  by (induction ps) (auto simp: distinct_map_filter)

lemma keyed_id: "distinct (map key ps) \<Longrightarrow> keyed ps = ps"
  by (induction ps) (auto simp: filter_id_conv image_iff)

definition answering :: "'o result \<Rightarrow> 'o list result \<Rightarrow> ('w, 'o) client" where
  "answering g l =
     \<lparr>client_Get = (\<lambda>_ _ w. (g, w)), client_List = (\<lambda>_ _ w. (l, w)), client_Create = (\<lambda>x w. (Inr x, w)), client_Update = (\<lambda>x w. (Inr x, w)),
      client_StatusUpdate = (\<lambda>x w. (Inr x, w)), client_Delete = (\<lambda>_ _ _ w. (Inr (), w)), client_DeleteAllOf = (\<lambda>_ _ w. (Inr (), w)),
      client_CreateOrUpdate = (\<lambda>x f w. (f x, w))\<rparr>"

definition demo_pods :: "(pod list, pod) client" where
  "demo_pods =
     (answering (Inl (Err ''none'')) (Inr []))
       \<lparr>client_Get := (\<lambda>ns n w. (case find (\<lambda>p. key p = (ns, n)) (keyed w) of Some p \<Rightarrow> Inr p | None \<Rightarrow> Inl (KubeError NotFound ''gone''), w)),
        client_List := (\<lambda>ns sel w. (Inr (case sel of MatchingLabels ls \<Rightarrow> filter (\<lambda>p. pod_Namespace p = ns \<and> selects ls (Labels p)) (keyed w) | _ \<Rightarrow> []), w)),
        client_Create := (\<lambda>p w. if key p \<in> set (map key (keyed w)) then (Inl (Err ''exists''), w)
           else let q = p\<lparr>Phase := ''Pending'', WaitingReasons := [], DeletionTimestamp := None\<rparr> in (Inr q, keyed w @ [q])),
        client_Delete := (\<lambda>ns n pre w. (Inr (), map (\<lambda>q. if key q = (ns, n) then q\<lparr>DeletionTimestamp := Some 1, ResourceVersion := ''2''\<rparr> else q) (keyed w)))\<rparr>"

definition no_crypto :: "'w crypto" where
  "no_crypto =
     \<lparr>ecdsa_GenerateKey = (\<lambda>_ w. (Inl (Err []), w)), rand_Int = (\<lambda>_ w. (Inl (Err []), w)),
      x509_CreateCertificate = (\<lambda>_ _ _ _ w. (Inl (Err []), w)), x509_MarshalECPrivateKey = (\<lambda>_. Inl (Err [])),
      pem_EncodeToMemory = (\<lambda>_ _. [])\<rparr>"

definition demo_cluster :: "pod list op_env" where
  "demo_cluster =
     \<lparr>runtime = \<lparr>pods_List = (\<lambda>_ _ _ w. (Inr [], w)), pods_Get = (\<lambda>_ _ _ w. (Inl (Err []), w)), pods_Create = (\<lambda>_ _ p w. (Inr p, w)),
        pods_Patch = (\<lambda>_ _ _ _ w. (Inl (Err []), w)), pods_Delete = (\<lambda>_ _ _ _ w. (Inr (), w)), secrets_Create = (\<lambda>_ _ _ w. (Inr (), w)),
        secrets_Delete = (\<lambda>_ _ _ w. (Inr (), w)), slices_List = (\<lambda>_ _ _ w. (Inr [], w)), netpol_Get = (\<lambda>_ _ _ w. (Inl (Err []), w)),
        http_Do = (\<lambda>_ _ _ w. (Inl (Err []), w)), ctx_Err = (\<lambda>_ w. (None, w)), elapse = (\<lambda>w. (0, w)), poll_Ticks = (\<lambda>w. (0, w)),
        golang = ascii_lib, parse_Quantity = demo_pq, hmac_sha256_hex = (\<lambda>k sid. k @ sid), format_RFC3339 = (\<lambda>t. ''now''), marshal_exec = Command,
        marshal_assign = (\<lambda>t. t), unmarshal_exec_response = (\<lambda>b. Inl (Err []))\<rparr>,
      pods = demo_pods,
      secrets = answering (Inr \<lparr>sec_Meta = new_meta [] [], sec_Type = [], sec_Data = [(caCertKey, ''cert'')]\<rparr>) (Inr []),
      configmaps = answering (Inr \<lparr>cm_Meta = new_meta [] [], cm_Data = [(kubeconfigDataKey, ''dummy'')]\<rparr>) (Inr []),
      serviceaccounts = answering (Inl (Err [])) (Inr []), roles = answering (Inl (Err [])) (Inr []),
      rolebindings = answering (Inl (Err [])) (Inr []), clusterrolebindings = answering (Inl (Err [])) (Inr []),
      services = answering (Inr \<lparr>svc_Meta = new_meta [] [], Selector = [], ClusterIP = ''10.0.0.5'', svc_Ports = []\<rparr>) (Inr []),
      netpols = answering (Inr \<lparr>np_Meta = new_meta [] [], np_Spec = sandbox_np_spec ''a''\<rparr>) (Inr []),
      deployments = answering (Inl (Err [])) (Inr []),
      slices = answering (Inl (Err [])) (Inr [\<lparr>Endpoints = [\<lparr>Addresses = [''10.0.0.7''], ep_Ready = None\<rparr>]\<rparr>]),
      instances = answering (Inl (Err [])) (Inr []),
      new_uuid = (\<lambda>w. (Itoa (int (length w)), w)), rand_Read = (\<lambda>n w. (Inl (Err []), w)), crypto = no_crypto,
      SetControllerReference = (\<lambda>_ m. Inr (obj_Owners m)), ContainsFinalizer = (\<lambda>fs f. f \<in> set fs), AddFinalizer = (\<lambda>fs f. fs @ [f]),
      RemoveFinalizer = (\<lambda>fs f. removeAll f fs), SetStatusCondition = (\<lambda>now c cs. c # filter (\<lambda>x. cond_Type x \<noteq> cond_Type c) cs),
      FindStatusCondition = (\<lambda>cs t. find (\<lambda>c. cond_Type c = t) cs), labels_Parse = (\<lambda>s. Inr (LabelSelector s)), parse_RFC3339 = (\<lambda>s. Inl (Err [])),
      error_text = (\<lambda>_. ''error''), load_kubeconfig = (\<lambda>_. Inl (Err [])), write_kubeconfig = (\<lambda>_. Inl (Err [])), marshal_env = demo_marshal,
      marshal_routes = (\<lambda>_. Inr []), marshal_overlay = (\<lambda>_. Inr ''overlay''), sha256_hex = (\<lambda>s. ''hash''), marshal_krp = (\<lambda>_. Inr [])\<rparr>"

lemma demo_reads: "reads_pods demo_cluster keyed"
  unfolding reads_pods_def
  by (auto simp: keyed_distinct demo_cluster_def demo_pods_def answering_def is_reason_def split: option.splits)

lemma demo_deletes: "deletes_pods demo_cluster keyed"
proof -
  have "keyed (marked p 1 ''2'' (keyed w)) = marked p 1 ''2'' (keyed w)" for p w
  proof (rule keyed_id)
    show "distinct (map key (marked p 1 ''2'' (keyed w)))"
      using keyed_distinct [of w] by (simp add: marked_def comp_def if_distrib [of key] cong: if_cong)
  qed
  then show ?thesis
    unfolding deletes_pods_def demo_cluster_def demo_pods_def answering_def by (fastforce simp: marked_def key_def)
qed

lemma demo_creates: "creates_pods demo_cluster keyed"
proof -
  have "keyed (keyed w @ [q]) = keyed w @ [q]" if "key q \<notin> key ` set (keyed w)" for q w
    by (rule keyed_id) (use that keyed_distinct [of w] in auto)
  then show ?thesis
    unfolding creates_pods_def demo_cluster_def demo_pods_def answering_def by (auto simp: starts_def Let_def key_def)
qed

lemma demo_cluster_quiet: "quiet_api demo_cluster keyed"
  unfolding quiet_api_def using demo_reads demo_deletes demo_creates
  by (simp add: leaves_pods_def demo_cluster_def answering_def)

definition demo_members :: "pod list" where
  "demo_members =
     [demo_pod\<lparr>pod_Name := ''p1'', Labels := (LabelSessionID, ''s'') # sandboxLabels ''a''\<rparr>,
      demo_pod\<lparr>pod_Name := ''p2'', Labels := sandboxLabels ''a'', UID := ''u2''\<rparr>]"

definition demo_state :: "(pod list, op_event) gsys" where
  "demo_state = \<lparr>world = demo_members, clock = 0, log = [], cache = \<lparr>entries = [], ttl = 1\<rparr>, gate = \<lparr>gate_set = False, gate_at = 0, gate_err = None\<rparr>\<rparr>"

definition demo_reconciler :: reconciler where "demo_reconciler = \<lparr>rec_Images = demo_images, OnOpenShift = False\<rparr>"

text \<open>The states between the calls of the pass.\<close>

definition demo_config0 :: sandbox_config where
  "demo_config0 = (poolSandboxConfig demo_images demo_instance)\<lparr>ProxyClusterIP := ''10.0.0.5''\<rparr>"

definition demo_s1 :: "(pod list, op_event) gsys" where "demo_s1 = snd (run_state (list_sandboxes demo_cluster demo_instance) demo_state)"
definition demo_s2 :: "(pod list, op_event) gsys" where "demo_s2 = snd (run_state (proxyPoolOpen demo_cluster demo_instance) demo_s1)"
definition demo_s3 :: "(pod list, op_event) gsys" where "demo_s3 = snd (run_state (overlayInputs demo_cluster demo_reconciler demo_instance) demo_s2)"
definition demo_snap :: pool_snapshot where "demo_snap = (observePool demo_members 2)\<lparr>overlayRebuild := True\<rparr>"
definition demo_s4 :: "(pod list, op_event) gsys" where
  "demo_s4 = snd (run_state (scan_pool demo_cluster ''hash'' demo_members (observePool demo_members 2) 0 [] 0) demo_s3)"
definition demo_s5 :: "(pod list, op_event) gsys" where
  "demo_s5 = snd (run_state (adjust_pool demo_cluster demo_instance demo_config0 ''hash'' 2 0 [] 1) demo_s4)"
definition demo_s6 :: "(pod list, op_event) gsys" where
  "demo_s6 = snd (run_state (observeAfterMutate demo_cluster demo_instance 2 demo_snap None) demo_s5)"

lemma demo_list: "fst (run_state (list_sandboxes demo_cluster demo_instance) demo_state) = Inr demo_members"
  by code_simp

lemma demo_gate: "fst (run_state (proxyPoolOpen demo_cluster demo_instance) demo_s1) = Inr True"
  by code_simp

lemma demo_inputs: "fst (run_state (overlayInputs demo_cluster demo_reconciler demo_instance) demo_s2) = Inr (demo_config0, Some ''dummy'', Some ''cert'')"
  by code_simp

lemma demo_hash: "overlayHash (lib demo_cluster) (marshal_overlay demo_cluster) (sha256_hex demo_cluster) demo_config0 (Some ''dummy'') (Some ''cert'') = Inr ''hash''"
  by code_simp

lemma demo_image: "Image demo_config0 \<noteq> []" by code_simp

lemma demo_scan: "fst (run_state (scan_pool demo_cluster ''hash'' demo_members (observePool demo_members 2) 0 [] 0) demo_s3) = (demo_snap, Inr (0, [], 1))"
  by code_simp

lemma demo_adjust: "fst (run_state (adjust_pool demo_cluster demo_instance demo_config0 ''hash'' 2 0 [] 1) demo_s4) = Inr ()"
  by code_simp

lemma demo_observe: "snd (fst (run_state (observeAfterMutate demo_cluster demo_instance 2 demo_snap None) demo_s5)) = None"
  "proxyGateClosed (fst (fst (run_state (observeAfterMutate demo_cluster demo_instance 2 demo_snap None) demo_s5))) = False"
  by code_simp+

lemma demo_before: "length (pool_pods demo_instance (keyed demo_members)) = 1" by code_simp

lemma demo_world: "map (\<lambda>p. (pod_Name p, DeletionTimestamp p)) (world demo_s6) = [(''p1'', None), (''p2'', Some 1), (''cli-mcp-sandbox-2'', None)]"
  by code_simp

lemma run_pair: "fst (run_state m s) = r \<Longrightarrow> run_state m s = (r, snd (run_state m s))"
  by (cases "run_state m s") simp


section \<open>Idle sessions\<close>

definition deletion :: "op_event \<Rightarrow> (string \<times> string \<times> string) option" where
  "deletion ev =
     (case ev of
        OnPod (Deleted ns n _ _) \<Rightarrow> Some (''Pod'', ns, n)
      | OnSecret (Deleted ns n _ _) \<Rightarrow> Some (''Secret'', ns, n)
      | _ \<Rightarrow> None)"

text \<open>What goes with an expired pod: the pod, then the Secret of its session.\<close>

definition expired_objects :: "climcp_instance \<Rightarrow> pod \<Rightarrow> (string \<times> string \<times> string) list" where
  "expired_objects inst p =
     (''Pod'', pod_Namespace p, pod_Name p) #
     (let sid = data_of (Labels p) LabelSessionID in if sid = [] then [] else [(''Secret'', inst_Namespace inst, AuthSecretName sid)])"

definition idle_objects :: "'w op_env \<Rightarrow> climcp_instance \<Rightarrow> int \<Rightarrow> int \<Rightarrow> pod list \<Rightarrow> (string \<times> string \<times> string) list" where
  "idle_objects e inst now timeout ps = concat (map (expired_objects inst) (filter (\<lambda>p. idleExpired e p now timeout) ps))"

text \<open>A run logged new events which are deletions and start a list, and are all of it when there was no error.\<close>

definition deletes_of :: "(string \<times> string \<times> string) list \<Rightarrow> ('w, 'a result) op \<Rightarrow> bool" where
  "deletes_of xs m = (\<forall>s r s'. run_state m s = (r, s') \<longrightarrow> (\<exists>evs k. log s' = log s @ evs \<and> map deletion evs = map Some (take k xs) \<and> (isr r \<longrightarrow> length xs \<le> k)))"

lemma deletes_of_try:
  assumes "deletes_of xs m" "\<And>x. deletes_of ys (f x)"
  shows "deletes_of (xs @ ys) (try_then m f)"
  unfolding deletes_of_def
proof (intro allI impI)
  fix s r' s'
  assume run: "run_state (try_then m f) s = (r', s')"
  obtain r s1 where m: "run_state m s = (r, s1)" by fastforce
  with assms(1) obtain evs k where 1: "log s1 = log s @ evs" "map deletion evs = map Some (take k xs)" "isr r \<longrightarrow> length xs \<le> k"
    unfolding deletes_of_def by blast
  show "\<exists>evs k. log s' = log s @ evs \<and> map deletion evs = map Some (take k (xs @ ys)) \<and> (isr r' \<longrightarrow> length (xs @ ys) \<le> k)"
  proof (cases r)
    case (Inl err)
    with m 1 have "map deletion evs = map Some (take (min k (length xs)) (xs @ ys))" by (simp add: min_def)
    moreover from m run Inl have "s' = s1" "r' = Inl err" by (simp_all add: try_then_def run_bind run_ret)
    ultimately have "log s' = log s @ evs \<and> map deletion evs = map Some (take (min k (length xs)) (xs @ ys)) \<and> (isr r' \<longrightarrow> length (xs @ ys) \<le> min k (length xs))"
      using 1(1) by simp
    then show ?thesis by blast
  next
    case (Inr x)
    with m run have "run_state (f x) s1 = (r', s')" by (simp add: try_then_def run_bind)
    with assms(2) [of x] obtain evs2 k2 where 2: "log s' = log s1 @ evs2" "map deletion evs2 = map Some (take k2 ys)" "isr r' \<longrightarrow> length ys \<le> k2"
      unfolding deletes_of_def by blast
    have "log s' = log s @ evs @ evs2 \<and> map deletion (evs @ evs2) = map Some (take (length xs + k2) (xs @ ys)) \<and> (isr r' \<longrightarrow> length (xs @ ys) \<le> length xs + k2)"
      using 1 2 Inr by simp
    then show ?thesis by blast
  qed
qed

lemma deletes_of_ret: "deletes_of [] (ret x)"
  by (auto simp: deletes_of_def run_ret intro: exI [of _ "[]"])

lemma deletes_of_wrapping: "deletes_of xs m \<Longrightarrow> deletes_of xs (wrapping msg m)"
  unfolding deletes_of_def wrapping_def by (auto simp: run_bind run_ret split: prod.splits)

lemma deletes_of_call:
  assumes "\<And>r. deletion (ev r) = Some x"
  shows "deletes_of [x] (ignoring_not_found (call f ev))"
proof -
  have "map deletion [ev r] = map Some (take 1 [x])" for r using assms by simp
  moreover have "log s' = log s @ [ev r0]" if "run_state (ignoring_not_found (call f ev)) s = (r, s')" "f (world s) = (r0, w)" for s r s' r0 w
    using that by (auto simp: ignoring_not_found_def run_bind run_ret call_def)
  ultimately show ?thesis unfolding deletes_of_def by (metis One_nat_def le_refl length_Cons list.size(3) surj_pair)
qed

lemma gc_pod_deletes: "deletes_of (expired_objects inst p) (gc_pod e inst p)"
proof -
  have p: "deletes_of [(''Pod'', pod_Namespace p, pod_Name p)] (wrapping msg (ignoring_not_found (delete_obj (pods e) OnPod (pod_Namespace p) (pod_Name p) None)))" for msg
    unfolding op_calls by (rule deletes_of_wrapping, rule deletes_of_call) (simp add: deletion_def)
  have s: "deletes_of [(''Secret'', inst_Namespace inst, n)] (wrapping msg (ignoring_not_found (delete_obj (secrets e) OnSecret (inst_Namespace inst) n None)))" for n msg
    unfolding op_calls by (rule deletes_of_wrapping, rule deletes_of_call) (simp add: deletion_def)
  have "expired_objects inst p = [(''Pod'', pod_Namespace p, pod_Name p)] @
     (if data_of (Labels p) LabelSessionID = [] then [] else [(''Secret'', inst_Namespace inst, AuthSecretName (data_of (Labels p) LabelSessionID))])"
    by (simp add: expired_objects_def)
  then show ?thesis
    unfolding gc_pod_def Let_def by (simp only:) (rule deletes_of_try [OF p], simp only: deletes_of_ret s split: if_split, simp)
qed

lemma gc_loop_deletes: "deletes_of (idle_objects e inst now timeout ps) (gc_loop e inst now timeout ps)"
proof (induction ps)
  case Nil
  show ?case by (simp add: idle_objects_def deletes_of_ret)
next
  case (Cons p ps)
  with deletes_of_try [OF gc_pod_deletes] show ?case by (auto simp: idle_objects_def)
qed

text \<open>How long a session may still be idle; nothing for one that is gone, has no activity or has expired.\<close>

definition idle_left :: "'w op_env \<Rightarrow> int \<Rightarrow> int \<Rightarrow> pod \<Rightarrow> int option" where
  "idle_left e now timeout p =
     (if DeletionTimestamp p \<noteq> None \<or> \<not> isAssignedSandbox p then None
      else (case activityTime e p of None \<Rightarrow> None | Some at \<Rightarrow> if at + timeout \<le> now then None else Some (at + timeout - now)))"

definition idle_lefts :: "'w op_env \<Rightarrow> int \<Rightarrow> int \<Rightarrow> pod list \<Rightarrow> int list" where
  "idle_lefts e now timeout ps = List.map_filter (idle_left e now timeout) ps"

definition idle_next :: "'w op_env \<Rightarrow> int \<Rightarrow> int \<Rightarrow> pod list \<Rightarrow> int" where
  "idle_next e now timeout ps =
     (let left = idle_lefts e now timeout ps in if left = [] then 0 else max (Min (set left)) second)"

lemma idle_lefts_simps [simp]: "idle_lefts e now timeout [] = []"
  "idle_lefts e now timeout (p # ps) = (case idle_left e now timeout p of None \<Rightarrow> idle_lefts e now timeout ps | Some d \<Rightarrow> d # idle_lefts e now timeout ps)"
  by (simp_all add: idle_lefts_def List.map_filter_simps split: option.splits)

lemma idle_left_pos: "idle_left e now timeout p = Some d \<Longrightarrow> 0 < d"
  by (auto simp: idle_left_def split: if_splits option.splits)

lemma idle_lefts_pos: "d \<in> set (idle_lefts e now timeout ps) \<Longrightarrow> 0 < d"
  by (induction ps) (auto split: option.splits dest: idle_left_pos)

lemma soonest_step:
  "soonest_loop e (p # ps) now timeout m = soonest_loop e ps now timeout
     (case idle_left e now timeout p of None \<Rightarrow> m | Some d \<Rightarrow> if m = 0 \<or> d < m then d else m)"
  by (auto simp: idle_left_def isAssignedSandbox_def Let_def split: option.splits)

lemma soonest_loop_min:
  assumes "0 \<le> m"
  shows "soonest_loop e ps now timeout m =
    (let left = (if m = 0 then [] else [m]) @ idle_lefts e now timeout ps in if left = [] then 0 else Min (set left))"
  using assms
proof (induction ps arbitrary: m)
  case Nil
  then show ?case by simp
next
  case (Cons p ps)
  have min: "Min (insert x (insert y (set l))) = Min (insert (min x y) (set l))" for x y :: int and l
    by (cases l) (auto simp: min.assoc)
  show ?case
  proof (cases "idle_left e now timeout p")
    case None
    with Cons show ?thesis unfolding soonest_step by simp
  next
    case (Some d)
    let ?l = "idle_lefts e now timeout ps"
    consider "m = 0" | "m \<noteq> 0" "d < m" | "m \<noteq> 0" "\<not> d < m" by blast
    then show ?thesis
    proof cases
      case 2
      then have "Min (insert m (insert d (set ?l))) = Min (insert d (set ?l))" unfolding min by (simp add: min_absorb2)
      with 2 idle_left_pos [OF Some] Some Cons.IH [of d] show ?thesis unfolding soonest_step by simp
    next
      case 3
      then have "Min (insert m (insert d (set ?l))) = Min (insert m (set ?l))" unfolding min by (simp add: min_absorb1)
      with 3 idle_left_pos [OF Some] Some Cons.IH [of m] Cons.prems show ?thesis unfolding soonest_step by simp
    qed (use idle_left_pos [OF Some] Some Cons.IH [of d] in \<open>simp add: soonest_step del: soonest_loop.simps\<close>)
  qed
qed

lemma soonest_next: "soonestIdleRequeue e ps now timeout = idle_next e now timeout ps"
proof -
  let ?l = "idle_lefts e now timeout ps"
  have m: "Min (set ?l) \<noteq> 0" if "?l \<noteq> []"
  proof -
    from that have "Min (set ?l) \<in> set ?l" by (intro Min_in) simp_all
    then show ?thesis using idle_lefts_pos by fastforce
  qed
  have "soonest_loop e ps now timeout 0 = (if ?l = [] then 0 else Min (set ?l))"
    using soonest_loop_min [of 0 e ps now timeout] by simp
  with m show ?thesis by (simp add: soonestIdleRequeue_def idle_next_def minIdleRequeue_def Let_def)
qed

text \<open>
  C30. One pass over the idle sessions of an instance at the time \<open>now\<close>, whatever the API answers: the selector that does not parse is an error and
  nothing is done; otherwise the assigned pods are listed, and of the listed ones exactly those idle for the timeout or longer
  are deleted, in the order of the list, each followed by the Secret of its session. An error ends the pass, so the deletions are a first part of
  that; without an error they are all of it, and the next look is due when the first of the other sessions expires, in a second at the earliest, or never
  when no session is left to expire.
\<close>
theorem idle_gc_exact:
  "case run_state (gcIdleAssigned e inst now) (s\<lparr>log := []\<rparr>) of (r, s') \<Rightarrow>
   (case labels_Parse e (AssignedAnySelector (inst_Name inst)) of
      Inl err \<Rightarrow> isl r \<and> log s' = []
    | Inr sel \<Rightarrow>
        \<exists>answer evs. log s' = OnPod (Listed (inst_Namespace inst) sel answer) # evs \<and>
          (case answer of
             Inl err \<Rightarrow> isl r \<and> evs = []
           | Inr items \<Rightarrow>
               let timeout = idleTimeoutOrDefault (IdleTimeout (Sandbox inst)); objects = idle_objects e inst now timeout items in
               case r of
                 Inl err \<Rightarrow> \<exists>k. map deletion evs = map Some (take k objects)
               | Inr next \<Rightarrow> map deletion evs = map Some objects \<and> next = idle_next e now timeout items))"
proof (cases "labels_Parse e (AssignedAnySelector (inst_Name inst))")
  case (Inl err)
  then show ?thesis by (simp add: gcIdleAssigned_def Let_def run_ret)
next
  case (Inr sel)
  obtain answer w where a: "client_List (pods e) (inst_Namespace inst) sel (world s) = (answer, w)" by fastforce
  show ?thesis
  proof (cases answer)
    case (Inl err)
    with Inr a show ?thesis by (simp add: gcIdleAssigned_def Let_def try_then_def wrapping_def run_bind run_ret op_calls call_def)
  next
    case items: (Inr items)
    let ?t = "idleTimeoutOrDefault (IdleTimeout (Sandbox inst))"
    let ?s1 = "s\<lparr>world := w, log := [OnPod (Listed (inst_Namespace inst) sel (Inr items))]\<rparr>"
    obtain r s' where g: "run_state (gc_loop e inst now ?t items) ?s1 = (r, s')" by fastforce
    with gc_loop_deletes [of e inst now ?t items] obtain evs k where d: "log s' = log ?s1 @ evs"
      "map deletion evs = map Some (take k (idle_objects e inst now ?t items))" "isr r \<longrightarrow> length (idle_objects e inst now ?t items) \<le> k"
      unfolding deletes_of_def by blast
    from Inr a items g d show ?thesis
      by (cases r) (auto simp: gcIdleAssigned_def Let_def try_then_def wrapping_def run_bind run_ret op_calls call_def soonest_next)
  qed
qed

end
