(* ===== verification/ProxyMain.thy ===== *)
theory ProxyMain
  imports Flags Tunnels PoolLaws
begin

text \<open>
  \<open>cmd/proxy/main.go\<close> from the arguments to the exit code, and the way from the operator to a running proxy: the pod the operator writes, the
  files its volumes show and the CA \<open>generateProxyCA\<close> makes are what \<open>run\<close> reads and checks.

  \<open>read_file\<close>, the JSON decoder and \<open>clientcmd.Load\<close> are parameters, as in \<open>CredProxy\<close>. The listener, the first thing that ends the wait of \<open>serve\<close> and
  the result of \<open>http.Server.Shutdown\<close> are those of one run, the record \<open>serve_io\<close>. What \<open>drain\<close> does is theory \<open>Tunnels\<close>.
\<close>

section \<open>run and serve\<close>

text \<open>\<open>ServeEnded None\<close>: the server stopped with \<open>ErrServerClosed\<close>, which only closes the channel.\<close>

datatype serve_wake = GotSignal string | ServeEnded "go_error option"

record serve_io =
  net_Listen :: "string \<Rightarrow> unit result"
  serve_wakes :: serve_wake
  http_Shutdown :: "unit result"

datatype serve_action = Serving string | LogSignal string | CloseIdleConnections | Shutdown | Drain | Stopped

text \<open>The proxy server is built before the socket is opened.\<close>

definition serve_setup :: "golib \<Rightarrow> (string \<Rightarrow> (proxy_route list \<times> bool) result) \<Rightarrow> (string \<Rightarrow> kconfig result) \<Rightarrow> (string \<Rightarrow> string result) \<Rightarrow>
    string \<Rightarrow> string \<Rightarrow> string \<Rightarrow> route_table result" where
  "serve_setup g decode load read_file configPath caCertPath caKeyPath =
     (case LoadConfig g decode read_file configPath of
        Inl err \<Rightarrow> Inl err
      | Inr cfg \<Rightarrow>
          (case read_file caCertPath of
             Inl err \<Rightarrow> Inl (Wrap ''read CA cert'' err)
           | Inr caCert \<Rightarrow>
               (case read_file caKeyPath of
                  Inl err \<Rightarrow> Inl (Wrap ''read CA key'' err)
                | Inr caKey \<Rightarrow> NewServer g load read_file (Some cfg) caCert caKey)))"

definition serve_stop :: "serve_io \<Rightarrow> unit result \<times> serve_action list" where
  "serve_stop io =
     (case http_Shutdown io of
        Inl err \<Rightarrow> (Inl (Wrap ''shutdown'' err), [CloseIdleConnections, Shutdown, Drain])
      | Inr _ \<Rightarrow> (Inr (), [CloseIdleConnections, Shutdown, Drain, Stopped]))"

definition serve_wait :: "serve_io \<Rightarrow> string \<Rightarrow> unit result \<times> serve_action list" where
  "serve_wait io listen =
     (case serve_wakes io of
        GotSignal sig \<Rightarrow> (case serve_stop io of (r, acts) \<Rightarrow> (r, Serving listen # LogSignal sig # acts))
      | ServeEnded (Some err) \<Rightarrow> (Inl err, [Serving listen])
      | ServeEnded None \<Rightarrow> (case serve_stop io of (r, acts) \<Rightarrow> (r, Serving listen # acts)))"

definition serve :: "golib \<Rightarrow> (string \<Rightarrow> (proxy_route list \<times> bool) result) \<Rightarrow> (string \<Rightarrow> kconfig result) \<Rightarrow> (string \<Rightarrow> string result) \<Rightarrow> serve_io \<Rightarrow>
    string \<Rightarrow> string \<Rightarrow> string \<Rightarrow> string \<Rightarrow> unit result \<times> serve_action list" where
  "serve g decode load read_file io configPath caCertPath caKeyPath listen =
     (case serve_setup g decode load read_file configPath caCertPath caKeyPath of
        Inl err \<Rightarrow> (Inl err, [])
      | Inr _ \<Rightarrow>
          (case net_Listen io listen of
             Inl err \<Rightarrow> (Inl err, [])
           | Inr _ \<Rightarrow> serve_wait io listen))"

definition proxy_flags :: flag_set where
  "proxy_flags = [(''config'', StringFlag), (''ca-cert'', StringFlag), (''ca-key'', StringFlag), (''listen'', StringFlag)]"

definition proxy_run :: "golib \<Rightarrow> (string \<Rightarrow> (proxy_route list \<times> bool) result) \<Rightarrow> (string \<Rightarrow> kconfig result) \<Rightarrow> (string \<Rightarrow> string result) \<Rightarrow> serve_io \<Rightarrow>
    string list \<Rightarrow> unit result \<times> serve_action list" where
  "proxy_run g decode load read_file io args =
     (case flag_Parse g proxy_flags args [] of
        Inl err \<Rightarrow> (Inl err, [])
      | Inr vs \<Rightarrow>
          let configPath = flag_string vs ''config'' []; caCertPath = flag_string vs ''ca-cert'' []; caKeyPath = flag_string vs ''ca-key'' [] in
          if configPath = [] \<or> caCertPath = [] \<or> caKeyPath = [] then (Inl (Err ''--config, --ca-cert, and --ca-key are required''), [])
          else serve g decode load read_file io configPath caCertPath caKeyPath (flag_string vs ''listen'' '':8080''))"

text \<open>The exit code.\<close>

definition proxy_exit :: "unit result \<Rightarrow> nat" where
  "proxy_exit r = (case r of Inr _ \<Rightarrow> 0 | Inl err \<Rightarrow> if err = ErrHelp then 2 else 1)"

lemma serve_drains:
  "Drain \<in> set (snd (serve_wait io listen)) \<longleftrightarrow> (\<forall>err. serve_wakes io \<noteq> ServeEnded (Some err))"
  by (auto simp: serve_wait_def serve_stop_def split: serve_wake.splits option.splits sum.splits)

section \<open>The CA of the operator\<close>

text \<open>
  What the crypto libraries promise: a key generated on P-256 is on P-256; a certificate made from a template parses to its key usage, its CA bit, which
  needs valid basic constraints, and its public key; an EC key and a PEM block parse back to what was written.
\<close>

definition crypto_laws :: "golib \<Rightarrow> 'w crypto \<Rightarrow> bool" where
  "crypto_laws g c =
     ((\<forall>w k w'. ecdsa_GenerateKey c ''P-256'' w = (Inr k, w') \<longrightarrow> Curve k = ''P-256'' \<and> (\<exists>pt. Public k = EcdsaPublicKey ''P-256'' pt)) \<and>
      (\<forall>tmpl pub k w der w'. x509_CreateCertificate c tmpl tmpl pub k w = (Inr der, w') \<longrightarrow>
         x509_ParseCertificate g der =
           Inr \<lparr>IsCA = (BasicConstraintsValid tmpl \<and> tmpl_IsCA tmpl), KeyUsage = tmpl_KeyUsage tmpl, PublicKey = pub\<rparr>) \<and>
      (\<forall>k der. x509_MarshalECPrivateKey c k = Inr der \<longrightarrow> x509_ParseECPrivateKey g der = Inr k) \<and>
      (\<forall>ty \<in> {''CERTIFICATE'', ''EC PRIVATE KEY''}. \<forall>b. pem_Decode g (pem_EncodeToMemory c ty b) = Some (ty, b)))"

lemma ca_template_signs: "bit (tmpl_KeyUsage (proxy_ca_template serial now)) 5"
  by (simp add: proxy_ca_template_def KeyUsageCertSign_def KeyUsageCRLSign_def bit_or_iff)

lemma generated_ca:
  assumes "run_state (generateProxyCA e) s = (Inr (certPEM, keyPEM), s')"
  obtains key serial now w1 w2 w3 w4 der keyDER where
    "ecdsa_GenerateKey (crypto e) ''P-256'' w1 = (Inr key, w2)"
    "x509_CreateCertificate (crypto e) (proxy_ca_template serial now) (proxy_ca_template serial now) (Public key) key w3 = (Inr der, w4)"
    "x509_MarshalECPrivateKey (crypto e) key = Inr keyDER"
    "certPEM = pem_EncodeToMemory (crypto e) ''CERTIFICATE'' der" "keyPEM = pem_EncodeToMemory (crypto e) ''EC PRIVATE KEY'' keyDER"
    "certPEM \<noteq> []" "keyPEM \<noteq> []"
  using assms unfolding generateProxyCA_def try_then_def wrapping_def wrap_err_def Let_def
  by (auto simp: run_steps split: prod.splits sum.splits if_splits)

lemma generated_ca_parses:
  assumes "crypto_laws (lib e) (crypto e)" "run_state (generateProxyCA e) s = (Inr (certPEM, keyPEM), s')"
  shows "isr (parseCA (lib e) certPEM keyPEM)"
proof -
  obtain key serial now w1 w2 w3 w4 der keyDER where k: "ecdsa_GenerateKey (crypto e) ''P-256'' w1 = (Inr key, w2)"
    and c: "x509_CreateCertificate (crypto e) (proxy_ca_template serial now) (proxy_ca_template serial now) (Public key) key w3 = (Inr der, w4)"
    and m: "x509_MarshalECPrivateKey (crypto e) key = Inr keyDER"
    and p: "certPEM = pem_EncodeToMemory (crypto e) ''CERTIFICATE'' der" "keyPEM = pem_EncodeToMemory (crypto e) ''EC PRIVATE KEY'' keyDER"
    using generated_ca [OF assms(2)] by metis
  obtain pt where pt: "Curve key = ''P-256''" "Public key = EcdsaPublicKey ''P-256'' pt"
    using assms(1) k unfolding crypto_laws_def by blast
  let ?t = "proxy_ca_template serial now"
  have "x509_ParseCertificate (lib e) der =
      Inr \<lparr>IsCA = (BasicConstraintsValid ?t \<and> tmpl_IsCA ?t), KeyUsage = tmpl_KeyUsage ?t, PublicKey = Public key\<rparr>"
    using assms(1) c unfolding crypto_laws_def by blast
  moreover have "BasicConstraintsValid ?t" "tmpl_IsCA ?t" by (simp_all add: proxy_ca_template_def)
  moreover have "x509_ParseECPrivateKey (lib e) keyDER = Inr key" using assms(1) m unfolding crypto_laws_def by blast
  moreover have "pem_Decode (lib e) certPEM = Some (''CERTIFICATE'', der)" "pem_Decode (lib e) keyPEM = Some (''EC PRIVATE KEY'', keyDER)"
    using assms(1) unfolding crypto_laws_def p by blast+
  ultimately show ?thesis
    using pt ca_template_signs [of serial now] by (simp add: parseCA_def parseCertPEM_def parseKeyPEM_def)
qed

section \<open>From the instance to the pod\<close>

text \<open>The rules of the API server on the targets of an instance that the operator relies on here.\<close>

definition one_kubernetes_target :: "climcp_instance \<Rightarrow> bool" where
  "one_kubernetes_target inst = (length (filter (\<lambda>t. Type t = ProxyTargetKubernetes) (Targets inst)) \<le> 1)"

text \<open>What \<open>kubernetesRoutes\<close> returns: no routes, or the routes of the kubeconfig in the Secret it returns.\<close>

definition secret_routes :: "'w op_env \<Rightarrow> proxy_route list \<Rightarrow> ksecret option \<Rightarrow> bool" where
  "secret_routes e kr kube =
     (kr = [] \<or> (\<exists>sec. kube = Some sec \<and>
        BuildProxyRoutes (lib e) (load_kubeconfig e) (data_of (sec_Data sec) kubeconfigDataKey) proxyKubeconfigPath = Inr kr))"

lemma kubernetesRoutes_source:
  assumes "run_state (kubernetesRoutes e inst ca) s = (Inr (kr, dummy, kube), s')"
  shows "secret_routes e kr kube"
proof (cases "effectiveKubeconfigSecretName inst")
  case None
  then show ?thesis using assms by (simp add: kubernetesRoutes_def run_ret secret_routes_def)
next
  case (Some n)
  obtain r s1 where r: "run_state (getSecret e (inst_Namespace inst) n) s = (r, s1)" by (cases "run_state (getSecret e (inst_Namespace inst) n) s")
  show ?thesis
    using assms Some r
    by (auto simp: kubernetesRoutes_def try_then_def run_bind run_ret secret_routes_def Let_def secretKeyNonEmpty_def
      split: sum.splits if_splits option.splits)
qed

lemma load_allowlists:
  assumes "filter (\<lambda>t. Type t = ProxyTargetKubernetes) ts = []" "run_state (load_targets e inst ca ts acc) s = (Inr acc', s')"
  shows "acc' = acc"
  using assms
proof (induction ts arbitrary: acc s)
  case (Cons t ts)
  obtain a b c where "acc = (a, b, c)" by (cases acc)
  then show ?case using Cons by (auto simp: run_ret split: if_splits)
qed (simp add: run_ret)

lemma load_targets_source:
  assumes "length (filter (\<lambda>t. Type t = ProxyTargetKubernetes) ts) \<le> 1"
    and "run_state (load_targets e inst ca ts ([], d, k)) s = (Inr (kr, dummy, kube), s')"
  shows "secret_routes e kr kube"
  using assms
proof (induction ts arbitrary: s)
  case Nil
  then show ?case by (simp add: run_ret secret_routes_def)
next
  case (Cons t ts)
  show ?case
  proof (cases "Type t = ProxyTargetKubernetes")
    case False
    then show ?thesis using Cons by (auto simp: run_ret split: if_splits)
  next
    case True
    then have rest: "filter (\<lambda>t. Type t = ProxyTargetKubernetes) ts = []" and ne: "Type t \<noteq> ProxyTargetAllowlist"
      using Cons.prems(1) by (auto simp: ProxyTargetKubernetes_def ProxyTargetAllowlist_def)
    obtain r s1 where r: "run_state (kubernetesRoutes e inst ca) s = (r, s1)" by (cases "run_state (kubernetesRoutes e inst ca) s")
    with Cons.prems(2) True ne obtain kr1 d1 k1 where k1: "r = Inr (kr1, d1, k1)"
      and l: "run_state (load_targets e inst ca ts (kr1, d1, k1)) s1 = (Inr (kr, dummy, kube), s')"
      by (auto simp: try_then_def run_bind run_ret split: sum.splits)
    from load_allowlists [OF rest l] kubernetesRoutes_source [OF r [unfolded k1]] show ?thesis by simp
  qed
qed


text \<open>
  The files of a container: every key of a ConfigMap or Secret volume, or every item of its list of items, is a file below the mount path, with the
  data of the object.
\<close>

definition volume_files :: "(string \<times> string) list \<Rightarrow> t_volume_source \<Rightarrow> (string \<times> string) list" where
  "volume_files data src =
     (if vs_Items src = [] then data else [(path, data_of data k). (k, path) \<leftarrow> vs_Items src])"

definition shows_volumes :: "(string \<Rightarrow> string result) \<Rightarrow> (string \<Rightarrow> (string \<times> string) list) \<Rightarrow> (string \<Rightarrow> (string \<times> string) list) \<Rightarrow> t_pod_spec \<Rightarrow> bool" where
  "shows_volumes read_file cms secs sp =
     (\<forall>c \<in> set (ts_Containers sp). \<forall>m \<in> set (tc_VolumeMounts c). \<forall>v \<in> set (ts_Volumes sp). \<forall>src f x.
        tv_Name v = vm_Name m \<longrightarrow>
        (tv_ConfigMap v = Some src \<and> (f, x) \<in> set (volume_files (cms (vs_Name src)) src) \<or>
         tv_Secret v = Some src \<and> (f, x) \<in> set (volume_files (secs (vs_Name src)) src)) \<longrightarrow>
        read_file (MountPath m @ ''/'' @ f) = Inr x)"

text \<open>
  The objects in the cluster hold what the operator wrote and read for this build: the routes, the CA and the kubeconfig Secret.
\<close>

definition holds_build :: "'w op_env \<Rightarrow> climcp_instance \<Rightarrow> proxy_build \<Rightarrow> string \<Rightarrow> (string \<Rightarrow> (string \<times> string) list) \<Rightarrow> (string \<Rightarrow> (string \<times> string) list) \<Rightarrow> bool" where
  "holds_build e inst build raw cms secs =
     (marshal_routes e (pb_routes build) = Inr raw \<and>
      (proxyConfigDataKey, raw) \<in> set (cms (proxyName (inst_Name inst))) \<and>
      secs (proxyCASecretName (inst_Name inst)) = sec_Data (pb_ca build) \<and>
      (\<forall>sec. pb_kube build = Some sec \<longrightarrow> kubeSecretName build \<noteq> [] \<and> secs (kubeSecretName build) = sec_Data sec))"

lemma proxy_files:
  assumes "shows_volumes read_file cms secs (tt_Spec (proxyPodTemplate img (inst_Name inst) build cm))" "holds_build e inst build raw cms secs"
  shows "read_file (proxyConfigDir @ ''/'' @ proxyConfigDataKey) = Inr raw"
    and "(k, x) \<in> set (sec_Data (pb_ca build)) \<Longrightarrow> read_file (proxyCADir @ ''/'' @ k) = Inr x"
    and "pb_kube build = Some sec \<Longrightarrow> read_file proxyKubeconfigPath = Inr (data_of (sec_Data sec) kubeconfigDataKey)"
proof -
  let ?c = "hd (ts_Containers (tt_Spec (proxyPodTemplate img (inst_Name inst) build cm)))"
  note files = assms(1) [unfolded shows_volumes_def, rule_format, of ?c]
  note t = proxyPodTemplate_def proxyVolumeMounts_def proxyVolumes_def mount_def blank_volume_def vol_source_def volume_files_def
  note h = assms(2) [unfolded holds_build_def]
  show "read_file (proxyConfigDir @ ''/'' @ proxyConfigDataKey) = Inr raw"
    using files [of "mount ''proxy-config'' proxyConfigDir True"
        "(blank_volume ''proxy-config'')\<lparr>tv_ConfigMap := vol_source (proxyName (inst_Name inst)) []\<rparr>"] h
    by (simp add: t)
  show "(k, x) \<in> set (sec_Data (pb_ca build)) \<Longrightarrow> read_file (proxyCADir @ ''/'' @ k) = Inr x"
    using files [of "mount ''proxy-ca'' proxyCADir True"
        "(blank_volume ''proxy-ca'')\<lparr>tv_Secret := vol_source (proxyCASecretName (inst_Name inst)) []\<rparr>"] h
    by (simp add: t)
  assume "pb_kube build = Some sec"
  then show "read_file proxyKubeconfigPath = Inr (data_of (sec_Data sec) kubeconfigDataKey)"
    using files [of "mount ''kubeconfig'' proxyKubeDir True"
        "(blank_volume ''kubeconfig'')\<lparr>tv_Secret := vol_source (kubeSecretName build) [(kubeconfigDataKey, ''config'')]\<rparr>"] h
    by (simp add: t proxyKubeDir_def proxyKubeconfigPath_def)
qed


lemma proxy_args:
  "tc_Args (hd (ts_Containers (tt_Spec (proxyPodTemplate img n build cm)))) =
     map flag_arg [(''config'', proxyConfigDir @ ''/'' @ proxyConfigDataKey), (''ca-cert'', proxyCADir @ ''/'' @ caCertKey),
       (''ca-key'', proxyCADir @ ''/'' @ caKeyKey), (''listen'', '':8080'')]"
proof -
  have "Itoa ProxyListenPort = ''8080''" by code_simp
  then show ?thesis by (simp add: proxyPodTemplate_def flag_arg_def)
qed

lemma proxy_run_args:
  "proxy_run g decode load read_file io (tc_Args (hd (ts_Containers (tt_Spec (proxyPodTemplate img n build cm))))) =
     serve g decode load read_file io (proxyConfigDir @ ''/'' @ proxyConfigDataKey) (proxyCADir @ ''/'' @ caCertKey)
       (proxyCADir @ ''/'' @ caKeyKey) '':8080''"
  unfolding proxy_run_def proxy_args
  by (subst flag_Parse_args) (simp_all add: plain_name_def proxy_flags_def flag_string_def proxyConfigDir_def proxyCADir_def Let_def)


lemma BuildProxyRoutes_loads: "BuildProxyRoutes g load kube path = Inr kr \<Longrightarrow> \<exists>cfg. load kube = Inr cfg"
  by (auto simp: BuildProxyRoutes_def Validate_def split: sum.splits if_splits)

lemma build_routes:
  assumes "one_kubernetes_target inst" "run_state (loadProxyBuild e inst ca) s = (Inr build, s')"
  obtains kr ps where "collectProxyRoutes (lib e) (Targets inst) kr = (pb_routes build, ps)" "secret_routes e kr (pb_kube build)" "pb_ca build = ca"
proof -
  obtain r s1 where r: "run_state (load_targets e inst ca (Targets inst) ([], [], None)) s = (r, s1)"
    by (cases "run_state (load_targets e inst ca (Targets inst) ([], [], None)) s")
  with assms(2) obtain kr d k where k: "r = Inr (kr, d, k)"
    and b: "build = \<lparr>pb_routes = fst (collectProxyRoutes (lib e) (Targets inst) kr), pb_dummy = d, pb_kube = k, pb_ca = ca\<rparr>"
    by (auto simp: loadProxyBuild_def try_then_def run_bind run_ret split: sum.splits)
  obtain ps where "collectProxyRoutes (lib e) (Targets inst) kr = (pb_routes build, ps)"
    using b by (cases "collectProxyRoutes (lib e) (Targets inst) kr") auto
  moreover have "secret_routes e kr (pb_kube build)"
    using load_targets_source [OF _ r [unfolded k]] assms(1) b by (simp add: one_kubernetes_target_def)
  ultimately show ?thesis using that b by simp
qed


definition pem_lib :: golib where
  "pem_lib =
     ascii_lib\<lparr>pem_Decode := (\<lambda>s. if s = [] then None else Some (if hd s = CHR ''K'' then ''EC PRIVATE KEY'' else ''CERTIFICATE'', tl s)),
       x509_ParseCertificate := (\<lambda>s. Inr \<lparr>IsCA = True, KeyUsage = 96, PublicKey = EcdsaPublicKey ''P-256'' s\<rparr>)\<rparr>"

definition demo_crypto :: "'w crypto" where
  "demo_crypto =
     \<lparr>ecdsa_GenerateKey = (\<lambda>c w. (if c = ''P-256'' then Inr \<lparr>Curve = ''P-256'', Public = EcdsaPublicKey ''P-256'' ''pt''\<rparr> else Inl (Err ''curve''), w)),
      rand_Int = (\<lambda>_ w. (Inr 7, w)),
      x509_CreateCertificate = (\<lambda>t p pub k w. (case pub of
          EcdsaPublicKey c pt \<Rightarrow> if c = ''P-256'' \<and> BasicConstraintsValid t \<and> tmpl_IsCA t \<and> tmpl_KeyUsage t = 96 then Inr pt else Inl (Err ''template'')
        | OtherPublicKey \<Rightarrow> Inl (Err ''key''), w)),
      x509_MarshalECPrivateKey = (\<lambda>k. case Public k of
          EcdsaPublicKey c pt \<Rightarrow> if c = ''P-256'' \<and> Curve k = ''P-256'' then Inr pt else Inl (Err ''curve'')
        | OtherPublicKey \<Rightarrow> Inl (Err ''key'')),
      pem_EncodeToMemory = (\<lambda>ty b. (if ty = ''CERTIFICATE'' then CHR ''C'' else CHR ''K'') # b)\<rparr>"

lemma demo_crypto_laws: "crypto_laws pem_lib demo_crypto"
  by (auto simp: crypto_laws_def demo_crypto_def pem_lib_def ascii_lib_def split: if_splits public_key.splits)

definition kube_instance :: climcp_instance where
  "kube_instance = demo_instance\<lparr>Targets := [\<lparr>Type = ProxyTargetKubernetes, SecretName = ''kc'', Domains = []\<rparr>]\<rparr>"

definition kube_secret :: ksecret where
  "kube_secret = \<lparr>sec_Meta = new_meta ''ns'' ''kc'', sec_Type = [], sec_Data = [(kubeconfigDataKey, ''admin'')]\<rparr>"

definition ca_secret :: ksecret where
  "ca_secret = \<lparr>sec_Meta = new_meta ''ns'' ''ca'', sec_Type = [], sec_Data = [(caCertKey, ''Cpt''), (caKeyKey, ''Kpt'')]\<rparr>"

definition kube_routes :: "proxy_route list" where
  "kube_routes = [\<lparr>Domain' = ''api.example.com:443'', Injector = InjectorKubernetes, KubeconfigPath = proxyKubeconfigPath, CACert = ''pem''\<rparr>]"

definition kube_cluster :: "pod list op_env" where
  "kube_cluster =
     demo_cluster\<lparr>runtime := (runtime demo_cluster)\<lparr>golang := pem_lib\<rparr>, secrets := answering (Inr kube_secret) (Inr []), crypto := demo_crypto,
       load_kubeconfig := (\<lambda>s. if s = ''admin'' then Inr sample_kconfig else Inl (Err ''bad'')), write_kubeconfig := (\<lambda>_. Inr ''dummy''),
       marshal_routes := (\<lambda>rs. if rs = kube_routes then Inr ''routes'' else Inl (Err ''routes''))\<rparr>"

definition kube_build :: proxy_build where
  "kube_build = \<lparr>pb_routes = kube_routes, pb_dummy = ''dummy'', pb_kube = Some kube_secret, pb_ca = ca_secret\<rparr>"

lemma kube_ca: "fst (run_state (generateProxyCA kube_cluster) demo_state) = Inr (''Cpt'', ''Kpt'')"
  by code_simp

lemma kube_build_run: "fst (run_state (loadProxyBuild kube_cluster kube_instance ca_secret) demo_state) = Inr kube_build"
  by code_simp


definition kube_secs :: "string \<Rightarrow> (string \<times> string) list" where
  "kube_secs n = (if n = ''kc'' then sec_Data kube_secret else sec_Data ca_secret)"

definition kube_cms :: "string \<Rightarrow> (string \<times> string) list" where
  "kube_cms n = [(proxyConfigDataKey, ''routes''), (kubeconfigDataKey, ''dummy'')]"

definition kube_template :: t_template where
  "kube_template = proxyPodTemplate ''proxy'' (inst_Name kube_instance) kube_build \<lparr>cm_Meta = new_meta ''ns'' ''c'', cm_Data = []\<rparr>"

definition kube_files :: "string \<Rightarrow> string result" where
  "kube_files path =
     (case map_of [(proxyConfigDir @ ''/'' @ proxyConfigDataKey, ''routes''), (proxyConfigDir @ ''/'' @ kubeconfigDataKey, ''dummy''),
         (proxyCADir @ ''/'' @ caCertKey, ''Cpt''), (proxyCADir @ ''/'' @ caKeyKey, ''Kpt''), (proxyKubeconfigPath, ''admin'')] path of
        None \<Rightarrow> Inl (Err ''no such file'')
      | Some x \<Rightarrow> Inr x)"

lemma kube_files_shown: "shows_volumes kube_files kube_cms kube_secs (tt_Spec kube_template)"
  by (auto simp: shows_volumes_def kube_template_def proxyPodTemplate_def proxyVolumeMounts_def proxyVolumes_def mount_def blank_volume_def vol_source_def
    volume_files_def kube_build_def kubeSecretName_def kube_cms_def kube_secs_def kube_secret_def ca_secret_def new_meta_def data_of_def kube_files_def
    proxyConfigDir_def proxyCADir_def proxyKubeDir_def proxyConfigDataKey_def kubeconfigDataKey_def caCertKey_def caKeyKey_def proxyKubeconfigPath_def
    kube_instance_def demo_instance_def proxyCASecretName_def)

definition kube_io :: serve_io where
  "kube_io = \<lparr>net_Listen = (\<lambda>_. Inr ()), serve_wakes = GotSignal ''terminated'', http_Shutdown = Inr ()\<rparr>"


end
