(* ===== verification/Startup.thy ===== *)
theory Startup
  imports Flags OperatorSafety Network
begin

text \<open>
  The operator program (\<open>cmd/operator\<close>): which namespaces it watches (\<open>watch.go\<close>), how it finds out that it runs on OpenShift (\<open>openshift.go\<close>) and how \<open>main\<close>
  builds its manager (\<open>main.go\<close>); and \<open>SetupWithManager\<close> of the controller: which changes lead to a reconcile, with the predicate on sandbox pods.

  controller-runtime is a parameter: what its calls return is the record \<open>manager_io\<close>. A result of \<open>main\<close> is the exit code and the calls that were made
  with the values \<open>main\<close> built for them.
\<close>

section \<open>watch.go\<close>

definition envWatchNamespace :: string where "envWatchNamespace = ''WATCH_NAMESPACE''"
definition envPodNamespace :: string where "envPodNamespace = ''POD_NAMESPACE''"

definition watchNamespaces :: "(string \<Rightarrow> string) \<Rightarrow> string list" where
  "watchNamespaces getenv =
     (let raw = TrimSpace (getenv envWatchNamespace);
          raw' = (if raw = [] then TrimSpace (getenv envPodNamespace) else raw) in
      if raw' = [] then [] else filter (\<lambda>ns. ns \<noteq> []) (map TrimSpace (Split (CHR '','') raw')))"

section \<open>openshift.go\<close>

fun has_group :: "string \<Rightarrow> string list \<Rightarrow> bool" where
  "has_group n [] = False"
| "has_group n (g # gs) = (if g = n then True else has_group n gs)"

text \<open>The arguments are the results of making the discovery client and of asking it for the API groups.\<close>

definition detectOpenShift :: "unit result \<Rightarrow> string list result \<Rightarrow> bool result" where
  "detectOpenShift disco ServerGroups =
     (case disco of
        Inl err \<Rightarrow> Inl err
      | Inr _ \<Rightarrow> (case ServerGroups of Inl err \<Rightarrow> Inl err | Inr groups \<Rightarrow> Inr (has_group ''route.openshift.io'' groups)))"

section \<open>main.go\<close>

text \<open>A change of a TLS configuration: protocols without HTTP/2, or certificates from a watcher of a certificate and a key file.\<close>

datatype tls_opt = DisableHTTP2 | GetCertificate string string

record tls_config =
  NextProtos :: "string list"
  CertificateFrom :: "(string \<times> string) option"

fun apply_tls :: "tls_opt \<Rightarrow> tls_config \<Rightarrow> tls_config" where
  "apply_tls DisableHTTP2 c = c\<lparr>NextProtos := [''http/1.1'']\<rparr>"
| "apply_tls (GetCertificate cert key) c = c\<lparr>CertificateFrom := Some (cert, key)\<rparr>"

record metrics_options =
  BindAddress :: string
  SecureServing :: bool
  metrics_TLSOpts :: "tls_opt list"
  WithAuthenticationAndAuthorization :: bool

record manager_options =
  Metrics :: metrics_options
  webhook_TLSOpts :: "tls_opt list"
  HealthProbeBindAddress :: string
  LeaderElection :: bool
  LeaderElectionID :: string
  DefaultNamespaces :: "string list"

record manager_io =
  getenv :: "string \<Rightarrow> string"
  certwatcher_New :: "string \<Rightarrow> string \<Rightarrow> unit result"
  GetConfig :: "unit result"
  NewDiscoveryClient :: "unit result"
  ServerGroups :: "string list result"
  NewManager :: "manager_options \<Rightarrow> unit result"
  mgr_IndexField :: "unit result"
  mgr_Complete :: "unit result"
  mgr_Add :: "tls_opt \<Rightarrow> unit result"
  AddHealthzCheck :: "unit result"
  AddReadyzCheck :: "unit result"
  mgr_Start :: "unit result"

text \<open>The kinds of objects a controller hears about, and in which way.\<close>

datatype watch = For string | Owns string | Watches string

definition SetupWithManager :: "manager_io \<Rightarrow> watch list result" where
  "SetupWithManager io =
     (case mgr_IndexField io of
        Inl err \<Rightarrow> Inl err
      | Inr _ \<Rightarrow>
          (case mgr_Complete io of
             Inl err \<Rightarrow> Inl err
           | Inr _ \<Rightarrow>
               Inr [For ''CliMcpInstance'', Owns ''Deployment'', Owns ''Service'', Owns ''ServiceAccount'', Owns ''Role'', Owns ''RoleBinding'',
                    Owns ''NetworkPolicy'', Owns ''ConfigMap'', Watches ''Pod'', Watches ''Secret'']))"

datatype operator_call =
    CallNewManager manager_options
  | CallSetup reconciler "watch list"
  | CallAdd tls_opt
  | CallHealthz
  | CallReadyz
  | CallStart

definition operator_flags :: flag_set where
  "operator_flags =
     [(''metrics-bind-address'', StringFlag), (''health-probe-bind-address'', StringFlag), (''leader-elect'', BoolFlag), (''metrics-secure'', BoolFlag),
      (''webhook-cert-path'', StringFlag), (''webhook-cert-name'', StringFlag), (''webhook-cert-key'', StringFlag),
      (''metrics-cert-path'', StringFlag), (''metrics-cert-name'', StringFlag), (''metrics-cert-key'', StringFlag), (''enable-http2'', BoolFlag)]"

text \<open>\<open>filepath.Join\<close> of a directory that is not empty and a name.\<close>

definition filepath_Join :: "string \<Rightarrow> string \<Rightarrow> string" where
  "filepath_Join dir name = path_Clean (if name = [] then dir else dir @ ''/'' @ name)"

text \<open>The watcher of a certificate, when a directory is set.\<close>

definition cert_watcher :: "manager_io \<Rightarrow> string \<Rightarrow> string \<Rightarrow> string \<Rightarrow> tls_opt option result" where
  "cert_watcher io path name key =
     (if path = [] then Inr None
      else
        let cert = filepath_Join path name; ckey = filepath_Join path key in
        (case certwatcher_New io cert ckey of Inl err \<Rightarrow> Inl err | Inr _ \<Rightarrow> Inr (Some (GetCertificate cert ckey))))"

definition opt_list :: "'a option \<Rightarrow> 'a list" where "opt_list x = (case x of None \<Rightarrow> [] | Some y \<Rightarrow> [y])"

text \<open>The options of the manager, from the flags, the watchers and the environment.\<close>

definition build_options :: "manager_io \<Rightarrow> flag_settings \<Rightarrow> tls_opt option \<Rightarrow> tls_opt option \<Rightarrow> manager_options" where
  "build_options io vs webhookCert metricsCert =
     (let tlsOpts = (if flag_bool vs ''enable-http2'' False then [] else [DisableHTTP2]);
          secureMetrics = flag_bool vs ''metrics-secure'' True in
      \<lparr>Metrics = \<lparr>BindAddress = flag_string vs ''metrics-bind-address'' ''0'', SecureServing = secureMetrics,
         metrics_TLSOpts = tlsOpts @ opt_list metricsCert, WithAuthenticationAndAuthorization = secureMetrics\<rparr>,
       webhook_TLSOpts = tlsOpts @ opt_list webhookCert,
       HealthProbeBindAddress = flag_string vs ''health-probe-bind-address'' '':8081'',
       LeaderElection = flag_bool vs ''leader-elect'' False, LeaderElectionID = ''158fa8bf.redhat.com'',
       DefaultNamespaces = watchNamespaces (getenv io)\<rparr>)"

text \<open>The calls up to the first error, and whether all of them worked.\<close>

fun until_error :: "(operator_call \<times> unit result) list \<Rightarrow> bool \<times> operator_call list" where
  "until_error [] = (True, [])"
| "until_error ((c, r) # cs) = (case r of Inl _ \<Rightarrow> (False, [c]) | Inr _ \<Rightarrow> (case until_error cs of (ok, calls) \<Rightarrow> (ok, c # calls)))"

definition run_manager :: "manager_io \<Rightarrow> manager_options \<Rightarrow> tls_opt option \<Rightarrow> tls_opt option \<Rightarrow> nat \<times> operator_call list" where
  "run_manager io opts webhookCert metricsCert =
     (let onOpenShift = (case detectOpenShift (NewDiscoveryClient io) (ServerGroups io) of Inl _ \<Rightarrow> False | Inr b \<Rightarrow> b);
          rc = \<lparr>rec_Images = ImagesFromEnv (getenv io), OnOpenShift = onOpenShift\<rparr>;
          watches = SetupWithManager io in
      case until_error
          ([(CallNewManager opts, NewManager io opts),
            (CallSetup rc (case watches of Inl _ \<Rightarrow> [] | Inr ws \<Rightarrow> ws), case watches of Inl err \<Rightarrow> Inl err | Inr _ \<Rightarrow> Inr ())] @
           map (\<lambda>w. (CallAdd w, mgr_Add io w)) (opt_list metricsCert @ opt_list webhookCert) @
           [(CallHealthz, AddHealthzCheck io), (CallReadyz, AddReadyzCheck io), (CallStart, mgr_Start io)]) of
        (ok, calls) \<Rightarrow> (if ok then 0 else 1, calls))"

text \<open>\<open>libs\<close> are the flags of the logging library and of controller-runtime. The flag set of a command exits with 0 after a request for help and with 2 after an error.\<close>

definition operator_main :: "golib \<Rightarrow> flag_set \<Rightarrow> manager_io \<Rightarrow> string list \<Rightarrow> nat \<times> operator_call list" where
  "operator_main g libs io args =
     (case flag_Parse g (operator_flags @ libs) args [] of
        Inl err \<Rightarrow> (if err = ErrHelp then 0 else 2, [])
      | Inr vs \<Rightarrow>
          (case cert_watcher io (flag_string vs ''webhook-cert-path'' []) (flag_string vs ''webhook-cert-name'' ''tls.crt'')
                (flag_string vs ''webhook-cert-key'' ''tls.key'') of
             Inl _ \<Rightarrow> (1, [])
           | Inr webhookCert \<Rightarrow>
               (case cert_watcher io (flag_string vs ''metrics-cert-path'' []) (flag_string vs ''metrics-cert-name'' ''tls.crt'')
                     (flag_string vs ''metrics-cert-key'' ''tls.key'') of
                  Inl _ \<Rightarrow> (1, [])
                | Inr metricsCert \<Rightarrow>
                    (case GetConfig io of
                       Inl _ \<Rightarrow> (1, [])
                     | Inr _ \<Rightarrow> run_manager io (build_options io vs webhookCert metricsCert) webhookCert metricsCert))))"

section \<open>Which pod events are enqueued\<close>

datatype pod_event = PodCreate pod | PodUpdate pod pod | PodDelete pod | PodGeneric pod

text \<open>\<open>sandboxPodPredicate\<close>.\<close>

fun sandboxPodPredicate :: "pod_event \<Rightarrow> bool" where
  "sandboxPodPredicate (PodCreate p) = isSandboxPod p"
| "sandboxPodPredicate (PodDelete p) = isSandboxPod p"
| "sandboxPodPredicate (PodGeneric p) = False"
| "sandboxPodPredicate (PodUpdate old new) = predicate_Update old new"

text \<open>\<open>EnqueueRequestsFromMapFunc\<close> maps both versions of an updated object and drops repetitions.\<close>

fun enqueueSandboxPod :: "pod_event \<Rightarrow> request_key list" where
  "enqueueSandboxPod (PodCreate p) = mapSandboxPod p"
| "enqueueSandboxPod (PodDelete p) = mapSandboxPod p"
| "enqueueSandboxPod (PodGeneric p) = mapSandboxPod p"
| "enqueueSandboxPod (PodUpdate old new) = remdups (mapSandboxPod old @ mapSandboxPod new)"

definition pod_requests :: "pod_event \<Rightarrow> request_key list" where
  "pod_requests ev = (if sandboxPodPredicate ev then enqueueSandboxPod ev else [])"

section \<open>The pool hears of every change it reports\<close>

lemma observe_loop_append: "observe_loop (xs @ ys) snap = observe_loop ys (observe_loop xs snap)"
  by (induction xs arbitrary: snap) (simp_all add: Let_def)

lemma observe_same:
  assumes "pod_Name old = pod_Name new" "isAssignedSandbox old = isAssignedSandbox new"
    and "\<not> isAssignedSandbox new \<Longrightarrow> poolPodUnhealthy old = poolPodUnhealthy new \<and> sandboxPodReady old = sandboxPodReady new"
  shows "observePool (xs @ old # ys) d = observePool (xs @ new # ys) d"
  using assms by (cases "isAssignedSandbox new") (simp_all add: observePool_def observe_loop_append isUnassignedSandbox_def Let_def)

lemma selected_pod:
  assumes "selects (sandboxLabels inst) (Labels p)" "inst \<noteq> []"
  shows "isSandboxPod p" "mapSandboxPod p = [(inst, pod_Namespace p)]"
  using assms by (simp_all add: selects_def sandboxLabels_def isSandboxPod_def mapSandboxPod_def data_of_def)

text \<open>
  C31. The operator hears of every change of the pool. When the update of a pod of an instance changes what the pool reports (the number of ready pods, or an
  unhealthy pod), the predicate lets it through and the instance of the pod is reconciled; so it is when such a pod appears or goes. Updates that
  are dropped, such as the activity stamps of running sessions, leave the report as it is.
\<close>

theorem pool_change_enqueued:
  assumes "inst \<noteq> []" "selects (sandboxLabels inst) (Labels old)" "selects (sandboxLabels inst) (Labels new)"
    and "pod_Name old = pod_Name new" "pod_Namespace old = pod_Namespace new"
    and "observePool (xs @ old # ys) d \<noteq> observePool (xs @ new # ys) d"
  shows "pod_requests (PodUpdate old new) = [(inst, pod_Namespace new)] \<and>
    pod_requests (PodCreate new) = [(inst, pod_Namespace new)] \<and> pod_requests (PodDelete old) = [(inst, pod_Namespace old)]"
proof -
  note p = selected_pod [OF assms(2,1)] selected_pod [OF assms(3,1)]
  have "isAssignedSandbox old \<noteq> isAssignedSandbox new \<or>
      \<not> isAssignedSandbox new \<and> (poolPodUnhealthy old \<noteq> poolPodUnhealthy new \<or> sandboxPodReady old \<noteq> sandboxPodReady new)"
    using observe_same [OF assms(4)] assms(6) by blast
  then have "predicate_Update old new"
    using p(1) unfolding predicate_Update_def poolReadinessChanged_def isAssignedSandbox_def [symmetric] by auto
  then show ?thesis using p assms(5) by (simp add: pod_requests_def)
qed

definition pool_free_pod :: "string \<Rightarrow> pod" where
  "pool_free_pod phase = demo_pod\<lparr>Labels := sandboxLabels ''a'', Phase := phase, Conditions := [(''Ready'', ''True'')], DeletionTimestamp := None\<rparr>"

theorem pool_change_enqueued_witness:
  "pod_requests (PodUpdate (pool_free_pod ''Pending'') (pool_free_pod ''Running'')) = [(''a'', pod_Namespace demo_pod)]"
proof -
  have s: "selects (sandboxLabels ''a'') (Labels (pool_free_pod x))" for x by (simp add: pool_free_pod_def selects_def sandboxLabels_def LabelInstance_def LabelComponent_def)
  have "observePool ([] @ [pool_free_pod ''Pending'']) 2 \<noteq> observePool ([] @ [pool_free_pod ''Running'']) 2" by code_simp
  with pool_change_enqueued [OF _ s s, of "''Pending''" "''Running''" "[]" "[]" 2] show ?thesis by (simp add: pool_free_pod_def)
qed

section \<open>The start of the operator\<close>

lemma has_group_iff: "has_group n gs \<longleftrightarrow> n \<in> set gs"
  by (induction gs) auto

lemma watched_part: "ns \<in> set (watchNamespaces env) \<Longrightarrow> ns \<noteq> [] \<and> trimmed ns"
  by (auto simp: watchNamespaces_def Let_def split: if_splits)

text \<open>A value of separators only is no namespace and no reason to fall back either: the operator then watches all namespaces.\<close>

lemma separators_watch_all: "watchNamespaces (\<lambda>n. if n = envWatchNamespace then '', ,'' else ''operator-ns'') = []"
  by code_simp

lemma until_error_calls:
  assumes "until_error cs = (ok, calls)"
  shows "calls = take (length calls) (map fst cs)" "ok \<longleftrightarrow> (\<forall>(c, r) \<in> set cs. isr r)" "ok \<Longrightarrow> calls = map fst cs"
proof -
  have "calls = take (length calls) (map fst cs) \<and> (ok \<longleftrightarrow> (\<forall>(c, r) \<in> set cs. isr r)) \<and> (ok \<longrightarrow> calls = map fst cs)"
    using assms
  proof (induction cs arbitrary: ok calls)
    case (Cons x cs)
    obtain c r where x: "x = (c, r)" by (cases x)
    show ?case
    proof (cases r)
      case (Inl e)
      then show ?thesis using Cons.prems x by auto
    next
      case (Inr y)
      obtain ok' calls' where u: "until_error cs = (ok', calls')" by (cases "until_error cs")
      then show ?thesis using Cons.IH [OF u] Cons.prems x Inr by auto
    qed
  qed simp
  then show "calls = take (length calls) (map fst cs)" "ok \<longleftrightarrow> (\<forall>(c, r) \<in> set cs. isr r)" "ok \<Longrightarrow> calls = map fst cs" by blast+
qed


lemma tls_protocols: "NextProtos (fold apply_tls (opt_list (Some (GetCertificate a b))) c) = NextProtos c"
  by (simp add: opt_list_def)

definition manager_steps :: "manager_io \<Rightarrow> manager_options \<Rightarrow> tls_opt list \<Rightarrow> (operator_call \<times> unit result) list" where
  "manager_steps io opts certs =
     [(CallNewManager opts, NewManager io opts),
      (CallSetup \<lparr>rec_Images = ImagesFromEnv (getenv io),
         OnOpenShift = (case detectOpenShift (NewDiscoveryClient io) (ServerGroups io) of Inl _ \<Rightarrow> False | Inr b \<Rightarrow> b)\<rparr>
         (case SetupWithManager io of Inl _ \<Rightarrow> [] | Inr ws \<Rightarrow> ws), case SetupWithManager io of Inl err \<Rightarrow> Inl err | Inr _ \<Rightarrow> Inr ())] @
     map (\<lambda>w. (CallAdd w, mgr_Add io w)) certs @
     [(CallHealthz, AddHealthzCheck io), (CallReadyz, AddReadyzCheck io), (CallStart, mgr_Start io)]"

lemma run_manager_steps:
  "run_manager io opts wc mc = (case until_error (manager_steps io opts (opt_list mc @ opt_list wc)) of (ok, calls) \<Rightarrow> (if ok then 0 else 1, calls))"
  by (simp add: run_manager_def manager_steps_def Let_def)

text \<open>The last call is made only when the steps before it worked.\<close>

lemma until_error_last:
  assumes "until_error (cs @ [(c, r)]) = (ok, calls)" "c \<in> set calls" "c \<notin> fst ` set cs"
  shows "\<forall>(c', r') \<in> set cs. isr r'"
  using assms
proof (induction cs arbitrary: ok calls)
  case (Cons x cs)
  obtain c1 r1 where x: "x = (c1, r1)" by (cases x)
  obtain ok' calls' where u: "until_error (cs @ [(c, r)]) = (ok', calls')" by (cases "until_error (cs @ [(c, r)])")
  show ?case using Cons.IH [OF u] Cons.prems x u by (auto split: sum.splits)
qed simp

lemma run_manager_start:
  assumes "run_manager io opts wc mc = (code, calls)"
  shows "CallStart \<in> set calls \<Longrightarrow> NewManager io opts = Inr () \<and> isr (SetupWithManager io) \<and> isr (AddHealthzCheck io) \<and> isr (AddReadyzCheck io)"
    and "code = 0 \<Longrightarrow> CallStart \<in> set calls \<and> isr (mgr_Start io)"
    and "set calls \<subseteq> fst ` set (manager_steps io opts (opt_list mc @ opt_list wc))"
proof -
  let ?cs = "manager_steps io opts (opt_list mc @ opt_list wc)"
  obtain ok where u: "until_error ?cs = (ok, calls)" and code: "code = (if ok then 0 else 1)"
    using assms unfolding run_manager_steps by (auto split: prod.splits)
  have split: "?cs = butlast ?cs @ [(CallStart, mgr_Start io)]" by (simp add: manager_steps_def butlast_append)
  have new: "CallStart \<notin> fst ` set (butlast ?cs)" by (auto simp: manager_steps_def butlast_append)
  show "set calls \<subseteq> fst ` set ?cs" using until_error_calls(1) [OF u] set_take_subset [of "length calls" "map fst ?cs"] by auto
  show "code = 0 \<Longrightarrow> CallStart \<in> set calls \<and> isr (mgr_Start io)"
    using until_error_calls(2,3) [OF u] code by (auto simp: manager_steps_def split: if_splits)
  assume "CallStart \<in> set calls"
  moreover have "until_error (butlast ?cs @ [(CallStart, mgr_Start io)]) = (ok, calls)" using u by (subst split [symmetric])
  ultimately have "\<forall>(c', r') \<in> set (butlast ?cs). isr r'" using until_error_last new by blast
  then
  show "NewManager io opts = Inr () \<and> isr (SetupWithManager io) \<and> isr (AddHealthzCheck io) \<and> isr (AddReadyzCheck io)"
    by (auto simp: manager_steps_def butlast_append isr_iff split: sum.splits)
qed

lemma cert_watcher_tls: "cert_watcher io a b c = Inr w \<Longrightarrow> NextProtos (fold apply_tls (opt_list w) cfg) = NextProtos cfg"
  by (auto simp: cert_watcher_def opt_list_def Let_def split: if_splits sum.splits)

lemma detected: "(case detectOpenShift d gs of Inl _ \<Rightarrow> False | Inr b \<Rightarrow> b) = (isr d \<and> (\<exists>xs. gs = Inr xs \<and> ''route.openshift.io'' \<in> set xs))"
  by (auto simp: detectOpenShift_def has_group_iff isr_iff split: sum.splits)

text \<open>A run that gets as far as the manager.\<close>

lemma operator_main_manager:
  assumes "operator_main g libs io args = (code, calls)" "calls \<noteq> [] \<or> code = 0"
  shows "flag_Parse g (operator_flags @ libs) args [] = Inl ErrHelp \<and> calls = [] \<or>
    (\<exists>vs wc mc. flag_Parse g (operator_flags @ libs) args [] = Inr vs \<and> run_manager io (build_options io vs wc mc) wc mc = (code, calls) \<and>
       (\<forall>c. NextProtos (fold apply_tls (opt_list wc) c) = NextProtos c) \<and> (\<forall>c. NextProtos (fold apply_tls (opt_list mc) c) = NextProtos c))"
  using assms unfolding operator_main_def
  by (auto split: sum.splits if_splits intro!: cert_watcher_tls)


definition demo_manager :: manager_io where
  "demo_manager =
     \<lparr>getenv = (\<lambda>n. if n = ''WATCH_NAMESPACE'' then ''a, b'' else []), certwatcher_New = (\<lambda>_ _. Inr ()), GetConfig = Inr (), NewDiscoveryClient = Inr (),
      ServerGroups = Inr [''apps'', ''route.openshift.io''], NewManager = (\<lambda>_. Inr ()), mgr_IndexField = Inr (), mgr_Complete = Inr (),
      mgr_Add = (\<lambda>_. Inr ()), AddHealthzCheck = Inr (), AddReadyzCheck = Inr (), mgr_Start = Inr ()\<rparr>"

definition demo_args :: "string list" where "demo_args = [''--leader-elect'', ''--metrics-cert-path=/certs'']"

definition call_kind :: "operator_call \<Rightarrow> nat" where
  "call_kind c = (case c of CallNewManager _ \<Rightarrow> 0 | CallSetup _ _ \<Rightarrow> 1 | _ \<Rightarrow> 2)"

lemma demo_start: "fst (operator_main ascii_lib [] demo_manager demo_args) = 0"
  "map call_kind (snd (operator_main ascii_lib [] demo_manager demo_args)) = [0, 1, 2, 2, 2, 2]"
  by code_simp+

lemma demo_no_http2:
  "case flag_Parse ascii_lib (operator_flags @ []) demo_args [] of Inl _ \<Rightarrow> False | Inr vs \<Rightarrow> \<not> flag_bool vs ''enable-http2'' False"
  by code_simp

lemma demo_namespaces: "watchNamespaces (getenv demo_manager) = [''a'', ''b'']"
  by code_simp


end
