(* ===== verification/BashProcess.thy ===== *)
theory BashProcess
  imports SandboxAgent
begin

text \<open>
  \<open>pkg/sandbox/bash.go\<close> once more, with the operating system: the bash process, its pipes and the signals the agent sends. \<open>SandboxAgent\<close> keeps of a session only whether it is
  dead; here \<open>spawn\<close>, \<open>reapProcess\<close>, \<open>Close\<close> and \<open>Execute\<close> are the whole functions, and the lemmas show that they give the results of \<open>SandboxAgent\<close> and
  leave no process behind.

  What Go's \<open>os/exec\<close> does with the descriptors is part of the model: a pipe has an end for the agent and one for the child, \<open>Start\<close> closes the ends of the child, and all others
  when it fails, and \<open>Wait\<close> closes the ends of the agent. A second \<open>Wait\<close> does nothing.
\<close>

datatype stream = Stdin_pipe | Stdout_pipe | Stderr_pipe

text \<open>
  \<open>children\<close>: processes of the agent that have not been waited for, running or not. \<open>kills\<close>: the process groups that were sent SIGKILL, and whether the process had been waited for before.
\<close>

record bash_proc =
  bp_cmd :: "nat option"
  bp_waited :: bool
  bp_dead :: bool
  children :: "nat list"
  agent_ends :: "stream list"
  child_ends :: "stream list"
  kills :: "(nat \<times> bool) list"

definition no_bash :: bash_proc where
  "no_bash = \<lparr>bp_cmd = None, bp_waited = False, bp_dead = False, children = [], agent_ends = [], child_ends = [], kills = []\<rparr>"

text \<open>What the system calls of one attempt to start bash return.\<close>

record spawn_io =
  StdinPipe :: "unit result"
  StdoutPipe :: "unit result"
  StderrPipe :: "unit result"
  cmd_Start :: "nat result"

definition open_pipe :: "stream \<Rightarrow> bash_proc \<Rightarrow> bash_proc" where
  "open_pipe p s = s\<lparr>agent_ends := p # agent_ends s, child_ends := p # child_ends s\<rparr>"

definition close_end :: "stream \<Rightarrow> bash_proc \<Rightarrow> bash_proc" where
  "close_end p s = s\<lparr>agent_ends := removeAll p (agent_ends s)\<rparr>"

definition spawn :: "spawn_io \<Rightarrow> bash_proc \<Rightarrow> unit result \<times> bash_proc" where
  "spawn io s =
     (case StdinPipe io of
        Inl e \<Rightarrow> (Inl (Wrap ''stdin pipe'' e), s)
      | Inr _ \<Rightarrow>
          let s1 = open_pipe Stdin_pipe s in
          (case StdoutPipe io of
             Inl e \<Rightarrow> (Inl (Wrap ''stdout pipe'' e), close_end Stdin_pipe s1)
           | Inr _ \<Rightarrow>
               let s2 = open_pipe Stdout_pipe s1 in
               (case StderrPipe io of
                  Inl e \<Rightarrow> (Inl (Wrap ''stderr pipe'' e), close_end Stdout_pipe (close_end Stdin_pipe s2))
                | Inr _ \<Rightarrow>
                    let s3 = open_pipe Stderr_pipe s2; s4 = s3\<lparr>child_ends := child_ends s\<rparr> in
                    (case cmd_Start io of
                       Inl e \<Rightarrow> (Inl (Wrap ''start bash'' e), close_end Stderr_pipe (close_end Stdout_pipe (close_end Stdin_pipe s4)))
                     | Inr pid \<Rightarrow>
                         (Inr (), s4\<lparr>children := pid # children s, bp_cmd := Some pid, bp_waited := False, bp_dead := False\<rparr>)))))"

definition kill_group :: "nat \<Rightarrow> bash_proc \<Rightarrow> bash_proc" where
  "kill_group pid s = s\<lparr>kills := kills s @ [(pid, bp_waited s)]\<rparr>"

definition cmd_Wait :: "nat \<Rightarrow> bash_proc \<Rightarrow> bash_proc" where
  "cmd_Wait pid s = (if bp_waited s then s else s\<lparr>bp_waited := True, children := removeAll pid (children s), agent_ends := []\<rparr>)"

definition reapProcess :: "bash_proc \<Rightarrow> bash_proc" where
  "reapProcess s = (case bp_cmd s of None \<Rightarrow> s | Some pid \<Rightarrow> cmd_Wait pid (kill_group pid (close_end Stdin_pipe s)))"

definition new_bash :: "spawn_io \<Rightarrow> bash_proc result" where
  "new_bash io = (case spawn io no_bash of (Inl e, _) \<Rightarrow> Inl (Wrap ''failed to start bash'' e) | (Inr _, s) \<Rightarrow> Inr s)"

definition close_bash :: "bash_proc \<Rightarrow> bash_proc" where
  "close_bash s = (if bp_dead s then s else reapProcess (s\<lparr>bp_dead := True\<rparr>))"

text \<open>The part of \<open>Execute\<close> that sends the command.\<close>

definition send_bash :: "spawn_io \<Rightarrow> exec_io \<Rightarrow> bash_proc \<Rightarrow> bool result \<times> bash_proc" where
  "send_bash io w s =
     (if bp_dead s then
        (case spawn io (reapProcess s) of
           (Inl e, s1) \<Rightarrow> (Inl (Wrap ''failed to respawn bash'' e), s1)
         | (Inr _, s1) \<Rightarrow> (case nth_result (writes w) 0 of Inl e \<Rightarrow> (Inl (Wrap ''write to stdin'' e), s1) | Inr _ \<Rightarrow> (Inr True, s1)))
      else
        (case nth_result (writes w) 0 of
           Inr _ \<Rightarrow> (Inr False, s)
         | Inl _ \<Rightarrow>
             (case spawn io (reapProcess (s\<lparr>bp_dead := True\<rparr>)) of
                (Inl e, s1) \<Rightarrow> (Inl (Wrap ''failed to respawn bash'' e), s1)
              | (Inr _, s1) \<Rightarrow>
                  (case nth_result (writes w) 1 of
                     Inl e \<Rightarrow> (Inl (Wrap ''write to stdin after respawn'' e), s1\<lparr>bp_dead := True\<rparr>)
                   | Inr _ \<Rightarrow> (Inr True, s1)))))"

text \<open>The kill when the timer fires.\<close>

definition kill_on_timeout :: "bash_proc \<Rightarrow> bash_proc" where
  "kill_on_timeout s = (case bp_cmd s of None \<Rightarrow> s | Some pid \<Rightarrow> cmd_Wait pid (kill_group pid s))\<lparr>bp_dead := True\<rparr>"

definition abs_bash :: "bash_proc \<Rightarrow> bash_session" where "abs_bash s = \<lparr>dead = bp_dead s\<rparr>"

definition execute_bash :: "golib \<Rightarrow> string \<Rightarrow> (string \<Rightarrow> int \<Rightarrow> exec_io) \<Rightarrow> spawn_io \<Rightarrow> string \<Rightarrow> int \<Rightarrow> bash_proc \<Rightarrow> exec_result result \<times> bash_proc" where
  "execute_bash g uid behave io command timeout s =
     (let w = behave (wrapped uid command) (clamp_timeout timeout) in
      case send_bash io w s of
        (Inl e, s1) \<Rightarrow> (Inl e, s1)
      | (Inr stateReset, s1) \<Rightarrow>
          (case (read_out uid (out_pipe w), read_errs g uid (err_pipe w)) of
             (Some o_res, Some e_res) \<Rightarrow>
               (case complete w stateReset o_res e_res (abs_bash s1) of (r, bs) \<Rightarrow> (r, s1\<lparr>bp_dead := dead bs\<rparr>))
           | _ \<Rightarrow> (fst (timed_out g uid w (abs_bash s1)), kill_on_timeout s1)))"

section \<open>The same results as without the operating system\<close>

definition spawn_result :: "spawn_io \<Rightarrow> unit result" where "spawn_result io = fst (spawn io no_bash)"

lemma spawn_fst: "fst (spawn io s) = spawn_result io"
  by (simp add: spawn_result_def spawn_def Let_def split: sum.splits)

lemma spawn_dead: "bp_dead (snd (spawn io s)) = (if isr (spawn_result io) then False else bp_dead s)"
  by (simp add: spawn_result_def spawn_def Let_def isr_iff open_pipe_def close_end_def split: sum.splits)

lemma reap_dead [simp]: "bp_dead (reapProcess s) = bp_dead s"
  by (simp add: reapProcess_def cmd_Wait_def kill_group_def close_end_def split: option.splits)

lemma send_refines:
  "send_command (w\<lparr>spawns := [spawn_result io]\<rparr>) (abs_bash s) = (fst (send_bash io w s), abs_bash (snd (send_bash io w s)))"
proof -
  have n: "nth_result [r] 0 = r" for r by (simp add: nth_result_def)
  have sp: "fst (spawn io t) = spawn_result io \<and> bp_dead (snd (spawn io t)) = (if isr (spawn_result io) then False else bp_dead t)" for t
    using spawn_fst spawn_dead by simp
  show ?thesis
    using sp [of "reapProcess s"] sp [of "reapProcess (s\<lparr>bp_dead := True\<rparr>)"]
    by (cases "spawn io (reapProcess s)"; cases "spawn io (reapProcess (s\<lparr>bp_dead := True\<rparr>))"; cases "spawn_result io")
      (auto simp: send_command_def send_bash_def abs_bash_def n Let_def split: sum.splits)
qed

lemma complete_spawns: "complete (w\<lparr>spawns := x\<rparr>) r a b bs = complete w r a b bs"
  by (cases w) (simp add: complete_def Let_def)

lemma timed_out_spawns: "timed_out g uid (w\<lparr>spawns := x\<rparr>) bs = timed_out g uid w bs"
  by (simp add: timed_out_def Let_def cong: option.case_cong)

lemma kill_on_timeout_dead: "abs_bash (kill_on_timeout s) = \<lparr>dead = True\<rparr>"
  by (simp add: kill_on_timeout_def abs_bash_def)

lemma timed_out_dead: "snd (timed_out g uid w bs) = bs\<lparr>dead := True\<rparr>"
  by (simp add: timed_out_def Let_def)

lemma execute_refines:
  "Execute g uid (\<lambda>c t. (behave c t)\<lparr>spawns := [spawn_result io]\<rparr>) command timeout (abs_bash s) =
     (fst (execute_bash g uid behave io command timeout s), abs_bash (snd (execute_bash g uid behave io command timeout s)))"
proof -
  let ?w = "behave (wrapped uid command) (clamp_timeout timeout)"
  have e: "bs\<lparr>dead := True\<rparr> = \<lparr>dead = True\<rparr>" for bs :: bash_session by (cases bs) simp
  have a: "abs_bash (t\<lparr>bp_dead := dead bs\<rparr>) = bs" for t bs by (cases bs) (simp add: abs_bash_def)
  obtain r s1 where send: "send_bash io ?w s = (r, s1)" by (cases "send_bash io ?w s")
  have t: "timed_out g uid ?w (abs_bash s1) = (fst (timed_out g uid ?w (abs_bash s1)), abs_bash (kill_on_timeout s1))"
    using timed_out_dead [of g uid ?w "abs_bash s1"] by (simp add: prod_eq_iff kill_on_timeout_dead e)
  show ?thesis
    using send_refines [where w = ?w and io = io and s = s] t
    by (auto simp: Execute_def execute_bash_def Let_def send complete_spawns timed_out_spawns a split: sum.splits option.splits prod.splits)
qed

section \<open>One process at a time\<close>

text \<open>The current process is the only one that has not been waited for; a session that is alive has one; the agent holds pipe ends only of that process.\<close>

definition unwaited :: "nat option \<Rightarrow> bool \<Rightarrow> nat list" where
  "unwaited c waited = (case c of None \<Rightarrow> [] | Some pid \<Rightarrow> if waited then [] else [pid])"

definition bash_ok :: "bash_proc \<Rightarrow> bool" where
  "bash_ok s =
     (children s = unwaited (bp_cmd s) (bp_waited s) \<and>
      (bp_dead s \<or> (\<exists>pid. bp_cmd s = Some pid \<and> children s = [pid])) \<and>
      (children s = [] \<longrightarrow> agent_ends s = []) \<and> length (agent_ends s) \<le> 3)"

lemma removeAll_le: "length xs \<le> n \<Longrightarrow> length (removeAll x xs) \<le> n"
  by (rule le_trans [OF length_removeAll_less_eq])

lemma reap_ok:
  assumes "bash_ok (s\<lparr>bp_dead := True\<rparr>)"
  shows "children (reapProcess s) = []" "agent_ends (reapProcess s) = []" "bp_cmd (reapProcess s) = None \<or> bp_waited (reapProcess s)"
  using assms
  by (auto simp: bash_ok_def unwaited_def reapProcess_def cmd_Wait_def kill_group_def close_end_def split: option.splits if_splits)

lemma spawn_ok:
  assumes "children s = []" "agent_ends s = []" "bp_cmd s = None \<or> bp_waited s" "bp_dead s"
  shows "bash_ok (snd (spawn io s))"
  using assms by (auto simp: bash_ok_def unwaited_def spawn_def Let_def open_pipe_def close_end_def split: sum.splits option.splits)

lemma respawn_ok: "bash_ok (s\<lparr>bp_dead := True\<rparr>) \<Longrightarrow> bp_dead s \<Longrightarrow> bash_ok (snd (spawn io (reapProcess s)))"
  using reap_ok [of s] by (intro spawn_ok) auto

lemma dead_ok: "bash_ok s \<Longrightarrow> bash_ok (s\<lparr>bp_dead := True\<rparr>)"
  by (auto simp: bash_ok_def)

lemma send_ok:
  assumes "bash_ok s"
  shows "bash_ok (snd (send_bash io w s))"
  using respawn_ok [of s io] respawn_ok [of "s\<lparr>bp_dead := True\<rparr>" io] dead_ok [OF assms] assms dead_ok [of "snd (spawn io (reapProcess (s\<lparr>bp_dead := True\<rparr>)))"]
  by (auto simp: send_bash_def split: prod.splits sum.splits)

lemma kill_on_timeout_ok: "bash_ok s \<Longrightarrow> bash_ok (kill_on_timeout s)"
  by (auto simp: bash_ok_def unwaited_def kill_on_timeout_def cmd_Wait_def kill_group_def split: option.splits if_splits)

lemma execute_ok:
  assumes "bash_ok s"
  shows "bash_ok (snd (execute_bash g uid behave io command timeout s))"
proof -
  let ?w = "behave (wrapped uid command) (clamp_timeout timeout)"
  obtain r s1 where send: "send_bash io ?w s = (r, s1)" by (cases "send_bash io ?w s")
  then have "bash_ok s1" using send_ok [OF assms, of io ?w] by simp
  moreover have "bash_ok (s1\<lparr>bp_dead := dead bs\<rparr>)" if "complete ?w x a b (abs_bash s1) = (y, bs)" "bash_ok s1" for x a b y bs
    using that by (auto simp: complete_def abs_bash_def Let_def bash_ok_def split: if_splits)
  ultimately show ?thesis
    using kill_on_timeout_ok by (auto simp: execute_bash_def Let_def send split: sum.splits option.splits prod.splits)
qed

lemma close_ok: "bash_ok s \<Longrightarrow> bash_ok (close_bash s)"
  by (auto simp: close_bash_def bash_ok_def unwaited_def reapProcess_def cmd_Wait_def kill_group_def close_end_def removeAll_le split: option.splits if_splits)

lemma close_abs: "abs_bash (close_bash s) = Close (abs_bash s)"
  by (simp add: close_bash_def Close_def abs_bash_def)


section \<open>A whole life of a session\<close>

datatype bash_call = RunCall string "string \<Rightarrow> int \<Rightarrow> exec_io" spawn_io string int | CloseCall

fun bash_calls :: "golib \<Rightarrow> bash_call list \<Rightarrow> bash_proc \<Rightarrow> exec_result result list \<times> bash_proc" where
  "bash_calls g [] s = ([], s)"
| "bash_calls g (RunCall uid behave io command timeout # cs) s =
     (case execute_bash g uid behave io command timeout s of (r, s1) \<Rightarrow> (case bash_calls g cs s1 of (rs, s2) \<Rightarrow> (r # rs, s2)))"
| "bash_calls g (CloseCall # cs) s = bash_calls g cs (close_bash s)"

fun session_calls :: "golib \<Rightarrow> bash_call list \<Rightarrow> bash_session \<Rightarrow> exec_result result list \<times> bash_session" where
  "session_calls g [] bs = ([], bs)"
| "session_calls g (RunCall uid behave io command timeout # cs) bs =
     (case Execute g uid (\<lambda>c t. (behave c t)\<lparr>spawns := [spawn_result io]\<rparr>) command timeout bs of
        (r, bs1) \<Rightarrow> (case session_calls g cs bs1 of (rs, bs2) \<Rightarrow> (r # rs, bs2)))"
| "session_calls g (CloseCall # cs) bs = session_calls g cs (Close bs)"

lemma calls_refine: "session_calls g cs (abs_bash s) = (fst (bash_calls g cs s), abs_bash (snd (bash_calls g cs s)))"
proof (induction g cs s rule: bash_calls.induct)
  case (2 g uid behave io command timeout cs s)
  obtain r s1 where e: "execute_bash g uid behave io command timeout s = (r, s1)" by (cases "execute_bash g uid behave io command timeout s")
  show ?case using "2.IH" [OF e [symmetric]] execute_refines [where s = s and io = io and behave = behave and g = g and uid = uid and command = command and timeout = timeout] e
    by (simp split: prod.splits)
qed (simp_all add: close_abs)

lemma calls_ok: "bash_ok s \<Longrightarrow> bash_ok (snd (bash_calls g cs s))"
proof (induction g cs s rule: bash_calls.induct)
  case (2 g uid behave io command timeout cs s)
  obtain r s1 where e: "execute_bash g uid behave io command timeout s = (r, s1)" by (cases "execute_bash g uid behave io command timeout s")
  show ?case using "2.IH" [OF e [symmetric]] execute_ok [OF "2.prems", of g uid behave io command timeout] e by (auto split: prod.splits)
qed (simp_all add: close_ok)

lemma new_bash_ok: "new_bash io = Inr s \<Longrightarrow> bash_ok s"
  by (auto simp: new_bash_def spawn_def no_bash_def bash_ok_def unwaited_def open_pipe_def close_end_def Let_def split: sum.splits)

lemma new_bash_refines:
  "NewBashSession (spawn_result io) = (case new_bash io of Inl e \<Rightarrow> Inl e | Inr s \<Rightarrow> Inr (abs_bash s))"
  using spawn_dead [of io no_bash]
  by (cases "spawn io no_bash") (auto simp: NewBashSession_def new_bash_def spawn_result_def abs_bash_def split: sum.splits)

text \<open>
  C21. A bash session with its processes and pipes does what the session without them does, and cleans up. For every sequence of commands, crashes, timeouts, failed starts and
  closes, the results and the state are those of \<^const>\<open>Execute\<close> and \<^const>\<open>Close\<close>; there is never more than one bash process the agent has not waited for, so none becomes
  a lasting zombie; the agent holds at most the three pipes of that process, and none when there is no process; a session that is not dead has its process.
\<close>

theorem bash_process_refines:
  "case new_bash io of
     Inl e \<Rightarrow> NewBashSession (spawn_result io) = Inl e
   | Inr s \<Rightarrow>
       NewBashSession (spawn_result io) = Inr (abs_bash s) \<and>
       (case bash_calls g cs s of (rs, s') \<Rightarrow>
          session_calls g cs (abs_bash s) = (rs, abs_bash s') \<and> length (children s') \<le> 1 \<and>
          length (agent_ends s') \<le> 3 * length (children s') \<and>
          (bp_dead s' \<or> (\<exists>pid. bp_cmd s' = Some pid \<and> children s' = [pid])))"
proof (cases "new_bash io")
  case (Inl e)
  then show ?thesis using new_bash_refines [of io] by simp
next
  case (Inr s)
  obtain rs s' where c: "bash_calls g cs s = (rs, s')" by (cases "bash_calls g cs s")
  have "bash_ok s'" using calls_ok [OF new_bash_ok [OF Inr], of g cs] c by simp
  then have "length (children s') \<le> 1" "length (agent_ends s') \<le> 3 * length (children s')" "bp_dead s' \<or> (\<exists>pid. bp_cmd s' = Some pid \<and> children s' = [pid])"
    by (auto simp: bash_ok_def unwaited_def split: option.splits if_splits)
  then show ?thesis using Inr c new_bash_refines [of io] calls_refine [of g cs s] by simp
qed

text \<open>
  After a timeout the process group has been killed and its leader waited for; the next command kills the same group number once more, although the system may have given it to another
  process by then.
\<close>

lemma respawn_kills_released_group:
  "bp_cmd s = Some pid \<Longrightarrow> kills (reapProcess (kill_on_timeout s)) = kills s @ [(pid, bp_waited s), (pid, True)]"
  by (simp add: kill_on_timeout_def reapProcess_def cmd_Wait_def kill_group_def close_end_def)

text \<open>The ends of the child are closed by \<open>Start\<close>; when a pipe cannot be made they stay open until the garbage collector finds them.\<close>

lemma failed_pipe_leaves_child_ends:
  "child_ends (snd (spawn io s)) =
     (if isl (StdinPipe io) then [] else if isl (StdoutPipe io) then [Stdin_pipe] else if isl (StderrPipe io) then [Stdout_pipe, Stdin_pipe] else []) @ child_ends s"
  by (auto simp: spawn_def Let_def open_pipe_def close_end_def split: sum.splits)

end
