(* ===== verification/Programs.thy ===== *)
theory Programs
  imports ProxyMain Startup BashProcess
begin

text \<open>
  The programs around the components: \<open>cmd/server/main.go\<close> from the checked flags to the exit, \<open>cmd/agent/main.go\<close>, and \<open>pkg/version\<close>.

  What the libraries return in one run is in the records \<open>server_io\<close> and \<open>agent_io\<close>; a result comes with the steps of the shutdown in their order.
\<close>

section \<open>pkg/version\<close>

text \<open>\<open>info\<close> are the settings of \<open>debug.ReadBuildInfo\<close>, if there are any.\<close>

fun vcs_revision :: "(string \<times> string) list \<Rightarrow> string" where
  "vcs_revision [] = ''dev''"
| "vcs_revision ((k, v) # ss) =
     (if k = ''vcs.revision'' \<and> v \<noteq> [] then (if length v > 8 then take 8 v else v) else vcs_revision ss)"

definition initCommit :: "string \<Rightarrow> (string \<times> string) list option \<Rightarrow> string" where
  "initCommit commitOverride info =
     (if commitOverride \<noteq> [] then (if length commitOverride > 8 then take 8 commitOverride else commitOverride)
      else (case info of None \<Rightarrow> ''dev'' | Some ss \<Rightarrow> vcs_revision ss))"

lemma commit_short: "0 < length (initCommit commitOverride info) \<and> length (initCommit commitOverride info) \<le> 8"
proof -
  have "0 < length (vcs_revision ss) \<and> length (vcs_revision ss) \<le> 8" for ss
    by (induction ss rule: vcs_revision.induct) auto
  then show ?thesis by (auto simp: initCommit_def split: option.splits)
qed

section \<open>cmd/server/main.go\<close>

definition server_shutdownTimeout :: int where "server_shutdownTimeout = 310 * second"

datatype http_wake = SignalReceived | ListenFailed go_error

record server_io =
  BuildConfigFromFlags :: "string \<Rightarrow> unit result"
  InClusterConfig :: "unit result"
  NewForConfig :: "unit result"
  http_wakes :: http_wake
  srv_Shutdown :: "unit result"
  mcp_Run :: "unit result"
  ctx_cancelled :: bool

datatype server_action = ListenHTTP string | LogDraining | CancelContext | ShutdownWithin int | LogShutdownError | LogComplete | ServeStdio

definition buildClientset :: "server_io \<Rightarrow> string \<Rightarrow> unit result" where
  "buildClientset io kubeconfigPath =
     (case (if kubeconfigPath \<noteq> [] then BuildConfigFromFlags io kubeconfigPath else InClusterConfig io) of
        Inl err \<Rightarrow> Inl err
      | Inr _ \<Rightarrow> NewForConfig io)"

definition serveHTTP :: "server_io \<Rightarrow> string \<Rightarrow> unit result \<times> server_action list" where
  "serveHTTP io address =
     (case http_wakes io of
        ListenFailed err \<Rightarrow> (Inl (Wrap ''HTTP serve failed'' err), [ListenHTTP address, CancelContext])
      | SignalReceived \<Rightarrow>
          (Inr (), [ListenHTTP address, LogDraining, CancelContext, ShutdownWithin server_shutdownTimeout] @
            (if isl (srv_Shutdown io) then [LogShutdownError] else []) @ [LogComplete]))"

definition serveStdio :: "server_io \<Rightarrow> unit result \<times> server_action list" where
  "serveStdio io =
     (case mcp_Run io of
        Inl err \<Rightarrow> if ctx_cancelled io then (Inr (), [ServeStdio, LogComplete]) else (Inl (Wrap ''stdio transport error'' err), [ServeStdio])
      | Inr _ \<Rightarrow> (Inr (), [ServeStdio, LogComplete]))"

definition runServer :: "golib \<Rightarrow> (string \<Rightarrow> string result) \<Rightarrow> (string \<Rightarrow> env_var list result) \<Rightarrow> (string \<Rightarrow> string result) \<Rightarrow> server_io \<Rightarrow>
    run_config \<Rightarrow> unit result \<times> server_action list" where
  "runServer g pq parseEnv readFile io cfg =
     (case ValidateTransportFlags g (run_transport cfg) (run_stateless cfg) (run_address cfg) of
        Inl err \<Rightarrow> (Inl err, [])
      | Inr _ \<Rightarrow>
          if run_idleTimeout cfg \<le> 0 then (Inl (Err ''--idle-timeout must be greater than zero''), [])
          else if run_warmPoolSize cfg < 0 then (Inl (Err ''--warm-pool-size must not be negative''), [])
          else
            (case loadHMACKey readFile (run_hmacKeyFile cfg) of
               Inl err \<Rightarrow> (Inl err, [])
             | Inr hmacKey \<Rightarrow>
                 (case buildSandboxConfig g pq parseEnv cfg hmacKey of
                    Inl err \<Rightarrow> (Inl err, [])
                  | Inr sandboxCfg \<Rightarrow>
                      (case buildClientset io (run_kubeconfig cfg) of
                         Inl err \<Rightarrow> (Inl (Wrap ''failed to create kubernetes client'' err), [])
                       | Inr _ \<Rightarrow>
                           (case NewSessionManager sandboxCfg of
                              Inl err \<Rightarrow> (Inl (Wrap ''failed to create session manager'' err), [])
                            | Inr mgr \<Rightarrow>
                                if run_transport cfg = ''http'' then serveHTTP io (run_address cfg)
                                else if run_transport cfg = ''stdio'' then serveStdio io
                                else (Inl (Err (''unsupported transport: '' @ run_transport cfg)), []))))))"

text \<open>Once the checks have passed and there is a client, the server serves: the last branch of the switch is dead code.\<close>

lemma checked_server_serves:
  assumes "runServer_checks g pq parseEnv readFile cfg = Inr m" "isr (buildClientset io (run_kubeconfig cfg))"
  shows "runServer g pq parseEnv readFile io cfg = (if run_transport cfg = ''http'' then serveHTTP io (run_address cfg) else serveStdio io)"
proof -
  have "run_transport cfg = ''http'' \<or> run_transport cfg = ''stdio''"
    using assms(1) by (auto simp: runServer_checks_def ValidateTransportFlags_def split: sum.splits if_splits)
  then show ?thesis
    using assms by (auto simp: runServer_def runServer_checks_def isr_iff split: sum.splits if_splits)
qed

section \<open>cmd/agent/main.go\<close>

definition agent_shutdownTimeout :: int where "agent_shutdownTimeout = 310 * second"
definition killWaitTimeout :: int where "killWaitTimeout = 5 * second"

record agent_io =
  agent_getenv :: "string \<Rightarrow> string"
  agent_spawn :: spawn_io
  agent_listen :: "go_error option"
  agent_Shutdown :: "unit result"

datatype agent_action = LogAssigned | LogUnassigned | ListenAgent string | LogShuttingDown | AgentShutdownWithin int | AgentShutdownError | CloseSession | AgentStopped | Fatal string

text \<open>
  The agent up to its listener: its state, or the end of the program. \<open>agent_main\<close> is the whole life of an agent that is stopped by a signal while its session is
  \<open>s\<close>; a listener that fails ends the program at once.
\<close>

definition agent_start :: "agent_io \<Rightarrow> (bash_proc \<times> agent_state) option \<times> agent_action list" where
  "agent_start io =
     (let token = agent_getenv io ''SANDBOX_AUTH_TOKEN''; st = NewAgentState token; said = (if token \<noteq> [] then LogAssigned else LogUnassigned) in
      case new_bash (agent_spawn io) of
        Inl err \<Rightarrow> (None, [said, Fatal ''failed to create bash session''])
      | Inr s \<Rightarrow> (Some (s, st), [said]))"

definition agent_stop :: "agent_io \<Rightarrow> bash_proc \<Rightarrow> bash_proc \<times> agent_action list" where
  "agent_stop io s =
     (close_bash s,
      [LogShuttingDown, AgentShutdownWithin agent_shutdownTimeout] @ (if isl (agent_Shutdown io) then [AgentShutdownError] else []) @ [CloseSession, AgentStopped])"

definition agent_main :: "golib \<Rightarrow> agent_io \<Rightarrow> bash_call list \<Rightarrow> bash_proc option \<times> agent_action list" where
  "agent_main g io cs =
     (case agent_start io of
        (None, acts) \<Rightarrow> (None, acts)
      | (Some (s, st), acts) \<Rightarrow>
          (case agent_listen io of
             Some err \<Rightarrow> (None, acts @ [ListenAgent '':8090'', Fatal ''listen error''])
           | None \<Rightarrow> (case agent_stop io (snd (bash_calls g cs s)) of (s', acts') \<Rightarrow> (Some s', acts @ ListenAgent '':8090'' # acts'))))"

text \<open>A session that was alive is gone with the agent; what a dead session left is for the system to collect.\<close>

lemma agent_stop_reaps:
  assumes "bash_ok s" "\<not> bp_dead s"
  shows "children (fst (agent_stop io s)) = [] \<and> agent_ends (fst (agent_stop io s)) = []"
  using assms by (auto simp: agent_stop_def close_bash_def bash_ok_def unwaited_def reapProcess_def cmd_Wait_def kill_group_def close_end_def split: option.splits)

end
