(* ===== verification/Spec2Isabelle.thy ===== *)
theory Spec2Isabelle
  imports OperatorRights Programs
begin

text \<open>
  A verification library for the CLI MCP operator: a Kubernetes operator that runs, per instance, an MCP server, a pool of sandbox
  pods with an agent each, and a credential proxy.

  \<^bold>\<open>The program and its parts.\<close> The operator (\<open>cmd/operator\<close>, \<open>internal/controller\<close>) turns a \<open>CliMcpInstance\<close> into a server, a proxy with its routes
  and CA, network policies and roles; it keeps a warm pool of unassigned sandbox pods and deletes idle sessions. The MCP server (\<open>cmd/server\<close>, \<open>pkg/server\<close>,
  \<open>pkg/tools\<close>, \<open>pkg/session\<close>) takes tool calls. For each session it claims a pod of the pool, or creates one, assigns its agent with a
  token and sends commands over HTTP (\<open>pkg/agent\<close>). The agent (\<open>cmd/agent\<close>, \<open>pkg/sandbox\<close>) runs them in one persistent bash. The sandbox holds a
  kubeconfig with dummy tokens (\<open>pkg/kubeconfig\<close>); its traffic goes through the credential proxy (\<open>cmd/proxy\<close>, \<open>pkg/proxy\<close>), which lets listed hosts through
  and puts in the real tokens. All paths are relative to \<open>src/\<close>.

  \<^bold>\<open>Theories.\<close>

  \<^descr> \<open>Prelude\<close>, \<open>GoNet\<close>, \<open>Flags\<close>: Go errors as the datatype \<^typ>\<open>go_error\<close> with \<open>errors.Is\<close> and \<open>errors.As\<close>, the functions of \<open>strings\<close>, \<open>net\<close>, \<open>path\<close>,
    \<open>net/url\<close>, \<open>strconv\<close> and \<open>flag\<close> that the code calls, and shared list lemmas. Library functions that are not translated are fields of \<open>golib\<close>.

  \<^descr> \<open>Kubeconfig\<close> (\<open>pkg/kubeconfig\<close>): \<open>CanonicalHostPort\<close>, \<open>Validate\<close>, \<open>Sanitize\<close>, \<open>BuildProxyRoutes\<close>. \<open>CredProxy\<close> (\<open>pkg/proxy\<close>): route tables, header stripping, the path
    filter, injectors, trust and the handlers. \<open>ProxyRoutes\<close> (\<open>internal/controller/proxy.go\<close>): the merged routes the operator publishes, and that the proxy accepts them.

  \<^descr> \<open>SandboxAgent\<close> (\<open>pkg/sandbox\<close>): the framing of commands, timeouts, the assign-once token, the handlers. \<open>BashProcess\<close>: \<open>bash.go\<close> with its
    process, pipes and signals, which refines the session of \<open>SandboxAgent\<close>.

  \<^descr> \<open>PodSpec\<close>, \<open>PodCache\<close>, \<open>World\<close>, \<open>AgentClient\<close>, \<open>Sessions\<close> (\<open>pkg/session\<close>, \<open>pkg/agent\<close>): sandbox pods, the session cache, the state monad in which every call to the
    API or an agent is logged with its answer, the HTTP client, and \<open>pool.go\<close> and \<open>manager.go\<close> function by function.

  \<^descr> \<open>Policy\<close>: a program logic for that monad, the locale \<open>policy\<close>. \<open>SessionSafety\<close> interprets it with what a request for a session may do; \<open>SessionLaws\<close> has
    the exact effects of each operation.

  \<^descr> \<open>McpServer\<close> (\<open>pkg/tools\<close>, \<open>pkg/server\<close>, \<open>cmd/server\<close>): the tool, the endpoints, and a tool call joined with an agent.

  \<^descr> \<open>Operator\<close>, \<open>Normalize\<close>, \<open>Cluster\<close>, \<open>Children\<close>, \<open>Pool\<close>, \<open>Reconcile\<close> (\<open>api/v1alpha1\<close>, \<open>internal/controller\<close>): the instance, names and labels,
    Deployment defaults, the clients of the cluster, the children (with \<open>generateProxyCA\<close>), the pool and idle sessions, and \<open>Reconcile\<close> itself.

  \<^descr> \<open>OperatorSafety\<close> interprets \<open>policy\<close> for one reconcile. \<open>PoolLaws\<close>: what a pass over the pool and over idle sessions does to the pods. \<open>Network\<close>: the network
    policies and what they let through. \<open>Permissions\<close> and \<open>OperatorRights\<close>: the Role of the server and the rules of the operator, each
    against the calls that are made.

  \<^descr> \<open>Tunnels\<close>, \<open>ProxyMain\<close> (\<open>cmd/proxy\<close>): the tracker of hijacked connections as a step relation, and \<open>run\<close> and \<open>serve\<close>. \<open>Startup\<close> (\<open>cmd/operator\<close>): the flags and the manager,
    and which pod events lead to a reconcile. \<open>Programs\<close>: \<open>cmd/server\<close> and \<open>cmd/agent\<close> from start to exit, and \<open>pkg/version\<close>.

  \<^bold>\<open>What the theorems show.\<close>

  \<^item> Isolation: a session touches only its own pods and only behind the gate; a real token leaves the proxy only to the host and path it
    is for; no credential is in a sandbox; the network policies leave no other way.

  \<^item> What the operator writes, for any answers of the API: pods, children, status and finalizer only when what justifies it was seen in the same
    reconcile, and within the rights its roles give.

  \<^item> Composition: routes that are published are accepted; the arguments the operator writes start the server and the proxy, with the CA it made; a
    tool call ends in one command of the bash of its agent.

  \<^item> Functional laws and errors: claims and their rollback, at most two runs of a command, the cache against its history, the exact effect of idle collection,
    convergence of the pool, validation and sanitizing of kubeconfigs, framing of output.

  \<^item> Concurrency and ends: every hijacked connection is closed when \<open>drain\<close> returns, and \<open>drain\<close> returns; retry loops end; no bash process is left behind; shutdown times.

  Some theorems show that the code does not do what a comment or its purpose says; they are at the end.

  \<^bold>\<open>Conventions and bounds.\<close> Instants and durations are \<^typ>\<open>int\<close> nanoseconds, wrapped to 64 bits where the code multiplies (\<open>int64\<close>); the zero time is 0. Go maps are
    association lists with distinct keys, so a theorem holds for every order of iteration. The retry loop of
    \<open>executeWhenAssigned\<close> has fuel 52: its deadline of 5 seconds and its pause of 100 milliseconds leave at most that many rounds, as theory \<open>SessionLaws\<close> proves. A poll is given the
    list of its ticks by the world. Sorting keeps the order of the API among equal elements. The goroutine of \<open>updateLastActivity\<close> and the shared lookup of
    the proxy gate run in place; other replicas and users act through the answers of the world, which are arbitrary.
    Steps of \<open>Tunnels\<close> are the sections under its mutex, in any order.

  \<^bold>\<open>Not modelled.\<close> Generated deep copies (values are immutable here); the helpers of the end-to-end tests; goproxy, \<open>net/http\<close>, cobra, the MCP
    library, client-go and controller-runtime inside, with leader election (parameters, with their documented behaviour as hypotheses where a theorem
    needs it); timeouts of the HTTP transports; log messages, except where they are part of a shutdown.
\<close>

section \<open>Time to stop\<close>

definition proxy_shutdownTimeout :: int where "proxy_shutdownTimeout = 15 * second"

text \<open>The grace period of the pods of a Deployment, as the operator writes it.\<close>

definition pod_grace :: "t_template \<Rightarrow> int" where
  "pod_grace t =
     (case ts_TerminationGracePeriodSeconds (tt_Spec (d_Template (NormalizeDeployment (blank_deployment_spec\<lparr>d_Template := t\<rparr>)))) of
        Some n \<Rightarrow> n * second
      | None \<Rightarrow> 0)"


end
